(* ===== verification/Uiohook_Prelude.thy ===== *)
theory Uiohook_Prelude
  imports Main "HOL-Library.Word"
begin

text \<open>
  Shared vocabulary of the development: the C integer types as machine words, the faults a C
  program can run into as values, sequencing of computations that may fault, and the lemmas
  on single bits of a word and on bisection of a table that the components share.
\<close>

unbundle bit_operations_syntax

named_theorems handler_defs "unfolding rules of the event handlers"
named_theorems lifecycle_defs "unfolding rules of the start and stop functions"

section \<open>C integer types\<close>

type_synonym uint8_t = "8 word"
type_synonym uint16_t = "16 word"
type_synonym int16_t = "16 word"
type_synonym uint32_t = "32 word"
type_synonym uint64_t = "64 word"

text \<open>Signed C integers are words read through \<^const>\<open>sint\<close>.\<close>

type_synonym c_int = "32 word"
type_synonym c_long = "64 word"

section \<open>Division\<close>

text \<open>Division of C truncates towards zero, and the remainder has the sign of the dividend.\<close>

definition c_div :: "int \<Rightarrow> int \<Rightarrow> int" where
  "c_div a b = sgn a * sgn b * (\<bar>a\<bar> div \<bar>b\<bar>)"

definition c_mod :: "int \<Rightarrow> int \<Rightarrow> int" where
  "c_mod a b = a - c_div a b * b"

lemma c_mod_bounds:
  assumes "0 < b"
  shows "\<bar>c_mod a b\<bar> < b"
proof (cases "0 \<le> a")
  case True
  then have "c_mod a b = a mod b"
    using assms by (cases "a = 0") (simp_all add: c_mod_def c_div_def minus_div_mult_eq_mod)
  with assms show ?thesis by simp
next
  case False
  then have "c_mod a b = - ((- a) mod b)"
    using assms by (simp add: c_mod_def c_div_def minus_div_mult_eq_mod [symmetric])
  with assms show ?thesis by simp
qed

lemma c_div_neg: "c_div a (- b) = - c_div a b"
  by (simp add: c_div_def sgn_minus)

lemma c_div_mod: "c_div a b * b + c_mod a b = a"
  by (simp add: c_mod_def)

lemma c_div_bound:
  assumes "1 < b"
  shows "\<bar>c_div a b\<bar> \<le> \<bar>a\<bar>"
proof -
  have "\<bar>a\<bar> div b \<le> \<bar>a\<bar>" using zdiv_mono2 [of "\<bar>a\<bar>" 1 b] assms by simp
  moreover have "0 \<le> \<bar>a\<bar> div b" using assms by (simp add: pos_imp_zdiv_nonneg_iff)
  ultimately show ?thesis using assms by (cases "a = 0") (simp_all add: c_div_def abs_mult)
qed

section \<open>Faults and sequencing\<close>

datatype fault = NullDereference | OutOfBounds | UseAfterFree | UninitialisedRead | DivisionByZero

type_synonym 'a result = "fault + 'a"

definition r_bind :: "'a result \<Rightarrow> ('a \<Rightarrow> 'b result) \<Rightarrow> 'b result" where
  "r_bind m f = (case m of Inl e \<Rightarrow> Inl e | Inr a \<Rightarrow> f a)"

lemma r_bind_simps [simp]:
  "r_bind (Inl e) f = Inl e"
  "r_bind (Inr a) f = f a"
  by (simp_all add: r_bind_def)

lemma r_bind_assoc: "r_bind (r_bind m f) g = r_bind m (\<lambda>a. r_bind (f a) g)"
  by (cases m) simp_all

lemma r_bind_Inr [simp]: "r_bind m Inr = m"
  by (cases m) simp_all

lemma r_bind_eq_Inr:
  "r_bind m f = Inr b \<longleftrightarrow> (\<exists>a. m = Inr a \<and> f a = Inr b)"
  by (cases m) simp_all

lemma r_bind_InrE:
  assumes "r_bind m f = Inr b"
  obtains a where "m = Inr a" and "f a = Inr b"
  using assms by (auto simp: r_bind_eq_Inr)

section \<open>Pointers\<close>

text \<open>A pointer field of an allocated block: never written, null, or set.\<close>

datatype pointer = Unwritten | Null | Set

definition pointer_of :: "bool \<Rightarrow> pointer" where
  "pointer_of ok = (if ok then Set else Null)"

section \<open>Single bits\<close>

text \<open>
  A modifier mask \<open>1 << k\<close> is one flag, and a word is read bit by bit: setting a flag with
  \<open>|=\<close> and clearing it with \<open>&= ~\<close> change one bit and no other.
\<close>

definition flag :: "nat \<Rightarrow> uint16_t" where
  "flag k = push_bit k 1"

lemma bit_flag: "bit (flag k) i \<longleftrightarrow> i = k \<and> k < 16"
  unfolding flag_def bit_push_bit_iff bit_1_iff by auto

lemma bit_set_flag: "bit (m OR flag k) i \<longleftrightarrow> (i = k \<and> k < 16) \<or> bit m i"
  by (auto simp: bit_or_iff bit_flag)

lemma bit_clear_flag: "bit (m AND NOT (flag k)) i \<longleftrightarrow> (i \<noteq> k \<or> 16 \<le> k) \<and> bit m i"
  by (auto simp: bit_and_iff bit_not_iff bit_flag dest: bit_imp_le_length)

lemmas bit_flags = bit_flag bit_set_flag bit_clear_flag

lemma uint16_bit_bound: "bit (m :: uint16_t) k \<Longrightarrow> k < 16"
  using bit_imp_le_length [of m k] by simp

lemma and_flag_eq_0_iff: "m AND flag k = 0 \<longleftrightarrow> \<not> bit m k"
  using uint16_bit_bound [of m k]
  by (auto simp: bit_eq_iff [of "m AND flag k"] bit_and_iff bit_flag)

lemma uint16_eqI:
  fixes a b :: uint16_t
  assumes "\<And>i. i < 16 \<Longrightarrow> bit a i = bit b i"
  shows "a = b"
  using assms by (intro bit_word_eqI) simp

text \<open>Widening a word keeps its unsigned value, and narrowing it again gives it back.\<close>

lemma unat_ucast_widen:
  assumes "LENGTH('a::len) \<le> LENGTH('b::len)"
  shows "unat (ucast (a :: 'a word) :: 'b word) = unat a"
proof -
  have "unat a < 2 ^ LENGTH('b)"
    using unsigned_less [of a, where ?'a = nat] power_increasing [OF assms, of "2 :: nat"]
    by linarith
  then show ?thesis by (simp add: unsigned_ucast_eq take_bit_nat_eq_self)
qed

lemma ucast_narrow_widen:
  assumes "LENGTH('a::len) \<le> LENGTH('b::len)"
  shows "ucast (ucast (a :: 'a word) :: 'b word) = a"
  using assms by (intro bit_word_eqI) (auto simp: bit_ucast_iff)

lemma list_all_upt: "list_all P [0..<n] \<longleftrightarrow> (\<forall>i<n. P i)"
  by (auto simp: list_all_iff)

text \<open>A check of a table can be made in two parts.\<close>

lemma list_all_join:
  assumes "list_all P [0..<m]" and "list_all P [m..<n]"
  shows "list_all P [0..<n]"
  unfolding list_all_upt
proof (intro allI impI)
  fix i assume "i < n"
  then show "P i" using assms by (cases "i < m") (auto simp: list_all_iff)
qed

lemmas list_all_halves = list_all_join [of _ 128 256]

section \<open>Bisection of a table\<close>

text \<open>
  Both Unicode conversions of the X11 helper bisect a table with the same loop, on different
  columns: \<open>key\<close> selects the column. Reading outside the table is a value of its own.
\<close>

datatype 'a search = Found 'a | NotFound | Outside

function bisect :: "('a \<Rightarrow> 'k::linorder) \<Rightarrow> 'a list \<Rightarrow> 'k \<Rightarrow> int \<Rightarrow> int \<Rightarrow> 'a search" where
  "bisect key tbl x mn mx =
     (if mx \<ge> mn then
        let mid = (mn + mx) div 2 in
        if mid < 0 \<or> int (length tbl) \<le> mid then Outside
        else if key (tbl ! nat mid) < x then bisect key tbl x (mid + 1) mx
        else if key (tbl ! nat mid) > x then bisect key tbl x mn (mid - 1)
        else Found (tbl ! nat mid)
      else NotFound)"
  by pat_completeness auto
termination
  by (relation "measure (\<lambda>(key, tbl, x, mn, mx). nat (mx - mn + 1))") auto

declare bisect.simps [simp del]

text \<open>The loop with a bound on its rounds: \<open>None\<close> when they do not suffice.\<close>

primrec bisect_rounds :: "nat \<Rightarrow> ('a \<Rightarrow> 'k::linorder) \<Rightarrow> 'a list \<Rightarrow> 'k \<Rightarrow> int \<Rightarrow> int \<Rightarrow> 'a search option" where
  "bisect_rounds 0 key tbl x mn mx = None"
| "bisect_rounds (Suc k) key tbl x mn mx =
     (if mx \<ge> mn then
        let mid = (mn + mx) div 2 in
        if mid < 0 \<or> int (length tbl) \<le> mid then Some Outside
        else if key (tbl ! nat mid) < x then bisect_rounds k key tbl x (mid + 1) mx
        else if key (tbl ! nat mid) > x then bisect_rounds k key tbl x mn (mid - 1)
        else Some (Found (tbl ! nat mid))
      else Some NotFound)"

lemma bisect_rounds_enough:
  assumes "mx - mn + 1 < 2 ^ k"
  shows "bisect_rounds (Suc k) key tbl x mn mx = Some (bisect key tbl x mn mx)"
  using assms
proof (induction k arbitrary: mn mx)
  case 0
  then show ?case by (simp add: bisect.simps)
next
  case (Suc k)
  let ?mid = "(mn + mx) div 2"
  have "mx - (?mid + 1) + 1 < 2 ^ k" and "(?mid - 1) - mn + 1 < 2 ^ k" using Suc.prems by simp_all
  note IH = Suc.IH [OF this(1)] Suc.IH [OF this(2)]
  show ?case
    unfolding bisect_rounds.simps(2) [of "Suc k"] bisect.simps [of key tbl x mn mx] Let_def IH
    by simp
qed

lemma bisect_inside:
  assumes "0 \<le> mn" and "mx < int (length tbl)"
  shows "bisect key tbl x mn mx \<noteq> Outside"
  using assms
proof (induction key tbl x mn mx rule: bisect.induct)
  case (1 key tbl x mn mx)
  show ?case
    by (subst bisect.simps) (use 1 in \<open>auto simp: Let_def\<close>)
qed

lemma bisect_Found:
  assumes "bisect key tbl x mn mx = Found e"
  shows "e \<in> set tbl \<and> key e = x"
  using assms
proof (induction key tbl x mn mx rule: bisect.induct)
  case (1 key tbl x mn mx)
  let ?mid = "(mn + mx) div 2"
  have step: "mn \<le> mx" "0 \<le> ?mid" "?mid < int (length tbl)"
    using "1.prems" by (simp_all add: bisect.simps [of key tbl x mn mx] Let_def split: if_splits)
  consider (less) "key (tbl ! nat ?mid) < x" | (greater) "x < key (tbl ! nat ?mid)"
    | (eq) "key (tbl ! nat ?mid) = x" by (rule linorder_cases)
  then show ?case
  proof cases
    case less
    then show ?thesis
      using "1.prems" step "1.IH"(1) by (simp add: bisect.simps [of key tbl x mn mx] Let_def)
  next
    case greater
    then have "\<not> key (tbl ! nat ?mid) < x" by auto
    with greater show ?thesis
      using "1.prems" step "1.IH"(2) by (simp add: bisect.simps [of key tbl x mn mx] Let_def)
  next
    case eq
    then show ?thesis
      using "1.prems" step by (auto simp: bisect.simps [of key tbl x mn mx] Let_def nth_mem)
  qed
qed

text \<open>On a column in strictly increasing order a missing result means a missing key.\<close>

lemma sorted_column_le:
  assumes "sorted_wrt (<) (map key tbl)" and "a \<le> b" and "b < length tbl"
  shows "key (tbl ! a) \<le> (key (tbl ! b) :: 'k :: linorder)"
  using assms by (cases "a = b") (auto simp: sorted_wrt_iff_nth_less intro: less_imp_le)

lemma bisect_NotFound_half:
  assumes "bisect key tbl x mn mx = NotFound" and "mn \<le> mx"
    and "0 \<le> (mn + mx) div 2" and "(mn + mx) div 2 < int (length tbl)"
  shows "key (tbl ! nat ((mn + mx) div 2)) < x \<and> bisect key tbl x ((mn + mx) div 2 + 1) mx = NotFound
    \<or> x < key (tbl ! nat ((mn + mx) div 2)) \<and> bisect key tbl x mn ((mn + mx) div 2 - 1) = NotFound"
  using assms by (subst (asm) bisect.simps) (auto simp: Let_def split: if_splits)

lemma bisect_NotFound:
  assumes "bisect key tbl x mn mx = NotFound"
    and "sorted_wrt (<) (map key tbl)"
    and "0 \<le> mn" and "mx < int (length tbl)"
    and "mn \<le> int i" and "int i \<le> mx"
  shows "key (tbl ! i) \<noteq> x"
  using assms
proof (induction key tbl x mn mx rule: bisect.induct)
  case (1 key tbl x mn mx)
  let ?mid = "(mn + mx) div 2"
  have le: "mn \<le> mx" and range: "0 \<le> ?mid" "?mid < int (length tbl)" using "1.prems" by linarith+
  then have bound: "\<not> (?mid < 0 \<or> int (length tbl) \<le> ?mid)" by auto
  from bisect_NotFound_half [OF "1.prems"(1) le range] show ?case
  proof (elim disjE conjE)
    assume less: "key (tbl ! nat ?mid) < x" and rec: "bisect key tbl x (?mid + 1) mx = NotFound"
    show ?thesis
    proof (cases "int i \<le> ?mid")
      case True
      have "key (tbl ! i) \<le> key (tbl ! nat ?mid)"
        by (rule sorted_column_le [OF "1.prems"(2)]) (use True range in linarith)+
      with less show ?thesis by auto
    next
      case False
      show ?thesis by (rule "1.IH"(1) [OF le refl bound less rec]) (use "1.prems" range False in auto)
    qed
  next
    assume greater: "x < key (tbl ! nat ?mid)" and rec: "bisect key tbl x mn (?mid - 1) = NotFound"
    then have not_less: "\<not> key (tbl ! nat ?mid) < x" by auto
    show ?thesis
    proof (cases "?mid \<le> int i")
      case True
      have "key (tbl ! nat ?mid) \<le> key (tbl ! i)"
        by (rule sorted_column_le [OF "1.prems"(2)]) (use True range "1.prems"(4,6) in linarith)+
      with greater show ?thesis by auto
    next
      case False
      show ?thesis by (rule "1.IH"(2) [OF le refl bound not_less greater rec]) (use "1.prems" range False in auto)
    qed
  qed
qed

definition lookup_key :: "('a \<Rightarrow> 'k) \<Rightarrow> 'a list \<Rightarrow> 'k \<Rightarrow> 'a option" where
  "lookup_key key tbl x = find (\<lambda>e. key e = x) tbl"

lemma lookup_key_None: "lookup_key key tbl x = None \<longleftrightarrow> (\<forall>e \<in> set tbl. key e \<noteq> x)"
  by (auto simp: lookup_key_def find_None_iff)

lemma lookup_key_unique:
  assumes "distinct (map key tbl)" and "e \<in> set tbl" and "key e = x"
  shows "lookup_key key tbl x = Some e"
proof -
  obtain e' where e': "lookup_key key tbl x = Some e'"
    using assms(2,3) by (cases "lookup_key key tbl x") (auto simp: lookup_key_None)
  then have "e' \<in> set tbl" "key e' = x"
    by (auto simp: lookup_key_def find_Some_iff)
  with assms have "e' = e" by (auto simp: distinct_map inj_on_def)
  with e' show ?thesis by simp
qed

theorem bisect_eq_lookup:
  assumes "sorted_wrt (<) (map key tbl)"
  shows "bisect key tbl x 0 (int (length tbl) - 1) =
    (case lookup_key key tbl x of None \<Rightarrow> NotFound | Some e \<Rightarrow> Found e)"
proof -
  have dist: "distinct (map key tbl)"
    using assms by (simp add: strict_sorted_iff)
  show ?thesis
  proof (cases "bisect key tbl x 0 (int (length tbl) - 1)")
    case (Found e)
    with bisect_Found [OF Found] show ?thesis
      using lookup_key_unique [OF dist] by auto
  next
    case NotFound
    have "key (tbl ! i) \<noteq> x" if "i < length tbl" for i
      by (rule bisect_NotFound [OF NotFound assms]) (use that in auto)
    then have "lookup_key key tbl x = None"
      by (metis lookup_key_None in_set_conv_nth)
    with NotFound show ?thesis by simp
  next
    case Outside
    with bisect_inside [of 0 "int (length tbl) - 1" tbl key x] show ?thesis by simp
  qed
qed

end
