(* ===== verification/Uiohook_Logger.thy ===== *)
theory Uiohook_Logger
  imports Uiohook_Prelude
begin

text \<open>
  \<^verbatim>\<open>src/logger.c\<close>: the logger is a function pointer that is never null. A logger receives the
  level and the formatted message and answers whether it logged it.
\<close>

datatype log_level = LOG_LEVEL_DEBUG | LOG_LEVEL_INFO | LOG_LEVEL_WARN | LOG_LEVEL_ERROR

type_synonym logger_t = "log_level \<Rightarrow> string \<Rightarrow> bool"

definition default_logger :: logger_t where
  "default_logger level format = False"

text \<open>The state is the static pointer, \<open>None\<close> for null, as the argument may be.\<close>

definition logger_init :: "logger_t option" where
  "logger_init = Some default_logger"

definition hook_set_logger_proc :: "logger_t option \<Rightarrow> logger_t option \<Rightarrow> logger_t option" where
  "hook_set_logger_proc logger_proc logger =
     (if logger_proc = None then Some default_logger else logger_proc)"

text \<open>A call of the logger, as every other source file makes it.\<close>

definition log_call :: "logger_t option \<Rightarrow> log_level \<Rightarrow> string \<Rightarrow> bool result" where
  "log_call logger level message =
     (case logger of None \<Rightarrow> Inl NullDereference | Some f \<Rightarrow> Inr (f level message))"

text \<open>
  After any sequence of settings the logger can be called: it is the one set last, and the
  silent default after a null one or before the first.
\<close>

theorem logger_never_null:
  "log_call (fold hook_set_logger_proc procs logger_init) level message =
     Inr (procs \<noteq> [] \<and> (case last procs of None \<Rightarrow> False | Some f \<Rightarrow> f level message))"
proof (cases procs rule: rev_cases)
  case Nil
  then show ?thesis by (simp add: log_call_def logger_init_def default_logger_def)
next
  case (snoc ps p)
  then show ?thesis
    by (cases p) (auto simp: log_call_def hook_set_logger_proc_def default_logger_def)
qed

end
