(* ===== verification/Virtual_Codes.thy ===== *)
theory Virtual_Codes
  imports Uiohook_Prelude
begin

text \<open>
  The numeric vocabulary of \<^verbatim>\<open>include/uiohook.h\<close>: status codes, virtual key codes, modifier
  masks, mouse buttons and wheel constants. Each \<^verbatim>\<open>#define\<close> is an input abbreviation, as the
  preprocessor expands it; a mask \<^verbatim>\<open>1 << k\<close> is \<^term>\<open>flag k\<close>.
\<close>

section \<open>Status codes\<close>

abbreviation (input) UIOHOOK_SUCCESS :: c_int where
  "UIOHOOK_SUCCESS \<equiv> 0x00"

abbreviation (input) UIOHOOK_FAILURE :: c_int where
  "UIOHOOK_FAILURE \<equiv> 0x01"

abbreviation (input) UIOHOOK_ERROR_OUT_OF_MEMORY :: c_int where
  "UIOHOOK_ERROR_OUT_OF_MEMORY \<equiv> 0x02"

abbreviation (input) UIOHOOK_ERROR_X_OPEN_DISPLAY :: c_int where
  "UIOHOOK_ERROR_X_OPEN_DISPLAY \<equiv> 0x20"

abbreviation (input) UIOHOOK_ERROR_X_RECORD_NOT_FOUND :: c_int where
  "UIOHOOK_ERROR_X_RECORD_NOT_FOUND \<equiv> 0x21"

abbreviation (input) UIOHOOK_ERROR_X_RECORD_ALLOC_RANGE :: c_int where
  "UIOHOOK_ERROR_X_RECORD_ALLOC_RANGE \<equiv> 0x22"

abbreviation (input) UIOHOOK_ERROR_X_RECORD_CREATE_CONTEXT :: c_int where
  "UIOHOOK_ERROR_X_RECORD_CREATE_CONTEXT \<equiv> 0x23"

abbreviation (input) UIOHOOK_ERROR_X_RECORD_ENABLE_CONTEXT :: c_int where
  "UIOHOOK_ERROR_X_RECORD_ENABLE_CONTEXT \<equiv> 0x24"

abbreviation (input) UIOHOOK_ERROR_X_RECORD_GET_CONTEXT :: c_int where
  "UIOHOOK_ERROR_X_RECORD_GET_CONTEXT \<equiv> 0x25"

abbreviation (input) UIOHOOK_ERROR_SET_WINDOWS_HOOK_EX :: c_int where
  "UIOHOOK_ERROR_SET_WINDOWS_HOOK_EX \<equiv> 0x30"

abbreviation (input) UIOHOOK_ERROR_GET_MODULE_HANDLE :: c_int where
  "UIOHOOK_ERROR_GET_MODULE_HANDLE \<equiv> 0x31"

abbreviation (input) UIOHOOK_ERROR_AXAPI_DISABLED :: c_int where
  "UIOHOOK_ERROR_AXAPI_DISABLED \<equiv> 0x40"

abbreviation (input) UIOHOOK_ERROR_CREATE_EVENT_PORT :: c_int where
  "UIOHOOK_ERROR_CREATE_EVENT_PORT \<equiv> 0x41"

abbreviation (input) UIOHOOK_ERROR_CREATE_RUN_LOOP_SOURCE :: c_int where
  "UIOHOOK_ERROR_CREATE_RUN_LOOP_SOURCE \<equiv> 0x42"

abbreviation (input) UIOHOOK_ERROR_GET_RUNLOOP :: c_int where
  "UIOHOOK_ERROR_GET_RUNLOOP \<equiv> 0x43"

abbreviation (input) UIOHOOK_ERROR_CREATE_OBSERVER :: c_int where
  "UIOHOOK_ERROR_CREATE_OBSERVER \<equiv> 0x44"

section \<open>Virtual key codes\<close>

abbreviation (input) VC_ESCAPE :: uint16_t where
  "VC_ESCAPE \<equiv> 0x0001"

abbreviation (input) VC_F1 :: uint16_t where
  "VC_F1 \<equiv> 0x003B"

abbreviation (input) VC_F2 :: uint16_t where
  "VC_F2 \<equiv> 0x003C"

abbreviation (input) VC_F3 :: uint16_t where
  "VC_F3 \<equiv> 0x003D"

abbreviation (input) VC_F4 :: uint16_t where
  "VC_F4 \<equiv> 0x003E"

abbreviation (input) VC_F5 :: uint16_t where
  "VC_F5 \<equiv> 0x003F"

abbreviation (input) VC_F6 :: uint16_t where
  "VC_F6 \<equiv> 0x0040"

abbreviation (input) VC_F7 :: uint16_t where
  "VC_F7 \<equiv> 0x0041"

abbreviation (input) VC_F8 :: uint16_t where
  "VC_F8 \<equiv> 0x0042"

abbreviation (input) VC_F9 :: uint16_t where
  "VC_F9 \<equiv> 0x0043"

abbreviation (input) VC_F10 :: uint16_t where
  "VC_F10 \<equiv> 0x0044"

abbreviation (input) VC_F11 :: uint16_t where
  "VC_F11 \<equiv> 0x0057"

abbreviation (input) VC_F12 :: uint16_t where
  "VC_F12 \<equiv> 0x0058"

abbreviation (input) VC_F13 :: uint16_t where
  "VC_F13 \<equiv> 0x005B"

abbreviation (input) VC_F14 :: uint16_t where
  "VC_F14 \<equiv> 0x005C"

abbreviation (input) VC_F15 :: uint16_t where
  "VC_F15 \<equiv> 0x005D"

abbreviation (input) VC_F16 :: uint16_t where
  "VC_F16 \<equiv> 0x0063"

abbreviation (input) VC_F17 :: uint16_t where
  "VC_F17 \<equiv> 0x0064"

abbreviation (input) VC_F18 :: uint16_t where
  "VC_F18 \<equiv> 0x0065"

abbreviation (input) VC_F19 :: uint16_t where
  "VC_F19 \<equiv> 0x0066"

abbreviation (input) VC_F20 :: uint16_t where
  "VC_F20 \<equiv> 0x0067"

abbreviation (input) VC_F21 :: uint16_t where
  "VC_F21 \<equiv> 0x0068"

abbreviation (input) VC_F22 :: uint16_t where
  "VC_F22 \<equiv> 0x0069"

abbreviation (input) VC_F23 :: uint16_t where
  "VC_F23 \<equiv> 0x006A"

abbreviation (input) VC_F24 :: uint16_t where
  "VC_F24 \<equiv> 0x006B"

abbreviation (input) VC_BACKQUOTE :: uint16_t where
  "VC_BACKQUOTE \<equiv> 0x0029"

abbreviation (input) VC_1 :: uint16_t where
  "VC_1 \<equiv> 0x0002"

abbreviation (input) VC_2 :: uint16_t where
  "VC_2 \<equiv> 0x0003"

abbreviation (input) VC_3 :: uint16_t where
  "VC_3 \<equiv> 0x0004"

abbreviation (input) VC_4 :: uint16_t where
  "VC_4 \<equiv> 0x0005"

abbreviation (input) VC_5 :: uint16_t where
  "VC_5 \<equiv> 0x0006"

abbreviation (input) VC_6 :: uint16_t where
  "VC_6 \<equiv> 0x0007"

abbreviation (input) VC_7 :: uint16_t where
  "VC_7 \<equiv> 0x0008"

abbreviation (input) VC_8 :: uint16_t where
  "VC_8 \<equiv> 0x0009"

abbreviation (input) VC_9 :: uint16_t where
  "VC_9 \<equiv> 0x000A"

abbreviation (input) VC_0 :: uint16_t where
  "VC_0 \<equiv> 0x000B"

abbreviation (input) VC_MINUS :: uint16_t where
  "VC_MINUS \<equiv> 0x000C"

abbreviation (input) VC_EQUALS :: uint16_t where
  "VC_EQUALS \<equiv> 0x000D"

abbreviation (input) VC_BACKSPACE :: uint16_t where
  "VC_BACKSPACE \<equiv> 0x000E"

abbreviation (input) VC_TAB :: uint16_t where
  "VC_TAB \<equiv> 0x000F"

abbreviation (input) VC_CAPS_LOCK :: uint16_t where
  "VC_CAPS_LOCK \<equiv> 0x003A"

abbreviation (input) VC_A :: uint16_t where
  "VC_A \<equiv> 0x001E"

abbreviation (input) VC_B :: uint16_t where
  "VC_B \<equiv> 0x0030"

abbreviation (input) VC_C :: uint16_t where
  "VC_C \<equiv> 0x002E"

abbreviation (input) VC_D :: uint16_t where
  "VC_D \<equiv> 0x0020"

abbreviation (input) VC_E :: uint16_t where
  "VC_E \<equiv> 0x0012"

abbreviation (input) VC_F :: uint16_t where
  "VC_F \<equiv> 0x0021"

abbreviation (input) VC_G :: uint16_t where
  "VC_G \<equiv> 0x0022"

abbreviation (input) VC_H :: uint16_t where
  "VC_H \<equiv> 0x0023"

abbreviation (input) VC_I :: uint16_t where
  "VC_I \<equiv> 0x0017"

abbreviation (input) VC_J :: uint16_t where
  "VC_J \<equiv> 0x0024"

abbreviation (input) VC_K :: uint16_t where
  "VC_K \<equiv> 0x0025"

abbreviation (input) VC_L :: uint16_t where
  "VC_L \<equiv> 0x0026"

abbreviation (input) VC_M :: uint16_t where
  "VC_M \<equiv> 0x0032"

abbreviation (input) VC_N :: uint16_t where
  "VC_N \<equiv> 0x0031"

abbreviation (input) VC_O :: uint16_t where
  "VC_O \<equiv> 0x0018"

abbreviation (input) VC_P :: uint16_t where
  "VC_P \<equiv> 0x0019"

abbreviation (input) VC_Q :: uint16_t where
  "VC_Q \<equiv> 0x0010"

abbreviation (input) VC_R :: uint16_t where
  "VC_R \<equiv> 0x0013"

abbreviation (input) VC_S :: uint16_t where
  "VC_S \<equiv> 0x001F"

abbreviation (input) VC_T :: uint16_t where
  "VC_T \<equiv> 0x0014"

abbreviation (input) VC_U :: uint16_t where
  "VC_U \<equiv> 0x0016"

abbreviation (input) VC_V :: uint16_t where
  "VC_V \<equiv> 0x002F"

abbreviation (input) VC_W :: uint16_t where
  "VC_W \<equiv> 0x0011"

abbreviation (input) VC_X :: uint16_t where
  "VC_X \<equiv> 0x002D"

abbreviation (input) VC_Y :: uint16_t where
  "VC_Y \<equiv> 0x0015"

abbreviation (input) VC_Z :: uint16_t where
  "VC_Z \<equiv> 0x002C"

abbreviation (input) VC_OPEN_BRACKET :: uint16_t where
  "VC_OPEN_BRACKET \<equiv> 0x001A"

abbreviation (input) VC_CLOSE_BRACKET :: uint16_t where
  "VC_CLOSE_BRACKET \<equiv> 0x001B"

abbreviation (input) VC_BACK_SLASH :: uint16_t where
  "VC_BACK_SLASH \<equiv> 0x002B"

abbreviation (input) VC_SEMICOLON :: uint16_t where
  "VC_SEMICOLON \<equiv> 0x0027"

abbreviation (input) VC_QUOTE :: uint16_t where
  "VC_QUOTE \<equiv> 0x0028"

abbreviation (input) VC_ENTER :: uint16_t where
  "VC_ENTER \<equiv> 0x001C"

abbreviation (input) VC_COMMA :: uint16_t where
  "VC_COMMA \<equiv> 0x0033"

abbreviation (input) VC_PERIOD :: uint16_t where
  "VC_PERIOD \<equiv> 0x0034"

abbreviation (input) VC_SLASH :: uint16_t where
  "VC_SLASH \<equiv> 0x0035"

abbreviation (input) VC_SPACE :: uint16_t where
  "VC_SPACE \<equiv> 0x0039"

abbreviation (input) VC_PRINTSCREEN :: uint16_t where
  "VC_PRINTSCREEN \<equiv> 0x0E37"

abbreviation (input) VC_SCROLL_LOCK :: uint16_t where
  "VC_SCROLL_LOCK \<equiv> 0x0046"

abbreviation (input) VC_PAUSE :: uint16_t where
  "VC_PAUSE \<equiv> 0x0E45"

abbreviation (input) VC_LESSER_GREATER :: uint16_t where
  "VC_LESSER_GREATER \<equiv> 0x0E46"

abbreviation (input) VC_INSERT :: uint16_t where
  "VC_INSERT \<equiv> 0x0E52"

abbreviation (input) VC_DELETE :: uint16_t where
  "VC_DELETE \<equiv> 0x0E53"

abbreviation (input) VC_HOME :: uint16_t where
  "VC_HOME \<equiv> 0x0E47"

abbreviation (input) VC_END :: uint16_t where
  "VC_END \<equiv> 0x0E4F"

abbreviation (input) VC_PAGE_UP :: uint16_t where
  "VC_PAGE_UP \<equiv> 0x0E49"

abbreviation (input) VC_PAGE_DOWN :: uint16_t where
  "VC_PAGE_DOWN \<equiv> 0x0E51"

abbreviation (input) VC_UP :: uint16_t where
  "VC_UP \<equiv> 0xE048"

abbreviation (input) VC_LEFT :: uint16_t where
  "VC_LEFT \<equiv> 0xE04B"

abbreviation (input) VC_CLEAR :: uint16_t where
  "VC_CLEAR \<equiv> 0xE04C"

abbreviation (input) VC_RIGHT :: uint16_t where
  "VC_RIGHT \<equiv> 0xE04D"

abbreviation (input) VC_DOWN :: uint16_t where
  "VC_DOWN \<equiv> 0xE050"

abbreviation (input) VC_NUM_LOCK :: uint16_t where
  "VC_NUM_LOCK \<equiv> 0x0045"

abbreviation (input) VC_KP_DIVIDE :: uint16_t where
  "VC_KP_DIVIDE \<equiv> 0x0E35"

abbreviation (input) VC_KP_MULTIPLY :: uint16_t where
  "VC_KP_MULTIPLY \<equiv> 0x0037"

abbreviation (input) VC_KP_SUBTRACT :: uint16_t where
  "VC_KP_SUBTRACT \<equiv> 0x004A"

abbreviation (input) VC_KP_EQUALS :: uint16_t where
  "VC_KP_EQUALS \<equiv> 0x0E0D"

abbreviation (input) VC_KP_ADD :: uint16_t where
  "VC_KP_ADD \<equiv> 0x004E"

abbreviation (input) VC_KP_ENTER :: uint16_t where
  "VC_KP_ENTER \<equiv> 0x0E1C"

abbreviation (input) VC_KP_SEPARATOR :: uint16_t where
  "VC_KP_SEPARATOR \<equiv> 0x0053"

abbreviation (input) VC_KP_1 :: uint16_t where
  "VC_KP_1 \<equiv> 0x004F"

abbreviation (input) VC_KP_2 :: uint16_t where
  "VC_KP_2 \<equiv> 0x0050"

abbreviation (input) VC_KP_3 :: uint16_t where
  "VC_KP_3 \<equiv> 0x0051"

abbreviation (input) VC_KP_4 :: uint16_t where
  "VC_KP_4 \<equiv> 0x004B"

abbreviation (input) VC_KP_5 :: uint16_t where
  "VC_KP_5 \<equiv> 0x004C"

abbreviation (input) VC_KP_6 :: uint16_t where
  "VC_KP_6 \<equiv> 0x004D"

abbreviation (input) VC_KP_7 :: uint16_t where
  "VC_KP_7 \<equiv> 0x0047"

abbreviation (input) VC_KP_8 :: uint16_t where
  "VC_KP_8 \<equiv> 0x0048"

abbreviation (input) VC_KP_9 :: uint16_t where
  "VC_KP_9 \<equiv> 0x0049"

abbreviation (input) VC_KP_0 :: uint16_t where
  "VC_KP_0 \<equiv> 0x0052"

abbreviation (input) VC_KP_END :: uint16_t where
  "VC_KP_END \<equiv> 0xEE00 OR VC_KP_1"

abbreviation (input) VC_KP_DOWN :: uint16_t where
  "VC_KP_DOWN \<equiv> 0xEE00 OR VC_KP_2"

abbreviation (input) VC_KP_PAGE_DOWN :: uint16_t where
  "VC_KP_PAGE_DOWN \<equiv> 0xEE00 OR VC_KP_3"

abbreviation (input) VC_KP_LEFT :: uint16_t where
  "VC_KP_LEFT \<equiv> 0xEE00 OR VC_KP_4"

abbreviation (input) VC_KP_CLEAR :: uint16_t where
  "VC_KP_CLEAR \<equiv> 0xEE00 OR VC_KP_5"

abbreviation (input) VC_KP_RIGHT :: uint16_t where
  "VC_KP_RIGHT \<equiv> 0xEE00 OR VC_KP_6"

abbreviation (input) VC_KP_HOME :: uint16_t where
  "VC_KP_HOME \<equiv> 0xEE00 OR VC_KP_7"

abbreviation (input) VC_KP_UP :: uint16_t where
  "VC_KP_UP \<equiv> 0xEE00 OR VC_KP_8"

abbreviation (input) VC_KP_PAGE_UP :: uint16_t where
  "VC_KP_PAGE_UP \<equiv> 0xEE00 OR VC_KP_9"

abbreviation (input) VC_KP_INSERT :: uint16_t where
  "VC_KP_INSERT \<equiv> 0xEE00 OR VC_KP_0"

abbreviation (input) VC_KP_DELETE :: uint16_t where
  "VC_KP_DELETE \<equiv> 0xEE00 OR VC_KP_SEPARATOR"

abbreviation (input) VC_SHIFT_L :: uint16_t where
  "VC_SHIFT_L \<equiv> 0x002A"

abbreviation (input) VC_SHIFT_R :: uint16_t where
  "VC_SHIFT_R \<equiv> 0x0036"

abbreviation (input) VC_CONTROL_L :: uint16_t where
  "VC_CONTROL_L \<equiv> 0x001D"

abbreviation (input) VC_CONTROL_R :: uint16_t where
  "VC_CONTROL_R \<equiv> 0x0E1D"

abbreviation (input) VC_ALT_L :: uint16_t where
  "VC_ALT_L \<equiv> 0x0038"

abbreviation (input) VC_ALT_R :: uint16_t where
  "VC_ALT_R \<equiv> 0x0E38"

abbreviation (input) VC_META_L :: uint16_t where
  "VC_META_L \<equiv> 0x0E5B"

abbreviation (input) VC_META_R :: uint16_t where
  "VC_META_R \<equiv> 0x0E5C"

abbreviation (input) VC_CONTEXT_MENU :: uint16_t where
  "VC_CONTEXT_MENU \<equiv> 0x0E5D"

abbreviation (input) VC_POWER :: uint16_t where
  "VC_POWER \<equiv> 0xE05E"

abbreviation (input) VC_SLEEP :: uint16_t where
  "VC_SLEEP \<equiv> 0xE05F"

abbreviation (input) VC_WAKE :: uint16_t where
  "VC_WAKE \<equiv> 0xE063"

abbreviation (input) VC_MEDIA_PLAY :: uint16_t where
  "VC_MEDIA_PLAY \<equiv> 0xE022"

abbreviation (input) VC_MEDIA_STOP :: uint16_t where
  "VC_MEDIA_STOP \<equiv> 0xE024"

abbreviation (input) VC_MEDIA_PREVIOUS :: uint16_t where
  "VC_MEDIA_PREVIOUS \<equiv> 0xE010"

abbreviation (input) VC_MEDIA_NEXT :: uint16_t where
  "VC_MEDIA_NEXT \<equiv> 0xE019"

abbreviation (input) VC_MEDIA_SELECT :: uint16_t where
  "VC_MEDIA_SELECT \<equiv> 0xE06D"

abbreviation (input) VC_MEDIA_EJECT :: uint16_t where
  "VC_MEDIA_EJECT \<equiv> 0xE02C"

abbreviation (input) VC_VOLUME_MUTE :: uint16_t where
  "VC_VOLUME_MUTE \<equiv> 0xE020"

abbreviation (input) VC_VOLUME_UP :: uint16_t where
  "VC_VOLUME_UP \<equiv> 0xE030"

abbreviation (input) VC_VOLUME_DOWN :: uint16_t where
  "VC_VOLUME_DOWN \<equiv> 0xE02E"

abbreviation (input) VC_APP_MAIL :: uint16_t where
  "VC_APP_MAIL \<equiv> 0xE06C"

abbreviation (input) VC_APP_CALCULATOR :: uint16_t where
  "VC_APP_CALCULATOR \<equiv> 0xE021"

abbreviation (input) VC_APP_MUSIC :: uint16_t where
  "VC_APP_MUSIC \<equiv> 0xE03C"

abbreviation (input) VC_APP_PICTURES :: uint16_t where
  "VC_APP_PICTURES \<equiv> 0xE064"

abbreviation (input) VC_BROWSER_SEARCH :: uint16_t where
  "VC_BROWSER_SEARCH \<equiv> 0xE065"

abbreviation (input) VC_BROWSER_HOME :: uint16_t where
  "VC_BROWSER_HOME \<equiv> 0xE032"

abbreviation (input) VC_BROWSER_BACK :: uint16_t where
  "VC_BROWSER_BACK \<equiv> 0xE06A"

abbreviation (input) VC_BROWSER_FORWARD :: uint16_t where
  "VC_BROWSER_FORWARD \<equiv> 0xE069"

abbreviation (input) VC_BROWSER_STOP :: uint16_t where
  "VC_BROWSER_STOP \<equiv> 0xE068"

abbreviation (input) VC_BROWSER_REFRESH :: uint16_t where
  "VC_BROWSER_REFRESH \<equiv> 0xE067"

abbreviation (input) VC_BROWSER_FAVORITES :: uint16_t where
  "VC_BROWSER_FAVORITES \<equiv> 0xE066"

abbreviation (input) VC_KATAKANA :: uint16_t where
  "VC_KATAKANA \<equiv> 0x0070"

abbreviation (input) VC_UNDERSCORE :: uint16_t where
  "VC_UNDERSCORE \<equiv> 0x0073"

abbreviation (input) VC_FURIGANA :: uint16_t where
  "VC_FURIGANA \<equiv> 0x0077"

abbreviation (input) VC_KANJI :: uint16_t where
  "VC_KANJI \<equiv> 0x0079"

abbreviation (input) VC_HIRAGANA :: uint16_t where
  "VC_HIRAGANA \<equiv> 0x007B"

abbreviation (input) VC_YEN :: uint16_t where
  "VC_YEN \<equiv> 0x007D"

abbreviation (input) VC_KP_COMMA :: uint16_t where
  "VC_KP_COMMA \<equiv> 0x007E"

abbreviation (input) VC_SUN_HELP :: uint16_t where
  "VC_SUN_HELP \<equiv> 0xFF75"

abbreviation (input) VC_SUN_STOP :: uint16_t where
  "VC_SUN_STOP \<equiv> 0xFF78"

abbreviation (input) VC_SUN_PROPS :: uint16_t where
  "VC_SUN_PROPS \<equiv> 0xFF76"

abbreviation (input) VC_SUN_FRONT :: uint16_t where
  "VC_SUN_FRONT \<equiv> 0xFF77"

abbreviation (input) VC_SUN_OPEN :: uint16_t where
  "VC_SUN_OPEN \<equiv> 0xFF74"

abbreviation (input) VC_SUN_FIND :: uint16_t where
  "VC_SUN_FIND \<equiv> 0xFF7E"

abbreviation (input) VC_SUN_AGAIN :: uint16_t where
  "VC_SUN_AGAIN \<equiv> 0xFF79"

abbreviation (input) VC_SUN_UNDO :: uint16_t where
  "VC_SUN_UNDO \<equiv> 0xFF7A"

abbreviation (input) VC_SUN_COPY :: uint16_t where
  "VC_SUN_COPY \<equiv> 0xFF7C"

abbreviation (input) VC_SUN_INSERT :: uint16_t where
  "VC_SUN_INSERT \<equiv> 0xFF7D"

abbreviation (input) VC_SUN_CUT :: uint16_t where
  "VC_SUN_CUT \<equiv> 0xFF7B"

abbreviation (input) VC_UNDEFINED :: uint16_t where
  "VC_UNDEFINED \<equiv> 0x0000"

abbreviation (input) CHAR_UNDEFINED :: uint16_t where
  "CHAR_UNDEFINED \<equiv> 0xFFFF"

section \<open>Modifier masks\<close>

abbreviation (input) MASK_SHIFT_L :: uint16_t where
  "MASK_SHIFT_L \<equiv> flag 0"

abbreviation (input) MASK_CTRL_L :: uint16_t where
  "MASK_CTRL_L \<equiv> flag 1"

abbreviation (input) MASK_META_L :: uint16_t where
  "MASK_META_L \<equiv> flag 2"

abbreviation (input) MASK_ALT_L :: uint16_t where
  "MASK_ALT_L \<equiv> flag 3"

abbreviation (input) MASK_SHIFT_R :: uint16_t where
  "MASK_SHIFT_R \<equiv> flag 4"

abbreviation (input) MASK_CTRL_R :: uint16_t where
  "MASK_CTRL_R \<equiv> flag 5"

abbreviation (input) MASK_META_R :: uint16_t where
  "MASK_META_R \<equiv> flag 6"

abbreviation (input) MASK_ALT_R :: uint16_t where
  "MASK_ALT_R \<equiv> flag 7"

abbreviation (input) MASK_SHIFT :: uint16_t where
  "MASK_SHIFT \<equiv> MASK_SHIFT_L OR MASK_SHIFT_R"

abbreviation (input) MASK_CTRL :: uint16_t where
  "MASK_CTRL \<equiv> MASK_CTRL_L OR MASK_CTRL_R"

abbreviation (input) MASK_META :: uint16_t where
  "MASK_META \<equiv> MASK_META_L OR MASK_META_R"

abbreviation (input) MASK_ALT :: uint16_t where
  "MASK_ALT \<equiv> MASK_ALT_L OR MASK_ALT_R"

abbreviation (input) MASK_BUTTON1 :: uint16_t where
  "MASK_BUTTON1 \<equiv> flag 8"

abbreviation (input) MASK_BUTTON2 :: uint16_t where
  "MASK_BUTTON2 \<equiv> flag 9"

abbreviation (input) MASK_BUTTON3 :: uint16_t where
  "MASK_BUTTON3 \<equiv> flag 10"

abbreviation (input) MASK_BUTTON4 :: uint16_t where
  "MASK_BUTTON4 \<equiv> flag 11"

abbreviation (input) MASK_BUTTON5 :: uint16_t where
  "MASK_BUTTON5 \<equiv> flag 12"

abbreviation (input) MASK_NUM_LOCK :: uint16_t where
  "MASK_NUM_LOCK \<equiv> flag 13"

abbreviation (input) MASK_CAPS_LOCK :: uint16_t where
  "MASK_CAPS_LOCK \<equiv> flag 14"

abbreviation (input) MASK_SCROLL_LOCK :: uint16_t where
  "MASK_SCROLL_LOCK \<equiv> flag 15"

section \<open>Mouse buttons and wheel constants\<close>

abbreviation (input) MOUSE_NOBUTTON :: uint16_t where
  "MOUSE_NOBUTTON \<equiv> 0"

abbreviation (input) MOUSE_BUTTON1 :: uint16_t where
  "MOUSE_BUTTON1 \<equiv> 1"

abbreviation (input) MOUSE_BUTTON2 :: uint16_t where
  "MOUSE_BUTTON2 \<equiv> 2"

abbreviation (input) MOUSE_BUTTON3 :: uint16_t where
  "MOUSE_BUTTON3 \<equiv> 3"

abbreviation (input) MOUSE_BUTTON4 :: uint16_t where
  "MOUSE_BUTTON4 \<equiv> 4"

abbreviation (input) MOUSE_BUTTON5 :: uint16_t where
  "MOUSE_BUTTON5 \<equiv> 5"

abbreviation (input) WHEEL_UNIT_SCROLL :: uint8_t where
  "WHEEL_UNIT_SCROLL \<equiv> 1"

abbreviation (input) WHEEL_BLOCK_SCROLL :: uint8_t where
  "WHEEL_BLOCK_SCROLL \<equiv> 2"

abbreviation (input) WHEEL_VERTICAL_DIRECTION :: uint8_t where
  "WHEEL_VERTICAL_DIRECTION \<equiv> 3"

abbreviation (input) WHEEL_HORIZONTAL_DIRECTION :: uint8_t where
  "WHEEL_HORIZONTAL_DIRECTION \<equiv> 4"

end
