(* ===== verification/Uiohook_Events.thy ===== *)
theory Uiohook_Events
  imports Virtual_Codes
begin

text \<open>
  The data types of \<^verbatim>\<open>include/uiohook.h\<close> and what the three platform back ends share: the
  static event that is filled and handed to the callback, the modifier mask, and the click
  counter. The last two are locales, interpreted on each back end.
\<close>

section \<open>Event types and data\<close>

datatype event_type =
    EVENT_HOOK_ENABLED
  | EVENT_HOOK_DISABLED
  | EVENT_KEY_TYPED
  | EVENT_KEY_PRESSED
  | EVENT_KEY_RELEASED
  | EVENT_MOUSE_CLICKED
  | EVENT_MOUSE_PRESSED
  | EVENT_MOUSE_RELEASED
  | EVENT_MOUSE_MOVED
  | EVENT_MOUSE_DRAGGED
  | EVENT_MOUSE_WHEEL

record screen_data =
  scr_number :: uint8_t
  scr_x :: int16_t
  scr_y :: int16_t
  scr_width :: uint16_t
  scr_height :: uint16_t

record keyboard_event_data =
  kb_keycode :: uint16_t
  kb_rawcode :: uint16_t
  kb_keychar :: uint16_t

record mouse_event_data =
  ms_button :: uint16_t
  ms_clicks :: uint16_t
  ms_x :: int16_t
  ms_y :: int16_t

record mouse_wheel_event_data =
  wh_clicks :: uint16_t
  wh_x :: int16_t
  wh_y :: int16_t
  wh_type :: uint8_t
  wh_amount :: uint16_t
  wh_rotation :: int16_t
  wh_direction :: uint8_t

text \<open>
  The union of \<^verbatim>\<open>uiohook_event\<close>. Every handler writes all the fields of one member before it
  dispatches the event, so the member last written is all that can be observed.
\<close>

datatype event_data =
    Keyboard keyboard_event_data
  | Mouse mouse_event_data
  | Wheel mouse_wheel_event_data

record uiohook_event =
  ev_type :: event_type
  ev_time :: uint64_t
  ev_mask :: uint16_t
  ev_reserved :: uint16_t
  ev_data :: event_data

text \<open>
  The member of the union that a function reads. The bytes of another member are not
  determined by the event.
\<close>

definition keyboard_member :: "uiohook_event \<Rightarrow> keyboard_event_data result" where
  "keyboard_member e = (case ev_data e of Keyboard k \<Rightarrow> Inr k | _ \<Rightarrow> Inl UninitialisedRead)"

definition mouse_member :: "uiohook_event \<Rightarrow> mouse_event_data result" where
  "mouse_member e = (case ev_data e of Mouse m \<Rightarrow> Inr m | _ \<Rightarrow> Inl UninitialisedRead)"

definition wheel_member :: "uiohook_event \<Rightarrow> mouse_wheel_event_data result" where
  "wheel_member e = (case ev_data e of Wheel w \<Rightarrow> Inr w | _ \<Rightarrow> Inl UninitialisedRead)"

section \<open>Dispatching\<close>

text \<open>
  A callback receives a pointer to the static event and may write to it, for instance
  \<open>reserved = 1\<close> to consume it. Its answer may depend on what it received before, so it is
  a function of the earlier events (oldest first) and the event itself. \<open>dispatched\<close> records
  the events as the callback received them.
\<close>

type_synonym dispatcher_t = "uiohook_event list \<Rightarrow> uiohook_event \<Rightarrow> uiohook_event"

record dispatch_state =
  static_event :: uiohook_event
  dispatcher :: "dispatcher_t option"
  dispatched :: "uiohook_event list"

definition hook_set_dispatch_proc ::
  "dispatcher_t option \<Rightarrow> 'a dispatch_state_scheme \<Rightarrow> 'a dispatch_state_scheme" where
  "hook_set_dispatch_proc dispatch_proc s = s\<lparr>dispatcher := dispatch_proc\<rparr>"

definition dispatch_event :: "'a dispatch_state_scheme \<Rightarrow> 'a dispatch_state_scheme" where
  "dispatch_event s =
     (case dispatcher s of
        Some d \<Rightarrow> s\<lparr>static_event := d (dispatched s) (static_event s),
                    dispatched := dispatched s @ [static_event s]\<rparr>
      | None \<Rightarrow> s)"

text \<open>Filling the event's header and data, then firing it.\<close>

definition fire ::
  "event_type \<Rightarrow> uint64_t \<Rightarrow> uint16_t \<Rightarrow> event_data \<Rightarrow>
   'a dispatch_state_scheme \<Rightarrow> 'a dispatch_state_scheme" where
  "fire ty tm msk dat s =
     dispatch_event (s\<lparr>static_event :=
       \<lparr>ev_type = ty, ev_time = tm, ev_mask = msk, ev_reserved = 0x00, ev_data = dat\<rparr>\<rparr>)"

text \<open>\<open>event.reserved ^ 0x01\<close> is nonzero unless the callback stored exactly 1.\<close>

definition not_consumed :: "'a dispatch_state_scheme \<Rightarrow> bool" where
  "not_consumed s \<longleftrightarrow> ev_reserved (static_event s) XOR 0x01 \<noteq> 0"

lemma not_consumed_iff: "not_consumed s \<longleftrightarrow> ev_reserved (static_event s) \<noteq> 1"
proof -
  let ?r = "ev_reserved (static_event s)"
  have "?r = 1" if "?r XOR 1 = 0"
  proof -
    from that have "(?r XOR 1) XOR 1 = 0 XOR 1" by (rule arg_cong)
    then show ?thesis by (simp only: xor.assoc xor_self_eq xor.right_neutral xor.left_neutral)
  qed
  then show ?thesis by (auto simp: not_consumed_def)
qed

definition emitted :: "event_type \<Rightarrow> uint64_t \<Rightarrow> uint16_t \<Rightarrow> event_data \<Rightarrow> uiohook_event" where
  "emitted ty tm msk dat =
     \<lparr>ev_type = ty, ev_time = tm, ev_mask = msk, ev_reserved = 0, ev_data = dat\<rparr>"

lemma dispatcher_dispatch_event [simp]: "dispatcher (dispatch_event s) = dispatcher s"
  by (simp add: dispatch_event_def split: option.split)

lemma dispatcher_fire [simp]: "dispatcher (fire ty tm msk dat s) = dispatcher s"
  by (simp add: fire_def)

lemma dispatched_fire:
  "dispatched (fire ty tm msk dat s) =
     (if dispatcher s = None then dispatched s else dispatched s @ [emitted ty tm msk dat])"
  by (auto simp: fire_def dispatch_event_def emitted_def split: option.split)

lemma static_event_fire:
  "static_event (fire ty tm msk dat s) =
     (case dispatcher s of
        None \<Rightarrow> emitted ty tm msk dat
      | Some d \<Rightarrow> d (dispatched s) (emitted ty tm msk dat))"
  by (auto simp: fire_def dispatch_event_def emitted_def split: option.split)

lemma more_fire [simp]: "dispatch_state.more (fire ty tm msk dat s) = dispatch_state.more s"
  by (simp add: fire_def dispatch_event_def split: option.split)

section \<open>The modifier mask\<close>

text \<open>
  The interface every back end gives to the modifier mask, and what follows from its two
  laws: after any sequence of key and button transitions a flag is up exactly when the last
  transition of its key was a press, whatever happened to the other keys.
\<close>

locale mask_tracker =
  fixes set_mask :: "uint16_t \<Rightarrow> 's \<Rightarrow> 's"
    and unset_mask :: "uint16_t \<Rightarrow> 's \<Rightarrow> 's"
    and get_mask :: "'s \<Rightarrow> uint16_t"
  assumes get_set: "get_mask (set_mask m s) = get_mask s OR m"
    and get_unset: "get_mask (unset_mask m s) = get_mask s AND NOT m"
begin

primrec track :: "(nat \<times> bool) list \<Rightarrow> 's \<Rightarrow> 's" where
  "track [] s = s"
| "track (t # ts) s = track ts (if snd t then set_mask (flag (fst t)) s else unset_mask (flag (fst t)) s)"

lemma track_append: "track (ts @ us) s = track us (track ts s)"
  by (induction ts arbitrary: s) simp_all

lemma bit_track_step:
  assumes "k < 16"
  shows "bit (get_mask (track [(j, down)] s)) k \<longleftrightarrow> (if j = k then down else bit (get_mask s) k)"
  using assms by (auto simp: get_set get_unset bit_flags)

lemma bit_track:
  assumes "k < 16"
  shows "bit (get_mask (track ts s)) k \<longleftrightarrow>
    (case find (\<lambda>t. fst t = k) (rev ts) of
       Some t \<Rightarrow> snd t | None \<Rightarrow> bit (get_mask s) k)"
proof (induction ts rule: rev_induct)
  case Nil
  show ?case by simp
next
  case (snoc t ts)
  then show ?case
    using bit_track_step [OF assms, of "fst t" "snd t" "track ts s"]
    by (simp add: track_append)
qed

lemma set_then_unset:
  assumes "k < 16"
  shows "\<not> bit (get_mask (unset_mask (flag k) (set_mask (flag k) s))) k"
  using assms by (simp add: get_unset bit_flags)

end

section \<open>The click counter\<close>

text \<open>
  Reference: the number of clicks of a press, from the history of presses (newest first).
  A press continues a run when it has the same button and comes within \<open>mct\<close> of the press
  before it; the number stops at the largest \<open>unsigned short\<close>. \<open>near\<close> compares two times.
\<close>

fun clicks_of :: "('t \<Rightarrow> 't \<Rightarrow> bool) \<Rightarrow> (uint16_t \<times> 't) list \<Rightarrow> nat" where
  "clicks_of near [] = 0"
| "clicks_of near [p] = 1"
| "clicks_of near ((b, t) # (b', t') # ps) =
     (if b = b' \<and> near t t' then min 65535 (clicks_of near ((b', t') # ps) + 1) else 1)"

lemma clicks_of_bounds: "ps \<noteq> [] \<Longrightarrow> 1 \<le> clicks_of near ps \<and> clicks_of near ps \<le> 65535"
  by (induction near ps rule: clicks_of.induct) auto

text \<open>
  The interface of a back end's counter: the state after a press, as a function of the state
  before. From these laws the counter refines the reference on every history of presses.
\<close>

locale click_counter =
  fixes press :: "uint16_t \<Rightarrow> 't \<Rightarrow> 's \<Rightarrow> 's"
    and count :: "'s \<Rightarrow> uint16_t"
    and button :: "'s \<Rightarrow> uint16_t"
    and time :: "'s \<Rightarrow> 't"
    and near :: "'t \<Rightarrow> 't \<Rightarrow> bool"
  assumes count_press: "count (press b t s) =
      (if b = button s \<and> near t (time s)
       then (if count s < 0xFFFF then count s + 1 else count s) else 1)"
    and button_press: "button (press b t s) = b"
    and time_press: "time (press b t s) = t"
begin

primrec presses :: "(uint16_t \<times> 't) list \<Rightarrow> 's \<Rightarrow> 's" where
  "presses [] s = s"
| "presses (p # ps) s = press (fst p) (snd p) (presses ps s)"

lemma last_press:
  assumes "ps \<noteq> []"
  shows "button (presses ps s) = fst (hd ps)" and "time (presses ps s) = snd (hd ps)"
  using assms by (cases ps; simp add: button_press time_press)+

lemma unat_saturating_Suc:
  "unat (if c < 0xFFFF then c + 1 else c) = min 65535 (unat c + 1)" for c :: uint16_t
proof (cases "c < 0xFFFF")
  case True
  then have "unat c < 65535" by (simp add: word_less_nat_alt)
  then have "unat (c + 1) = unat c + 1"
    by (subst unat_add_lem [THEN iffD1]) auto
  with True \<open>unat c < 65535\<close> show ?thesis by simp
next
  case False
  then have "65535 \<le> unat c" by (simp add: word_less_nat_alt)
  moreover have "unat c < 65536" using unsigned_less [of c, where ?'a = nat] by simp
  ultimately show ?thesis using False by simp
qed

theorem count_refines:
  assumes "\<not> (fst (last ps) = button s \<and> near (snd (last ps)) (time s)) \<or> count s = 0"
    and "ps \<noteq> []"
  shows "unat (count (presses ps s)) = clicks_of near ps"
  using assms
proof (induction ps rule: induct_list012)
  case (2 p)
  then show ?case by (auto simp: count_press)
next
  case (3 p q ps)
  let ?s = "presses (q # ps) s"
  have IH: "unat (count ?s) = clicks_of near (q # ps)"
    using 3 by simp
  have "unat (count (press (fst p) (snd p) ?s)) =
      (if fst p = fst q \<and> near (snd p) (snd q) then min 65535 (unat (count ?s) + 1) else 1)"
    using last_press [of "q # ps" s] unat_saturating_Suc [of "count ?s"]
    by (auto simp: count_press simp del: presses.simps)
  with IH show ?case by (cases p; cases q) simp
qed simp

end

section \<open>The events of a back end\<close>

text \<open>
  What a callback may rely on: it gets a fresh event, the member of the union is the one its type names, a
  typed event has no key code, a pressed or released one no character, and a moved one no button.
\<close>

definition fits_type :: "uiohook_event \<Rightarrow> bool" where
  "fits_type e \<longleftrightarrow> ev_reserved e = 0 \<and>
     (case ev_data e of
        Keyboard k \<Rightarrow>
          ev_type e \<in> {EVENT_KEY_PRESSED, EVENT_KEY_RELEASED} \<and> kb_keychar k = CHAR_UNDEFINED
          \<or> ev_type e = EVENT_KEY_TYPED \<and> kb_keycode k = VC_UNDEFINED
      | Mouse m \<Rightarrow>
          ev_type e \<in> {EVENT_MOUSE_PRESSED, EVENT_MOUSE_RELEASED, EVENT_MOUSE_CLICKED}
          \<or> ev_type e \<in> {EVENT_MOUSE_MOVED, EVENT_MOUSE_DRAGGED} \<and> ms_button m = MOUSE_NOBUTTON
      | Wheel w \<Rightarrow> ev_type e = EVENT_MOUSE_WHEEL \<and> wh_clicks w = 1)"

definition reports :: "'a dispatch_state_scheme \<Rightarrow> 'a dispatch_state_scheme \<Rightarrow> bool" where
  "reports s s' \<longleftrightarrow> dispatcher s' = dispatcher s
     \<and> (\<exists>new. dispatched s' = dispatched s @ new \<and> list_all fits_type new)"

lemma reports_refl [simp]: "reports s s"
  by (simp add: reports_def)

lemma reports_trans: "reports s t \<Longrightarrow> reports t u \<Longrightarrow> reports s u"
  by (auto simp: reports_def)

lemma reports_fire: "reports s t \<Longrightarrow> fits_type (emitted ty tm msk dat) \<Longrightarrow> reports s (fire ty tm msk dat t)"
  by (auto simp: reports_def dispatched_fire)

lemma reports_of_fire: "reports (fire ty tm msk dat s) t \<Longrightarrow> fits_type (emitted ty tm msk dat) \<Longrightarrow> reports s t"
  using reports_trans [OF reports_fire [OF reports_refl]] by blast

lemma reports_same: "reports s t \<Longrightarrow> dispatched t' = dispatched t \<Longrightarrow> dispatcher t' = dispatcher t \<Longrightarrow> reports s t'"
  by (simp add: reports_def)

text \<open>
  The interface of a handler that is called for one input after the other: from the law that a call only
  appends events of this form, the same follows for every run.
\<close>

locale event_source =
  fixes step :: "'i \<Rightarrow> 'a dispatch_state_scheme \<Rightarrow> 'a dispatch_state_scheme result"
    and run :: "'i list \<Rightarrow> 'a dispatch_state_scheme \<Rightarrow> 'a dispatch_state_scheme result"
  assumes run_Nil: "run [] s = Inr s"
    and run_Cons: "run (i # is) s = r_bind (step i s) (run is)"
    and step_reports: "step i s = Inr s' \<Longrightarrow> reports s s'"
begin

lemma run_reports: "run is s = Inr s' \<Longrightarrow> reports s s'"
proof (induction "is" arbitrary: s)
  case (Cons i "is")
  then obtain t where "step i s = Inr t" "run is t = Inr s'" by (auto simp: run_Cons elim!: r_bind_InrE)
  then show ?case using Cons.IH step_reports reports_trans by blast
qed (simp add: run_Nil)

text \<open>A session: the enabled event, a run, the disabled event.\<close>

lemma session_reports:
  assumes "run is (fire EVENT_HOOK_ENABLED t0 0 dat s) = Inr u" and "dispatcher s \<noteq> None"
  shows "\<exists>evs. list_all fits_type evs
    \<and> dispatched (fire EVENT_HOOK_DISABLED t1 0 dat' u)
      = dispatched s @ emitted EVENT_HOOK_ENABLED t0 0 dat # evs @ [emitted EVENT_HOOK_DISABLED t1 0 dat']"
  using run_reports [OF assms(1)] assms(2) by (auto simp: reports_def dispatched_fire)

end

end
