(* ===== verification/X11_Keycode_Tables.thy ===== *)
theory X11_Keycode_Tables
  imports Uiohook_Events
begin

text \<open>
  The two key tables of \<^verbatim>\<open>src/x11/input_helper.c\<close>, each row a pair: the virtual key code of
  the X key code that is the row's index, and the X key code for the scan code that is the
  row's index. Each table is in two halves, the rows below 128 and the rows from 128 that
  \<^verbatim>\<open>scancode_to_keycode\<close> reaches with the offset 0x80.
\<close>

definition evdev_scancode_table_low :: "(uint16_t \<times> uint16_t) list" where
  "evdev_scancode_table_low = [
     (VC_UNDEFINED, 0x00), (VC_UNDEFINED, 0x09), (VC_UNDEFINED, 0x0A), (VC_UNDEFINED, 0x0B),
     (VC_UNDEFINED, 0x0C), (VC_UNDEFINED, 0x0D), (VC_UNDEFINED, 0x0E), (VC_UNDEFINED, 0x0F),
     (VC_UNDEFINED, 0x10), (VC_ESCAPE, 0x11), (VC_1, 0x12), (VC_2, 0x13),
     (VC_3, 0x14), (VC_4, 0x15), (VC_5, 0x16), (VC_6, 0x17),
     (VC_7, 0x18), (VC_8, 0x19), (VC_9, 0x1A), (VC_0, 0x1B),
     (VC_MINUS, 0x1C), (VC_EQUALS, 0x1D), (VC_BACKSPACE, 0x1E), (VC_TAB, 0x1F),
     (VC_Q, 0x20), (VC_W, 0x21), (VC_E, 0x22), (VC_R, 0x23),
     (VC_T, 0x24), (VC_Y, 0x25), (VC_U, 0x26), (VC_I, 0x27),
     (VC_O, 0x28), (VC_P, 0x29), (VC_OPEN_BRACKET, 0x2A), (VC_CLOSE_BRACKET, 0x2B),
     (VC_ENTER, 0x2C), (VC_CONTROL_L, 0x2D), (VC_A, 0x2E), (VC_S, 0x2F),
     (VC_D, 0x30), (VC_F, 0x31), (VC_G, 0x32), (VC_H, 0x33),
     (VC_J, 0x34), (VC_K, 0x35), (VC_L, 0x36), (VC_SEMICOLON, 0x37),
     (VC_QUOTE, 0x38), (VC_BACKQUOTE, 0x39), (VC_SHIFT_L, 0x3A), (VC_BACK_SLASH, 0x3B),
     (VC_Z, 0x3C), (VC_X, 0x3D), (VC_C, 0x3E), (VC_V, 0x3F),
     (VC_B, 0x40), (VC_N, 0x41), (VC_M, 0x42), (VC_COMMA, 0x43),
     (VC_PERIOD, 0x44), (VC_SLASH, 0x45), (VC_SHIFT_R, 0x46), (VC_KP_MULTIPLY, 0x47),
     (VC_ALT_L, 0x48), (VC_SPACE, 0x49), (VC_CAPS_LOCK, 0x4A), (VC_F1, 0x4B),
     (VC_F2, 0x4C), (VC_F3, 0x4D), (VC_F4, 0x4E), (VC_F5, 0x4F),
     (VC_F6, 0x50), (VC_F7, 0x51), (VC_F8, 0x52), (VC_F9, 0x53),
     (VC_F10, 0x54), (VC_NUM_LOCK, 0x55), (VC_SCROLL_LOCK, 0x56), (VC_KP_7, 0x57),
     (VC_KP_8, 0x58), (VC_KP_9, 0x59), (VC_KP_SUBTRACT, 0x5A), (VC_KP_4, 0x5B),
     (VC_KP_5, 0x00), (VC_KP_6, 0x00), (VC_KP_ADD, 0x00), (VC_KP_1, 0x5F),
     (VC_KP_2, 0x60), (VC_KP_3, 0x00), (VC_KP_0, 0x00), (VC_KP_SEPARATOR, 0xBF),
     (VC_UNDEFINED, 0xC0), (VC_UNDEFINED, 0xC1), (VC_UNDEFINED, 0x00), (VC_F11, 0x00),
     (VC_F12, 0x00), (VC_UNDEFINED, 0x00), (VC_KATAKANA, 0x00), (VC_HIRAGANA, 0xC2),
     (VC_KANJI, 0xC3), (VC_UNDEFINED, 0xC4), (VC_UNDEFINED, 0xC5), (VC_KP_COMMA, 0xC6),
     (VC_KP_ENTER, 0xC7), (VC_CONTROL_R, 0xC8), (VC_KP_DIVIDE, 0xC9), (VC_PRINTSCREEN, 0xCA),
     (VC_ALT_R, 0x00), (VC_UNDEFINED, 0x00), (VC_HOME, 0x00), (VC_UP, 0x00),
     (VC_PAGE_UP, 0x62), (VC_LEFT, 0x00), (VC_RIGHT, 0x00), (VC_END, 0x00),
     (VC_DOWN, 0x00), (VC_PAGE_DOWN, 0x00), (VC_INSERT, 0x00), (VC_DELETE, 0x00),
     (VC_UNDEFINED, 0x00), (VC_VOLUME_MUTE, 0x64), (VC_VOLUME_DOWN, 0x00), (VC_VOLUME_UP, 0x63),
     (VC_POWER, 0x00), (VC_KP_EQUALS, 0x84), (VC_UNDEFINED, 0x67), (VC_PAUSE, 0x00)]"

definition evdev_scancode_table_high :: "(uint16_t \<times> uint16_t) list" where
  "evdev_scancode_table_high = [
     (VC_UNDEFINED, 0), (VC_UNDEFINED, 0), (VC_UNDEFINED, 0), (VC_UNDEFINED, 0),
     (VC_YEN, 0), (VC_META_L, 0), (VC_META_R, 0), (VC_CONTEXT_MENU, 0),
     (VC_SUN_STOP, 0), (VC_SUN_AGAIN, 0), (VC_SUN_PROPS, 0), (VC_SUN_UNDO, 0),
     (VC_SUN_FRONT, 0), (VC_SUN_COPY, 0x7D), (VC_SUN_OPEN, 0), (VC_SUN_INSERT, 0),
     (VC_SUN_FIND, 0), (VC_SUN_CUT, 0), (VC_SUN_HELP, 0), (VC_UNDEFINED, 0),
     (VC_APP_CALCULATOR, 0), (VC_UNDEFINED, 0), (VC_SLEEP, 0), (VC_UNDEFINED, 0),
     (VC_UNDEFINED, 0), (VC_UNDEFINED, 0), (VC_UNDEFINED, 0), (VC_UNDEFINED, 0),
     (VC_UNDEFINED, 0x68), (VC_UNDEFINED, 0x69), (VC_UNDEFINED, 0), (VC_UNDEFINED, 0),
     (VC_UNDEFINED, 0x79), (VC_UNDEFINED, 0x94), (VC_UNDEFINED, 0xA7), (VC_UNDEFINED, 0),
     (VC_UNDEFINED, 0), (VC_UNDEFINED, 0), (VC_APP_MAIL, 0), (VC_MEDIA_PLAY, 0),
     (VC_UNDEFINED, 0), (VC_UNDEFINED, 0), (VC_UNDEFINED, 0), (VC_UNDEFINED, 0),
     (VC_UNDEFINED, 0), (VC_UNDEFINED, 0), (VC_UNDEFINED, 0x7A), (VC_UNDEFINED, 0),
     (VC_UNDEFINED, 0x7B), (VC_UNDEFINED, 0x00), (VC_UNDEFINED, 0xBA), (VC_UNDEFINED, 0x00),
     (VC_UNDEFINED, 0x00), (VC_UNDEFINED, 0x6A), (VC_UNDEFINED, 0x00), (VC_UNDEFINED, 0x6B),
     (VC_UNDEFINED, 0x6C), (VC_UNDEFINED, 0x00), (VC_BROWSER_HOME, 0x00), (VC_UNDEFINED, 0x00),
     (VC_UNDEFINED, 0x00), (VC_UNDEFINED, 0x00), (VC_UNDEFINED, 0x00), (VC_F13, 0x00),
     (VC_F14, 0x00), (VC_F15, 0x00), (VC_F16, 0x00), (VC_F17, 0x00),
     (VC_F18, 0x00), (VC_F19, 0x7F), (VC_F20, 0x00), (VC_F21, 0x6E),
     (VC_F22, 0x6F), (VC_F23, 0x70), (VC_F24, 0x00), (VC_UNDEFINED, 0x71),
     (VC_UNDEFINED, 0x00), (VC_UNDEFINED, 0x72), (VC_UNDEFINED, 0x00), (VC_UNDEFINED, 0x73),
     (VC_UNDEFINED, 0x74), (VC_UNDEFINED, 0x75), (VC_UNDEFINED, 0x76), (VC_UNDEFINED, 0x77),
     (VC_UNDEFINED, 0x00), (VC_UNDEFINED, 0x00), (VC_UNDEFINED, 0x00), (VC_UNDEFINED, 0x00),
     (VC_UNDEFINED, 0x00), (VC_UNDEFINED, 0x00), (VC_UNDEFINED, 0x00), (VC_UNDEFINED, 0x85),
     (VC_UNDEFINED, 0x86), (VC_UNDEFINED, 0x87), (VC_UNDEFINED, 0x7C), (VC_UNDEFINED, 0x96),
     (VC_UNDEFINED, 0x00), (VC_BROWSER_SEARCH, 0x00), (VC_LESSER_GREATER, 0x00), (VC_UNDEFINED, 0x00),
     (VC_UNDEFINED, 0x00), (VC_UNDEFINED, 0xE1), (VC_UNDEFINED, 0x00), (VC_UNDEFINED, 0x00),
     (VC_UNDEFINED, 0x00), (VC_UNDEFINED, 0x00), (VC_UNDEFINED, 0x00), (VC_UNDEFINED, 0x00),
     (VC_UNDEFINED, 0xA6), (VC_UNDEFINED, 0x00), (VC_UNDEFINED, 0x00), (VC_UNDEFINED, 0x00),
     (VC_UNDEFINED, 0x00), (VC_UNDEFINED, 0x00), (VC_UNDEFINED, 0x00), (VC_UNDEFINED, 0x00),
     (VC_UNDEFINED, 0x8E), (VC_UNDEFINED, 0x92), (VC_UNDEFINED, 0x8A), (VC_UNDEFINED, 0x8C),
     (VC_UNDEFINED, 0x88), (VC_UNDEFINED, 0x89), (VC_UNDEFINED, 0x8B), (VC_UNDEFINED, 0x91),
     (VC_UNDEFINED, 0x8D), (VC_UNDEFINED, 0x8F), (VC_UNDEFINED, 0x90), (VC_UNDEFINED, 0x00)]"

definition evdev_scancode_table :: "(uint16_t \<times> uint16_t) list" where
  "evdev_scancode_table = evdev_scancode_table_low @ evdev_scancode_table_high"

definition xfree86_scancode_table_low :: "(uint16_t \<times> uint16_t) list" where
  "xfree86_scancode_table_low = [
     (VC_UNDEFINED, 0), (VC_UNDEFINED, 9), (VC_UNDEFINED, 10), (VC_UNDEFINED, 11),
     (VC_UNDEFINED, 12), (VC_UNDEFINED, 13), (VC_UNDEFINED, 14), (VC_UNDEFINED, 15),
     (VC_UNDEFINED, 16), (VC_ESCAPE, 17), (VC_1, 18), (VC_2, 19),
     (VC_3, 20), (VC_4, 21), (VC_5, 22), (VC_6, 23),
     (VC_7, 24), (VC_8, 25), (VC_9, 26), (VC_0, 27),
     (VC_MINUS, 28), (VC_EQUALS, 29), (VC_BACKSPACE, 30), (VC_TAB, 31),
     (VC_Q, 32), (VC_W, 33), (VC_E, 34), (VC_R, 35),
     (VC_T, 36), (VC_Y, 37), (VC_U, 38), (VC_I, 39),
     (VC_O, 40), (VC_P, 41), (VC_OPEN_BRACKET, 42), (VC_CLOSE_BRACKET, 43),
     (VC_ENTER, 44), (VC_CONTROL_L, 45), (VC_A, 46), (VC_S, 47),
     (VC_D, 48), (VC_F, 49), (VC_G, 50), (VC_H, 51),
     (VC_J, 52), (VC_K, 53), (VC_L, 54), (VC_SEMICOLON, 55),
     (VC_QUOTE, 56), (VC_BACKQUOTE, 57), (VC_SHIFT_L, 58), (VC_BACK_SLASH, 59),
     (VC_Z, 60), (VC_X, 61), (VC_C, 62), (VC_V, 63),
     (VC_B, 64), (VC_N, 65), (VC_M, 66), (VC_COMMA, 67),
     (VC_PERIOD, 68), (VC_SLASH, 69), (VC_SHIFT_R, 70), (VC_KP_MULTIPLY, 71),
     (VC_ALT_L, 72), (VC_SPACE, 73), (VC_CAPS_LOCK, 74), (VC_F1, 75),
     (VC_F2, 76), (VC_F3, 77), (VC_F4, 78), (VC_F5, 79),
     (VC_F6, 80), (VC_F7, 81), (VC_F8, 82), (VC_F9, 83),
     (VC_F10, 84), (VC_NUM_LOCK, 85), (VC_SCROLL_LOCK, 86), (VC_KP_7, 87),
     (VC_KP_8, 88), (VC_KP_9, 89), (VC_KP_SUBTRACT, 90), (VC_KP_4, 91),
     (VC_KP_5, 0), (VC_KP_6, 0), (VC_KP_ADD, 0), (VC_KP_1, 95),
     (VC_KP_2, 96), (VC_KP_3, 0), (VC_KP_0, 0), (VC_KP_SEPARATOR, 118),
     (VC_UNDEFINED, 119), (VC_UNDEFINED, 120), (VC_UNDEFINED, 0), (VC_F11, 0),
     (VC_F12, 0), (VC_HOME, 0), (VC_UP, 0), (VC_PAGE_UP, 121),
     (VC_LEFT, 122), (VC_UNDEFINED, 0), (VC_RIGHT, 0), (VC_END, 0),
     (VC_DOWN, 0), (VC_PAGE_DOWN, 0), (VC_INSERT, 0), (VC_DELETE, 0),
     (VC_KP_ENTER, 0), (VC_CONTROL_R, 0), (VC_PAUSE, 0), (VC_PRINTSCREEN, 0),
     (VC_KP_DIVIDE, 0), (VC_ALT_R, 0), (VC_UNDEFINED, 0), (VC_META_L, 0),
     (VC_META_R, 0), (VC_CONTEXT_MENU, 0), (VC_F13, 0), (VC_F14, 0),
     (VC_F15, 0), (VC_F16, 0), (VC_F17, 0), (VC_UNDEFINED, 0),
     (VC_UNDEFINED, 0), (VC_UNDEFINED, 133), (VC_KP_EQUALS, 0), (VC_UNDEFINED, 0)]"

definition xfree86_scancode_table_high :: "(uint16_t \<times> uint16_t) list" where
  "xfree86_scancode_table_high = [
     (VC_UNDEFINED, 0), (VC_UNDEFINED, 0), (VC_UNDEFINED, 0), (VC_UNDEFINED, 0),
     (VC_UNDEFINED, 0), (VC_YEN, 0), (VC_UNDEFINED, 0), (VC_UNDEFINED, 0),
     (VC_UNDEFINED, 0), (VC_UNDEFINED, 0), (VC_UNDEFINED, 0), (VC_UNDEFINED, 0),
     (VC_UNDEFINED, 0), (VC_UNDEFINED, 126), (VC_UNDEFINED, 0), (VC_UNDEFINED, 0),
     (VC_UNDEFINED, 0), (VC_UNDEFINED, 0), (VC_UNDEFINED, 0), (VC_UNDEFINED, 0),
     (VC_UNDEFINED, 0), (VC_UNDEFINED, 0), (VC_UNDEFINED, 0), (VC_UNDEFINED, 0),
     (VC_UNDEFINED, 0), (VC_UNDEFINED, 0), (VC_UNDEFINED, 0), (VC_UNDEFINED, 0),
     (VC_UNDEFINED, 108), (VC_UNDEFINED, 109), (VC_UNDEFINED, 0), (VC_UNDEFINED, 0),
     (VC_UNDEFINED, 0), (VC_UNDEFINED, 0), (VC_UNDEFINED, 0), (VC_UNDEFINED, 0),
     (VC_UNDEFINED, 0), (VC_UNDEFINED, 0), (VC_UNDEFINED, 0), (VC_UNDEFINED, 0),
     (VC_UNDEFINED, 0), (VC_UNDEFINED, 0), (VC_UNDEFINED, 0), (VC_UNDEFINED, 0),
     (VC_UNDEFINED, 0), (VC_UNDEFINED, 0), (VC_UNDEFINED, 0), (VC_UNDEFINED, 0),
     (VC_UNDEFINED, 0), (VC_UNDEFINED, 0), (VC_UNDEFINED, 0), (VC_UNDEFINED, 0),
     (VC_UNDEFINED, 0), (VC_UNDEFINED, 112), (VC_UNDEFINED, 0), (VC_UNDEFINED, 111),
     (VC_UNDEFINED, 113), (VC_UNDEFINED, 0), (VC_UNDEFINED, 0), (VC_UNDEFINED, 0),
     (VC_UNDEFINED, 0), (VC_UNDEFINED, 0), (VC_UNDEFINED, 0), (VC_UNDEFINED, 0),
     (VC_UNDEFINED, 0), (VC_UNDEFINED, 0), (VC_UNDEFINED, 0), (VC_UNDEFINED, 0),
     (VC_UNDEFINED, 0), (VC_UNDEFINED, 110), (VC_UNDEFINED, 0), (VC_UNDEFINED, 97),
     (VC_UNDEFINED, 98), (VC_UNDEFINED, 99), (VC_UNDEFINED, 0), (VC_UNDEFINED, 100),
     (VC_UNDEFINED, 0), (VC_UNDEFINED, 102), (VC_UNDEFINED, 0), (VC_UNDEFINED, 103),
     (VC_UNDEFINED, 104), (VC_UNDEFINED, 105), (VC_UNDEFINED, 106), (VC_UNDEFINED, 107),
     (VC_UNDEFINED, 0), (VC_UNDEFINED, 0), (VC_UNDEFINED, 0), (VC_UNDEFINED, 0),
     (VC_UNDEFINED, 0), (VC_UNDEFINED, 0), (VC_UNDEFINED, 0), (VC_UNDEFINED, 115),
     (VC_UNDEFINED, 116), (VC_UNDEFINED, 117), (VC_UNDEFINED, 0), (VC_UNDEFINED, 0),
     (VC_UNDEFINED, 0), (VC_UNDEFINED, 0), (VC_UNDEFINED, 0), (VC_UNDEFINED, 0),
     (VC_UNDEFINED, 0), (VC_UNDEFINED, 0), (VC_UNDEFINED, 0), (VC_UNDEFINED, 0),
     (VC_UNDEFINED, 0), (VC_UNDEFINED, 0), (VC_UNDEFINED, 0), (VC_UNDEFINED, 0),
     (VC_UNDEFINED, 0), (VC_UNDEFINED, 0), (VC_UNDEFINED, 0), (VC_UNDEFINED, 0),
     (VC_UNDEFINED, 0), (VC_UNDEFINED, 0), (VC_UNDEFINED, 0), (VC_UNDEFINED, 0),
     (VC_UNDEFINED, 0), (VC_UNDEFINED, 0), (VC_UNDEFINED, 0), (VC_UNDEFINED, 0),
     (VC_UNDEFINED, 0), (VC_UNDEFINED, 0), (VC_UNDEFINED, 0), (VC_UNDEFINED, 0),
     (VC_UNDEFINED, 0), (VC_UNDEFINED, 0), (VC_UNDEFINED, 0), (VC_UNDEFINED, 0)]"

definition xfree86_scancode_table :: "(uint16_t \<times> uint16_t) list" where
  "xfree86_scancode_table = xfree86_scancode_table_low @ xfree86_scancode_table_high"

end
