(* ===== verification/X11_Keysym_Table.thy ===== *)
theory X11_Keysym_Table
  imports Uiohook_Events
begin

text \<open>
  The table \<^verbatim>\<open>keysym_unicode_table\<close> of \<^verbatim>\<open>src/x11/input_helper.c\<close>, cut where the high byte of
  the keysym (the keysym page: Latin 2, Latin 3, Katakana and so on) changes. A row is a
  \<^verbatim>\<open>struct codepair\<close>.
\<close>

record codepair =
  cp_keysym :: uint16_t
  cp_unicode :: uint16_t

definition pair :: "uint16_t \<Rightarrow> uint16_t \<Rightarrow> codepair" where
  "pair k u = \<lparr>cp_keysym = k, cp_unicode = u\<rparr>"

lemma pair_simps [simp]: "cp_keysym (pair k u) = k" "cp_unicode (pair k u) = u"
  by (simp_all add: pair_def)

definition keysym_page_01 :: "codepair list" where
  "keysym_page_01 = [
     pair 0x01A1 0x0104, pair 0x01A2 0x02D8, pair 0x01A3 0x0141, pair 0x01A5 0x013D,
     pair 0x01A6 0x015A, pair 0x01A9 0x0160, pair 0x01AA 0x015E, pair 0x01AB 0x0164,
     pair 0x01AC 0x0179, pair 0x01AE 0x017D, pair 0x01AF 0x017B, pair 0x01B1 0x0105,
     pair 0x01B2 0x02DB, pair 0x01B3 0x0142, pair 0x01B5 0x013E, pair 0x01B6 0x015B,
     pair 0x01B7 0x02C7, pair 0x01B9 0x0161, pair 0x01BA 0x015F, pair 0x01BB 0x0165,
     pair 0x01BC 0x017A, pair 0x01BD 0x02DD, pair 0x01BE 0x017E, pair 0x01BF 0x017C,
     pair 0x01C0 0x0154, pair 0x01C3 0x0102, pair 0x01C5 0x0139, pair 0x01C6 0x0106,
     pair 0x01C8 0x010C, pair 0x01CA 0x0118, pair 0x01CC 0x011A, pair 0x01CF 0x010E,
     pair 0x01D0 0x0110, pair 0x01D1 0x0143, pair 0x01D2 0x0147, pair 0x01D5 0x0150,
     pair 0x01D8 0x0158, pair 0x01D9 0x016E, pair 0x01DB 0x0170, pair 0x01DE 0x0162,
     pair 0x01E0 0x0155, pair 0x01E3 0x0103, pair 0x01E5 0x013A, pair 0x01E6 0x0107,
     pair 0x01E8 0x010D, pair 0x01EA 0x0119, pair 0x01EC 0x011B, pair 0x01EF 0x010F,
     pair 0x01F0 0x0111, pair 0x01F1 0x0144, pair 0x01F2 0x0148, pair 0x01F5 0x0151,
     pair 0x01F8 0x0159, pair 0x01F9 0x016F, pair 0x01FB 0x0171, pair 0x01FE 0x0163,
     pair 0x01FF 0x02D9]"

definition keysym_page_02 :: "codepair list" where
  "keysym_page_02 = [
     pair 0x02A1 0x0126, pair 0x02A6 0x0124, pair 0x02A9 0x0130, pair 0x02AB 0x011E,
     pair 0x02AC 0x0134, pair 0x02B1 0x0127, pair 0x02B6 0x0125, pair 0x02B9 0x0131,
     pair 0x02BB 0x011F, pair 0x02BC 0x0135, pair 0x02C5 0x010A, pair 0x02C6 0x0108,
     pair 0x02D5 0x0120, pair 0x02D8 0x011C, pair 0x02DD 0x016C, pair 0x02DE 0x015C,
     pair 0x02E5 0x010B, pair 0x02E6 0x0109, pair 0x02F5 0x0121, pair 0x02F8 0x011D,
     pair 0x02FD 0x016D, pair 0x02FE 0x015D]"

definition keysym_page_03 :: "codepair list" where
  "keysym_page_03 = [
     pair 0x03A2 0x0138, pair 0x03A3 0x0156, pair 0x03A5 0x0128, pair 0x03A6 0x013B,
     pair 0x03AA 0x0112, pair 0x03AB 0x0122, pair 0x03AC 0x0166, pair 0x03B3 0x0157,
     pair 0x03B5 0x0129, pair 0x03B6 0x013C, pair 0x03BA 0x0113, pair 0x03BB 0x0123,
     pair 0x03BC 0x0167, pair 0x03BD 0x014A, pair 0x03BF 0x014B, pair 0x03C0 0x0100,
     pair 0x03C7 0x012E, pair 0x03CC 0x0116, pair 0x03CF 0x012A, pair 0x03D1 0x0145,
     pair 0x03D2 0x014C, pair 0x03D3 0x0136, pair 0x03D9 0x0172, pair 0x03DD 0x0168,
     pair 0x03DE 0x016A, pair 0x03E0 0x0101, pair 0x03E7 0x012F, pair 0x03EC 0x0117,
     pair 0x03EF 0x012B, pair 0x03F1 0x0146, pair 0x03F2 0x014D, pair 0x03F3 0x0137,
     pair 0x03F9 0x0173, pair 0x03FD 0x0169, pair 0x03FE 0x016B]"

definition keysym_page_04 :: "codepair list" where
  "keysym_page_04 = [
     pair 0x047E 0x203E, pair 0x04A1 0x3002, pair 0x04A2 0x300C, pair 0x04A3 0x300D,
     pair 0x04A4 0x3001, pair 0x04A5 0x30FB, pair 0x04A6 0x30F2, pair 0x04A7 0x30A1,
     pair 0x04A8 0x30A3, pair 0x04A9 0x30A5, pair 0x04AA 0x30A7, pair 0x04AB 0x30A9,
     pair 0x04AC 0x30E3, pair 0x04AD 0x30E5, pair 0x04AE 0x30E7, pair 0x04AF 0x30C3,
     pair 0x04B0 0x30FC, pair 0x04B1 0x30A2, pair 0x04B2 0x30A4, pair 0x04B3 0x30A6,
     pair 0x04B4 0x30A8, pair 0x04B5 0x30AA, pair 0x04B6 0x30AB, pair 0x04B7 0x30AD,
     pair 0x04B8 0x30AF, pair 0x04B9 0x30B1, pair 0x04BA 0x30B3, pair 0x04BB 0x30B5,
     pair 0x04BC 0x30B7, pair 0x04BD 0x30B9, pair 0x04BE 0x30BB, pair 0x04BF 0x30BD,
     pair 0x04C0 0x30BF, pair 0x04C1 0x30C1, pair 0x04C2 0x30C4, pair 0x04C3 0x30C6,
     pair 0x04C4 0x30C8, pair 0x04C5 0x30CA, pair 0x04C6 0x30CB, pair 0x04C7 0x30CC,
     pair 0x04C8 0x30CD, pair 0x04C9 0x30CE, pair 0x04CA 0x30CF, pair 0x04CB 0x30D2,
     pair 0x04CC 0x30D5, pair 0x04CD 0x30D8, pair 0x04CE 0x30DB, pair 0x04CF 0x30DE,
     pair 0x04D0 0x30DF, pair 0x04D1 0x30E0, pair 0x04D2 0x30E1, pair 0x04D3 0x30E2,
     pair 0x04D4 0x30E4, pair 0x04D5 0x30E6, pair 0x04D6 0x30E8, pair 0x04D7 0x30E9,
     pair 0x04D8 0x30EA, pair 0x04D9 0x30EB, pair 0x04DA 0x30EC, pair 0x04DB 0x30ED,
     pair 0x04DC 0x30EF, pair 0x04DD 0x30F3, pair 0x04DE 0x309B, pair 0x04DF 0x309C]"

definition keysym_page_05 :: "codepair list" where
  "keysym_page_05 = [
     pair 0x05AC 0x060C, pair 0x05BB 0x061B, pair 0x05BF 0x061F, pair 0x05C1 0x0621,
     pair 0x05C2 0x0622, pair 0x05C3 0x0623, pair 0x05C4 0x0624, pair 0x05C5 0x0625,
     pair 0x05C6 0x0626, pair 0x05C7 0x0627, pair 0x05C8 0x0628, pair 0x05C9 0x0629,
     pair 0x05CA 0x062A, pair 0x05CB 0x062B, pair 0x05CC 0x062C, pair 0x05CD 0x062D,
     pair 0x05CE 0x062E, pair 0x05CF 0x062F, pair 0x05D0 0x0630, pair 0x05D1 0x0631,
     pair 0x05D2 0x0632, pair 0x05D3 0x0633, pair 0x05D4 0x0634, pair 0x05D5 0x0635,
     pair 0x05D6 0x0636, pair 0x05D7 0x0637, pair 0x05D8 0x0638, pair 0x05D9 0x0639,
     pair 0x05DA 0x063A, pair 0x05E0 0x0640, pair 0x05E1 0x0641, pair 0x05E2 0x0642,
     pair 0x05E3 0x0643, pair 0x05E4 0x0644, pair 0x05E5 0x0645, pair 0x05E6 0x0646,
     pair 0x05E7 0x0647, pair 0x05E8 0x0648, pair 0x05E9 0x0649, pair 0x05EA 0x064A,
     pair 0x05EB 0x064B, pair 0x05EC 0x064C, pair 0x05ED 0x064D, pair 0x05EE 0x064E,
     pair 0x05EF 0x064F, pair 0x05F0 0x0650, pair 0x05F1 0x0651, pair 0x05F2 0x0652]"

definition keysym_page_06 :: "codepair list" where
  "keysym_page_06 = [
     pair 0x06A1 0x0452, pair 0x06A2 0x0453, pair 0x06A3 0x0451, pair 0x06A4 0x0454,
     pair 0x06A5 0x0455, pair 0x06A6 0x0456, pair 0x06A7 0x0457, pair 0x06A8 0x0458,
     pair 0x06A9 0x0459, pair 0x06AA 0x045A, pair 0x06AB 0x045B, pair 0x06AC 0x045C,
     pair 0x06AE 0x045E, pair 0x06AF 0x045F, pair 0x06B0 0x2116, pair 0x06B1 0x0402,
     pair 0x06B2 0x0403, pair 0x06B3 0x0401, pair 0x06B4 0x0404, pair 0x06B5 0x0405,
     pair 0x06B6 0x0406, pair 0x06B7 0x0407, pair 0x06B8 0x0408, pair 0x06B9 0x0409,
     pair 0x06BA 0x040A, pair 0x06BB 0x040B, pair 0x06BC 0x040C, pair 0x06BE 0x040E,
     pair 0x06BF 0x040F, pair 0x06C0 0x044E, pair 0x06C1 0x0430, pair 0x06C2 0x0431,
     pair 0x06C3 0x0446, pair 0x06C4 0x0434, pair 0x06C5 0x0435, pair 0x06C6 0x0444,
     pair 0x06C7 0x0433, pair 0x06C8 0x0445, pair 0x06C9 0x0438, pair 0x06CA 0x0439,
     pair 0x06CB 0x043A, pair 0x06CC 0x043B, pair 0x06CD 0x043C, pair 0x06CE 0x043D,
     pair 0x06CF 0x043E, pair 0x06D0 0x043F, pair 0x06D1 0x044F, pair 0x06D2 0x0440,
     pair 0x06D3 0x0441, pair 0x06D4 0x0442, pair 0x06D5 0x0443, pair 0x06D6 0x0436,
     pair 0x06D7 0x0432, pair 0x06D8 0x044C, pair 0x06D9 0x044B, pair 0x06DA 0x0437,
     pair 0x06DB 0x0448, pair 0x06DC 0x044D, pair 0x06DD 0x0449, pair 0x06DE 0x0447,
     pair 0x06DF 0x044A, pair 0x06E0 0x042E, pair 0x06E1 0x0410, pair 0x06E2 0x0411,
     pair 0x06E3 0x0426, pair 0x06E4 0x0414, pair 0x06E5 0x0415, pair 0x06E6 0x0424,
     pair 0x06E7 0x0413, pair 0x06E8 0x0425, pair 0x06E9 0x0418, pair 0x06EA 0x0419,
     pair 0x06EB 0x041A, pair 0x06EC 0x041B, pair 0x06ED 0x041C, pair 0x06EE 0x041D,
     pair 0x06EF 0x041E, pair 0x06F0 0x041F, pair 0x06F1 0x042F, pair 0x06F2 0x0420,
     pair 0x06F3 0x0421, pair 0x06F4 0x0422, pair 0x06F5 0x0423, pair 0x06F6 0x0416,
     pair 0x06F7 0x0412, pair 0x06F8 0x042C, pair 0x06F9 0x042B, pair 0x06FA 0x0417,
     pair 0x06FB 0x0428, pair 0x06FC 0x042D, pair 0x06FD 0x0429, pair 0x06FE 0x0427,
     pair 0x06FF 0x042A]"

definition keysym_page_07 :: "codepair list" where
  "keysym_page_07 = [
     pair 0x07A1 0x0386, pair 0x07A2 0x0388, pair 0x07A3 0x0389, pair 0x07A4 0x038A,
     pair 0x07A5 0x03AA, pair 0x07A7 0x038C, pair 0x07A8 0x038E, pair 0x07A9 0x03AB,
     pair 0x07AB 0x038F, pair 0x07AE 0x0385, pair 0x07AF 0x2015, pair 0x07B1 0x03AC,
     pair 0x07B2 0x03AD, pair 0x07B3 0x03AE, pair 0x07B4 0x03AF, pair 0x07B5 0x03CA,
     pair 0x07B6 0x0390, pair 0x07B7 0x03CC, pair 0x07B8 0x03CD, pair 0x07B9 0x03CB,
     pair 0x07BA 0x03B0, pair 0x07BB 0x03CE, pair 0x07C1 0x0391, pair 0x07C2 0x0392,
     pair 0x07C3 0x0393, pair 0x07C4 0x0394, pair 0x07C5 0x0395, pair 0x07C6 0x0396,
     pair 0x07C7 0x0397, pair 0x07C8 0x0398, pair 0x07C9 0x0399, pair 0x07CA 0x039A,
     pair 0x07CB 0x039B, pair 0x07CC 0x039C, pair 0x07CD 0x039D, pair 0x07CE 0x039E,
     pair 0x07CF 0x039F, pair 0x07D0 0x03A0, pair 0x07D1 0x03A1, pair 0x07D2 0x03A3,
     pair 0x07D4 0x03A4, pair 0x07D5 0x03A5, pair 0x07D6 0x03A6, pair 0x07D7 0x03A7,
     pair 0x07D8 0x03A8, pair 0x07D9 0x03A9, pair 0x07E1 0x03B1, pair 0x07E2 0x03B2,
     pair 0x07E3 0x03B3, pair 0x07E4 0x03B4, pair 0x07E5 0x03B5, pair 0x07E6 0x03B6,
     pair 0x07E7 0x03B7, pair 0x07E8 0x03B8, pair 0x07E9 0x03B9, pair 0x07EA 0x03BA,
     pair 0x07EB 0x03BB, pair 0x07EC 0x03BC, pair 0x07ED 0x03BD, pair 0x07EE 0x03BE,
     pair 0x07EF 0x03BF, pair 0x07F0 0x03C0, pair 0x07F1 0x03C1, pair 0x07F2 0x03C3,
     pair 0x07F3 0x03C2, pair 0x07F4 0x03C4, pair 0x07F5 0x03C5, pair 0x07F6 0x03C6,
     pair 0x07F7 0x03C7, pair 0x07F8 0x03C8, pair 0x07F9 0x03C9]"

definition keysym_page_08 :: "codepair list" where
  "keysym_page_08 = [
     pair 0x08A1 0x23B7, pair 0x08A2 0x250C, pair 0x08A3 0x2500, pair 0x08A4 0x2320,
     pair 0x08A5 0x2321, pair 0x08A6 0x2502, pair 0x08A7 0x23A1, pair 0x08A8 0x23A3,
     pair 0x08A9 0x23A4, pair 0x08AA 0x23A6, pair 0x08AB 0x239B, pair 0x08AC 0x239D,
     pair 0x08AD 0x239E, pair 0x08AE 0x23A0, pair 0x08AF 0x23A8, pair 0x08B0 0x23AC,
     pair 0x08BC 0x2264, pair 0x08BD 0x2260, pair 0x08BE 0x2265, pair 0x08BF 0x222B,
     pair 0x08C0 0x2234, pair 0x08C1 0x221D, pair 0x08C2 0x221E, pair 0x08C5 0x2207,
     pair 0x08C8 0x223C, pair 0x08C9 0x2243, pair 0x08CD 0x21D4, pair 0x08CE 0x21D2,
     pair 0x08CF 0x2261, pair 0x08D6 0x221A, pair 0x08DA 0x2282, pair 0x08DB 0x2283,
     pair 0x08DC 0x2229, pair 0x08DD 0x222A, pair 0x08DE 0x2227, pair 0x08DF 0x2228,
     pair 0x08EF 0x2202, pair 0x08F6 0x0192, pair 0x08FB 0x2190, pair 0x08FC 0x2191,
     pair 0x08FD 0x2192, pair 0x08FE 0x2193]"

definition keysym_page_09 :: "codepair list" where
  "keysym_page_09 = [
     pair 0x09E0 0x25C6, pair 0x09E1 0x2592, pair 0x09E2 0x2409, pair 0x09E3 0x240C,
     pair 0x09E4 0x240D, pair 0x09E5 0x240A, pair 0x09E8 0x2424, pair 0x09E9 0x240B,
     pair 0x09EA 0x2518, pair 0x09EB 0x2510, pair 0x09EC 0x250C, pair 0x09ED 0x2514,
     pair 0x09EE 0x253C, pair 0x09EF 0x23BA, pair 0x09F0 0x23BB, pair 0x09F1 0x2500,
     pair 0x09F2 0x23BC, pair 0x09F3 0x23BD, pair 0x09F4 0x251C, pair 0x09F5 0x2524,
     pair 0x09F6 0x2534, pair 0x09F7 0x252C, pair 0x09F8 0x2502]"

definition keysym_page_0A :: "codepair list" where
  "keysym_page_0A = [
     pair 0x0AA1 0x2003, pair 0x0AA2 0x2002, pair 0x0AA3 0x2004, pair 0x0AA4 0x2005,
     pair 0x0AA5 0x2007, pair 0x0AA6 0x2008, pair 0x0AA7 0x2009, pair 0x0AA8 0x200A,
     pair 0x0AA9 0x2014, pair 0x0AAA 0x2013, pair 0x0AAE 0x2026, pair 0x0AAF 0x2025,
     pair 0x0AB0 0x2153, pair 0x0AB1 0x2154, pair 0x0AB2 0x2155, pair 0x0AB3 0x2156,
     pair 0x0AB4 0x2157, pair 0x0AB5 0x2158, pair 0x0AB6 0x2159, pair 0x0AB7 0x215A,
     pair 0x0AB8 0x2105, pair 0x0ABB 0x2012, pair 0x0ABC 0x2329, pair 0x0ABE 0x232A,
     pair 0x0AC3 0x215B, pair 0x0AC4 0x215C, pair 0x0AC5 0x215D, pair 0x0AC6 0x215E,
     pair 0x0AC9 0x2122, pair 0x0ACA 0x2613, pair 0x0ACC 0x25C1, pair 0x0ACD 0x25B7,
     pair 0x0ACE 0x25CB, pair 0x0ACF 0x25AF, pair 0x0AD0 0x2018, pair 0x0AD1 0x2019,
     pair 0x0AD2 0x201C, pair 0x0AD3 0x201D, pair 0x0AD4 0x211E, pair 0x0AD6 0x2032,
     pair 0x0AD7 0x2033, pair 0x0AD9 0x271D, pair 0x0ADB 0x25AC, pair 0x0ADC 0x25C0,
     pair 0x0ADD 0x25B6, pair 0x0ADE 0x25CF, pair 0x0ADF 0x25AE, pair 0x0AE0 0x25E6,
     pair 0x0AE1 0x25AB, pair 0x0AE2 0x25AD, pair 0x0AE3 0x25B3, pair 0x0AE4 0x25BD,
     pair 0x0AE5 0x2606, pair 0x0AE6 0x2022, pair 0x0AE7 0x25AA, pair 0x0AE8 0x25B2,
     pair 0x0AE9 0x25BC, pair 0x0AEA 0x261C, pair 0x0AEB 0x261E, pair 0x0AEC 0x2663,
     pair 0x0AED 0x2666, pair 0x0AEE 0x2665, pair 0x0AF0 0x2720, pair 0x0AF1 0x2020,
     pair 0x0AF2 0x2021, pair 0x0AF3 0x2713, pair 0x0AF4 0x2717, pair 0x0AF5 0x266F,
     pair 0x0AF6 0x266D, pair 0x0AF7 0x2642, pair 0x0AF8 0x2640, pair 0x0AF9 0x260E,
     pair 0x0AFA 0x2315, pair 0x0AFB 0x2117, pair 0x0AFC 0x2038, pair 0x0AFD 0x201A,
     pair 0x0AFE 0x201E]"

definition keysym_page_0B :: "codepair list" where
  "keysym_page_0B = [
     pair 0x0BA3 0x003C, pair 0x0BA6 0x003E, pair 0x0BA8 0x2228, pair 0x0BA9 0x2227,
     pair 0x0BC0 0x00AF, pair 0x0BC2 0x22A5, pair 0x0BC3 0x2229, pair 0x0BC4 0x230A,
     pair 0x0BC6 0x005F, pair 0x0BCA 0x2218, pair 0x0BCC 0x2395, pair 0x0BCE 0x22A4,
     pair 0x0BCF 0x25CB, pair 0x0BD3 0x2308, pair 0x0BD6 0x222A, pair 0x0BD8 0x2283,
     pair 0x0BDA 0x2282, pair 0x0BDC 0x22A2, pair 0x0BFC 0x22A3]"

definition keysym_page_0C :: "codepair list" where
  "keysym_page_0C = [
     pair 0x0CDF 0x2017, pair 0x0CE0 0x05D0, pair 0x0CE1 0x05D1, pair 0x0CE2 0x05D2,
     pair 0x0CE3 0x05D3, pair 0x0CE4 0x05D4, pair 0x0CE5 0x05D5, pair 0x0CE6 0x05D6,
     pair 0x0CE7 0x05D7, pair 0x0CE8 0x05D8, pair 0x0CE9 0x05D9, pair 0x0CEA 0x05DA,
     pair 0x0CEB 0x05DB, pair 0x0CEC 0x05DC, pair 0x0CED 0x05DD, pair 0x0CEE 0x05DE,
     pair 0x0CEF 0x05DF, pair 0x0CF0 0x05E0, pair 0x0CF1 0x05E1, pair 0x0CF2 0x05E2,
     pair 0x0CF3 0x05E3, pair 0x0CF4 0x05E4, pair 0x0CF5 0x05E5, pair 0x0CF6 0x05E6,
     pair 0x0CF7 0x05E7, pair 0x0CF8 0x05E8, pair 0x0CF9 0x05E9, pair 0x0CFA 0x05EA]"

definition keysym_page_0D :: "codepair list" where
  "keysym_page_0D = [
     pair 0x0DA1 0x0E01, pair 0x0DA2 0x0E02, pair 0x0DA3 0x0E03, pair 0x0DA4 0x0E04,
     pair 0x0DA5 0x0E05, pair 0x0DA6 0x0E06, pair 0x0DA7 0x0E07, pair 0x0DA8 0x0E08,
     pair 0x0DA9 0x0E09, pair 0x0DAA 0x0E0A, pair 0x0DAB 0x0E0B, pair 0x0DAC 0x0E0C,
     pair 0x0DAD 0x0E0D, pair 0x0DAE 0x0E0E, pair 0x0DAF 0x0E0F, pair 0x0DB0 0x0E10,
     pair 0x0DB1 0x0E11, pair 0x0DB2 0x0E12, pair 0x0DB3 0x0E13, pair 0x0DB4 0x0E14,
     pair 0x0DB5 0x0E15, pair 0x0DB6 0x0E16, pair 0x0DB7 0x0E17, pair 0x0DB8 0x0E18,
     pair 0x0DB9 0x0E19, pair 0x0DBA 0x0E1A, pair 0x0DBB 0x0E1B, pair 0x0DBC 0x0E1C,
     pair 0x0DBD 0x0E1D, pair 0x0DBE 0x0E1E, pair 0x0DBF 0x0E1F, pair 0x0DC0 0x0E20,
     pair 0x0DC1 0x0E21, pair 0x0DC2 0x0E22, pair 0x0DC3 0x0E23, pair 0x0DC4 0x0E24,
     pair 0x0DC5 0x0E25, pair 0x0DC6 0x0E26, pair 0x0DC7 0x0E27, pair 0x0DC8 0x0E28,
     pair 0x0DC9 0x0E29, pair 0x0DCA 0x0E2A, pair 0x0DCB 0x0E2B, pair 0x0DCC 0x0E2C,
     pair 0x0DCD 0x0E2D, pair 0x0DCE 0x0E2E, pair 0x0DCF 0x0E2F, pair 0x0DD0 0x0E30,
     pair 0x0DD1 0x0E31, pair 0x0DD2 0x0E32, pair 0x0DD3 0x0E33, pair 0x0DD4 0x0E34,
     pair 0x0DD5 0x0E35, pair 0x0DD6 0x0E36, pair 0x0DD7 0x0E37, pair 0x0DD8 0x0E38,
     pair 0x0DD9 0x0E39, pair 0x0DDA 0x0E3A, pair 0x0DDF 0x0E3F, pair 0x0DE0 0x0E40,
     pair 0x0DE1 0x0E41, pair 0x0DE2 0x0E42, pair 0x0DE3 0x0E43, pair 0x0DE4 0x0E44,
     pair 0x0DE5 0x0E45, pair 0x0DE6 0x0E46, pair 0x0DE7 0x0E47, pair 0x0DE8 0x0E48,
     pair 0x0DE9 0x0E49, pair 0x0DEA 0x0E4A, pair 0x0DEB 0x0E4B, pair 0x0DEC 0x0E4C,
     pair 0x0DED 0x0E4D, pair 0x0DF0 0x0E50, pair 0x0DF1 0x0E51, pair 0x0DF2 0x0E52,
     pair 0x0DF3 0x0E53, pair 0x0DF4 0x0E54, pair 0x0DF5 0x0E55, pair 0x0DF6 0x0E56,
     pair 0x0DF7 0x0E57, pair 0x0DF8 0x0E58, pair 0x0DF9 0x0E59]"

definition keysym_page_0E :: "codepair list" where
  "keysym_page_0E = [
     pair 0x0EA1 0x3131, pair 0x0EA2 0x3132, pair 0x0EA3 0x3133, pair 0x0EA4 0x3134,
     pair 0x0EA5 0x3135, pair 0x0EA6 0x3136, pair 0x0EA7 0x3137, pair 0x0EA8 0x3138,
     pair 0x0EA9 0x3139, pair 0x0EAA 0x313A, pair 0x0EAB 0x313B, pair 0x0EAC 0x313C,
     pair 0x0EAD 0x313D, pair 0x0EAE 0x313E, pair 0x0EAF 0x313F, pair 0x0EB0 0x3140,
     pair 0x0EB1 0x3141, pair 0x0EB2 0x3142, pair 0x0EB3 0x3143, pair 0x0EB4 0x3144,
     pair 0x0EB5 0x3145, pair 0x0EB6 0x3146, pair 0x0EB7 0x3147, pair 0x0EB8 0x3148,
     pair 0x0EB9 0x3149, pair 0x0EBA 0x314A, pair 0x0EBB 0x314B, pair 0x0EBC 0x314C,
     pair 0x0EBD 0x314D, pair 0x0EBE 0x314E, pair 0x0EBF 0x314F, pair 0x0EC0 0x3150,
     pair 0x0EC1 0x3151, pair 0x0EC2 0x3152, pair 0x0EC3 0x3153, pair 0x0EC4 0x3154,
     pair 0x0EC5 0x3155, pair 0x0EC6 0x3156, pair 0x0EC7 0x3157, pair 0x0EC8 0x3158,
     pair 0x0EC9 0x3159, pair 0x0ECA 0x315A, pair 0x0ECB 0x315B, pair 0x0ECC 0x315C,
     pair 0x0ECD 0x315D, pair 0x0ECE 0x315E, pair 0x0ECF 0x315F, pair 0x0ED0 0x3160,
     pair 0x0ED1 0x3161, pair 0x0ED2 0x3162, pair 0x0ED3 0x3163, pair 0x0ED4 0x11A8,
     pair 0x0ED5 0x11A9, pair 0x0ED6 0x11AA, pair 0x0ED7 0x11AB, pair 0x0ED8 0x11AC,
     pair 0x0ED9 0x11AD, pair 0x0EDA 0x11AE, pair 0x0EDB 0x11AF, pair 0x0EDC 0x11B0,
     pair 0x0EDD 0x11B1, pair 0x0EDE 0x11B2, pair 0x0EDF 0x11B3, pair 0x0EE0 0x11B4,
     pair 0x0EE1 0x11B5, pair 0x0EE2 0x11B6, pair 0x0EE3 0x11B7, pair 0x0EE4 0x11B8,
     pair 0x0EE5 0x11B9, pair 0x0EE6 0x11BA, pair 0x0EE7 0x11BB, pair 0x0EE8 0x11BC,
     pair 0x0EE9 0x11BD, pair 0x0EEA 0x11BE, pair 0x0EEB 0x11BF, pair 0x0EEC 0x11C0,
     pair 0x0EED 0x11C1, pair 0x0EEE 0x11C2, pair 0x0EEF 0x316D, pair 0x0EF0 0x3171,
     pair 0x0EF1 0x3178, pair 0x0EF2 0x317F, pair 0x0EF3 0x3181, pair 0x0EF4 0x3184,
     pair 0x0EF5 0x3186, pair 0x0EF6 0x318D, pair 0x0EF7 0x318E, pair 0x0EF8 0x11EB,
     pair 0x0EF9 0x11F0, pair 0x0EFA 0x11F9, pair 0x0EFF 0x20A9]"

definition keysym_page_13 :: "codepair list" where
  "keysym_page_13 = [
     pair 0x13A4 0x20AC, pair 0x13BC 0x0152, pair 0x13BD 0x0153, pair 0x13BE 0x0178,
     pair 0x20AC 0x20AC]"

definition keysym_unicode_table :: "codepair list" where
  "keysym_unicode_table =
     keysym_page_01
     @ keysym_page_02
     @ keysym_page_03
     @ keysym_page_04
     @ keysym_page_05
     @ keysym_page_06
     @ keysym_page_07
     @ keysym_page_08
     @ keysym_page_09
     @ keysym_page_0A
     @ keysym_page_0B
     @ keysym_page_0C
     @ keysym_page_0D
     @ keysym_page_0E
     @ keysym_page_13"

section \<open>The order of the table\<close>

text \<open>
  The comment above the table asks that it stays sorted by keysym, which the bisection of
  \<^verbatim>\<open>keysym_to_unicode\<close> relies on. \<open>ascending\<close> compares neighbours only, so it is checked in one
  pass over the rows.
\<close>

fun ascending :: "codepair list \<Rightarrow> bool" where
  "ascending (a # b # es) \<longleftrightarrow> cp_keysym a < cp_keysym b \<and> ascending (b # es)"
| "ascending _ \<longleftrightarrow> True"

lemma ascending_sorted: "ascending es \<Longrightarrow> sorted_wrt (<) (map cp_keysym es)"
proof (induction es rule: ascending.induct)
  case (1 a b es)
  then have sorted: "sorted_wrt (<) (map cp_keysym (b # es))" and less: "cp_keysym a < cp_keysym b"
    by simp_all
  then have "cp_keysym a < k" if "k \<in> set (map cp_keysym (b # es))" for k
    using that by (auto intro: order.strict_trans)
  with sorted show ?case by auto
qed simp_all

definition page_ok :: "uint16_t \<Rightarrow> uint16_t \<Rightarrow> codepair list \<Rightarrow> bool" where
  "page_ok lo hi es \<longleftrightarrow> ascending es \<and> list_all (\<lambda>e. lo \<le> cp_keysym e \<and> cp_keysym e \<le> hi) es"

lemma ascending_append:
  assumes "ascending xs" and "ascending ys"
    and "\<And>x y. x \<in> set xs \<Longrightarrow> y \<in> set ys \<Longrightarrow> cp_keysym x < cp_keysym y"
  shows "ascending (xs @ ys)"
  using assms
proof (induction xs rule: induct_list012)
  case (2 v)
  then show ?case by (cases ys) simp_all
qed simp_all

lemma page_ok_append:
  assumes "page_ok lo m xs" and "page_ok m' hi ys" and "m < m'" and "lo \<le> m'" and "m \<le> hi"
  shows "page_ok lo hi (xs @ ys)"
proof -
  have "cp_keysym x < cp_keysym y" if "x \<in> set xs" "y \<in> set ys" for x y
  proof -
    have "cp_keysym x \<le> m" "m' \<le> cp_keysym y"
      using assms(1,2) that by (auto simp: page_ok_def list_all_iff)
    with \<open>m < m'\<close> show ?thesis by (meson order.strict_trans1 order.strict_trans2)
  qed
  with assms have "ascending (xs @ ys)"
    by (intro ascending_append) (auto simp: page_ok_def)
  with assms show ?thesis
    by (auto simp: page_ok_def list_all_iff intro: order_trans)
qed

lemma page_ok_01: "page_ok 0x01A1 0x01FF keysym_page_01"
  by (simp add: page_ok_def keysym_page_01_def)

lemma page_ok_02: "page_ok 0x02A1 0x02FE keysym_page_02"
  by (simp add: page_ok_def keysym_page_02_def)

lemma page_ok_03: "page_ok 0x03A2 0x03FE keysym_page_03"
  by (simp add: page_ok_def keysym_page_03_def)

lemma page_ok_04: "page_ok 0x047E 0x04DF keysym_page_04"
  by (simp add: page_ok_def keysym_page_04_def)

lemma page_ok_05: "page_ok 0x05AC 0x05F2 keysym_page_05"
  by (simp add: page_ok_def keysym_page_05_def)

lemma page_ok_06: "page_ok 0x06A1 0x06FF keysym_page_06"
  by (simp add: page_ok_def keysym_page_06_def)

lemma page_ok_07: "page_ok 0x07A1 0x07F9 keysym_page_07"
  by (simp add: page_ok_def keysym_page_07_def)

lemma page_ok_08: "page_ok 0x08A1 0x08FE keysym_page_08"
  by (simp add: page_ok_def keysym_page_08_def)

lemma page_ok_09: "page_ok 0x09E0 0x09F8 keysym_page_09"
  by (simp add: page_ok_def keysym_page_09_def)

lemma page_ok_0A: "page_ok 0x0AA1 0x0AFE keysym_page_0A"
  by (simp add: page_ok_def keysym_page_0A_def)

lemma page_ok_0B: "page_ok 0x0BA3 0x0BFC keysym_page_0B"
  by (simp add: page_ok_def keysym_page_0B_def)

lemma page_ok_0C: "page_ok 0x0CDF 0x0CFA keysym_page_0C"
  by (simp add: page_ok_def keysym_page_0C_def)

lemma page_ok_0D: "page_ok 0x0DA1 0x0DF9 keysym_page_0D"
  by (simp add: page_ok_def keysym_page_0D_def)

lemma page_ok_0E: "page_ok 0x0EA1 0x0EFF keysym_page_0E"
  by (simp add: page_ok_def keysym_page_0E_def)

lemma page_ok_13: "page_ok 0x13A4 0x20AC keysym_page_13"
  by (simp add: page_ok_def keysym_page_13_def)


lemma keysym_unicode_table_ok: "page_ok 0x01A1 0x20AC keysym_unicode_table"
  unfolding keysym_unicode_table_def
  by (rule page_ok_append [OF page_ok_01
    page_ok_append [OF page_ok_02
    page_ok_append [OF page_ok_03
    page_ok_append [OF page_ok_04
    page_ok_append [OF page_ok_05
    page_ok_append [OF page_ok_06
    page_ok_append [OF page_ok_07
    page_ok_append [OF page_ok_08
    page_ok_append [OF page_ok_09
    page_ok_append [OF page_ok_0A
    page_ok_append [OF page_ok_0B
    page_ok_append [OF page_ok_0C
    page_ok_append [OF page_ok_0D
    page_ok_append [OF page_ok_0E
    page_ok_13]]]]]]]]]]]]]]) simp_all

lemma keysym_unicode_table_sorted: "sorted_wrt (<) (map cp_keysym keysym_unicode_table)"
  using keysym_unicode_table_ok by (simp add: page_ok_def ascending_sorted)

lemma keysym_unicode_table_range:
  "e \<in> set keysym_unicode_table \<Longrightarrow> 0x01A1 \<le> cp_keysym e \<and> cp_keysym e \<le> 0x20AC"
  using keysym_unicode_table_ok by (auto simp: page_ok_def list_all_iff)

end
