(* ===== verification/X11_Input_Helper.thy ===== *)
theory X11_Input_Helper
  imports X11_Keycode_Tables X11_Keysym_Table
begin

text \<open>
  \<^verbatim>\<open>src/x11/input_helper.c\<close>: conversions between X key codes, virtual key codes, keysyms and
  UTF-16, the button map, and loading and unloading the helper. Buffers that the code fills
  are returned as the list of the elements written; the count the code returns is the length.
  A build without \<^verbatim>\<open>USE_EVDEV\<close> is one in which \<open>is_evdev\<close> is never set. The Latin-1 and the
  24-bit branches are compiled in, since \<^verbatim>\<open>X11/keysym.h\<close> defines the symbols they test.
\<close>

type_synonym KeySym = "64 word"
type_synonym KeyCode = "8 word"

section \<open>Unicode and keysyms\<close>

definition is_latin1 :: "'a::len word \<Rightarrow> bool" where
  "is_latin1 c \<longleftrightarrow> (c \<ge> 0x0020 \<and> c \<le> 0x007E) \<or> (c \<ge> 0x00A0 \<and> c \<le> 0x00FF)"

definition unicode_to_keysym :: "uint16_t \<Rightarrow> KeySym result" where
  "unicode_to_keysym unicode =
     (if is_latin1 unicode then Inr (ucast unicode)
      else case bisect cp_unicode keysym_unicode_table unicode
                  0 (int (length keysym_unicode_table) - 1) of
             Found e \<Rightarrow> Inr (ucast (cp_keysym e))
           | NotFound \<Rightarrow> Inr (ucast unicode OR 0x01000000)
           | Outside \<Rightarrow> Inl OutOfBounds)"

definition put :: "nat \<Rightarrow> uint16_t \<Rightarrow> uint16_t list" where
  "put n c = (if 0 < n then [c] else [])"

definition keysym_to_unicode :: "KeySym \<Rightarrow> nat \<Rightarrow> uint16_t list result" where
  "keysym_to_unicode keysym n =
     (if is_latin1 keysym then Inr (put n (ucast keysym))
      else if keysym AND 0xFF000000 = 0x01000000 then Inr (put n (ucast (keysym AND 0x00FFFFFF)))
      else case bisect (\<lambda>e. ucast (cp_keysym e)) keysym_unicode_table keysym
                  0 (int (length keysym_unicode_table) - 1) of
             Found e \<Rightarrow> Inr (put n (cp_unicode e))
           | NotFound \<Rightarrow> Inr []
           | Outside \<Rightarrow> Inl OutOfBounds)"

section \<open>Key codes and virtual key codes\<close>

definition keycode_to_scancode :: "bool \<Rightarrow> KeyCode \<Rightarrow> uint16_t" where
  "keycode_to_scancode is_evdev keycode =
     (if is_evdev then
        if unat keycode < length evdev_scancode_table
        then fst (evdev_scancode_table ! unat keycode) else VC_UNDEFINED
      else
        if unat keycode < length xfree86_scancode_table
        then fst (xfree86_scancode_table ! unat keycode) else VC_UNDEFINED)"

definition scancode_in_table :: "(uint16_t \<times> uint16_t) list \<Rightarrow> uint16_t \<Rightarrow> KeyCode result" where
  "scancode_in_table table scancode =
     (if scancode < 128 then
        if unat scancode < length table then Inr (ucast (snd (table ! unat scancode)))
        else Inl OutOfBounds
      else
        let scancode = (scancode AND 0x007F) OR 0x80 in
        if unat scancode < length table then Inr (ucast (snd (table ! unat scancode)))
        else Inr 0x0000)"

definition scancode_to_keycode :: "bool \<Rightarrow> uint16_t \<Rightarrow> KeyCode result" where
  "scancode_to_keycode is_evdev scancode =
     (if is_evdev then scancode_in_table evdev_scancode_table scancode
      else scancode_in_table xfree86_scancode_table scancode)"

section \<open>UTF-16 output of xkbcommon\<close>

text \<open>
  \<open>utf32\<close> is what \<^verbatim>\<open>xkb_state_key_get_utf32\<close> answers for the state and the key; \<open>None\<close> is a
  null state.
\<close>

definition keycode_to_unicode :: "uint32_t option \<Rightarrow> nat \<Rightarrow> uint16_t list result" where
  "keycode_to_unicode utf32 len =
     (case utf32 of
        None \<Rightarrow> Inr []
      | Some unicode \<Rightarrow>
          if unicode \<le> 0x10FFFF then
            if (unicode \<le> 0xD7FF \<or> (unicode \<ge> 0xE000 \<and> unicode \<le> 0xFFFF)) \<and> len \<ge> 1
            then Inr [ucast unicode]
            else if unicode \<ge> 0x10000 then
              let code = unicode - 0x10000 in
              if len < 2 then Inl OutOfBounds
              else Inr [ucast (0xD800 OR drop_bit 10 code), ucast (0xDC00 OR (code AND 0x3FF))]
            else Inr []
          else Inr [])"

section \<open>Keysyms without xkbcommon\<close>

text \<open>
  The parts of the X keyboard description that the code reads through the macros of
  \<^verbatim>\<open>X11/XKBlib.h\<close>, by key code: the group information and its decoded fields, the key type
  of a group (its modifier mask and its map of active levels), and the symbol of a level.
\<close>

datatype group_action = XkbRedirectIntoRange | XkbClampIntoRange | XkbWrapIntoRange

record kt_map_entry =
  kt_active :: bool
  kt_mods_mask :: uint32_t
  kt_level :: int

record xkb_desc =
  xkb_group_action :: "KeyCode \<Rightarrow> group_action"
  xkb_group_info :: "KeyCode \<Rightarrow> uint32_t"
  xkb_num_groups :: "KeyCode \<Rightarrow> uint32_t"
  xkb_type_mods :: "KeyCode \<Rightarrow> uint32_t \<Rightarrow> uint32_t"
  xkb_type_map :: "KeyCode \<Rightarrow> uint32_t \<Rightarrow> kt_map_entry list"
  xkb_sym_entry :: "KeyCode \<Rightarrow> int \<Rightarrow> uint32_t \<Rightarrow> KeySym"

definition key_group :: "xkb_desc \<Rightarrow> KeyCode \<Rightarrow> uint32_t" where
  "key_group desc keycode =
     (case xkb_group_action desc keycode of
        XkbRedirectIntoRange \<Rightarrow>
          let group = xkb_group_info desc keycode
          in if group \<ge> xkb_num_groups desc keycode then 0 else group
      | XkbClampIntoRange \<Rightarrow> xkb_num_groups desc keycode - 1
      | XkbWrapIntoRange \<Rightarrow>
          if xkb_num_groups desc keycode \<noteq> 0 then 0 mod xkb_num_groups desc keycode else 0)"

primrec key_level :: "uint32_t \<Rightarrow> kt_map_entry list \<Rightarrow> int \<Rightarrow> int" where
  "key_level active_mods [] level = level"
| "key_level active_mods (e # es) level =
     key_level active_mods es
       (if kt_active e \<and> kt_mods_mask e = active_mods then kt_level e else level)"

definition keycode_to_keysym :: "xkb_desc option \<Rightarrow> KeyCode \<Rightarrow> uint32_t \<Rightarrow> KeySym" where
  "keycode_to_keysym keyboard_map keycode modifier_mask =
     (case keyboard_map of
        None \<Rightarrow> 0
      | Some desc \<Rightarrow>
          let group = key_group desc keycode;
              active_mods = modifier_mask AND xkb_type_mods desc keycode group;
              level = key_level active_mods (xkb_type_map desc keycode group) 0
          in xkb_sym_entry desc keycode level group)"

section \<open>State of the helper\<close>

text \<open>
  \<open>helper_disp\<close> and \<open>mouse_button_map\<close> say whether the pointer is set. \<open>keyboard_map\<close> is the
  X description, \<open>client_map\<close> whether its client map is still allocated.
\<close>

record input_helper =
  helper_disp :: bool
  mouse_button_map :: bool
  keyboard_map :: "xkb_desc option"
  client_map :: bool
  is_evdev :: bool

definition BUTTON_MAP_MAX :: nat where
  "BUTTON_MAP_MAX = 256"

text \<open>
  \<open>mapping\<close> is what \<^verbatim>\<open>XGetPointerMapping\<close> writes, one byte per physical button; its length is
  the number the call returns.
\<close>

definition button_map_lookup :: "input_helper \<Rightarrow> uint8_t list \<Rightarrow> uint32_t \<Rightarrow> uint32_t" where
  "button_map_lookup h mapping button =
     (let map_button =
        (if helper_disp h then
           if mouse_button_map h then
             let map_size = of_nat (length mapping) in
             if button > 0 \<and> button \<le> map_size then ucast (mapping ! unat (button - 1)) else button
           else button
         else button)
      in if map_button = 2 then 3 else if map_button = 3 then 2 else map_button)"

text \<open>
  What the environment answers while the helper is loaded: whether the allocation succeeded,
  the keyboard description (\<open>None\<close> for a null description or null names; otherwise the atom
  name of its key codes, which may be null), and the map.
\<close>

record load_env =
  malloc_button_map :: bool
  keyboard_names :: "string option option"
  xkb_get_map :: "xkb_desc option"

definition starts_with :: "string \<Rightarrow> string \<Rightarrow> bool" where
  "starts_with prefix s \<longleftrightarrow> take (length prefix) s = prefix"

definition load_input_helper :: "load_env \<Rightarrow> input_helper \<Rightarrow> input_helper result" where
  "load_input_helper env h =
     (let h = h\<lparr>mouse_button_map := malloc_button_map env\<rparr>;
          get_map = (\<lambda>h. Inr (h\<lparr>keyboard_map := xkb_get_map env, client_map := True\<rparr>))
      in case keyboard_names env of
           None \<Rightarrow> get_map h
         | Some None \<Rightarrow> Inl NullDereference
         | Some (Some layout_name) \<Rightarrow>
             if starts_with ''evdev_'' layout_name then get_map (h\<lparr>is_evdev := True\<rparr>)
             else get_map h)"

definition unload_input_helper :: "input_helper \<Rightarrow> input_helper" where
  "unload_input_helper h =
     (let h = (if keyboard_map h \<noteq> None then h\<lparr>client_map := False, is_evdev := False\<rparr> else h)
      in if mouse_button_map h then h\<lparr>mouse_button_map := False\<rparr> else h)"
section \<open>Lemmas on the Unicode conversions\<close>

lemma unat_ucast16: "unat (ucast (a :: uint16_t) :: 64 word) = unat a"
  by (rule unat_ucast_widen) simp

lemma ucast16_less: "(ucast (a :: uint16_t) :: 64 word) < ucast b \<longleftrightarrow> a < b"
  by (simp add: word_less_nat_alt unat_ucast16)

lemma ucast16_inject: "(ucast (a :: uint16_t) :: 64 word) = ucast b \<longleftrightarrow> a = b"
  by (metis unat_ucast16 word_unat_eq_iff)

lemma keysym_column_sorted:
  "sorted_wrt (<) (map (\<lambda>e. ucast (cp_keysym e) :: KeySym) keysym_unicode_table)"
  using keysym_unicode_table_sorted by (simp add: sorted_wrt_map ucast16_less)

lemma is_latin1_ucast: "is_latin1 (ucast (a :: uint16_t) :: 64 word) \<longleftrightarrow> is_latin1 a"
  by (simp add: is_latin1_def word_le_nat_alt unat_ucast16)

lemma ucast_ucast16: "ucast (ucast (a :: uint16_t) :: 64 word) = a"
  by (rule ucast_narrow_widen) simp

lemma unicode_to_keysym_total: "\<exists>k. unicode_to_keysym u = Inr k"
  using bisect_inside [of 0 "int (length keysym_unicode_table) - 1" keysym_unicode_table cp_unicode u]
  by (auto simp: unicode_to_keysym_def split: search.split)

lemma table_keysym_not_latin1:
  assumes "e \<in> set keysym_unicode_table"
  shows "\<not> is_latin1 (cp_keysym e)"
  using keysym_unicode_table_range [OF assms]
  by (auto simp: is_latin1_def word_le_nat_alt)

lemma keysym_masks:
  "(0xFF000000 :: 64 word) = push_bit 24 (mask 8)"
  "(0x01000000 :: 64 word) = push_bit 24 1"
  "(0x00FFFFFF :: 64 word) = mask 24"
  by (simp_all add: mask_eq_exp_minus_1)

lemmas bit_keysym = bit_and_iff bit_or_iff bit_push_bit_iff bit_mask_iff bit_1_iff bit_ucast_iff

lemma ucast16_high_bits: "(ucast (a :: uint16_t) :: 64 word) AND 0xFF000000 \<noteq> 0x01000000"
proof
  assume "(ucast a :: 64 word) AND 0xFF000000 = 0x01000000"
  then have "bit ((ucast a :: 64 word) AND push_bit 24 (mask 8)) 24 = bit (push_bit 24 1 :: 64 word) 24"
    by (simp only: keysym_masks)
  then show False
    using uint16_bit_bound [of a 24] by (unfold bit_keysym) auto
qed

lemma tagged_unicode:
  "(ucast (u :: uint16_t) OR 0x01000000 :: 64 word) AND 0xFF000000 = 0x01000000"
  unfolding keysym_masks
  by (rule bit_word_eqI) (unfold bit_keysym, auto dest: uint16_bit_bound)

lemma tagged_unicode_low:
  "ucast ((ucast (u :: uint16_t) OR 0x01000000 :: 64 word) AND 0x00FFFFFF) = u"
  unfolding keysym_masks
  by (rule bit_word_eqI) (unfold bit_keysym, auto)

lemma tagged_unicode_not_latin1: "\<not> is_latin1 (ucast (u :: uint16_t) OR 0x01000000 :: 64 word)"
proof -
  let ?k = "ucast u OR 0x01000000 :: 64 word"
  have "0x01000000 \<le> ?k"
    using word_and_le2 [of ?k "0xFF000000"] by (simp only: tagged_unicode)
  then show ?thesis
    by (auto simp: is_latin1_def word_le_nat_alt)
qed

section \<open>Properties of the Unicode conversions\<close>

text \<open>
  C28. Every UTF-16 code unit survives the way to a keysym and back, whichever branch of the
  two functions it takes.
\<close>

theorem unicode_keysym_roundtrip:
  assumes "0 < n"
  shows "\<exists>k. unicode_to_keysym u = Inr k \<and> keysym_to_unicode k n = Inr [u]"
proof (cases "is_latin1 u")
  case True
  with assms show ?thesis
    by (simp add: unicode_to_keysym_def keysym_to_unicode_def is_latin1_ucast ucast_ucast16 put_def)
next
  case False
  let ?s = "bisect cp_unicode keysym_unicode_table u 0 (int (length keysym_unicode_table) - 1)"
  show ?thesis
  proof (cases ?s)
    case (Found e)
    then have e: "e \<in> set keysym_unicode_table" "cp_unicode e = u"
      using bisect_Found [OF Found] by simp_all
    have "lookup_key (\<lambda>e. ucast (cp_keysym e) :: KeySym) keysym_unicode_table (ucast (cp_keysym e)) = Some e"
      using keysym_column_sorted e(1) by (intro lookup_key_unique) (simp_all add: strict_sorted_iff)
    then have "keysym_to_unicode (ucast (cp_keysym e)) n = Inr [u]"
      using assms e table_keysym_not_latin1 [OF e(1)]
      by (simp add: keysym_to_unicode_def is_latin1_ucast ucast16_high_bits put_def
          bisect_eq_lookup [OF keysym_column_sorted])
    with False Found show ?thesis by (simp add: unicode_to_keysym_def)
  next
    case NotFound
    with False assms show ?thesis
      by (simp add: unicode_to_keysym_def keysym_to_unicode_def tagged_unicode_not_latin1
          tagged_unicode tagged_unicode_low put_def)
  next
    case Outside
    with False unicode_to_keysym_total [of u] show ?thesis
      by (auto simp: unicode_to_keysym_def)
  qed
qed

theorem unicode_keysym_roundtrip_witness:
  "\<exists>k. unicode_to_keysym 0x20AC = Inr k \<and> keysym_to_unicode k 2 = Inr [0x20AC]"
  using unicode_keysym_roundtrip [of 2 "0x20AC"] by simp

text \<open>
  C30. The bisection in \<^verbatim>\<open>keysym_to_unicode\<close> finds a keysym exactly when a row of the table has
  it: the function is the table lookup, after the two direct ranges, and never reads outside
  the table.
\<close>

theorem keysym_to_unicode_lookup:
  "keysym_to_unicode k n =
     Inr (if is_latin1 k then put n (ucast k)
          else if k AND 0xFF000000 = 0x01000000 then put n (ucast (k AND 0x00FFFFFF))
          else case lookup_key (\<lambda>e. ucast (cp_keysym e)) keysym_unicode_table k of
                 None \<Rightarrow> [] | Some e \<Rightarrow> put n (cp_unicode e))"
  by (simp add: keysym_to_unicode_def bisect_eq_lookup [OF keysym_column_sorted] split: option.split)

lemma keysym_unicode_table_length: "length keysym_unicode_table < 1024"
  by code_simp

text \<open>
  The two loops that bisect the keysym table, by keysym and by code point, end within eleven rounds for
  every argument, also on the column that is not sorted.
\<close>

theorem bisection_ends:
  "bisect_rounds 11 (\<lambda>e. ucast (cp_keysym e) :: KeySym) keysym_unicode_table k 0 (int (length keysym_unicode_table) - 1) =
     Some (bisect (\<lambda>e. ucast (cp_keysym e)) keysym_unicode_table k 0 (int (length keysym_unicode_table) - 1))
   \<and> bisect_rounds 11 cp_unicode keysym_unicode_table u 0 (int (length keysym_unicode_table) - 1) =
     Some (bisect cp_unicode keysym_unicode_table u 0 (int (length keysym_unicode_table) - 1))"
proof -
  have size: "int (length keysym_unicode_table) - 1 - 0 + 1 < 2 ^ 10" using keysym_unicode_table_length by simp
  show ?thesis
    using bisect_rounds_enough [OF size, of "\<lambda>e. ucast (cp_keysym e) :: KeySym" keysym_unicode_table k]
      bisect_rounds_enough [OF size, of cp_unicode keysym_unicode_table u] by simp
qed


text \<open>
  \<^verbatim>\<open>unicode_to_keysym\<close> bisects the Unicode column of a table that is sorted by keysym, and
  misses rows: for U+0100 the table has the keysym 0x03C0, the function answers with the
  directly encoded keysym instead.
\<close>

theorem unicode_to_keysym_misses_row:
  "pair 0x03C0 0x0100 \<in> set keysym_unicode_table \<and> unicode_to_keysym 0x0100 = Inr 0x01000100"
proof
  have "pair 0x03C0 0x0100 \<in> set keysym_page_03" by (simp add: keysym_page_03_def)
  then show "pair 0x03C0 0x0100 \<in> set keysym_unicode_table" by (simp add: keysym_unicode_table_def)
  show "unicode_to_keysym 0x0100 = Inr 0x01000100" by code_simp
qed

section \<open>Properties of the key code tables\<close>

lemma scancode_table_lengths [simp]:
  "length evdev_scancode_table = 256" "length xfree86_scancode_table = 256"
  by (simp_all add: evdev_scancode_table_def evdev_scancode_table_low_def evdev_scancode_table_high_def
      xfree86_scancode_table_def xfree86_scancode_table_low_def xfree86_scancode_table_high_def)

lemma folded_scancode_bound: "unat (((s :: uint16_t) AND 0x007F) OR 0x80) < 256"
proof -
  have masks: "(0x007F :: uint16_t) = mask 7" "(0x80 :: uint16_t) = push_bit 7 1"
    by (simp_all add: mask_eq_exp_minus_1)
  have "(s AND mask 7) OR push_bit 7 1 = ((s AND mask 7) OR push_bit 7 1) AND mask 8"
    by (rule bit_word_eqI) (unfold bit_keysym, auto)
  then have "(s AND 0x007F) OR 0x80 \<le> mask 8"
    unfolding masks by (metis word_and_le1)
  then show ?thesis by (simp add: word_le_nat_alt mask_eq_exp_minus_1)
qed

text \<open>
  Every scan code, defined or not, is looked up inside the tables.
\<close>

theorem scancode_to_keycode_inside: "\<exists>k. scancode_to_keycode e s = Inr k"
proof -
  have "unat s < 256" if "s < 128"
    using that by (simp add: word_less_nat_alt)
  then show ?thesis
    using folded_scancode_bound [of s]
    by (simp add: scancode_to_keycode_def scancode_in_table_def Let_def)
qed

definition roundtrip_at :: "bool \<Rightarrow> nat \<Rightarrow> bool" where
  "roundtrip_at e n \<longleftrightarrow>
     (let s = keycode_to_scancode e (of_nat n)
      in s = VC_UNDEFINED \<or> e \<and> n = 226 \<or> scancode_to_keycode e s = Inr (of_nat n))"

lemma roundtrip_xfree86_low: "list_all (roundtrip_at False) [0..<128]"
  by code_simp

lemma roundtrip_xfree86_high: "list_all (roundtrip_at False) [128..<256]"
  by code_simp

lemma roundtrip_evdev_low: "list_all (roundtrip_at True) [0..<128]"
  by code_simp

lemma roundtrip_evdev_high: "list_all (roundtrip_at True) [128..<256]"
  by code_simp

lemmas roundtrip_xfree86 = list_all_halves [OF roundtrip_xfree86_low roundtrip_xfree86_high]
lemmas roundtrip_evdev = list_all_halves [OF roundtrip_evdev_low roundtrip_evdev_high]

lemma keycode_scancode_roundtrip_lemma:
  assumes "keycode_to_scancode e k \<noteq> VC_UNDEFINED" and "\<not> (e \<and> k = 226)"
  shows "scancode_to_keycode e (keycode_to_scancode e k) = Inr k"
proof -
  have bound: "unat k < 256"
    using unsigned_less [of k, where ?'a = nat] by simp
  have inverse: "of_nat (unat k) = k" by simp
  have "unat k \<noteq> 226" if "k \<noteq> 226"
    using that inverse by (metis of_nat_numeral)
  moreover have "roundtrip_at e (unat k)"
    using bound roundtrip_evdev roundtrip_xfree86 by (cases e) (simp_all only: list_all_upt)
  ultimately show ?thesis
    using assms by (auto simp: roundtrip_at_def inverse Let_def)
qed

text \<open>
  C24. A key that has a virtual key code is found again from that code, on both tables, with
  one exception: the evdev key 226.
\<close>

theorem keycode_scancode_roundtrip:
  assumes "keycode_to_scancode e k \<noteq> VC_UNDEFINED" and "\<not> (e \<and> k = 226)"
  shows "scancode_to_keycode e (keycode_to_scancode e k) = Inr k"
  using assms by (rule keycode_scancode_roundtrip_lemma)

theorem keycode_scancode_roundtrip_witness:
  "scancode_to_keycode True (keycode_to_scancode True 38) = Inr 38"
proof -
  have "keycode_to_scancode True 38 \<noteq> VC_UNDEFINED" by code_simp
  then show ?thesis using keycode_scancode_roundtrip [of True 38] by simp
qed

lemma evdev_226: "keycode_to_scancode True 226 = VC_LESSER_GREATER"
  "scancode_to_keycode True VC_LESSER_GREATER = Inr 0"
  by code_simp+

text \<open>
  The exception of the evdev table: key 226 reports \<^verbatim>\<open>VC_LESSER_GREATER\<close>, and that code
  leads to key code 0, which \<^verbatim>\<open>post_key_event\<close> treats as unknown.
\<close>

theorem lesser_greater_not_posted:
  "keycode_to_scancode True 226 = VC_LESSER_GREATER
   \<and> scancode_to_keycode True (keycode_to_scancode True 226) = Inr 0"
  using evdev_226 by simp

lemma undefined_key_0: "keycode_to_scancode e 0 = VC_UNDEFINED"
proof -
  have "keycode_to_scancode True 0 = VC_UNDEFINED" "keycode_to_scancode False 0 = VC_UNDEFINED"
    by code_simp+
  then show ?thesis by (cases e) simp_all
qed

lemma keycode_to_scancode_inj_lemma:
  assumes "keycode_to_scancode e k = keycode_to_scancode e k'"
    and "keycode_to_scancode e k \<noteq> VC_UNDEFINED"
  shows "k = k'"
proof (cases "e \<and> (k = 226 \<or> k' = 226)")
  case False
  then have "Inr k = (Inr k' :: KeyCode result)"
    using assms keycode_scancode_roundtrip_lemma by metis
  then show ?thesis by simp
next
  case True
  then have zero: "scancode_to_keycode e (keycode_to_scancode e k) = Inr 0"
    using assms(1) evdev_226 by metis
  have "j = 226" if "keycode_to_scancode e j = keycode_to_scancode e k" for j
  proof (rule ccontr)
    assume "j \<noteq> 226"
    then have "Inr j = (Inr 0 :: KeyCode result)"
      using that assms(2) zero keycode_scancode_roundtrip_lemma by metis
    with that assms(2) undefined_key_0 show False by simp
  qed
  then show ?thesis using assms(1) by metis
qed

text \<open>
  No two keys report the same virtual key code.
\<close>

theorem keycode_to_scancode_injective:
  assumes "k \<noteq> k'" and "keycode_to_scancode e k \<noteq> VC_UNDEFINED"
  shows "keycode_to_scancode e k \<noteq> keycode_to_scancode e k'"
  using keycode_to_scancode_inj_lemma [of e k k'] assms by blast

theorem keycode_to_scancode_injective_witness:
  "keycode_to_scancode False 50 \<noteq> keycode_to_scancode False 62"
proof -
  have "keycode_to_scancode False 50 \<noteq> VC_UNDEFINED" by code_simp
  then show ?thesis using keycode_to_scancode_injective [of 50 62 False] by simp
qed

section \<open>Properties of the UTF-16 output\<close>

text \<open>The reference decoder of one or two UTF-16 code units.\<close>

definition is_scalar_value :: "uint32_t \<Rightarrow> bool" where
  "is_scalar_value u \<longleftrightarrow> u \<le> 0xD7FF \<or> (0xE000 \<le> u \<and> u \<le> 0x10FFFF)"

fun utf16_decode :: "uint16_t list \<Rightarrow> uint32_t option" where
  "utf16_decode [c] =
     (if 0xD800 \<le> c \<and> c \<le> 0xDFFF then None else Some (ucast c))"
| "utf16_decode [h, l] =
     (if 0xD800 \<le> h \<and> h \<le> 0xDBFF \<and> 0xDC00 \<le> l \<and> l \<le> 0xDFFF
      then Some (0x10000 + (push_bit 10 (ucast (h AND 0x3FF)) OR ucast (l AND 0x3FF)))
      else None)"
| "utf16_decode _ = None"


lemma surrogate_bases:
  "(0xD800 :: 'a::len word) = push_bit 10 0x36" "(0xDC00 :: 'a::len word) = push_bit 10 0x37"
  "(0x3FF :: 'a::len word) = mask 10"
  by (simp_all add: push_bit_eq_mult mask_eq_exp_minus_1)

lemmas bit_utf16 = bit_and_iff bit_or_iff bit_push_bit_iff bit_mask_iff bit_ucast_iff bit_drop_bit_eq

lemma surrogate_parts:
  fixes code :: uint32_t
  assumes "code < 2 ^ 20"
  shows "push_bit 10 (ucast ((ucast (0xD800 OR drop_bit 10 code) :: uint16_t) AND 0x3FF))
           OR ucast ((ucast (0xDC00 OR (code AND 0x3FF)) :: uint16_t) AND 0x3FF) = code"
proof (rule bit_word_eqI)
  have high: "\<not> bit code i" if "20 \<le> i" for i
    using less_mask_eq [OF assms] that by (metis bit_and_iff bit_mask_iff linorder_not_le)
  fix i :: nat
  assume "i < LENGTH(32)"
  then show "bit (push_bit 10 (ucast ((ucast (0xD800 OR drop_bit 10 code) :: uint16_t) AND 0x3FF))
           OR ucast ((ucast (0xDC00 OR (code AND 0x3FF)) :: uint16_t) AND 0x3FF) :: uint32_t) i = bit code i"
    unfolding surrogate_bases
    by (cases "i < 10"; cases "i < 20"; unfold bit_utf16 o_def) (use high [of i] in auto)
qed

lemma surrogate_value:
  fixes x :: uint32_t
  assumes "x < 2 ^ 10"
  shows "unat (ucast (0xD800 OR x) :: uint16_t) = 0xD800 + unat x"
    and "unat (ucast (0xDC00 OR x) :: uint16_t) = 0xDC00 + unat x"
proof -
  have x: "x = x AND mask 10" using less_mask_eq [OF assms] by simp
  have small: "unat x < 1024" using assms by (simp add: word_less_nat_alt)
  have disjoint: "push_bit 10 b AND x = 0" for b
    by (subst x, rule bit_word_eqI) (unfold bit_utf16, auto)
  have or: "0xD800 OR x = 0xD800 + x" "0xDC00 OR x = 0xDC00 + x"
    unfolding surrogate_bases by (simp_all only: disjunctive_add_eq_or disjoint)
  have sums: "unat (0xD800 + x) = 0xD800 + unat x" "unat (0xDC00 + x) = 0xDC00 + unat x"
    using small by (simp_all add: unat_word_ariths)
  show "unat (ucast (0xD800 OR x) :: uint16_t) = 0xD800 + unat x"
    "unat (ucast (0xDC00 OR x) :: uint16_t) = 0xDC00 + unat x"
    using small by (simp_all add: or unsigned_ucast_eq sums take_bit_eq_mod)
qed

lemma utf16_surrogates:
  fixes u :: uint32_t
  assumes "0x10000 \<le> u" and "u \<le> 0x10FFFF"
  shows "utf16_decode [ucast (0xD800 OR drop_bit 10 (u - 0x10000)), ucast (0xDC00 OR ((u - 0x10000) AND 0x3FF))] = Some u"
proof -
  let ?code = "u - 0x10000"
  have "unat ?code = unat u - 0x10000"
    using assms(1) by (simp add: unat_sub)
  then have bound: "unat ?code < 0x100000"
    using assms(2) by (simp add: word_le_nat_alt)
  then have code: "?code < 2 ^ 20" by (simp add: word_less_nat_alt)
  have hi: "drop_bit 10 ?code < 2 ^ 10"
  proof -
    have "unat (drop_bit 10 ?code) = unat ?code div 2 ^ 10"
      using unsigned_drop_bit_eq [of 10 ?code, where ?'a = nat] bound
      by (simp add: take_bit_nat_eq_self drop_bit_eq_div)
    with bound show ?thesis by (simp add: word_less_nat_alt)
  qed
  have lo: "?code AND 0x3FF < 2 ^ 10"
    using word_and_le1 [of ?code "0x3FF"] by (simp add: word_less_nat_alt word_le_nat_alt)
  have "unat (drop_bit 10 ?code) < 1024" "unat (?code AND 0x3FF) < 1024"
    using hi lo by (simp_all add: word_less_nat_alt)
  then show ?thesis
    using surrogate_value(1) [OF hi] surrogate_value(2) [OF lo] surrogate_parts [OF code]
    by (simp add: word_le_nat_alt)
qed

text \<open>
  C29. Every Unicode scalar value is written as its UTF-16 encoding, one code unit or a
  surrogate pair: decoding the units gives the value back.
\<close>

theorem keycode_to_unicode_utf16:
  assumes "is_scalar_value u"
  shows "\<exists>us. keycode_to_unicode (Some u) 2 = Inr us \<and> utf16_decode us = Some u"
proof (cases "u \<le> 0xFFFF")
  case True
  have eq: "unat (ucast u :: uint16_t) = unat u" "ucast (ucast u :: uint16_t) = u"
  proof -
    have "unat u < 65536" using True by (simp add: word_le_nat_alt)
    then show unat: "unat (ucast u :: uint16_t) = unat u"
      by (simp add: unsigned_ucast_eq take_bit_eq_mod)
    have "unat (ucast (ucast u :: uint16_t) :: uint32_t) = unat u"
      by (subst unat_ucast_widen) (simp_all add: unat)
    then show "ucast (ucast u :: uint16_t) = u" by (simp only: word_unat_eq_iff)
  qed
  show ?thesis
    using assms True
    by (auto simp: keycode_to_unicode_def is_scalar_value_def word_le_nat_alt eq)
next
  case False
  then have "0x10000 \<le> u" "u \<le> 0x10FFFF" 
    using assms by (auto simp: word_le_nat_alt is_scalar_value_def)
  with False show ?thesis
    using utf16_surrogates [of u]
    by (auto simp: keycode_to_unicode_def Let_def word_le_nat_alt)
qed

theorem keycode_to_unicode_utf16_witness:
  "keycode_to_unicode (Some 0x1F600) 2 = Inr [0xD83D, 0xDE00]
   \<and> (\<exists>us. keycode_to_unicode (Some 0x1F600) 2 = Inr us \<and> utf16_decode us = Some 0x1F600)"
proof
  show "keycode_to_unicode (Some 0x1F600) 2 = Inr [0xD83D, 0xDE00]" by code_simp
  show "\<exists>us. keycode_to_unicode (Some 0x1F600) 2 = Inr us \<and> utf16_decode us = Some 0x1F600"
    by (rule keycode_to_unicode_utf16) (simp add: is_scalar_value_def)
qed

text \<open>
  The function never writes more units than fit a buffer of two, and a code point that is
  no scalar value gives none. Zero, the answer of xkbcommon for a key without a character, is
  written as one unit.
\<close>

theorem keycode_to_unicode_count:
  "(\<exists>us. keycode_to_unicode utf32 2 = Inr us \<and> length us \<le> 2
      \<and> (us = [] \<longleftrightarrow> (case utf32 of None \<Rightarrow> True | Some u \<Rightarrow> \<not> is_scalar_value u)))
   \<and> keycode_to_unicode (Some 0) 2 = Inr [0]"
  by (cases utf32) (auto simp: keycode_to_unicode_def is_scalar_value_def Let_def word_le_nat_alt)

section \<open>Properties of the button map\<close>

text \<open>Buttons 2 and 3 are exchanged, so that 2 is the right button as on the other platforms.\<close>

definition swap23 :: "uint32_t \<Rightarrow> uint32_t" where
  "swap23 b = (if b = 2 then 3 else if b = 3 then 2 else b)"

lemma swap23_swap23 [simp]: "swap23 (swap23 b) = b"
  by (simp add: swap23_def)

lemma swap23_inject [simp]: "swap23 a = swap23 b \<longleftrightarrow> a = b"
  by (metis swap23_swap23)

lemma button_map_lookup_mapped:
  assumes "helper_disp h" and "mouse_button_map h"
    and "length mapping \<le> 255" and "0 < b" and "b \<le> of_nat (length mapping)"
  shows "button_map_lookup h mapping b = swap23 (ucast (mapping ! unat (b - 1)))"
    and "unat (b - 1) < length mapping" and "unat (b - 1) + 1 = unat b"
proof -
  show "button_map_lookup h mapping b = swap23 (ucast (mapping ! unat (b - 1)))"
    using assms by (simp add: button_map_lookup_def swap23_def Let_def)
  have "1 \<le> b" using assms(4) by (simp add: word_le_nat_alt word_less_nat_alt)
  then have "unat (b - 1) = unat b - 1" by (simp add: unat_sub)
  moreover have "unat (of_nat (length mapping) :: uint32_t) = length mapping"
    using assms(3) by (simp add: unat_of_nat)
  then have "unat b \<le> length mapping" using assms(5) by (simp add: word_le_nat_alt)
  moreover have "0 < unat b" using assms(4) by (simp add: word_less_nat_alt)
  ultimately show "unat (b - 1) < length mapping" "unat (b - 1) + 1 = unat b" by simp_all
qed

lemma ucast_ucast8: "ucast (ucast (a :: uint8_t) :: uint32_t) = a"
  by (rule ucast_narrow_widen) simp

lemma button_map_lookup_inj_lemma:
  assumes "helper_disp h" and "mouse_button_map h"
    and "length mapping \<le> 255" and "distinct mapping"
    and "0 < a" and "a \<le> of_nat (length mapping)"
    and "0 < b" and "b \<le> of_nat (length mapping)"
    and "button_map_lookup h mapping a = button_map_lookup h mapping b"
  shows "a = b"
proof -
  note a = button_map_lookup_mapped [OF assms(1-3,5,6)] and b = button_map_lookup_mapped [OF assms(1-3,7,8)]
  have "(ucast (mapping ! unat (a - 1)) :: uint32_t) = ucast (mapping ! unat (b - 1))"
    using assms(9) a(1) b(1) by simp
  then have "mapping ! unat (a - 1) = mapping ! unat (b - 1)"
    by (metis ucast_ucast8)
  then have "unat (a - 1) = unat (b - 1)"
    using a(2) b(2) assms(4) by (simp add: nth_eq_iff_index_eq)
  with a(3) b(3) have "unat a = unat b" by simp
  then show ?thesis by (simp only: word_unat_eq_iff)
qed

text \<open>
  When the pointer mapping of the server is a permutation, distinct physical buttons are
  distinct logical buttons after the lookup and the exchange of 2 and 3.
\<close>

theorem button_map_lookup_injective:
  assumes "helper_disp h" and "mouse_button_map h"
    and "length mapping \<le> 255" and "distinct mapping"
    and "0 < a" and "a \<le> of_nat (length mapping)"
    and "0 < b" and "b \<le> of_nat (length mapping)"
    and "a \<noteq> b"
  shows "button_map_lookup h mapping a \<noteq> button_map_lookup h mapping b"
  using button_map_lookup_inj_lemma [OF assms(1-8)] assms(9) by blast

theorem button_map_lookup_injective_witness:
  "button_map_lookup \<lparr>helper_disp = True, mouse_button_map = True, keyboard_map = None,
      client_map = False, is_evdev = False\<rparr> [3, 2, 1] 1
   \<noteq> button_map_lookup \<lparr>helper_disp = True, mouse_button_map = True, keyboard_map = None,
      client_map = False, is_evdev = False\<rparr> [3, 2, 1] 3"
  by (rule button_map_lookup_injective) simp_all

section \<open>Properties of loading and unloading\<close>

text \<open>
  Loading fails only on a null atom name, which \<^verbatim>\<open>strncmp\<close> reads before the test for
  null; otherwise the key table is chosen by the prefix of the name, and the flag of an
  earlier load is kept.
\<close>

theorem load_input_helper_outcome:
  "load_input_helper env h =
     (if keyboard_names env = Some None then Inl NullDereference
      else Inr (h\<lparr>mouse_button_map := malloc_button_map env, keyboard_map := xkb_get_map env,
                  client_map := True,
                  is_evdev := is_evdev h
                    \<or> (\<exists>name. keyboard_names env = Some (Some name) \<and> starts_with ''evdev_'' name)\<rparr>))"
  by (cases "keyboard_names env") (auto simp: load_input_helper_def Let_def split: option.split)

lemma reload_input_helper:
  assumes "keyboard_map h \<noteq> None"
  shows "load_input_helper env (unload_input_helper h) =
    load_input_helper env (h\<lparr>is_evdev := False\<rparr>)"
  using assms by (auto simp: load_input_helper_def unload_input_helper_def Let_def split: option.split)

lemma unload_keeps_evdev_without_map:
  assumes "keyboard_map h = None"
  shows "is_evdev (unload_input_helper h) = is_evdev h"
  using assms by (simp add: unload_input_helper_def Let_def)

end
