(* ===== verification/Uiohook_Text.thy ===== *)
theory Uiohook_Text
  imports Uiohook_Prelude
begin

text \<open>
  The text conversions of the C library that the sources use: digits of a number as \<^verbatim>\<open>sscanf\<close> reads
  them and as \<^verbatim>\<open>printf\<close> writes them, padding to a field width, \<^verbatim>\<open>snprintf\<close> into a buffer and the
  string a buffer holds. What is written is read back.
\<close>

section \<open>Reading digits\<close>

definition digit_value :: "char \<Rightarrow> nat option" where
  "digit_value c =
     (let n = of_char c :: nat in
      if 48 \<le> n \<and> n \<le> 57 then Some (n - 48)
      else if 97 \<le> n \<and> n \<le> 102 then Some (n - 87)
      else if 65 \<le> n \<and> n \<le> 70 then Some (n - 55)
      else None)"

fun digits_of :: "nat \<Rightarrow> string \<Rightarrow> nat list" where
  "digits_of base [] = []"
| "digits_of base (c # cs) =
     (case digit_value c of
        Some d \<Rightarrow> if d < base then d # digits_of base cs else []
      | None \<Rightarrow> [])"

definition number_of :: "nat \<Rightarrow> nat list \<Rightarrow> nat" where
  "number_of base ds = foldl (\<lambda>n d. n * base + d) 0 ds"

section \<open>Writing digits\<close>

fun digits :: "nat \<Rightarrow> nat \<Rightarrow> nat list" where
  "digits base n = (if base < 2 \<or> n < base then [n] else digits base (n div base) @ [n mod base])"

declare digits.simps [simp del]

definition digit_char :: "nat \<Rightarrow> char" where
  "digit_char d = ''0123456789ABCDEF'' ! d"

text \<open>\<^verbatim>\<open>%u\<close>, \<^verbatim>\<open>%i\<close>, \<^verbatim>\<open>%X\<close> and \<^verbatim>\<open>%#X\<close>, which puts 0X before every number but zero.\<close>

definition show_u :: "nat \<Rightarrow> string" where
  "show_u n = map digit_char (digits 10 n)"

definition show_i :: "int \<Rightarrow> string" where
  "show_i k = (if k < 0 then CHR ''-'' # show_u (nat (- k)) else show_u (nat k))"

definition show_X :: "nat \<Rightarrow> string" where
  "show_X n = map digit_char (digits 16 n)"

definition show_alt_X :: "nat \<Rightarrow> string" where
  "show_alt_X n = (if n = 0 then ''0'' else ''0X'' @ show_X n)"

text \<open>A field of a least width, the text to the right or, with the flag \<^verbatim>\<open>-\<close>, to the left.\<close>

definition pad_left :: "nat \<Rightarrow> string \<Rightarrow> string" where
  "pad_left w s = replicate (w - length s) CHR '' '' @ s"

definition pad_right :: "nat \<Rightarrow> string \<Rightarrow> string" where
  "pad_right w s = s @ replicate (w - length s) CHR '' ''"

lemma replicate_numeral: "replicate (numeral k) x = x # replicate (pred_numeral k) x"
  by (simp add: numeral_eq_Suc)

lemma digits_less: "2 \<le> base \<Longrightarrow> d \<in> set (digits base n) \<Longrightarrow> d < base"
proof (induction base n rule: digits.induct)
  case (1 base n)
  then show ?case by (subst (asm) (2) digits.simps) (auto split: if_splits)
qed

lemma number_of_digits: "2 \<le> base \<Longrightarrow> number_of base (digits base n) = n"
proof (induction base n rule: digits.induct)
  case (1 base n)
  then show ?case by (subst digits.simps) (auto simp: number_of_def)
qed

lemma digits_not_Nil [simp]: "digits base n \<noteq> []"
  by (subst digits.simps) simp

text \<open>A number below the \<open>k\<close>-th power of the base has at most \<open>k\<close> digits.\<close>

lemma length_digits: "2 \<le> base \<Longrightarrow> n < base ^ Suc k \<Longrightarrow> length (digits base n) \<le> Suc k"
proof (induction k arbitrary: n)
  case 0
  then show ?case by (subst digits.simps) simp
next
  case (Suc k)
  then have "n div base < base ^ Suc k" by (simp add: less_mult_imp_div_less mult.commute)
  with Suc show ?case by (subst digits.simps) auto
qed

lemmas show_defs = show_u_def show_i_def show_X_def show_alt_X_def

lemma length_show_u: "n < 10 ^ Suc k \<Longrightarrow> length (show_u n) \<le> Suc k"
  by (simp add: show_u_def length_digits)

lemma length_show_X: "n < 16 ^ Suc k \<Longrightarrow> length (show_X n) \<le> Suc k"
  by (simp add: show_X_def length_digits)

lemma length_show_i: "\<bar>k\<bar> < 10 ^ Suc m \<Longrightarrow> length (show_i k) \<le> Suc (Suc m)"
  using length_show_u [of "nat \<bar>k\<bar>" m] by (auto simp: show_i_def nat_less_iff)

text \<open>Reading the digits that were written gives the number back.\<close>

lemma digit_value_char:
  assumes "d < 16"
  shows "digit_value (digit_char d) = Some d"
proof -
  have "list_all (\<lambda>d. digit_value (digit_char d) = Some d) [0..<16]" by code_simp
  with assms show ?thesis by (simp add: list_all_upt)
qed

lemma digits_of_append:
  assumes "\<forall>d \<in> set ds. d < base" and "base \<le> 16"
    and "rest = [] \<or> (case digit_value (hd rest) of None \<Rightarrow> True | Some d \<Rightarrow> base \<le> d)"
  shows "digits_of base (map digit_char ds @ rest) = ds"
  using assms(1)
proof (induction ds)
  case Nil
  with assms(3) show ?case by (cases rest) (auto split: option.splits)
next
  case (Cons d ds)
  then have "digit_value (digit_char d) = Some d" using assms(2) by (intro digit_value_char) auto
  with Cons show ?case by simp
qed

lemma read_shown_u:
  assumes "rest = [] \<or> digit_value (hd rest) = None"
  shows "number_of 10 (digits_of 10 (show_u n @ rest)) = n"
  unfolding show_u_def using assms
  by (subst digits_of_append) (auto intro: digits_less simp: number_of_digits)

lemma read_shown_X:
  assumes "rest = [] \<or> digit_value (hd rest) = None"
  shows "number_of 16 (digits_of 16 (show_X n @ rest)) = n"
  unfolding show_X_def using assms
  by (subst digits_of_append) (auto intro: digits_less simp: number_of_digits)

section \<open>Buffers\<close>

definition NUL :: char where
  "NUL = CHR 0x00"

text \<open>
  \<^verbatim>\<open>snprintf(buffer + off, sizeof(buffer) - off, ...)\<close>: an offset beyond the buffer makes the size
  wrap around and the call write outside it; without room for the NUL nothing is written.
\<close>

definition snprintf_at :: "nat \<Rightarrow> string \<Rightarrow> string \<Rightarrow> string result" where
  "snprintf_at off text buf =
     (if length buf < off then Inl OutOfBounds
      else if off = length buf then Inr buf
      else let t = take (length buf - off - 1) text @ [NUL]
           in Inr (take off buf @ t @ drop (off + length t) buf))"

text \<open>The string that \<^verbatim>\<open>%s\<close> prints: the bytes before the first NUL, which has to be in the buffer.\<close>

definition c_string :: "string \<Rightarrow> string result" where
  "c_string buf =
     (if NUL \<in> set buf then Inr (takeWhile (\<lambda>c. c \<noteq> NUL) buf) else Inl OutOfBounds)"

lemma snprintf_at_fits:
  assumes "off + length text < length buf"
  shows "snprintf_at off text buf =
    Inr (take off buf @ text @ NUL # drop (off + length text + 1) buf)"
  using assms by (simp add: snprintf_at_def Let_def)

lemma c_string_prefix:
  assumes "NUL \<notin> set text"
  shows "c_string (text @ NUL # rest) = Inr text"
  using assms by (auto simp: c_string_def takeWhile_append)

lemma c_string_no_NUL: "c_string buf = Inr t \<Longrightarrow> NUL \<notin> set t"
  by (auto simp: c_string_def split: if_splits dest: set_takeWhileD)

lemma digit_char_not_NUL: "d < 16 \<Longrightarrow> digit_char d \<noteq> NUL"
proof -
  have "list_all (\<lambda>d. digit_char d \<noteq> NUL) [0..<16]" by code_simp
  then show "d < 16 \<Longrightarrow> digit_char d \<noteq> NUL" by (simp add: list_all_upt)
qed

lemma show_no_NUL [simp]:
  "NUL \<notin> set (show_u n)" "NUL \<notin> set (show_X n)" "NUL \<notin> set (show_i k)"
proof -
  have "NUL \<notin> set (map digit_char (digits b n))" if "2 \<le> b" "b \<le> 16" for b n
  proof
    assume "NUL \<in> set (map digit_char (digits b n))"
    then obtain d where "d \<in> set (digits b n)" "digit_char d = NUL" by force
    with digits_less [OF that(1) this(1)] that(2) digit_char_not_NUL [of d] show False by simp
  qed
  from this [of 10] this [of 16] show "NUL \<notin> set (show_u n)" "NUL \<notin> set (show_X n)" "NUL \<notin> set (show_i k)"
    by (simp_all add: show_u_def show_X_def show_i_def, simp add: NUL_def)
qed

end
