(* ===== verification/X11_System_Properties.thy ===== *)
theory X11_System_Properties
  imports X11_Input_Helper Uiohook_Text
begin

text \<open>
  \<^verbatim>\<open>src/x11/system_properties.c\<close>: the screens, the keyboard and pointer settings, the
  multi-click time, the settings thread of the XRandR build, and the library constructor and
  destructor. What the X server and the X libraries answer is an argument, \<open>x11_env\<close>; the
  build options that select code are fields of \<open>x11_build\<close>.
\<close>

section \<open>Build options and the environment\<close>

datatype screen_source = SCREENS_XINERAMA | SCREENS_XRANDR | SCREENS_DEFAULT

record x11_build =
  use_screens :: screen_source
  use_xf86misc :: bool
  use_xt :: bool
  use_xkb_common :: bool
  use_xtest :: bool

record xinerama_screen =
  xi_screen_number :: c_int
  xi_x_org :: int16_t
  xi_y_org :: int16_t
  xi_width :: int16_t
  xi_height :: int16_t

record xrr_crtc_info =
  crtc_x :: c_int
  crtc_y :: c_int
  crtc_width :: uint32_t
  crtc_height :: uint32_t

text \<open>
  \<open>xine_screens\<close> is the array of \<^verbatim>\<open>XineramaQueryScreens\<close> (\<open>None\<close> for null),
  \<open>xrandr_crtcs\<close> the controllers of \<open>xrandr_resources\<close> with what \<^verbatim>\<open>XRRGetCrtcInfo\<close> gives for
  each (\<open>None\<close> for null resources), \<open>repeat_rate\<close> and \<open>kbd_settings\<close> a delay and a rate when
  the query succeeds, \<open>pointer_control\<close> the numerator, denominator and threshold,
  \<open>click_defaults\<close> the two X resources that hold a multi-click time.
\<close>

record x11_env =
  malloc_screens :: bool
  xine_active :: bool
  xine_screens :: "xinerama_screen list option"
  xrandr_crtcs :: "xrr_crtc_info option list option"
  default_screen :: "c_int \<times> c_int"
  repeat_rate :: "(uint32_t \<times> uint32_t) option"
  kbd_settings :: "(c_int \<times> c_int) option"
  pointer_control :: "c_int \<times> c_int \<times> c_int"
  xt_disp :: bool
  xt_multi_click :: c_int
  click_defaults :: "string option \<times> string option"

section \<open>Screens\<close>

text \<open>
  The result is the value stored through \<open>count\<close> and the array: \<open>None\<close> is a null pointer, an
  element \<open>None\<close> is one the code left unwritten.
\<close>

type_synonym screen_array = "screen_data option list option"

definition screen_count :: "nat \<Rightarrow> uint8_t" where
  "screen_count n = (if n > 255 then 255 else of_nat n)"

definition xinerama_screens :: "x11_env \<Rightarrow> uint8_t \<times> screen_array" where
  "xinerama_screens env =
     (if xine_active env then
        case xine_screens env of
          None \<Rightarrow> (0, None)
        | Some xine_info \<Rightarrow>
            (screen_count (length xine_info),
             if malloc_screens env then
               Some (map (\<lambda>i. Some \<lparr>scr_number = ucast (xi_screen_number i),
                                    scr_x = xi_x_org i, scr_y = xi_y_org i,
                                    scr_width = xi_width i, scr_height = xi_height i\<rparr>) xine_info)
             else None)
      else (0, None))"

definition xrandr_screens :: "x11_env \<Rightarrow> uint8_t \<times> screen_array" where
  "xrandr_screens env =
     (case xrandr_crtcs env of
        None \<Rightarrow> (0, None)
      | Some crtcs \<Rightarrow>
          (screen_count (length crtcs),
           if malloc_screens env then
             Some (map (\<lambda>(i, crtc).
               map_option (\<lambda>c. \<lparr>scr_number = of_nat (i + 1),
                                scr_x = ucast (crtc_x c), scr_y = ucast (crtc_y c),
                                scr_width = ucast (crtc_width c), scr_height = ucast (crtc_height c)\<rparr>) crtc)
               (zip [0..<length crtcs] crtcs))
           else None))"

definition default_screens :: "x11_env \<Rightarrow> uint8_t \<times> screen_array" where
  "default_screens env =
     (let (width, height) = default_screen env in
      if sint width > 0 \<and> sint height > 0 \<and> malloc_screens env
      then (1, Some [Some \<lparr>scr_number = 1, scr_x = 0, scr_y = 0,
                           scr_width = ucast width, scr_height = ucast height\<rparr>])
      else (0, None))"

definition hook_create_screen_info ::
  "x11_build \<Rightarrow> x11_env \<Rightarrow> input_helper \<Rightarrow> uint8_t \<times> screen_array" where
  "hook_create_screen_info build env h =
     (if helper_disp h then
        case use_screens build of
          SCREENS_XINERAMA \<Rightarrow> xinerama_screens env
        | SCREENS_XRANDR \<Rightarrow> xrandr_screens env
        | SCREENS_DEFAULT \<Rightarrow> default_screens env
      else (0, None))"

section \<open>Keyboard and pointer settings\<close>

definition auto_repeat :: "x11_build \<Rightarrow> x11_env \<Rightarrow> input_helper \<Rightarrow> (uint32_t \<times> uint32_t) option" where
  "auto_repeat build env h =
     (if helper_disp h then
        case repeat_rate env of
          Some dr \<Rightarrow> Some dr
        | None \<Rightarrow> if use_xf86misc build then kbd_settings env else None
      else None)"

definition hook_get_auto_repeat_rate :: "x11_build \<Rightarrow> x11_env \<Rightarrow> input_helper \<Rightarrow> c_long" where
  "hook_get_auto_repeat_rate build env h =
     (case auto_repeat build env h of Some (delay, rate) \<Rightarrow> ucast rate | None \<Rightarrow> -1)"

definition hook_get_auto_repeat_delay :: "x11_build \<Rightarrow> x11_env \<Rightarrow> input_helper \<Rightarrow> c_long" where
  "hook_get_auto_repeat_delay build env h =
     (case auto_repeat build env h of Some (delay, rate) \<Rightarrow> ucast delay | None \<Rightarrow> -1)"

definition hook_get_pointer_acceleration_multiplier :: "x11_env \<Rightarrow> input_helper \<Rightarrow> c_long" where
  "hook_get_pointer_acceleration_multiplier env h =
     (let (accel_numerator, accel_denominator, threshold) = pointer_control env in
      if helper_disp h \<and> sint accel_denominator \<ge> 0 then scast accel_denominator else -1)"

definition hook_get_pointer_acceleration_threshold :: "x11_env \<Rightarrow> input_helper \<Rightarrow> c_long" where
  "hook_get_pointer_acceleration_threshold env h =
     (let (accel_numerator, accel_denominator, threshold) = pointer_control env in
      if helper_disp h \<and> sint threshold \<ge> 0 then scast threshold else -1)"

definition hook_get_pointer_sensitivity :: "x11_env \<Rightarrow> input_helper \<Rightarrow> c_long" where
  "hook_get_pointer_sensitivity env h =
     (let (accel_numerator, accel_denominator, threshold) = pointer_control env in
      if helper_disp h \<and> sint accel_numerator \<ge> 0 then scast accel_numerator else -1)"

section \<open>The multi-click time\<close>

text \<open>
  \<^verbatim>\<open>sscanf(s, "%4i", &v)\<close>: white space is skipped; the end of the string there is \<^verbatim>\<open>EOF\<close>. Of the
  next four characters a sign, a base prefix and digits of that base are converted. Without a
  digit the conversion fails, the result is 0 and \<open>v\<close> is not written.
\<close>

datatype scan = ScanEOF | ScanNoMatch | ScanInt int

definition is_space :: "char \<Rightarrow> bool" where
  "is_space c \<longleftrightarrow> (let n = of_char c :: nat in n = 32 \<or> (9 \<le> n \<and> n \<le> 13))"

definition scan_unsigned :: "string \<Rightarrow> nat option" where
  "scan_unsigned s =
     (let (base, body) =
        (if take 2 s = ''0x'' \<or> take 2 s = ''0X'' then (16, drop 2 s)
         else if take 1 s = ''0'' then (8, s) else (10, s));
          ds = digits_of base body
      in if ds = [] then None else Some (number_of base ds))"

definition sscanf_4i :: "string \<Rightarrow> scan" where
  "sscanf_4i s =
     (let rest = dropWhile is_space s; field = take 4 rest in
      if rest = [] then ScanEOF
      else case (if hd field = CHR ''-'' then map_option (\<lambda>n. - int n) (scan_unsigned (tl field))
                 else if hd field = CHR ''+'' then map_option int (scan_unsigned (tl field))
                 else map_option int (scan_unsigned field)) of
             None \<Rightarrow> ScanNoMatch
           | Some v \<Rightarrow> ScanInt v)"

text \<open>
  The loop state is whether a value was found and the variable \<open>click_time\<close>, which starts
  unwritten. A failed conversion counts as a success, since its result is not \<^verbatim>\<open>EOF\<close>.
\<close>

type_synonym click_search = "bool \<times> int option"

definition try_default :: "string option \<Rightarrow> click_search \<Rightarrow> click_search" where
  "try_default xprop st =
     (let (successful, click_time) = st in
      if successful then st
      else case xprop of
             None \<Rightarrow> st
           | Some s \<Rightarrow> (case sscanf_4i s of
                          ScanEOF \<Rightarrow> st
                        | ScanNoMatch \<Rightarrow> (True, click_time)
                        | ScanInt v \<Rightarrow> (True, Some v)))"

definition hook_get_multi_click_time :: "x11_build \<Rightarrow> x11_env \<Rightarrow> input_helper \<Rightarrow> c_long result" where
  "hook_get_multi_click_time build env h =
     (let st = (False, None);
          st = (if use_xt build \<and> xt_disp env
                then (sint (xt_multi_click env) \<ge> 0, Some (sint (xt_multi_click env))) else st);
          st = (if helper_disp h
                then try_default (snd (click_defaults env)) (try_default (fst (click_defaults env)) st)
                else st)
      in if fst st then (case snd st of None \<Rightarrow> Inl UninitialisedRead | Some v \<Rightarrow> Inr (word_of_int v))
         else Inr 200)"

section \<open>Loading and unloading the library\<close>

text \<open>
  The library's own connections: \<open>helper_disp\<close> is part of the helper, \<open>lib_xt_disp\<close> is the
  toolkit's display, \<open>lib_open\<close> counts the displays opened and not yet closed, \<open>lib_settings_thread\<close> is
  whether the thread of the XRandR build runs; unloading does not end it.
\<close>

record x11_library =
  lib_helper :: input_helper
  lib_xt_disp :: bool
  lib_open :: nat
  lib_settings_thread :: bool

definition on_library_load :: "x11_build \<Rightarrow> bool \<Rightarrow> bool \<Rightarrow> bool \<Rightarrow> x11_library \<Rightarrow> x11_library" where
  "on_library_load build open_ok create_ok xt_ok l =
     (let l = l\<lparr>lib_helper := (lib_helper l)\<lparr>helper_disp := open_ok\<rparr>,
                lib_open := lib_open l + (if open_ok then 1 else 0)\<rparr>;
          l = (if use_screens build = SCREENS_XRANDR then l\<lparr>lib_settings_thread := create_ok\<rparr> else l)
      in if use_xt build
         then l\<lparr>lib_xt_disp := xt_ok, lib_open := lib_open l + (if xt_ok then 1 else 0)\<rparr>
         else l)"

definition on_library_unload :: "x11_build \<Rightarrow> x11_library \<Rightarrow> x11_library result" where
  "on_library_unload build l =
     (let l = l\<lparr>lib_helper := unload_input_helper (lib_helper l)\<rparr>;
          close_helper = (\<lambda>l. if helper_disp (lib_helper l)
             then l\<lparr>lib_helper := (lib_helper l)\<lparr>helper_disp := False\<rparr>, lib_open := lib_open l - 1\<rparr>
             else l)
      in if use_xt build then
           if lib_xt_disp l then Inr (close_helper (l\<lparr>lib_open := lib_open l - 1\<rparr>))
           else Inl NullDereference
         else Inr (close_helper l))"

section \<open>Properties\<close>

text \<open>A desktop with two screens side by side, used in the examples.\<close>

definition desktop_build :: x11_build where
  "desktop_build = \<lparr>use_screens = SCREENS_XINERAMA, use_xf86misc = False, use_xt = True,
     use_xkb_common = True, use_xtest = True\<rparr>"

definition desktop_env :: x11_env where
  "desktop_env =
     \<lparr>malloc_screens = True, xine_active = True,
      xine_screens = Some [\<lparr>xi_screen_number = 0, xi_x_org = 0, xi_y_org = 0, xi_width = 1920, xi_height = 1080\<rparr>,
                           \<lparr>xi_screen_number = 1, xi_x_org = 1920, xi_y_org = 0, xi_width = 1280, xi_height = 1024\<rparr>],
      xrandr_crtcs = None, default_screen = (3200, 1080), repeat_rate = Some (660, 40),
      kbd_settings = None, pointer_control = (2, 1, 4), xt_disp = True, xt_multi_click = 250,
      click_defaults = (Some ''300'', None)\<rparr>"

definition desktop_helper :: input_helper where
  "desktop_helper = \<lparr>helper_disp = True, mouse_button_map = True, keyboard_map = None,
     client_map = False, is_evdev = True\<rparr>"

lemmas desktop_defs = desktop_build_def desktop_env_def desktop_helper_def

lemma screen_count_bound: "unat (screen_count n) = min 255 n"
  by (simp add: screen_count_def unat_of_nat)

lemma screen_count_gt_1: "1 < screen_count n \<Longrightarrow> 1 < n"
  by (simp add: word_less_nat_alt screen_count_bound)

text \<open>
  With memory, the array holds at least as many screens as the count says, and at most
  255 are counted; a Xinerama or default array has no unwritten element.
\<close>

theorem hook_create_screen_info_count:
  assumes "hook_create_screen_info build env h = (count, Some screens)"
  shows "unat count = min 255 (length screens)
    \<and> (use_screens build \<noteq> SCREENS_XRANDR \<longrightarrow> None \<notin> set screens)"
  using assms
  by (auto simp: hook_create_screen_info_def xinerama_screens_def xrandr_screens_def default_screens_def
      screen_count_bound split: if_splits option.splits screen_source.splits prod.splits)

theorem hook_create_screen_info_count_witness:
  "\<exists>screens. hook_create_screen_info desktop_build desktop_env desktop_helper = (2, Some screens)
     \<and> unat (2 :: uint8_t) = min 255 (length screens)
     \<and> (use_screens desktop_build \<noteq> SCREENS_XRANDR \<longrightarrow> None \<notin> set screens)"
proof -
  obtain screens where
    screens: "hook_create_screen_info desktop_build desktop_env desktop_helper = (2, Some screens)"
    by (simp add: hook_create_screen_info_def xinerama_screens_def desktop_defs screen_count_def)
  with hook_create_screen_info_count [OF screens] show ?thesis by blast
qed

lemma try_default_converts:
  assumes "\<And>s. xprop = Some s \<Longrightarrow> sscanf_4i s \<noteq> ScanNoMatch"
  shows "try_default xprop st =
    (if fst st then st
     else case map_option sscanf_4i xprop of Some (ScanInt v) \<Rightarrow> (True, Some v) | _ \<Rightarrow> st)"
  using assms by (cases st; cases xprop) (auto simp: try_default_def split: scan.split)

lemma multi_click_time_xt:
  assumes "use_xt build" and "xt_disp env" and "0 \<le> sint (xt_multi_click env)"
  shows "hook_get_multi_click_time build env h = Inr (word_of_int (sint (xt_multi_click env)))"
  using assms by (simp add: hook_get_multi_click_time_def try_default_def Let_def)

lemma multi_click_time_default:
  assumes "\<not> (use_xt build \<and> xt_disp env)" and "\<not> helper_disp h"
  shows "hook_get_multi_click_time build env h = Inr 200"
  using assms by (auto simp: hook_get_multi_click_time_def Let_def)

text \<open>
  The multi-click time is the toolkit's value when there is one, else the first X resource
  that converts, else 200 ms.
\<close>

theorem multi_click_time_sources:
  assumes "\<And>s. fst (click_defaults env) = Some s \<Longrightarrow> sscanf_4i s \<noteq> ScanNoMatch"
    and "\<And>s. snd (click_defaults env) = Some s \<Longrightarrow> sscanf_4i s \<noteq> ScanNoMatch"
  shows "hook_get_multi_click_time build env h = Inr (
    if use_xt build \<and> xt_disp env \<and> 0 \<le> sint (xt_multi_click env)
    then word_of_int (sint (xt_multi_click env))
    else if \<not> helper_disp h then 200
    else case map_option sscanf_4i (fst (click_defaults env)) of
           Some (ScanInt v) \<Rightarrow> word_of_int v
         | _ \<Rightarrow> (case map_option sscanf_4i (snd (click_defaults env)) of
                  Some (ScanInt v) \<Rightarrow> word_of_int v | _ \<Rightarrow> 200))"
proof -
  have first: "try_default (fst (click_defaults env)) st =
    (if fst st then st
     else case map_option sscanf_4i (fst (click_defaults env)) of Some (ScanInt v) \<Rightarrow> (True, Some v) | _ \<Rightarrow> st)" for st
    using assms(1) by (rule try_default_converts)
  have second: "try_default (snd (click_defaults env)) st =
    (if fst st then st
     else case map_option sscanf_4i (snd (click_defaults env)) of Some (ScanInt v) \<Rightarrow> (True, Some v) | _ \<Rightarrow> st)" for st
    using assms(2) by (rule try_default_converts)
  show ?thesis
    unfolding hook_get_multi_click_time_def Let_def first second
    by (simp split: option.split scan.split)
qed

theorem multi_click_time_sources_witness:
  "hook_get_multi_click_time desktop_build (desktop_env\<lparr>xt_disp := False\<rparr>) desktop_helper = Inr 300"
proof -
  let ?env = "desktop_env\<lparr>xt_disp := False\<rparr>"
  have scan: "sscanf_4i ''300'' = ScanInt 300" by code_simp
  have first: "sscanf_4i s \<noteq> ScanNoMatch" if "fst (click_defaults ?env) = Some s" for s
    using that scan by (simp add: desktop_env_def)
  have second: "sscanf_4i s \<noteq> ScanNoMatch" if "snd (click_defaults ?env) = Some s" for s
    using that by (simp add: desktop_env_def)
  show ?thesis
    using multi_click_time_sources [where env = ?env and build = desktop_build and h = desktop_helper, OF first second] scan
    by (simp add: desktop_defs)
qed

text \<open>
  A resource that is no number is taken as a success: without the toolkit the function
  reads a variable that was never written.
\<close>

theorem multi_click_time_uninitialised:
  assumes "\<not> (use_xt build \<and> xt_disp env)" and "helper_disp h"
    and "fst (click_defaults env) = Some s" and "sscanf_4i s = ScanNoMatch"
  shows "hook_get_multi_click_time build env h = Inl UninitialisedRead"
  using assms by (auto simp: hook_get_multi_click_time_def try_default_def Let_def)

theorem multi_click_time_uninitialised_witness:
  "hook_get_multi_click_time desktop_build
     (desktop_env\<lparr>xt_disp := False, click_defaults := (Some ''fast'', None)\<rparr>) desktop_helper
   = Inl UninitialisedRead"
proof -
  have "sscanf_4i ''fast'' = ScanNoMatch" by code_simp
  then show ?thesis
    by (intro multi_click_time_uninitialised [where s = "''fast''"]) (simp_all add: desktop_defs)
qed

text \<open>
  The library closes every display it opened when it is loaded and later unloaded, if the
  toolkit's display could be opened. The settings thread of the XRandR build is not ended.
\<close>

theorem library_load_unload:
  assumes "lib_open l = 0" and "use_xt build \<longrightarrow> xt_ok" and "\<not> lib_settings_thread l"
  shows "\<exists>l'. on_library_unload build (on_library_load build open_ok create_ok xt_ok l) = Inr l'
    \<and> lib_open l' = 0 \<and> \<not> helper_disp (lib_helper l') \<and> \<not> mouse_button_map (lib_helper l')
    \<and> lib_settings_thread l' = (use_screens build = SCREENS_XRANDR \<and> create_ok)"
  using assms
  by (auto simp: on_library_load_def on_library_unload_def unload_input_helper_def Let_def)

theorem library_load_unload_witness:
  "\<exists>l'. on_library_unload desktop_build (on_library_load desktop_build True True True
       \<lparr>lib_helper = desktop_helper, lib_xt_disp = False, lib_open = 0, lib_settings_thread = False\<rparr>) = Inr l'
     \<and> lib_open l' = 0 \<and> \<not> helper_disp (lib_helper l')"
  using library_load_unload [of "\<lparr>lib_helper = desktop_helper, lib_xt_disp = False, lib_open = 0, lib_settings_thread = False\<rparr>"
      desktop_build True True True] by auto

end
