(* ===== verification/X11_Input_Hook.thy ===== *)
theory X11_Input_Hook
  imports X11_System_Properties
begin

text \<open>
  The event handler of \<^verbatim>\<open>src/x11/input_hook.c\<close>: the modifier mask, the lock lights, and
  \<^verbatim>\<open>hook_event_proc\<close> with its branches for keys, buttons, wheel and motion. A handler takes the
  answers of the environment during the call and the state before, and gives the state after
  or the fault the C code would run into.
\<close>

section \<open>State\<close>

text \<open>
  The fields of \<^verbatim>\<open>hook->input\<close>, the static \<^verbatim>\<open>state\<close> of xkbcommon (\<open>None\<close> for null; the type of
  the library's states is a parameter) and the helper's state, added to the static event and
  the callback.
\<close>

record 'x x11_hook = dispatch_state +
  in_mask :: uint16_t
  is_dragged :: bool
  click_count :: uint16_t
  click_time :: c_long
  click_button :: uint16_t
  xkb_state :: "'x option"
  helper :: input_helper

datatype xkb_led = XKB_LED_NAME_CAPS | XKB_LED_NAME_NUM | XKB_LED_NAME_SCROLL

text \<open>The functions of xkbcommon that the handler calls on a state.\<close>

record 'x xkb_api =
  xkb_state_key_get_one_sym :: "'x \<Rightarrow> KeyCode \<Rightarrow> uint32_t"
  xkb_state_key_get_utf32 :: "'x \<Rightarrow> KeyCode \<Rightarrow> uint32_t"
  xkb_state_update_key :: "'x \<Rightarrow> KeyCode \<Rightarrow> bool \<Rightarrow> 'x"
  xkb_state_led_name_is_active :: "'x \<Rightarrow> xkb_led \<Rightarrow> bool"

text \<open>
  What surrounds one call of the handler: the build, the answers to the property queries, to
  \<^verbatim>\<open>XGetPointerMapping\<close> and \<^verbatim>\<open>XkbGetIndicatorState\<close>, the library, and the answers while the
  helper is loaded.
\<close>

record 'x hook_env =
  hk_build :: x11_build
  hk_env :: x11_env
  hk_mapping :: "uint8_t list"
  hk_indicators :: "uint32_t option"
  hk_xkb :: "'x xkb_api"
  hk_load :: load_env

lemma fire_fields [simp]:
  "in_mask (fire ty tm msk dat s) = in_mask s"
  "is_dragged (fire ty tm msk dat s) = is_dragged s"
  "click_count (fire ty tm msk dat s) = click_count s"
  "click_time (fire ty tm msk dat s) = click_time s"
  "click_button (fire ty tm msk dat s) = click_button s"
  "xkb_state (fire ty tm msk dat s) = xkb_state s"
  "helper (fire ty tm msk dat s) = helper s"
  by (simp_all add: fire_def dispatch_event_def split: option.split)

section \<open>The modifier mask\<close>

definition set_modifier_mask :: "uint16_t \<Rightarrow> 'x x11_hook \<Rightarrow> 'x x11_hook" where
  "set_modifier_mask msk s = s\<lparr>in_mask := in_mask s OR msk\<rparr>"

definition unset_modifier_mask :: "uint16_t \<Rightarrow> 'x x11_hook \<Rightarrow> 'x x11_hook" where
  "unset_modifier_mask msk s = s\<lparr>in_mask := in_mask s AND NOT msk\<rparr>"

definition get_modifiers :: "'x x11_hook \<Rightarrow> uint16_t" where
  "get_modifiers s = in_mask s"

interpretation xmask: mask_tracker set_modifier_mask unset_modifier_mask get_modifiers
  by unfold_locales (simp_all add: set_modifier_mask_def unset_modifier_mask_def get_modifiers_def)

definition put_modifier :: "uint16_t \<Rightarrow> bool \<Rightarrow> 'x x11_hook \<Rightarrow> 'x x11_hook" where
  "put_modifier msk on s = (if on then set_modifier_mask msk s else unset_modifier_mask msk s)"

definition initialize_locks :: "'x hook_env \<Rightarrow> 'x x11_hook \<Rightarrow> 'x x11_hook result" where
  "initialize_locks env s =
     (if use_xkb_common (hk_build env) then
        case xkb_state s of
          None \<Rightarrow> Inl NullDereference
        | Some st \<Rightarrow>
            let active = xkb_state_led_name_is_active (hk_xkb env) st;
                s = put_modifier MASK_CAPS_LOCK (active XKB_LED_NAME_CAPS) s;
                s = put_modifier MASK_NUM_LOCK (active XKB_LED_NAME_NUM) s;
                s = put_modifier MASK_SCROLL_LOCK (active XKB_LED_NAME_SCROLL) s
            in Inr s
      else
        case hk_indicators env of
          Some led_mask \<Rightarrow>
            let s = put_modifier MASK_CAPS_LOCK (led_mask AND 0x01 \<noteq> 0) s;
                s = put_modifier MASK_NUM_LOCK (led_mask AND 0x02 \<noteq> 0) s;
                s = put_modifier MASK_SCROLL_LOCK (led_mask AND 0x04 \<noteq> 0) s
            in Inr s
        | None \<Rightarrow> Inr s)"

text \<open>
  The answers of \<^verbatim>\<open>XQueryKeymap\<close> (32 bytes), \<^verbatim>\<open>XKeysymToKeycode\<close> for the eight modifier symbols
  and \<^verbatim>\<open>XQueryPointer\<close> (\<open>None\<close> when it fails) when the hook starts.
\<close>

datatype modifier_sym =
  XK_Shift_L | XK_Shift_R | XK_Control_L | XK_Control_R | XK_Alt_L | XK_Alt_R | XK_Super_L | XK_Super_R

record modifier_query =
  q_keymap :: "nat \<Rightarrow> uint8_t"
  q_keycode :: "modifier_sym \<Rightarrow> KeyCode"
  q_pointer :: "uint32_t option"

definition key_held :: "modifier_query \<Rightarrow> modifier_sym \<Rightarrow> bool" where
  "key_held q ksym =
     (let keycode = q_keycode q ksym
      in bit (q_keymap q (unat keycode div 8)) (unat keycode mod 8))"

definition if_held :: "modifier_query \<Rightarrow> modifier_sym \<Rightarrow> uint16_t \<Rightarrow> 'x x11_hook \<Rightarrow> 'x x11_hook" where
  "if_held q ksym msk s = (if key_held q ksym then set_modifier_mask msk s else s)"

text \<open>The masks of \<^verbatim>\<open>X11/X.h\<close> are single bits, read by their position.\<close>

definition if_bit :: "uint32_t \<Rightarrow> nat \<Rightarrow> ('x x11_hook \<Rightarrow> 'x x11_hook) \<Rightarrow> 'x x11_hook \<Rightarrow> 'x x11_hook" where
  "if_bit msk k f s = (if bit msk k then f s else s)"

definition initialize_modifiers ::
  "'x hook_env \<Rightarrow> modifier_query \<Rightarrow> 'x x11_hook \<Rightarrow> 'x x11_hook result" where
  "initialize_modifiers env q s =
     (let s = s\<lparr>in_mask := 0x0000\<rparr>;
          shift = (\<lambda>s. if_held q XK_Shift_R MASK_SHIFT_R (if_held q XK_Shift_L MASK_SHIFT_L s));
          control = (\<lambda>s. if_held q XK_Control_R MASK_CTRL_R (if_held q XK_Control_L MASK_CTRL_L s));
          alt = (\<lambda>s. if_held q XK_Alt_R MASK_ALT_R (if_held q XK_Alt_L MASK_ALT_L s));
          super = (\<lambda>s. if_held q XK_Super_R MASK_META_R (if_held q XK_Super_L MASK_META_L s))
      in case q_pointer q of
           Some msk \<Rightarrow>
             let s = if_bit msk 6 super (if_bit msk 3 alt (if_bit msk 2 control (if_bit msk 0 shift s)));
                 s = if_bit msk 8 (set_modifier_mask MASK_BUTTON1) s;
                 s = if_bit msk 9 (set_modifier_mask MASK_BUTTON2) s;
                 s = if_bit msk 10 (set_modifier_mask MASK_BUTTON3) s;
                 s = if_bit msk 11 (set_modifier_mask MASK_BUTTON4) s;
                 s = if_bit msk 12 (set_modifier_mask MASK_BUTTON5) s
             in initialize_locks env s
         | None \<Rightarrow> initialize_locks env (super (alt (control (shift s)))))"

section \<open>Keys\<close>

definition key_modifier :: "uint16_t \<Rightarrow> uint16_t option" where
  "key_modifier scancode =
     (if scancode = VC_SHIFT_L then Some MASK_SHIFT_L
      else if scancode = VC_SHIFT_R then Some MASK_SHIFT_R
      else if scancode = VC_CONTROL_L then Some MASK_CTRL_L
      else if scancode = VC_CONTROL_R then Some MASK_CTRL_R
      else if scancode = VC_ALT_L then Some MASK_ALT_L
      else if scancode = VC_ALT_R then Some MASK_ALT_R
      else if scancode = VC_META_L then Some MASK_META_L
      else if scancode = VC_META_R then Some MASK_META_R
      else None)"

definition put_key_modifier :: "uint16_t \<Rightarrow> bool \<Rightarrow> 'x x11_hook \<Rightarrow> 'x x11_hook" where
  "put_key_modifier scancode down s =
     (case key_modifier scancode of Some msk \<Rightarrow> put_modifier msk down s | None \<Rightarrow> s)"

definition event_keysym :: "'x hook_env \<Rightarrow> KeyCode \<Rightarrow> uint16_t \<Rightarrow> 'x x11_hook \<Rightarrow> KeySym" where
  "event_keysym env keycode modstate s =
     (if use_xkb_common (hk_build env) then
        case xkb_state s of
          Some st \<Rightarrow> ucast (xkb_state_key_get_one_sym (hk_xkb env) st keycode) | None \<Rightarrow> 0x00
      else keycode_to_keysym (keyboard_map (helper s)) keycode (ucast modstate))"

definition event_units :: "'x hook_env \<Rightarrow> KeyCode \<Rightarrow> KeySym \<Rightarrow> 'x x11_hook \<Rightarrow> uint16_t list result" where
  "event_units env keycode keysym s =
     (if use_xkb_common (hk_build env) then
        keycode_to_unicode
          (map_option (\<lambda>st. xkb_state_key_get_utf32 (hk_xkb env) st keycode) (xkb_state s)) 2
      else keysym_to_unicode keysym 2)"

definition update_key :: "'x hook_env \<Rightarrow> KeyCode \<Rightarrow> bool \<Rightarrow> 'x x11_hook \<Rightarrow> 'x x11_hook result" where
  "update_key env keycode down s =
     (if use_xkb_common (hk_build env) then
        case xkb_state s of
          None \<Rightarrow> Inl NullDereference
        | Some st \<Rightarrow> Inr (s\<lparr>xkb_state := Some (xkb_state_update_key (hk_xkb env) st keycode down)\<rparr>)
      else Inr s)"

definition keypad_scancode :: "uint16_t \<Rightarrow> uint16_t \<Rightarrow> uint16_t" where
  "keypad_scancode modifiers scancode =
     (if modifiers AND MASK_NUM_LOCK = 0
         \<and> scancode \<in> {VC_KP_SEPARATOR, VC_KP_1, VC_KP_2, VC_KP_3, VC_KP_4, VC_KP_5, VC_KP_6,
                       VC_KP_7, VC_KP_8, VC_KP_0, VC_KP_9}
      then scancode OR 0xEE00 else scancode)"

definition key_data :: "uint16_t \<Rightarrow> KeySym \<Rightarrow> uint16_t \<Rightarrow> event_data" where
  "key_data keycode keysym keychar =
     Keyboard \<lparr>kb_keycode = keycode, kb_rawcode = ucast keysym, kb_keychar = keychar\<rparr>"

primrec type_units :: "uint64_t \<Rightarrow> KeySym \<Rightarrow> uint16_t list \<Rightarrow> 'x x11_hook \<Rightarrow> 'x x11_hook" where
  "type_units timestamp keysym [] s = s"
| "type_units timestamp keysym (c # cs) s =
     type_units timestamp keysym cs
       (fire EVENT_KEY_TYPED timestamp (get_modifiers s) (key_data VC_UNDEFINED keysym c) s)"

definition process_key_press ::
  "'x hook_env \<Rightarrow> uint64_t \<Rightarrow> KeyCode \<Rightarrow> uint16_t \<Rightarrow> 'x x11_hook \<Rightarrow> 'x x11_hook result" where
  "process_key_press env timestamp keycode modstate s =
     (let keysym = event_keysym env keycode modstate s in
      r_bind (event_units env keycode keysym s) (\<lambda>buffer.
      let scancode = keycode_to_scancode (is_evdev (helper s)) keycode;
          s = put_key_modifier scancode True s in
      r_bind (update_key env keycode True s) (\<lambda>s.
      r_bind (initialize_locks env s) (\<lambda>s.
      let scancode = keypad_scancode (get_modifiers s) scancode;
          s = fire EVENT_KEY_PRESSED timestamp (get_modifiers s) (key_data scancode keysym CHAR_UNDEFINED) s
      in Inr (if not_consumed s then type_units timestamp keysym buffer s else s)))))"

definition process_key_release ::
  "'x hook_env \<Rightarrow> uint64_t \<Rightarrow> KeyCode \<Rightarrow> uint16_t \<Rightarrow> 'x x11_hook \<Rightarrow> 'x x11_hook result" where
  "process_key_release env timestamp keycode modstate s =
     (let keysym = event_keysym env keycode modstate s in
      r_bind (event_units env keycode keysym s) (\<lambda>buffer.
      let scancode = keycode_to_scancode (is_evdev (helper s)) keycode;
          s = put_key_modifier scancode False s in
      r_bind (update_key env keycode False s) (\<lambda>s.
      r_bind (initialize_locks env s) (\<lambda>s.
      let scancode = keypad_scancode (get_modifiers s) scancode
      in Inr (fire EVENT_KEY_RELEASED timestamp (get_modifiers s)
                (key_data scancode keysym CHAR_UNDEFINED) s)))))"

section \<open>Buttons and wheel\<close>

text \<open>Logical buttons of \<^verbatim>\<open>input_helper.h\<close>.\<close>

abbreviation (input) Button1 :: uint32_t where "Button1 \<equiv> 1"
abbreviation (input) Button2 :: uint32_t where "Button2 \<equiv> 2"
abbreviation (input) Button3 :: uint32_t where "Button3 \<equiv> 3"
abbreviation (input) WheelUp :: uint32_t where "WheelUp \<equiv> 4"
abbreviation (input) WheelDown :: uint32_t where "WheelDown \<equiv> 5"
abbreviation (input) WheelLeft :: uint32_t where "WheelLeft \<equiv> 6"
abbreviation (input) WheelRight :: uint32_t where "WheelRight \<equiv> 7"
abbreviation (input) XButton1 :: uint32_t where "XButton1 \<equiv> 8"
abbreviation (input) XButton2 :: uint32_t where "XButton2 \<equiv> 9"

definition is_wheel :: "uint32_t \<Rightarrow> bool" where
  "is_wheel map_button \<longleftrightarrow>
     map_button = WheelUp \<or> map_button = WheelDown \<or> map_button = WheelLeft \<or> map_button = WheelRight"

text \<open>
  With more than one screen the coordinates are made relative to the first one. A build
  without Xinerama and XRandR leaves them alone.
\<close>

definition relative_to_screen ::
  "'x hook_env \<Rightarrow> int16_t \<Rightarrow> int16_t \<Rightarrow> 'x x11_hook \<Rightarrow> (int16_t \<times> int16_t) result" where
  "relative_to_screen env x y s =
     (if use_screens (hk_build env) = SCREENS_DEFAULT then Inr (x, y)
      else let (count, screens) = hook_create_screen_info (hk_build env) (hk_env env) (helper s) in
           if count > 1 then
             case screens of
               None \<Rightarrow> Inl NullDereference
             | Some [] \<Rightarrow> Inl OutOfBounds
             | Some (None # _) \<Rightarrow> Inl UninitialisedRead
             | Some (Some screen # _) \<Rightarrow> Inr (x - scr_x screen, y - scr_y screen)
           else Inr (x, y))"

definition x11_multi_click :: "'x hook_env \<Rightarrow> 'x x11_hook \<Rightarrow> c_long result" where
  "x11_multi_click env s = hook_get_multi_click_time (hk_build env) (hk_env env) (helper s)"

definition process_wheel ::
  "'x hook_env \<Rightarrow> uint64_t \<Rightarrow> uint32_t \<Rightarrow> int16_t \<Rightarrow> int16_t \<Rightarrow> 'x x11_hook \<Rightarrow> 'x x11_hook result" where
  "process_wheel env timestamp detail root_x root_y s =
     (let s = s\<lparr>click_count := 1, click_button := MOUSE_NOBUTTON\<rparr> in
      r_bind (relative_to_screen env root_x root_y s) (\<lambda>(x, y).
      Inr (fire EVENT_MOUSE_WHEEL timestamp (get_modifiers s)
        (Wheel \<lparr>wh_clicks = click_count s, wh_x = x, wh_y = y,
                wh_type = WHEEL_UNIT_SCROLL, wh_amount = 3,
                wh_rotation = (if detail = WheelUp \<or> detail = WheelLeft then -1 else 1),
                wh_direction = (if detail = WheelUp \<or> detail = WheelDown
                                then WHEEL_VERTICAL_DIRECTION else WHEEL_HORIZONTAL_DIRECTION)\<rparr>) s)))"

text \<open>The \<open>switch\<close> on the logical button: the virtual button and the mask it sets or clears.\<close>

definition virtual_button :: "uint32_t \<Rightarrow> uint16_t \<times> uint16_t option" where
  "virtual_button map_button =
     (if map_button = Button1 then (MOUSE_BUTTON1, Some MASK_BUTTON1)
      else if map_button = Button2 then (MOUSE_BUTTON2, Some MASK_BUTTON2)
      else if map_button = Button3 then (MOUSE_BUTTON3, Some MASK_BUTTON3)
      else if map_button = XButton1 then (MOUSE_BUTTON4, Some MASK_BUTTON5)
      else if map_button = XButton2 then (MOUSE_BUTTON5, Some MASK_BUTTON5)
      else (MOUSE_NOBUTTON, None))"

definition put_button_modifier :: "uint32_t \<Rightarrow> bool \<Rightarrow> 'x x11_hook \<Rightarrow> 'x x11_hook" where
  "put_button_modifier map_button down s =
     (case snd (virtual_button map_button) of Some msk \<Rightarrow> put_modifier msk down s | None \<Rightarrow> s)"

definition count_press :: "c_long \<Rightarrow> uint16_t \<Rightarrow> uint64_t \<Rightarrow> 'x x11_hook \<Rightarrow> 'x x11_hook" where
  "count_press multi_click button timestamp s =
     (let s = (if button = click_button s \<and> sint (timestamp - click_time s) \<le> sint multi_click
               then if click_count s < 0xFFFF then s\<lparr>click_count := click_count s + 1\<rparr> else s
               else s\<lparr>click_count := 1, click_button := button\<rparr>)
      in s\<lparr>click_time := timestamp\<rparr>)"

definition mouse_data :: "uint16_t \<Rightarrow> uint16_t \<Rightarrow> int16_t \<Rightarrow> int16_t \<Rightarrow> event_data" where
  "mouse_data button clicks x y = Mouse \<lparr>ms_button = button, ms_clicks = clicks, ms_x = x, ms_y = y\<rparr>"

definition process_button_press ::
  "'x hook_env \<Rightarrow> uint64_t \<Rightarrow> uint32_t \<Rightarrow> int16_t \<Rightarrow> int16_t \<Rightarrow> 'x x11_hook \<Rightarrow> 'x x11_hook result" where
  "process_button_press env timestamp map_button root_x root_y s =
     (let button = fst (virtual_button map_button);
          s = put_button_modifier map_button True s in
      r_bind (if button = click_button s then x11_multi_click env s else Inr 0) (\<lambda>multi_click.
      let s = count_press multi_click button timestamp s in
      r_bind (relative_to_screen env root_x root_y s) (\<lambda>(x, y).
      Inr (fire EVENT_MOUSE_PRESSED timestamp (get_modifiers s)
             (mouse_data button (click_count s) x y) s))))"

text \<open>
  A release fires the released event, then the clicked event unless the released event was
  consumed or the pointer was dragged, then forgets the clicks if they are too old. The time
  compared is the one left in the static event, which the callback may have written.
\<close>

definition fire_clicked ::
  "'x hook_env \<Rightarrow> uint64_t \<Rightarrow> uint16_t \<Rightarrow> int16_t \<Rightarrow> int16_t \<Rightarrow> 'x x11_hook \<Rightarrow> 'x x11_hook result" where
  "fire_clicked env timestamp button root_x root_y s =
     (if not_consumed s \<and> is_dragged s \<noteq> True
      then r_bind (relative_to_screen env root_x root_y s) (\<lambda>(x, y).
           Inr (fire EVENT_MOUSE_CLICKED timestamp (get_modifiers s)
                  (mouse_data button (click_count s) x y) s))
      else Inr s)"

definition reset_clicks :: "'x hook_env \<Rightarrow> uint16_t \<Rightarrow> 'x x11_hook \<Rightarrow> 'x x11_hook result" where
  "reset_clicks env button s =
     (if button = click_button s then
        r_bind (x11_multi_click env s) (\<lambda>multi_click.
        Inr (if sint (ev_time (static_event s) - click_time s) > sint multi_click
             then s\<lparr>click_count := 0\<rparr> else s))
      else Inr s)"

definition process_button_release ::
  "'x hook_env \<Rightarrow> uint64_t \<Rightarrow> uint32_t \<Rightarrow> int16_t \<Rightarrow> int16_t \<Rightarrow> 'x x11_hook \<Rightarrow> 'x x11_hook result" where
  "process_button_release env timestamp map_button root_x root_y s =
     (let button = fst (virtual_button map_button);
          s = put_button_modifier map_button False s in
      r_bind (relative_to_screen env root_x root_y s) (\<lambda>(x, y).
      let s = fire EVENT_MOUSE_RELEASED timestamp (get_modifiers s) (mouse_data button (click_count s) x y) s in
      r_bind (fire_clicked env timestamp button root_x root_y s) (reset_clicks env button)))"

section \<open>Motion\<close>

definition forget_clicks :: "'x hook_env \<Rightarrow> uint64_t \<Rightarrow> 'x x11_hook \<Rightarrow> 'x x11_hook result" where
  "forget_clicks env timestamp s =
     (if click_count s \<noteq> 0
      then r_bind (x11_multi_click env s) (\<lambda>multi_click.
           Inr (if sint (timestamp - click_time s) > sint multi_click then s\<lparr>click_count := 0\<rparr> else s))
      else Inr s)"

definition process_motion ::
  "'x hook_env \<Rightarrow> uint64_t \<Rightarrow> int16_t \<Rightarrow> int16_t \<Rightarrow> 'x x11_hook \<Rightarrow> 'x x11_hook result" where
  "process_motion env timestamp root_x root_y s =
     r_bind (forget_clicks env timestamp s) (\<lambda>s.
     let s = s\<lparr>is_dragged := (get_modifiers s AND 0x1F00 > 0)\<rparr> in
     r_bind (relative_to_screen env root_x root_y s) (\<lambda>(x, y).
     Inr (fire (if is_dragged s then EVENT_MOUSE_DRAGGED else EVENT_MOUSE_MOVED) timestamp
            (get_modifiers s) (mouse_data MOUSE_NOBUTTON (click_count s) x y) s)))"

section \<open>The handler\<close>

datatype record_category =
  XRecordStartOfData | XRecordEndOfData | XRecordFromServer | XRecordFromClient | XRecordOtherCategory

datatype datum_type = KeyPress | KeyRelease | ButtonPress | ButtonRelease | MotionNotify | OtherEvent

record datum =
  d_type :: datum_type
  d_detail :: uint8_t
  d_state :: uint16_t
  d_root_x :: int16_t
  d_root_y :: int16_t

definition process_datum ::
  "'x hook_env \<Rightarrow> uint64_t \<Rightarrow> datum \<Rightarrow> 'x x11_hook \<Rightarrow> 'x x11_hook result" where
  "process_datum env timestamp d s =
     (let map_button = button_map_lookup (helper s) (hk_mapping env) (ucast (d_detail d)) in
      case d_type d of
        KeyPress \<Rightarrow> process_key_press env timestamp (d_detail d) (d_state d) s
      | KeyRelease \<Rightarrow> process_key_release env timestamp (d_detail d) (d_state d) s
      | ButtonPress \<Rightarrow>
          if is_wheel map_button
          then process_wheel env timestamp (ucast (d_detail d)) (d_root_x d) (d_root_y d) s
          else process_button_press env timestamp map_button (d_root_x d) (d_root_y d) s
      | ButtonRelease \<Rightarrow>
          if is_wheel map_button then Inr s
          else process_button_release env timestamp map_button (d_root_x d) (d_root_y d) s
      | MotionNotify \<Rightarrow> process_motion env timestamp (d_root_x d) (d_root_y d) s
      | OtherEvent \<Rightarrow> Inr s)"

definition hook_event_proc ::
  "'x hook_env \<Rightarrow> record_category \<Rightarrow> uint64_t \<Rightarrow> datum \<Rightarrow> 'x x11_hook \<Rightarrow> 'x x11_hook result" where
  "hook_event_proc env category timestamp d s =
     (case category of
        XRecordStartOfData \<Rightarrow>
          r_bind (load_input_helper (hk_load env) (helper s)) (\<lambda>h.
          Inr (fire EVENT_HOOK_ENABLED timestamp 0x00 (ev_data (static_event s)) (s\<lparr>helper := h\<rparr>)))
      | XRecordEndOfData \<Rightarrow>
          let s = fire EVENT_HOOK_DISABLED timestamp 0x00 (ev_data (static_event s)) s
          in Inr (s\<lparr>helper := unload_input_helper (helper s)\<rparr>)
      | XRecordFromServer \<Rightarrow> process_datum env timestamp d s
      | XRecordFromClient \<Rightarrow> process_datum env timestamp d s
      | XRecordOtherCategory \<Rightarrow> Inr s)"

end
