(* ===== verification/X11_Hook_Effects.thy ===== *)
theory X11_Hook_Effects
  imports X11_Input_Hook
begin

text \<open>
  What one datum does to the state of the X11 hook, branch by branch, and what a run of data
  does to the modifier mask: the lemmas that the properties of the handler rest on.
\<close>

section \<open>What an event changes\<close>

lemma put_modifier_simps [simp]:
  "static_event (put_modifier m b s) = static_event s"
  "dispatcher (put_modifier m b s) = dispatcher s"
  "dispatched (put_modifier m b s) = dispatched s"
  "is_dragged (put_modifier m b s) = is_dragged s"
  "click_count (put_modifier m b s) = click_count s"
  "click_time (put_modifier m b s) = click_time s"
  "click_button (put_modifier m b s) = click_button s"
  "xkb_state (put_modifier m b s) = xkb_state s"
  "helper (put_modifier m b s) = helper s"
  by (simp_all add: put_modifier_def set_modifier_mask_def unset_modifier_mask_def)

lemma bit_put_modifier:
  "k < 16 \<Longrightarrow> bit (in_mask (put_modifier (flag j) b s)) k \<longleftrightarrow> (if j = k then b else bit (in_mask s) k)"
  by (auto simp: put_modifier_def set_modifier_mask_def unset_modifier_mask_def bit_flags)

text \<open>The bit that a datum sets or clears, below the three lock bits.\<close>

definition modifier_bit :: "uint16_t \<Rightarrow> nat option" where
  "modifier_bit scancode =
     map_of [(VC_SHIFT_L, 0), (VC_CONTROL_L, 1), (VC_META_L, 2), (VC_ALT_L, 3),
             (VC_SHIFT_R, 4), (VC_CONTROL_R, 5), (VC_META_R, 6), (VC_ALT_R, 7)] scancode"

lemma key_modifier_bit: "key_modifier scancode = map_option flag (modifier_bit scancode)"
  by (simp add: key_modifier_def modifier_bit_def)

definition button_bit :: "uint32_t \<Rightarrow> nat option" where
  "button_bit map_button = map_of [(1, 8), (2, 9), (3, 10), (8, 12), (9, 12)] map_button"

lemma virtual_button_bit: "snd (virtual_button b) = map_option flag (button_bit b)"
  by (simp add: virtual_button_def button_bit_def)

definition transition :: "input_helper \<Rightarrow> uint8_t list \<Rightarrow> datum \<Rightarrow> (nat \<times> bool) option" where
  "transition h mapping d =
     (let scancode = keycode_to_scancode (is_evdev h) (d_detail d);
          map_button = button_map_lookup h mapping (ucast (d_detail d))
      in case d_type d of
           KeyPress \<Rightarrow> map_option (\<lambda>k. (k, True)) (modifier_bit scancode)
         | KeyRelease \<Rightarrow> map_option (\<lambda>k. (k, False)) (modifier_bit scancode)
         | ButtonPress \<Rightarrow> map_option (\<lambda>k. (k, True)) (button_bit map_button)
         | ButtonRelease \<Rightarrow> map_option (\<lambda>k. (k, False)) (button_bit map_button)
         | _ \<Rightarrow> None)"

lemma modifier_bit_bound: "modifier_bit c = Some k \<Longrightarrow> k < 8"
  by (auto simp: modifier_bit_def split: if_splits)

lemma button_bit_bound: "button_bit c = Some k \<Longrightarrow> 8 \<le> k \<and> k < 13"
  by (auto simp: button_bit_def split: if_splits)

lemma button_bit_wheel: "is_wheel b \<Longrightarrow> button_bit b = None"
  by (auto simp: is_wheel_def button_bit_def)

lemma initialize_locks_low:
  assumes "initialize_locks env s = Inr s'" and "k < 13"
  shows "bit (in_mask s') k = bit (in_mask s) k"
  using assms
  by (auto simp: initialize_locks_def bit_put_modifier Let_def split: if_splits option.splits)

lemma initialize_locks_frame:
  assumes "initialize_locks env s = Inr s'"
  shows "static_event s' = static_event s \<and> dispatcher s' = dispatcher s \<and> dispatched s' = dispatched s
    \<and> is_dragged s' = is_dragged s \<and> click_count s' = click_count s \<and> click_time s' = click_time s
    \<and> click_button s' = click_button s \<and> xkb_state s' = xkb_state s \<and> helper s' = helper s"
  using assms by (auto simp: initialize_locks_def Let_def split: if_splits option.splits)

lemma update_key_frame:
  assumes "update_key env keycode down s = Inr s'"
  shows "static_event s' = static_event s \<and> dispatcher s' = dispatcher s \<and> dispatched s' = dispatched s
    \<and> in_mask s' = in_mask s \<and> is_dragged s' = is_dragged s \<and> click_count s' = click_count s
    \<and> click_time s' = click_time s \<and> click_button s' = click_button s \<and> helper s' = helper s
    \<and> (xkb_state s' = None \<longleftrightarrow> xkb_state s = None)"
  using assms by (auto simp: update_key_def split: if_splits option.splits)

lemma type_units_fields [simp]:
  "in_mask (type_units tm ks cs s) = in_mask s"
  "is_dragged (type_units tm ks cs s) = is_dragged s"
  "click_count (type_units tm ks cs s) = click_count s"
  "click_time (type_units tm ks cs s) = click_time s"
  "click_button (type_units tm ks cs s) = click_button s"
  "xkb_state (type_units tm ks cs s) = xkb_state s"
  "helper (type_units tm ks cs s) = helper s"
  "dispatcher (type_units tm ks cs s) = dispatcher s"
  by (induction cs arbitrary: s) simp_all

lemma dispatched_type_units:
  "dispatched (type_units tm ks cs s) =
     (if dispatcher s = None then dispatched s
      else dispatched s @ map (\<lambda>c. emitted EVENT_KEY_TYPED tm (in_mask s) (key_data VC_UNDEFINED ks c)) cs)"
  by (induction cs arbitrary: s) (auto simp: dispatched_fire get_modifiers_def)


definition key_state :: "'x hook_env \<Rightarrow> KeyCode \<Rightarrow> bool \<Rightarrow> 'x x11_hook \<Rightarrow> 'x x11_hook result" where
  "key_state env keycode down s =
     r_bind (update_key env keycode down
               (put_key_modifier (keycode_to_scancode (is_evdev (helper s)) keycode) down s))
       (initialize_locks env)"

lemma put_key_modifier_fields [simp]:
  "static_event (put_key_modifier c b s) = static_event s"
  "dispatcher (put_key_modifier c b s) = dispatcher s"
  "dispatched (put_key_modifier c b s) = dispatched s"
  "is_dragged (put_key_modifier c b s) = is_dragged s"
  "click_count (put_key_modifier c b s) = click_count s"
  "click_time (put_key_modifier c b s) = click_time s"
  "click_button (put_key_modifier c b s) = click_button s"
  "xkb_state (put_key_modifier c b s) = xkb_state s"
  "helper (put_key_modifier c b s) = helper s"
  by (simp_all add: put_key_modifier_def split: option.split)

lemma bit_put_key_modifier:
  assumes "k < 16"
  shows "bit (in_mask (put_key_modifier c b s)) k \<longleftrightarrow>
    (if modifier_bit c = Some k then b else bit (in_mask s) k)"
  using assms by (auto simp: put_key_modifier_def key_modifier_bit bit_put_modifier split: option.split)

lemma key_state_frame:
  assumes "key_state env keycode down s = Inr s'"
  shows "static_event s' = static_event s \<and> dispatcher s' = dispatcher s \<and> dispatched s' = dispatched s
    \<and> is_dragged s' = is_dragged s \<and> click_count s' = click_count s
    \<and> click_time s' = click_time s \<and> click_button s' = click_button s \<and> helper s' = helper s
    \<and> (xkb_state s' = None \<longleftrightarrow> xkb_state s = None)"
  using assms unfolding key_state_def
  by (auto elim!: r_bind_InrE dest!: update_key_frame initialize_locks_frame)

text \<open>
  \<open>moves s s' tr\<close>: below the lock bits the mask of \<open>s'\<close> is that of \<open>s\<close> after the transition \<open>tr\<close>.
\<close>

definition moves :: "'x x11_hook \<Rightarrow> 'x x11_hook \<Rightarrow> (nat \<times> bool) option \<Rightarrow> bool" where
  "moves s s' tr \<longleftrightarrow>
     (\<forall>k<13. bit (in_mask s') k \<longleftrightarrow>
       (case tr of Some (j, down) \<Rightarrow> if j = k then down else bit (in_mask s) k
                 | None \<Rightarrow> bit (in_mask s) k))"

lemma moves_refl: "in_mask s' = in_mask s \<Longrightarrow> moves s s' None"
  by (simp add: moves_def)

lemma key_state_moves:
  assumes "key_state env keycode down s = Inr s'"
  shows "moves s s' (map_option (\<lambda>k. (k, down)) (modifier_bit (keycode_to_scancode (is_evdev (helper s)) keycode)))"
proof -
  let ?c = "keycode_to_scancode (is_evdev (helper s)) keycode"
  obtain s1 where s1: "update_key env keycode down (put_key_modifier ?c down s) = Inr s1"
    and s': "initialize_locks env s1 = Inr s'"
    using assms unfolding key_state_def by (rule r_bind_InrE)
  have "bit (in_mask s') k \<longleftrightarrow> (if modifier_bit ?c = Some k then down else bit (in_mask s) k)" if "k < 13" for k
    using initialize_locks_low [OF s' that] update_key_frame [OF s1] that by (simp add: bit_put_key_modifier)
  then show ?thesis by (auto simp: moves_def split: option.split)
qed

lemma process_key_press_alt:
  "process_key_press env timestamp keycode modstate s =
     (let keysym = event_keysym env keycode modstate s in
      r_bind (event_units env keycode keysym s) (\<lambda>buffer.
      r_bind (key_state env keycode True s) (\<lambda>s.
      let scancode = keypad_scancode (get_modifiers s) (keycode_to_scancode (is_evdev (helper s)) keycode);
          s = fire EVENT_KEY_PRESSED timestamp (get_modifiers s) (key_data scancode keysym CHAR_UNDEFINED) s
      in Inr (if not_consumed s then type_units timestamp keysym buffer s else s))))"
proof -
  have "helper s' = helper s"
    if "update_key env keycode True (put_key_modifier c True s) = Inr s1" "initialize_locks env s1 = Inr s'"
    for c s1 s'
    using that by (auto dest!: update_key_frame initialize_locks_frame)
  then show ?thesis
    unfolding process_key_press_def key_state_def Let_def r_bind_assoc
    by (auto simp: r_bind_def split: sum.split)
qed

lemma process_key_release_alt:
  "process_key_release env timestamp keycode modstate s =
     (let keysym = event_keysym env keycode modstate s in
      r_bind (event_units env keycode keysym s) (\<lambda>buffer.
      r_bind (key_state env keycode False s) (\<lambda>s.
      let scancode = keypad_scancode (get_modifiers s) (keycode_to_scancode (is_evdev (helper s)) keycode)
      in Inr (fire EVENT_KEY_RELEASED timestamp (get_modifiers s) (key_data scancode keysym CHAR_UNDEFINED) s))))"
proof -
  have "helper s' = helper s"
    if "update_key env keycode False (put_key_modifier c False s) = Inr s1" "initialize_locks env s1 = Inr s'"
    for c s1 s'
    using that by (auto dest!: update_key_frame initialize_locks_frame)
  then show ?thesis
    unfolding process_key_release_def key_state_def Let_def r_bind_assoc
    by (auto simp: r_bind_def split: sum.split)
qed

lemma put_button_modifier_fields [simp]:
  "static_event (put_button_modifier c b s) = static_event s"
  "dispatcher (put_button_modifier c b s) = dispatcher s"
  "dispatched (put_button_modifier c b s) = dispatched s"
  "is_dragged (put_button_modifier c b s) = is_dragged s"
  "click_count (put_button_modifier c b s) = click_count s"
  "click_time (put_button_modifier c b s) = click_time s"
  "click_button (put_button_modifier c b s) = click_button s"
  "xkb_state (put_button_modifier c b s) = xkb_state s"
  "helper (put_button_modifier c b s) = helper s"
  by (simp_all add: put_button_modifier_def split: option.split)

lemma bit_put_button_modifier:
  assumes "k < 16"
  shows "bit (in_mask (put_button_modifier c b s)) k \<longleftrightarrow>
    (if button_bit c = Some k then b else bit (in_mask s) k)"
  using assms by (auto simp: put_button_modifier_def virtual_button_bit bit_put_modifier split: option.split)

lemma count_press_fields [simp]:
  "static_event (count_press mc b t s) = static_event s"
  "dispatcher (count_press mc b t s) = dispatcher s"
  "dispatched (count_press mc b t s) = dispatched s"
  "is_dragged (count_press mc b t s) = is_dragged s"
  "in_mask (count_press mc b t s) = in_mask s"
  "xkb_state (count_press mc b t s) = xkb_state s"
  "helper (count_press mc b t s) = helper s"
  by (simp_all add: count_press_def Let_def)

text \<open>What a datum leaves unchanged, and its effect on the bits below the locks.\<close>


definition same_setup :: "'x x11_hook \<Rightarrow> 'x x11_hook \<Rightarrow> bool" where
  "same_setup s s' \<longleftrightarrow> helper s' = helper s \<and> dispatcher s' = dispatcher s
     \<and> (xkb_state s' = None \<longleftrightarrow> xkb_state s = None)"

lemma same_setup_refl [simp]: "same_setup s s"
  by (simp add: same_setup_def)

lemma fire_clicked_frame:
  assumes "fire_clicked env timestamp button x y s = Inr s'"
  shows "same_setup s s' \<and> in_mask s' = in_mask s \<and> is_dragged s' = is_dragged s \<and> click_count s' = click_count s
    \<and> click_time s' = click_time s \<and> click_button s' = click_button s"
  using assms by (auto simp: fire_clicked_def same_setup_def split: if_splits prod.splits elim!: r_bind_InrE)

lemma reset_clicks_frame:
  assumes "reset_clicks env button s = Inr s'"
  shows "same_setup s s' \<and> in_mask s' = in_mask s \<and> is_dragged s' = is_dragged s
    \<and> dispatched s' = dispatched s \<and> click_time s' = click_time s \<and> click_button s' = click_button s"
  using assms by (auto simp: reset_clicks_def same_setup_def split: if_splits elim!: r_bind_InrE)

lemma forget_clicks_frame:
  assumes "forget_clicks env timestamp s = Inr s'"
  shows "same_setup s s' \<and> in_mask s' = in_mask s \<and> is_dragged s' = is_dragged s
    \<and> dispatched s' = dispatched s \<and> click_time s' = click_time s \<and> click_button s' = click_button s"
  using assms by (auto simp: forget_clicks_def same_setup_def split: if_splits elim!: r_bind_InrE)

lemma process_key_press_effect:
  assumes "process_key_press env timestamp keycode modstate s = Inr s'"
  shows "same_setup s s' \<and>
    moves s s' (map_option (\<lambda>k. (k, True)) (modifier_bit (keycode_to_scancode (is_evdev (helper s)) keycode)))"
proof -
  obtain s1 where s1: "key_state env keycode True s = Inr s1"
    and s': "same_setup s1 s'" "in_mask s' = in_mask s1"
    using assms by (auto simp: process_key_press_alt same_setup_def Let_def split: if_splits elim!: r_bind_InrE)
  from key_state_frame [OF s1] key_state_moves [OF s1] s' show ?thesis
    by (simp add: same_setup_def moves_def)
qed

lemma process_key_release_effect:
  assumes "process_key_release env timestamp keycode modstate s = Inr s'"
  shows "same_setup s s' \<and>
    moves s s' (map_option (\<lambda>k. (k, False)) (modifier_bit (keycode_to_scancode (is_evdev (helper s)) keycode)))"
proof -
  obtain s1 where s1: "key_state env keycode False s = Inr s1"
    and s': "same_setup s1 s'" "in_mask s' = in_mask s1"
    using assms by (auto simp: process_key_release_alt same_setup_def Let_def split: if_splits elim!: r_bind_InrE)
  from key_state_frame [OF s1] key_state_moves [OF s1] s' show ?thesis
    by (simp add: same_setup_def moves_def)
qed

lemma process_wheel_effect:
  assumes "process_wheel env timestamp detail x y s = Inr s'"
  shows "same_setup s s' \<and> moves s s' None"
  using assms
  by (auto simp: process_wheel_def same_setup_def Let_def intro!: moves_refl split: prod.splits elim!: r_bind_InrE)

lemma process_button_press_effect:
  assumes "process_button_press env timestamp b x y s = Inr s'"
  shows "same_setup s s' \<and> moves s s' (map_option (\<lambda>k. (k, True)) (button_bit b))"
  using assms
  by (auto simp: process_button_press_def same_setup_def moves_def Let_def bit_put_button_modifier
      split: prod.splits if_splits option.split elim!: r_bind_InrE)

lemma process_button_release_effect:
  assumes "process_button_release env timestamp b x y s = Inr s'"
  shows "same_setup s s' \<and> moves s s' (map_option (\<lambda>k. (k, False)) (button_bit b))"
  using assms
  by (auto simp: process_button_release_def same_setup_def moves_def Let_def bit_put_button_modifier
      split: prod.splits if_splits option.split elim!: r_bind_InrE dest!: fire_clicked_frame reset_clicks_frame)

lemma process_motion_effect:
  assumes "process_motion env timestamp x y s = Inr s'"
  shows "same_setup s s' \<and> moves s s' None"
  using assms
  by (auto simp: process_motion_def same_setup_def Let_def intro!: moves_refl
      split: prod.splits if_splits elim!: r_bind_InrE dest!: forget_clicks_frame)

lemmas process_effects = process_key_press_effect process_key_release_effect process_wheel_effect
  process_button_press_effect process_button_release_effect process_motion_effect

lemma process_datum_effect:
  assumes "process_datum env timestamp d s = Inr s'"
  shows "same_setup s s' \<and> moves s s' (transition (helper s) (hk_mapping env) d)"
  using assms
  by (auto simp: process_datum_def transition_def Let_def button_bit_wheel moves_refl
      split: datum_type.splits if_splits dest: process_effects)

section \<open>Runs of the handler\<close>

text \<open>A run: data that arrive between the start and the end of recording, each with its environment and time.\<close>

type_synonym 'x input = "'x hook_env \<times> uint64_t \<times> datum"

primrec run :: "'x input list \<Rightarrow> 'x x11_hook \<Rightarrow> 'x x11_hook result" where
  "run [] s = Inr s"
| "run (i # is) s =
     r_bind (hook_event_proc (fst i) XRecordFromServer (fst (snd i)) (snd (snd i)) s) (run is)"

lemma hook_event_proc_server [simp]:
  "hook_event_proc env XRecordFromServer timestamp d s = process_datum env timestamp d s"
  by (simp add: hook_event_proc_def)

lemma run_append: "run (is @ js) s = r_bind (run is s) (run js)"
  by (induction "is" arbitrary: s) (simp_all add: r_bind_assoc, simp add: r_bind_def split: sum.split)

primrec transitions :: "input_helper \<Rightarrow> 'x input list \<Rightarrow> (nat \<times> bool) list" where
  "transitions h [] = []"
| "transitions h (i # is) =
     (case transition h (hk_mapping (fst i)) (snd (snd i)) of
        None \<Rightarrow> transitions h is | Some t \<Rightarrow> t # transitions h is)"

lemma transitions_append: "transitions h (is @ js) = transitions h is @ transitions h js"
  by (induction "is") (simp_all split: option.split)

lemma transition_bound: "transition h m d = Some t \<Longrightarrow> fst t \<in> {..10} \<union> {12}"
  by (auto simp: transition_def Let_def button_bit_def split: datum_type.splits if_splits
      dest!: modifier_bit_bound)

lemma transitions_bound: "t \<in> set (transitions h is) \<Longrightarrow> fst t \<in> {..10} \<union> {12}"
  by (induction "is") (auto split: option.splits dest: transition_bound)

lemma run_setup: "run is s = Inr s' \<Longrightarrow> same_setup s s'"
proof (induction "is" arbitrary: s)
  case (Cons i "is")
  then obtain s1 where "process_datum (fst i) (fst (snd i)) (snd (snd i)) s = Inr s1" "run is s1 = Inr s'"
    by (auto elim!: r_bind_InrE)
  with Cons.IH process_datum_effect show ?case by (fastforce simp: same_setup_def)
qed simp

lemma run_track:
  assumes "run is s = Inr s'" and "k < 13"
  shows "bit (in_mask s') k \<longleftrightarrow> bit (get_modifiers (xmask.track (transitions (helper s) is) s)) k"
  using assms
proof (induction "is" arbitrary: s' rule: rev_induct)
  case Nil
  then show ?case by (simp add: get_modifiers_def)
next
  case (snoc i "is")
  obtain env tm d where i: "i = (env, tm, d)" by (cases i) auto
  obtain s1 where s1: "run is s = Inr s1" and d: "process_datum env tm d s1 = Inr s'"
    using snoc.prems(1) by (auto simp: run_append i elim!: r_bind_InrE)
  have h: "helper s1 = helper s" using run_setup [OF s1] by (simp add: same_setup_def)
  note step = xmask.bit_track_step [of k, where s = "xmask.track (transitions (helper s) is) s"]
  have "bit (in_mask s') k \<longleftrightarrow>
      (case transition (helper s) (hk_mapping env) d of
         Some (j, down) \<Rightarrow> if j = k then down else bit (in_mask s1) k | None \<Rightarrow> bit (in_mask s1) k)"
    using process_datum_effect [OF d] snoc.prems(2) by (simp add: moves_def h)
  also have "\<dots> \<longleftrightarrow> bit (get_modifiers (xmask.track (transitions (helper s) (is @ [i])) s)) k"
    using snoc.IH [OF s1 snoc.prems(2)] snoc.prems(2) step
    by (auto simp: transitions_append i xmask.track_append
        simp del: xmask.track.simps(2) split: option.splits)
  finally show ?case .
qed

end
