(* ===== verification/X11_Hook_Properties.thy ===== *)
theory X11_Hook_Properties
  imports X11_Hook_Effects
begin

text \<open>
  The properties of the X11 event handler: the modifier mask follows the keys, no fault in a
  sound environment, which events are dispatched in which order, and the click counter against
  its reference.
\<close>

section \<open>An example\<close>

text \<open>A desktop for the examples: two screens, xkbcommon with Num Lock on, a callback that consumes nothing.\<close>

definition desktop_xkb :: "nat xkb_api" where
  "desktop_xkb = \<lparr>xkb_state_key_get_one_sym = (\<lambda>st c. 0x61), xkb_state_key_get_utf32 = (\<lambda>st c. 0x61),
     xkb_state_update_key = (\<lambda>st c down. Suc st), xkb_state_led_name_is_active = (\<lambda>st led. led = XKB_LED_NAME_NUM)\<rparr>"

definition desktop_hook_env :: "nat hook_env" where
  "desktop_hook_env = \<lparr>hk_build = desktop_build, hk_env = desktop_env, hk_mapping = map of_nat [1..<10],
     hk_indicators = Some 2, hk_xkb = desktop_xkb,
     hk_load = \<lparr>malloc_button_map = True, keyboard_names = Some (Some ''evdev_aliases(qwerty)''), xkb_get_map = None\<rparr>\<rparr>"

definition desktop_hook :: "nat x11_hook" where
  "desktop_hook =
     \<lparr>static_event = emitted EVENT_HOOK_ENABLED 0 0 (key_data 0 0 0), dispatcher = Some (\<lambda>_ e. e), dispatched = [],
      in_mask = 0, is_dragged = False, click_count = 0, click_time = 0, click_button = MOUSE_NOBUTTON,
      xkb_state = Some 0, helper = desktop_helper\<rparr>"

definition desktop_datum :: "datum_type \<Rightarrow> uint8_t \<Rightarrow> datum" where
  "desktop_datum ty detail = \<lparr>d_type = ty, d_detail = detail, d_state = 0, d_root_x = 100, d_root_y = 50\<rparr>"

definition desktop_inputs :: "nat input list" where
  "desktop_inputs =
     [(desktop_hook_env, 10, desktop_datum KeyPress 50), (desktop_hook_env, 20, desktop_datum ButtonPress 1),
      (desktop_hook_env, 25, desktop_datum MotionNotify 0),
      (desktop_hook_env, 30, desktop_datum ButtonRelease 1), (desktop_hook_env, 40, desktop_datum ButtonPress 8)]"

lemma desktop_run: "\<exists>s'. run desktop_inputs desktop_hook = Inr s'"
proof -
  have "\<not> isl (run desktop_inputs desktop_hook)" by code_simp
  then show ?thesis by (cases "run desktop_inputs desktop_hook") auto
qed


section \<open>The modifier mask\<close>

text \<open>
  C1. After any run of the handler a flag below the lock flags is up exactly when the last
  press or release of a key or button it stands for was a press; with none it keeps its value.
\<close>

theorem modifiers_follow_keys:
  assumes "run is s = Inr s'" and "k < 13"
  shows "bit (in_mask s') k \<longleftrightarrow>
    (case find (\<lambda>t. fst t = k) (rev (transitions (helper s) is)) of
       Some t \<Rightarrow> snd t | None \<Rightarrow> bit (in_mask s) k)"
  using run_track [OF assms] xmask.bit_track [of k "transitions (helper s) is" s] assms(2)
  unfolding get_modifiers_def by simp

theorem modifiers_follow_keys_witness:
  "\<exists>s'. run desktop_inputs desktop_hook = Inr s' \<and> bit (in_mask s') 0 \<and> \<not> bit (in_mask s') 8"
proof -
  obtain s' where s': "run desktop_inputs desktop_hook = Inr s'" using desktop_run by blast
  have "transitions (helper desktop_hook) desktop_inputs = [(0, True), (8, True), (8, False), (12, True)]"
    by code_simp
  with modifiers_follow_keys [OF s', of 0] modifiers_follow_keys [OF s', of 8] s' show ?thesis by simp
qed

text \<open>
  No datum ever changes the flag of the fourth button: both extra buttons use the flag of
  the fifth.
\<close>

theorem button4_flag_unused:
  assumes "run is s = Inr s'"
  shows "bit (in_mask s') 11 = bit (in_mask s) 11"
proof -
  have "find (\<lambda>t. fst t = 11) (rev (transitions (helper s) is)) = None"
    using transitions_bound by (fastforce simp: find_None_iff)
  with run_track [OF assms, of 11] xmask.bit_track [of 11 "transitions (helper s) is" s] show ?thesis
    unfolding get_modifiers_def by simp
qed

theorem button4_flag_unused_witness:
  "\<exists>s'. run [(desktop_hook_env, 40, desktop_datum ButtonPress 8)] desktop_hook = Inr s' \<and> \<not> bit (in_mask s') 11"
proof -
  have "\<not> isl (run [(desktop_hook_env, 40, desktop_datum ButtonPress 8)] desktop_hook)" by code_simp
  then obtain s' where s': "run [(desktop_hook_env, 40, desktop_datum ButtonPress 8)] desktop_hook = Inr s'"
    by (cases "run [(desktop_hook_env, 40, desktop_datum ButtonPress 8)] desktop_hook") auto
  with button4_flag_unused [OF s'] show ?thesis by (simp add: desktop_hook_def)
qed

section \<open>Faults\<close>

text \<open>
  The environment answers what the handler needs: memory for the screens and the data of the
  first one, a multi-click time that is a number, and, with xkbcommon, a keyboard state.
\<close>

definition click_time_ok :: "x11_build \<Rightarrow> x11_env \<Rightarrow> bool" where
  "click_time_ok build env \<longleftrightarrow>
     (use_xt build \<and> xt_disp env)
     \<or> ((\<forall>s. fst (click_defaults env) = Some s \<longrightarrow> sscanf_4i s \<noteq> ScanNoMatch)
        \<and> (\<forall>s. snd (click_defaults env) = Some s \<longrightarrow> sscanf_4i s \<noteq> ScanNoMatch))"

definition screens_ok :: "x11_env \<Rightarrow> bool" where
  "screens_ok env \<longleftrightarrow> malloc_screens env
     \<and> (case xrandr_crtcs env of Some (c # _) \<Rightarrow> c \<noteq> None | _ \<Rightarrow> True)"

definition env_ok :: "'x hook_env \<Rightarrow> 'x x11_hook \<Rightarrow> bool" where
  "env_ok env s \<longleftrightarrow>
     click_time_ok (hk_build env) (hk_env env) \<and> screens_ok (hk_env env)
     \<and> (use_xkb_common (hk_build env) \<longrightarrow> xkb_state s \<noteq> None)"

lemma env_ok_setup: "same_setup s s' \<Longrightarrow> env_ok env s \<Longrightarrow> env_ok env s'"
  by (simp add: env_ok_def same_setup_def)

lemma multi_click_ok:
  assumes "env_ok env s"
  shows "\<exists>m. x11_multi_click env s = Inr m"
  using assms
  by (auto simp: x11_multi_click_def env_ok_def click_time_ok_def hook_get_multi_click_time_def
      try_default_def Let_def split: option.split scan.split)

lemma xinerama_screens_first:
  assumes "xinerama_screens env = (count, screens)" and "1 < count" and "screens_ok env"
  shows "\<exists>sc rest. screens = Some (Some sc # rest)"
proof (cases "xine_screens env")
  case (Some info)
  with assms have "1 < length info"
    by (auto simp: xinerama_screens_def split: if_splits dest: screen_count_gt_1)
  then obtain i rest where "info = i # rest" by (cases info) auto
  with assms Some show ?thesis
    by (auto simp: xinerama_screens_def screens_ok_def split: if_splits)
qed (use assms in \<open>auto simp: xinerama_screens_def split: if_splits\<close>)

lemma xrandr_screens_first:
  assumes "xrandr_screens env = (count, screens)" and "1 < count" and "screens_ok env"
  shows "\<exists>sc rest. screens = Some (Some sc # rest)"
proof (cases "xrandr_crtcs env")
  case (Some crtcs)
  with assms have "1 < length crtcs"
    by (auto simp: xrandr_screens_def dest: screen_count_gt_1)
  then obtain c rest where crtcs: "crtcs = c # rest" by (cases crtcs) auto
  with assms(3) Some obtain info where "c = Some info" by (auto simp: screens_ok_def)
  with assms Some crtcs show ?thesis
    by (auto simp: xrandr_screens_def screens_ok_def upt_conv_Cons simp del: upt_Suc)
qed (use assms in \<open>auto simp: xrandr_screens_def\<close>)

lemma relative_to_screen_ok:
  assumes "env_ok env s"
  shows "\<exists>xy. relative_to_screen env x y s = Inr xy"
proof -
  obtain count screens where
    info: "hook_create_screen_info (hk_build env) (hk_env env) (helper s) = (count, screens)"
    by (cases "hook_create_screen_info (hk_build env) (hk_env env) (helper s)")
  have "\<exists>sc rest. screens = Some (Some sc # rest)"
    if "1 < count" "use_screens (hk_build env) \<noteq> SCREENS_DEFAULT"
    using info that assms xinerama_screens_first xrandr_screens_first
    by (auto simp: hook_create_screen_info_def env_ok_def split: if_splits screen_source.splits)
  then show ?thesis
    using info by (auto simp: relative_to_screen_def)
qed

lemma event_units_ok: "\<exists>us. event_units env keycode keysym s = Inr us"
proof (cases "use_xkb_common (hk_build env)")
  case True
  then show ?thesis
    by (auto simp: event_units_def keycode_to_unicode_def Let_def split: option.split)
next
  case False
  then show ?thesis
    by (simp add: event_units_def keysym_to_unicode_def bisect_eq_lookup [OF keysym_column_sorted] split: option.split)
qed

lemma key_state_ok:
  assumes "env_ok env s"
  shows "\<exists>s'. key_state env keycode down s = Inr s'"
  using assms
  by (auto simp: key_state_def update_key_def initialize_locks_def env_ok_def Let_def split: option.split)

lemma same_setup_updates [simp]:
  "same_setup s (fire ty tm msk dat s') = same_setup s s'"
  "same_setup s (put_button_modifier b down s') = same_setup s s'"
  "same_setup s (count_press mc b16 tm s') = same_setup s s'"
  "same_setup s (s'\<lparr>click_count := c\<rparr>) = same_setup s s'"
  "same_setup s (s'\<lparr>click_button := c16\<rparr>) = same_setup s s'"
  "same_setup s (s'\<lparr>is_dragged := dr\<rparr>) = same_setup s s'"
  by (simp_all add: same_setup_def)

lemma fire_clicked_ok:
  assumes "env_ok env s"
  shows "\<exists>s'. fire_clicked env timestamp button x y s = Inr s'"
  using relative_to_screen_ok [OF assms, of x y] by (auto simp: fire_clicked_def)

lemma reset_clicks_ok:
  assumes "env_ok env s"
  shows "\<exists>s'. reset_clicks env button s = Inr s'"
  using multi_click_ok [OF assms] by (auto simp: reset_clicks_def)

lemma forget_clicks_ok:
  assumes "env_ok env s"
  shows "\<exists>s'. forget_clicks env timestamp s = Inr s'"
  using multi_click_ok [OF assms] by (auto simp: forget_clicks_def)

lemma process_key_ok:
  assumes "env_ok env s"
  shows "\<exists>s'. process_key_press env timestamp keycode modstate s = Inr s'"
    and "\<exists>s'. process_key_release env timestamp keycode modstate s = Inr s'"
proof -
  obtain us where us: "event_units env keycode (event_keysym env keycode modstate s) s = Inr us"
    using event_units_ok by blast
  show "\<exists>s'. process_key_press env timestamp keycode modstate s = Inr s'"
    using us key_state_ok [OF assms, of keycode True] by (auto simp: process_key_press_alt Let_def)
  show "\<exists>s'. process_key_release env timestamp keycode modstate s = Inr s'"
    using us key_state_ok [OF assms, of keycode False] by (auto simp: process_key_release_alt Let_def)
qed

lemma process_button_press_ok:
  assumes "env_ok env s"
  shows "\<exists>s'. process_button_press env timestamp b x y s = Inr s'"
proof -
  let ?s = "put_button_modifier b True s"
  have ok: "env_ok env s'" if "same_setup s s'" for s'
    using env_ok_setup [OF that assms] .
  obtain m where m: "(if fst (virtual_button b) = click_button ?s then x11_multi_click env ?s else Inr 0) = Inr m"
    using multi_click_ok [OF ok [of ?s]] by (cases "fst (virtual_button b) = click_button ?s") auto
  moreover obtain xy where "relative_to_screen env x y (count_press m (fst (virtual_button b)) timestamp ?s) = Inr xy"
    using relative_to_screen_ok [OF ok] by force
  ultimately show ?thesis
    by (cases xy) (simp add: process_button_press_def Let_def)
qed

lemma process_button_release_ok:
  assumes "env_ok env s"
  shows "\<exists>s'. process_button_release env timestamp b x y s = Inr s'"
proof -
  let ?s = "put_button_modifier b False s" and ?b = "fst (virtual_button b)"
  have ok: "env_ok env s'" if "same_setup s s'" for s'
    using env_ok_setup [OF that assms] .
  obtain px py where xy: "relative_to_screen env x y ?s = Inr (px, py)"
    using relative_to_screen_ok [OF ok, of ?s x y] by auto
  let ?t = "fire EVENT_MOUSE_RELEASED timestamp (get_modifiers ?s) (mouse_data ?b (click_count ?s) px py) ?s"
  obtain s1 where s1: "fire_clicked env timestamp ?b x y ?t = Inr s1"
    using fire_clicked_ok [OF ok, of ?t timestamp ?b x y] by auto
  then have "same_setup s s1"
    using fire_clicked_frame [OF s1] by (simp add: same_setup_def)
  then obtain s2 where "reset_clicks env ?b s1 = Inr s2"
    using reset_clicks_ok [OF ok] by blast
  with xy s1 show ?thesis by (simp add: process_button_release_def Let_def)
qed

lemma process_motion_ok:
  assumes "env_ok env s"
  shows "\<exists>s'. process_motion env timestamp x y s = Inr s'"
proof -
  obtain s1 where s1: "forget_clicks env timestamp s = Inr s1"
    using forget_clicks_ok [OF assms] by blast
  let ?t = "s1\<lparr>is_dragged := (get_modifiers s1 AND 0x1F00 > 0)\<rparr>"
  have "same_setup s ?t" using forget_clicks_frame [OF s1] by simp
  then obtain px py where "relative_to_screen env x y ?t = Inr (px, py)"
    using relative_to_screen_ok [OF env_ok_setup [OF _ assms]] by fastforce
  with s1 show ?thesis by (simp add: process_motion_def Let_def)
qed

lemma process_wheel_ok:
  assumes "env_ok env s"
  shows "\<exists>s'. process_wheel env timestamp detail x y s = Inr s'"
proof -
  let ?t = "s\<lparr>click_count := 1, click_button := MOUSE_NOBUTTON\<rparr>"
  have "same_setup s ?t" by (simp add: same_setup_def)
  then obtain px py where "relative_to_screen env x y ?t = Inr (px, py)"
    using relative_to_screen_ok [OF env_ok_setup [OF _ assms]] by fastforce
  then show ?thesis by (simp add: process_wheel_def Let_def)
qed

lemma process_datum_ok:
  assumes "env_ok env s"
  shows "\<exists>s'. process_datum env timestamp d s = Inr s'"
  using process_key_ok [OF assms] process_button_press_ok [OF assms] process_button_release_ok [OF assms]
    process_motion_ok [OF assms] process_wheel_ok [OF assms]
  by (auto simp: process_datum_def Let_def split: datum_type.split)

text \<open>
  In an environment that answers what the handler needs, no sequence of data makes it
  fault.
\<close>

theorem run_without_fault:
  assumes "\<forall>i \<in> set is. env_ok (fst i) s"
  shows "\<exists>s'. run is s = Inr s'"
  using assms
proof (induction "is" arbitrary: s)
  case (Cons i "is")
  obtain s1 where s1: "process_datum (fst i) (fst (snd i)) (snd (snd i)) s = Inr s1"
    using process_datum_ok Cons.prems by fastforce
  then have "same_setup s s1" using process_datum_effect by blast
  then have "\<forall>j \<in> set is. env_ok (fst j) s1"
    using Cons.prems env_ok_setup by fastforce
  with Cons.IH s1 show ?case by simp
qed simp

theorem run_without_fault_witness: "\<exists>s'. run desktop_inputs desktop_hook = Inr s'"
  by (rule run_without_fault)
    (auto simp: desktop_inputs_def desktop_hook_env_def desktop_hook_def env_ok_def click_time_ok_def
      screens_ok_def desktop_defs)

text \<open>
  With xkbcommon and no keyboard state, the first key press hands the null state to the
  library.
\<close>

theorem null_xkb_state_faults:
  assumes "use_xkb_common (hk_build env)" and "xkb_state s = None" and "d_type d = KeyPress"
  shows "hook_event_proc env XRecordFromServer timestamp d s = Inl NullDereference"
  using assms by (simp add: process_datum_def process_key_press_def event_units_def keycode_to_unicode_def
      update_key_def Let_def)

theorem null_xkb_state_faults_witness:
  "hook_event_proc desktop_hook_env XRecordFromServer 10 (desktop_datum KeyPress 50)
     (desktop_hook\<lparr>xkb_state := None\<rparr>) = Inl NullDereference"
  by (rule null_xkb_state_faults) (simp_all add: desktop_hook_env_def desktop_datum_def desktop_defs)

section \<open>Order and content of the dispatched events\<close>

definition pressed_event :: "'x hook_env \<Rightarrow> uint64_t \<Rightarrow> KeyCode \<Rightarrow> KeySym \<Rightarrow> 'x x11_hook \<Rightarrow> uiohook_event" where
  "pressed_event env timestamp keycode keysym s =
     emitted EVENT_KEY_PRESSED timestamp (in_mask s)
       (key_data (keypad_scancode (in_mask s) (keycode_to_scancode (is_evdev (helper s)) keycode)) keysym CHAR_UNDEFINED)"

text \<open>
  C21. A key press sends one pressed event, with the mask after the press and a key code adjusted
  for Num Lock, and then, unless the callback consumed it, one typed event for each UTF-16 unit.
\<close>

theorem key_press_dispatches:
  assumes "process_key_press env timestamp keycode modstate s = Inr s'"
    and "dispatcher s = Some d"
  shows "\<exists>units. event_units env keycode (event_keysym env keycode modstate s) s = Inr units
    \<and> dispatched s' = dispatched s @
        (let keysym = event_keysym env keycode modstate s;
             pressed = pressed_event env timestamp keycode keysym s'
         in pressed # (if ev_reserved (d (dispatched s) pressed) = 1 then []
                       else map (\<lambda>c. emitted EVENT_KEY_TYPED timestamp (in_mask s')
                                        (key_data VC_UNDEFINED keysym c)) units))"
proof -
  let ?ks = "event_keysym env keycode modstate s"
  obtain units s1 where units: "event_units env keycode ?ks s = Inr units"
    and s1: "key_state env keycode True s = Inr s1"
    and s': "s' = (let t = fire EVENT_KEY_PRESSED timestamp (in_mask s1)
        (key_data (keypad_scancode (in_mask s1) (keycode_to_scancode (is_evdev (helper s1)) keycode)) ?ks CHAR_UNDEFINED) s1
      in if not_consumed t then type_units timestamp ?ks units t else t)"
    using assms(1) by (auto simp: process_key_press_alt get_modifiers_def Let_def elim!: r_bind_InrE)
  have s1_same: "dispatcher s1 = Some d" "dispatched s1 = dispatched s"
    using key_state_frame [OF s1] assms(2) by simp_all
  have s'_same: "in_mask s' = in_mask s1" "helper s' = helper s1"
    by (simp_all add: s' Let_def)
  show ?thesis
    using units by (simp add: s'_same pressed_event_def Let_def)
      (simp add: s' Let_def not_consumed_iff static_event_fire dispatched_type_units dispatched_fire s1_same)
qed

theorem key_press_dispatches_witness:
  "\<exists>s'. process_key_press desktop_hook_env 10 38 0 desktop_hook = Inr s'
     \<and> map ev_type (dispatched s') = [EVENT_KEY_PRESSED, EVENT_KEY_TYPED]"
proof -
  have "\<not> isl (process_key_press desktop_hook_env 10 38 0 desktop_hook)" by code_simp
  then obtain s' where s': "process_key_press desktop_hook_env 10 38 0 desktop_hook = Inr s'"
    by (cases "process_key_press desktop_hook_env 10 38 0 desktop_hook") auto
  have d: "dispatcher desktop_hook = Some (\<lambda>_ e. e)" by (simp add: desktop_hook_def)
  have units: "event_units desktop_hook_env 38 (event_keysym desktop_hook_env 38 0 desktop_hook) desktop_hook = Inr [0x61]"
    by code_simp
  from key_press_dispatches [OF s' d] s' units show ?thesis
    by (auto simp: Let_def emitted_def pressed_event_def desktop_hook_def)
qed

text \<open>
  A key release sends exactly one released event, with the mask after the release.
\<close>

theorem key_release_dispatches:
  assumes "process_key_release env timestamp keycode modstate s = Inr s'"
    and "dispatcher s = Some d"
  shows "dispatched s' = dispatched s @
    [emitted EVENT_KEY_RELEASED timestamp (in_mask s')
      (key_data (keypad_scancode (in_mask s') (keycode_to_scancode (is_evdev (helper s)) keycode))
        (event_keysym env keycode modstate s) CHAR_UNDEFINED)]"
proof -
  obtain s1 where s1: "key_state env keycode False s = Inr s1"
    and s': "s' = fire EVENT_KEY_RELEASED timestamp (in_mask s1)
        (key_data (keypad_scancode (in_mask s1) (keycode_to_scancode (is_evdev (helper s1)) keycode))
          (event_keysym env keycode modstate s) CHAR_UNDEFINED) s1"
    using assms(1) by (auto simp: process_key_release_alt get_modifiers_def Let_def elim!: r_bind_InrE)
  then show ?thesis
    using key_state_frame [OF s1] assms(2) by (simp add: dispatched_fire)
qed

theorem key_release_dispatches_witness:
  "\<exists>s'. process_key_release desktop_hook_env 10 38 0 desktop_hook = Inr s'
     \<and> map ev_type (dispatched s') = [EVENT_KEY_RELEASED]"
proof -
  have "\<not> isl (process_key_release desktop_hook_env 10 38 0 desktop_hook)" by code_simp
  then obtain s' where s': "process_key_release desktop_hook_env 10 38 0 desktop_hook = Inr s'"
    by (cases "process_key_release desktop_hook_env 10 38 0 desktop_hook") auto
  have d: "dispatcher desktop_hook = Some (\<lambda>_ e. e)" by (simp add: desktop_hook_def)
  from key_release_dispatches [OF s' d] s' show ?thesis
    by (simp add: emitted_def desktop_hook_def)
qed

text \<open>
  A button release sends one released event and then one clicked event, unless the callback
  consumed the first or the pointer was dragged.
\<close>

theorem button_release_dispatches:
  assumes "process_button_release env timestamp b root_x root_y s = Inr s'"
    and "dispatcher s = Some d"
  shows "\<exists>x y. let button = fst (virtual_button b);
                   msk = in_mask (put_button_modifier b False s);
                   released = emitted EVENT_MOUSE_RELEASED timestamp msk (mouse_data button (click_count s) x y)
    in relative_to_screen env root_x root_y s = Inr (x, y)
       \<and> dispatched s' = dispatched s @ released #
           (if ev_reserved (d (dispatched s) released) = 1 \<or> is_dragged s then []
            else [emitted EVENT_MOUSE_CLICKED timestamp msk (mouse_data button (click_count s) x y)])"
proof -
  let ?s = "put_button_modifier b False s" and ?b = "fst (virtual_button b)"
  have rel: "relative_to_screen env root_x root_y t = relative_to_screen env root_x root_y s"
    if "helper t = helper s" for t
    using that by (simp add: relative_to_screen_def)
  obtain x y s1 where xy: "relative_to_screen env root_x root_y s = Inr (x, y)"
    and s1: "fire_clicked env timestamp ?b root_x root_y
      (fire EVENT_MOUSE_RELEASED timestamp (in_mask ?s) (mouse_data ?b (click_count s) x y) ?s) = Inr s1"
    and s2: "reset_clicks env ?b s1 = Inr s'"
    using assms(1) rel [of ?s]
    by (auto simp: process_button_release_def get_modifiers_def Let_def elim!: r_bind_InrE)
  let ?t = "fire EVENT_MOUSE_RELEASED timestamp (in_mask ?s) (mouse_data ?b (click_count s) x y) ?s"
  have t: "relative_to_screen env root_x root_y ?t = Inr (x, y)"
    using rel [of ?t] xy by simp
  have "dispatched s' = dispatched s1" using reset_clicks_frame [OF s2] by simp
  moreover have "s1 = (if not_consumed ?t \<and> \<not> is_dragged s
      then fire EVENT_MOUSE_CLICKED timestamp (in_mask ?s) (mouse_data ?b (click_count s) x y) ?t else ?t)"
    using s1 t by (auto simp: fire_clicked_def get_modifiers_def split: if_splits)
  ultimately have "dispatched s' = dispatched s @
      emitted EVENT_MOUSE_RELEASED timestamp (in_mask ?s) (mouse_data ?b (click_count s) x y) #
      (if not_consumed ?t \<and> \<not> is_dragged s
       then [emitted EVENT_MOUSE_CLICKED timestamp (in_mask ?s) (mouse_data ?b (click_count s) x y)] else [])"
    using assms(2) by (simp add: dispatched_fire)
  with xy assms(2) show ?thesis
    by (auto simp: Let_def not_consumed_iff static_event_fire)
qed

theorem button_release_dispatches_witness:
  "\<exists>s'. process_button_release desktop_hook_env 30 1 100 50 desktop_hook = Inr s'
     \<and> map ev_type (dispatched s') = [EVENT_MOUSE_RELEASED, EVENT_MOUSE_CLICKED]"
proof -
  have "\<not> isl (process_button_release desktop_hook_env 30 1 100 50 desktop_hook)" by code_simp
  then obtain s' where s': "process_button_release desktop_hook_env 30 1 100 50 desktop_hook = Inr s'"
    by (cases "process_button_release desktop_hook_env 30 1 100 50 desktop_hook") auto
  have d: "dispatcher desktop_hook = Some (\<lambda>_ e. e)" by (simp add: desktop_hook_def)
  from button_release_dispatches [OF s' d] s' show ?thesis
    by (auto simp: Let_def emitted_def desktop_hook_def)
qed

section \<open>Clicks\<close>

interpretation xclick: click_counter "count_press mc" click_count click_button click_time
  "\<lambda>t t'. sint (t - t') \<le> sint mc" for mc :: c_long
  by unfold_locales (simp_all add: count_press_def Let_def)

definition press_of :: "input_helper \<Rightarrow> 'x input \<Rightarrow> uint16_t \<times> uint64_t" where
  "press_of h i =
     (fst (virtual_button (button_map_lookup h (hk_mapping (fst i)) (ucast (d_detail (snd (snd i)))))),
      fst (snd i))"

lemma press_of_time: "snd (press_of h i) = fst (snd i)"
  by (simp add: press_of_def)

definition is_press :: "input_helper \<Rightarrow> c_long \<Rightarrow> 'x input \<Rightarrow> bool" where
  "is_press h mc i \<longleftrightarrow>
     d_type (snd (snd i)) = ButtonPress
     \<and> \<not> is_wheel (button_map_lookup h (hk_mapping (fst i)) (ucast (d_detail (snd (snd i)))))
     \<and> hook_get_multi_click_time (hk_build (fst i)) (hk_env (fst i)) h = Inr mc"

definition same_clicks :: "'x x11_hook \<Rightarrow> 'x x11_hook \<Rightarrow> bool" where
  "same_clicks s s' \<longleftrightarrow> click_count s' = click_count s \<and> click_button s' = click_button s
     \<and> click_time s' = click_time s"

lemma count_press_clicks:
  assumes "same_clicks s s'"
  shows "same_clicks (count_press mc b tm s) (count_press mc b tm s')"
  using assms by (simp add: same_clicks_def count_press_def Let_def)

lemma process_press_clicks:
  assumes "is_press (helper s) mc (env, tm, d)" and "process_datum env tm d s = Inr s'"
  shows "same_clicks (count_press mc (fst (press_of (helper s) (env, tm, d))) tm s) s'"
proof -
  let ?b = "button_map_lookup (helper s) (hk_mapping env) (ucast (d_detail d))"
  have press: "process_button_press env tm ?b (d_root_x d) (d_root_y d) s = Inr s'"
    using assms by (simp add: is_press_def process_datum_def Let_def)
  have mc: "x11_multi_click env t = Inr mc" if "helper t = helper s" for t
    using assms(1) that by (simp add: is_press_def x11_multi_click_def)
  show ?thesis
  proof (cases "fst (virtual_button ?b) = click_button s")
    case True
    then show ?thesis
      using press mc [of "put_button_modifier ?b True s"]
      by (auto simp: process_button_press_def press_of_def same_clicks_def count_press_def Let_def
          elim!: r_bind_InrE)
  next
    case False
    then show ?thesis
      using press
      by (auto simp: process_button_press_def press_of_def same_clicks_def count_press_def Let_def
          elim!: r_bind_InrE)
  qed
qed

lemma run_presses:
  assumes "run is s = Inr s'" and "\<forall>i \<in> set is. is_press (helper s) mc i"
  shows "same_clicks (xclick.presses mc (rev (map (press_of (helper s)) is)) s) s'"
  using assms
proof (induction "is" arbitrary: s' rule: rev_induct)
  case Nil
  then show ?case by (simp add: same_clicks_def)
next
  case (snoc i "is")
  obtain env tm d where i: "i = (env, tm, d)" by (cases i) auto
  obtain s1 where s1: "run is s = Inr s1" and d: "process_datum env tm d s1 = Inr s'"
    using snoc.prems(1) by (auto simp: run_append i elim!: r_bind_InrE)
  have h: "helper s1 = helper s" using run_setup [OF s1] by (simp add: same_setup_def)
  have "same_clicks (count_press mc (fst (press_of (helper s) i)) tm s1) s'"
    using process_press_clicks [of s1 mc env tm d, OF _ d] snoc.prems(2) by (simp add: h i)
  moreover have "same_clicks (xclick.presses mc (rev (map (press_of (helper s)) is)) s) s1"
    using snoc.IH [OF s1] snoc.prems(2) by simp
  then have "same_clicks (count_press mc (fst (press_of (helper s) i)) tm
      (xclick.presses mc (rev (map (press_of (helper s)) is)) s)) (count_press mc (fst (press_of (helper s) i)) tm s1)"
    by (rule count_press_clicks)
  ultimately show ?case
    using press_of_time [of "helper s" i] by (simp add: same_clicks_def i)
qed

text \<open>
  C3. From a state without clicks, the click count after any sequence of button presses is the
  reference count of that history.
\<close>

theorem clicks_refine_reference:
  assumes "run is s = Inr s'" and "is \<noteq> []" and "click_count s = 0"
    and "\<forall>i \<in> set is. is_press (helper s) mc i"
  shows "unat (click_count s') =
    clicks_of (\<lambda>t t'. sint (t - t') \<le> sint mc) (rev (map (press_of (helper s)) is))"
proof -
  have "unat (click_count (xclick.presses mc (rev (map (press_of (helper s)) is)) s)) =
      clicks_of (\<lambda>t t'. sint (t - t') \<le> sint mc) (rev (map (press_of (helper s)) is))"
    using assms(2,3) by (intro xclick.count_refines) simp_all
  with run_presses [OF assms(1,4)] show ?thesis by (simp add: same_clicks_def)
qed

theorem clicks_refine_reference_witness:
  "\<exists>s'. run [(desktop_hook_env, 1000, desktop_datum ButtonPress 1), (desktop_hook_env, 1100, desktop_datum ButtonPress 1)]
       desktop_hook = Inr s' \<and> unat (click_count s') = 2"
proof -
  let ?is = "[(desktop_hook_env, 1000, desktop_datum ButtonPress 1), (desktop_hook_env, 1100, desktop_datum ButtonPress 1)]"
  have "\<not> isl (run ?is desktop_hook)" by code_simp
  then obtain s' where s': "run ?is desktop_hook = Inr s'" by (cases "run ?is desktop_hook") auto
  have press: "\<forall>i \<in> set ?is. is_press (helper desktop_hook) 250 i" by code_simp
  have "rev (map (press_of (helper desktop_hook)) ?is) = [(1, 1100), (1, 1000)]" by code_simp
  moreover have "sint (1100 - 1000 :: c_long) \<le> sint (250 :: c_long)" by code_simp
  ultimately have clicks:
    "clicks_of (\<lambda>t t'. sint (t - t') \<le> sint (250 :: c_long)) (rev (map (press_of (helper desktop_hook)) ?is)) = 2"
    by simp
  have "click_count desktop_hook = 0" by (simp add: desktop_hook_def)
  from clicks_refine_reference [OF s' _ this press] clicks s' show ?thesis by simp
qed

section \<open>Keypad\<close>

definition kp_pairs :: "(uint16_t \<times> uint16_t) list" where
  "kp_pairs = [(VC_KP_1, VC_KP_END), (VC_KP_2, VC_KP_DOWN), (VC_KP_3, VC_KP_PAGE_DOWN), (VC_KP_4, VC_KP_LEFT),
    (VC_KP_5, VC_KP_CLEAR), (VC_KP_6, VC_KP_RIGHT), (VC_KP_7, VC_KP_HOME), (VC_KP_8, VC_KP_UP),
    (VC_KP_9, VC_KP_PAGE_UP), (VC_KP_0, VC_KP_INSERT), (VC_KP_SEPARATOR, VC_KP_DELETE)]"

text \<open>
  Without Num Lock the eleven keypad keys report their navigation code, and every other key
  keeps its code; with Num Lock all do.
\<close>

theorem keypad_without_num_lock:
  "keypad_scancode m c =
     (if bit m 13 then c else case map_of kp_pairs c of Some c' \<Rightarrow> c' | None \<Rightarrow> c)"
  by (auto simp: keypad_scancode_def and_flag_eq_0_iff kp_pairs_def)

section \<open>Well-formed events\<close>

definition well_formed :: "uiohook_event \<Rightarrow> bool" where
  "well_formed e \<longleftrightarrow> ev_reserved e = 0 \<and>
     (case ev_data e of
        Keyboard k \<Rightarrow>
          (ev_type e \<in> {EVENT_KEY_PRESSED, EVENT_KEY_RELEASED} \<and> kb_keychar k = CHAR_UNDEFINED)
          \<or> (ev_type e = EVENT_KEY_TYPED \<and> kb_keycode k = VC_UNDEFINED)
      | Mouse m \<Rightarrow>
          ev_type e \<in> {EVENT_MOUSE_PRESSED, EVENT_MOUSE_RELEASED, EVENT_MOUSE_CLICKED}
          \<or> (ev_type e \<in> {EVENT_MOUSE_MOVED, EVENT_MOUSE_DRAGGED} \<and> ms_button m = MOUSE_NOBUTTON
             \<and> (ev_type e = EVENT_MOUSE_DRAGGED \<longleftrightarrow> ev_mask e AND 0x1F00 \<noteq> 0))
      | Wheel w \<Rightarrow> ev_type e = EVENT_MOUSE_WHEEL \<and> wh_clicks w = 1 \<and> wh_rotation w \<in> {1, -1})"

definition extends :: "'x x11_hook \<Rightarrow> 'x x11_hook \<Rightarrow> bool" where
  "extends s s' \<longleftrightarrow> (\<exists>new. dispatched s' = dispatched s @ new \<and> list_all well_formed new)"

lemma extends_refl [simp]: "extends s s"
  by (simp add: extends_def)

lemma extends_trans: "extends s t \<Longrightarrow> extends t u \<Longrightarrow> extends s u"
  by (auto simp: extends_def)

lemma extends_same: "extends s t \<Longrightarrow> dispatched t' = dispatched t \<Longrightarrow> extends s t'"
  by (simp add: extends_def)

lemma extends_fire:
  assumes "extends s t" and "well_formed (emitted ty tm msk dat)"
  shows "extends s (fire ty tm msk dat t)"
  using assms by (auto simp: extends_def dispatched_fire)

lemma well_formed_key [simp]:
  "well_formed (emitted EVENT_KEY_PRESSED tm msk (key_data c ks CHAR_UNDEFINED))"
  "well_formed (emitted EVENT_KEY_RELEASED tm msk (key_data c ks CHAR_UNDEFINED))"
  "well_formed (emitted EVENT_KEY_TYPED tm msk (key_data VC_UNDEFINED ks ch))"
  "well_formed (emitted EVENT_MOUSE_PRESSED tm msk (mouse_data b n x y))"
  "well_formed (emitted EVENT_MOUSE_RELEASED tm msk (mouse_data b n x y))"
  "well_formed (emitted EVENT_MOUSE_CLICKED tm msk (mouse_data b n x y))"
  "msk AND 0x1F00 \<noteq> 0 \<Longrightarrow> well_formed (emitted EVENT_MOUSE_DRAGGED tm msk (mouse_data MOUSE_NOBUTTON n x y))"
  "msk AND 0x1F00 = 0 \<Longrightarrow> well_formed (emitted EVENT_MOUSE_MOVED tm msk (mouse_data MOUSE_NOBUTTON n x y))"
  by (simp_all add: well_formed_def emitted_def key_data_def mouse_data_def)

lemma extends_type_units: "extends s t \<Longrightarrow> extends s (type_units tm ks cs t)"
  by (induction cs arbitrary: t) (simp_all add: extends_fire)

lemma extends_updates [simp]:
  "extends s (put_button_modifier b down t) = extends s t"
  "extends s (count_press mc b16 tm t) = extends s t"
  "extends s (t\<lparr>click_count := c\<rparr>) = extends s t"
  "extends s (t\<lparr>click_button := c16\<rparr>) = extends s t"
  "extends s (t\<lparr>is_dragged := dr\<rparr>) = extends s t"
  by (simp_all add: extends_def)

lemma process_key_extends:
  "process_key_press env tm keycode modstate s = Inr s' \<Longrightarrow> extends s s'"
  "process_key_release env tm keycode modstate s = Inr s' \<Longrightarrow> extends s s'"
proof -
  have ks: "extends s t" if "key_state env keycode down s = Inr t" for down t
    using key_state_frame [OF that] by (intro extends_same [OF extends_refl]) simp
  show "process_key_press env tm keycode modstate s = Inr s' \<Longrightarrow> extends s s'"
    by (auto simp: process_key_press_alt Let_def elim!: r_bind_InrE dest!: ks
        intro!: extends_type_units extends_fire)
  show "process_key_release env tm keycode modstate s = Inr s' \<Longrightarrow> extends s s'"
    by (auto simp: process_key_release_alt Let_def elim!: r_bind_InrE dest!: ks intro!: extends_fire)
qed

lemma process_button_press_extends:
  "process_button_press env tm b x y s = Inr s' \<Longrightarrow> extends s s'"
  by (auto simp: process_button_press_def Let_def elim!: r_bind_InrE split: prod.splits intro!: extends_fire)

lemma fire_clicked_extends:
  "fire_clicked env tm b x y s = Inr s' \<Longrightarrow> extends s s'"
  by (auto simp: fire_clicked_def split: if_splits elim!: r_bind_InrE intro!: extends_fire)

lemma process_button_release_extends:
  assumes "process_button_release env tm b x y s = Inr s'"
  shows "extends s s'"
proof -
  obtain px py s1 where s1: "fire_clicked env tm (fst (virtual_button b)) x y
      (fire EVENT_MOUSE_RELEASED tm (in_mask (put_button_modifier b False s))
        (mouse_data (fst (virtual_button b)) (click_count s) px py) (put_button_modifier b False s)) = Inr s1"
    and s': "reset_clicks env (fst (virtual_button b)) s1 = Inr s'"
    using assms by (auto simp: process_button_release_def get_modifiers_def Let_def elim!: r_bind_InrE)
  have t: "extends s (fire EVENT_MOUSE_RELEASED tm (in_mask (put_button_modifier b False s))
      (mouse_data (fst (virtual_button b)) (click_count s) px py) (put_button_modifier b False s))"
    by (simp add: extends_fire)
  have "extends s s1" using extends_trans [OF t fire_clicked_extends [OF s1]] .
  moreover have "dispatched s' = dispatched s1" using reset_clicks_frame [OF s'] by simp
  ultimately show ?thesis by (rule extends_same)
qed

lemma process_motion_extends:
  assumes "process_motion env tm x y s = Inr s'"
  shows "extends s s'"
proof -
  obtain s1 px py where s1: "forget_clicks env tm s = Inr s1"
    and s': "s' = (let t = s1\<lparr>is_dragged := (in_mask s1 AND 0x1F00 > 0)\<rparr> in
      fire (if is_dragged t then EVENT_MOUSE_DRAGGED else EVENT_MOUSE_MOVED) tm (in_mask t)
        (mouse_data MOUSE_NOBUTTON (click_count t) px py) t)"
    using assms by (auto simp: process_motion_def get_modifiers_def Let_def elim!: r_bind_InrE)
  have "extends s s1"
    using forget_clicks_frame [OF s1] by (intro extends_same [OF extends_refl]) simp
  then show ?thesis
    by (cases "in_mask s1 AND 0x1F00 = 0") (auto simp: s' Let_def word_gt_0 intro!: extends_fire)
qed

lemma process_wheel_extends:
  assumes "process_wheel env tm detail x y s = Inr s'"
  shows "extends s s'"
proof -
  have "well_formed (emitted EVENT_MOUSE_WHEEL tm msk (Wheel w))"
    if "wh_clicks w = 1" "wh_rotation w = 1 \<or> wh_rotation w = -1" for msk w
    using that by (simp add: well_formed_def emitted_def)
  then show ?thesis
    using assms by (auto simp: process_wheel_def Let_def elim!: r_bind_InrE split: prod.splits intro!: extends_fire)
qed

lemma run_extends:
  assumes "run is s = Inr s'"
  shows "extends s s'"
  using assms
proof (induction "is" arbitrary: s)
  case (Cons i "is")
  then obtain s1 where s1: "process_datum (fst i) (fst (snd i)) (snd (snd i)) s = Inr s1" and "run is s1 = Inr s'"
    by (auto elim!: r_bind_InrE)
  moreover from s1 have "extends s s1"
    by (auto simp: process_datum_def Let_def split: datum_type.splits if_splits
        dest: process_key_extends process_button_press_extends process_button_release_extends
          process_motion_extends process_wheel_extends)
  ultimately show ?case using Cons.IH extends_trans by blast
qed simp

lemma well_formed_fits_type: "well_formed e \<Longrightarrow> fits_type e"
  by (auto simp: well_formed_def fits_type_def split: event_data.splits)

interpretation xsource: event_source "\<lambda>i. hook_event_proc (fst i) XRecordFromServer (fst (snd i)) (snd (snd i))" run
proof
  fix i :: "'a input" and s s' :: "'a x11_hook"
  assume "hook_event_proc (fst i) XRecordFromServer (fst (snd i)) (snd (snd i)) s = Inr s'"
  then have "run [i] s = Inr s'" by simp
  from run_extends [OF this] run_setup [OF this] show "reports s s'"
    by (auto simp: extends_def same_setup_def reports_def list_all_iff intro: well_formed_fits_type)
qed simp_all

text \<open>
  C22. A run only appends to what the callback received, and every event it appends is well
  formed: the member of the union fits the type, typed events have no key code, pressed and
  released ones no character, and dragged is told from moved by the button flags.
\<close>

theorem dispatched_events_well_formed:
  assumes "run is s = Inr s'"
  shows "\<exists>new. dispatched s' = dispatched s @ new \<and> list_all well_formed new"
  using run_extends [OF assms] by (simp add: extends_def)

theorem dispatched_events_well_formed_witness:
  "\<exists>s' new. run desktop_inputs desktop_hook = Inr s' \<and> dispatched s' = dispatched desktop_hook @ new
     \<and> list_all well_formed new"
proof -
  obtain s' where "run desktop_inputs desktop_hook = Inr s'" using desktop_run by blast
  with dispatched_events_well_formed [OF this] show ?thesis by blast
qed

end
