(* ===== verification/X11_Lifecycle.thy ===== *)
theory X11_Lifecycle
  imports X11_Hook_Properties
begin

text \<open>
  Start and stop of the X11 hook (\<^verbatim>\<open>src/x11/input_hook.c\<close>): the chain of functions from
  \<^verbatim>\<open>hook_run\<close> to \<^verbatim>\<open>XRecordEnableContext\<close>, which calls the handler until the context is disabled,
  and \<^verbatim>\<open>hook_stop\<close>, which another thread calls. The state counts what is acquired and released.
\<close>

section \<open>State\<close>

text \<open>The pointer fields of the allocated \<^verbatim>\<open>hook_info\<close>.\<close>

record hook_pointers =
  data_display :: pointer
  data_range :: pointer
  ctrl_display :: pointer
  ctrl_context :: pointer
  input_context :: pointer

text \<open>
  \<open>p_hook\<close> is the static pointer \<^verbatim>\<open>hook\<close> (\<open>None\<close> for null) and \<open>p_input\<close> the rest of the state the
  handler works on. The counters are the objects acquired and not yet released: blocks of
  memory, displays, record ranges and contexts, and references to xkbcommon objects.
\<close>

record 'x x11_process =
  p_hook :: "hook_pointers option"
  p_input :: "'x x11_hook"
  p_blocks :: int
  p_displays :: int
  p_ranges :: int
  p_contexts :: int
  p_keymap_refs :: int
  p_state_refs :: int
  p_context_refs :: int

record 'x intercepted =
  ic_env :: "'x hook_env"
  ic_category :: record_category
  ic_time :: uint64_t
  ic_datum :: datum

text \<open>
  The answers of one run: the allocation, the two displays, xcb, xkbcommon (the context, the
  core keyboard, the keymap, the state), the queries for the modifiers, XRecord, and the
  data that XRecord delivers while its context is enabled.
\<close>

record 'x run_env =
  re_hook_env :: "'x hook_env"
  re_xkb_file :: bool
  re_malloc :: bool
  re_ctrl_display :: bool
  re_data_display :: bool
  re_xcb_status :: int
  re_xkb_context :: bool
  re_device_id :: int
  re_keymap :: bool
  re_state :: "'x option"
  re_query :: modifier_query
  re_record_version :: bool
  re_alloc_range :: bool
  re_create_context :: bool
  re_intercepted :: "'x intercepted list"
  re_enable_context :: bool

text \<open>\<^verbatim>\<open>hook->\<close> is a dereference of the static pointer.\<close>

definition with_hook ::
  "'x x11_process \<Rightarrow> (hook_pointers \<Rightarrow> ('x x11_process \<times> 'a) result) \<Rightarrow> ('x x11_process \<times> 'a) result" where
  "with_hook p f = (case p_hook p of None \<Rightarrow> Inl NullDereference | Some h \<Rightarrow> f h)"

definition set_hook :: "(hook_pointers \<Rightarrow> hook_pointers) \<Rightarrow> 'x x11_process \<Rightarrow> 'x x11_process" where
  "set_hook f p = p\<lparr>p_hook := map_option f (p_hook p)\<rparr>"

section \<open>xkbcommon\<close>

text \<open>
  A new object has one reference. Neither a state for a null keymap nor a reference to a null
  state can be asked for. The keymap is released before the reference is taken.
\<close>

definition create_xkb_state ::
  "'x run_env \<Rightarrow> 'x x11_process \<Rightarrow> ('x x11_process \<times> 'x option) result" where
  "create_xkb_state env p =
     (let new_state =
            (if re_keymap env
             then case re_state env of
                    Some st \<Rightarrow> Inr (p\<lparr>p_keymap_refs := p_keymap_refs p + 1, p_state_refs := p_state_refs p + 1\<rparr>, Some st)
                  | None \<Rightarrow> Inr (p\<lparr>p_keymap_refs := p_keymap_refs p + 1\<rparr>, None)
             else Inl NullDereference)
      in r_bind (if re_device_id env \<ge> 0 then new_state
                 else if re_xkb_file env then new_state
                 else Inr (p, None)) (\<lambda>(p', state).
         let p' = (if re_device_id env \<ge> 0 \<or> re_xkb_file env
                   then p'\<lparr>p_keymap_refs := p_keymap_refs p' - 1\<rparr> else p')
         in case state of
              None \<Rightarrow> Inl NullDereference
            | Some st \<Rightarrow> Inr (p'\<lparr>p_state_refs := p_state_refs p' + 1\<rparr>, Some st)))"

definition destroy_xkb_state :: "'x x11_process \<Rightarrow> 'x x11_process" where
  "destroy_xkb_state p = p\<lparr>p_state_refs := p_state_refs p - 1\<rparr>"

section \<open>Start\<close>

text \<open>The synchronous build: the handler runs on each datum inside the call.\<close>

primrec deliver :: "'x intercepted list \<Rightarrow> 'x x11_hook \<Rightarrow> 'x x11_hook result" where
  "deliver [] s = Inr s"
| "deliver (i # is) s = r_bind (hook_event_proc (ic_env i) (ic_category i) (ic_time i) (ic_datum i) s) (deliver is)"

definition xrecord_block :: "'x run_env \<Rightarrow> 'x x11_process \<Rightarrow> ('x x11_process \<times> c_int) result" where
  "xrecord_block env p =
     with_hook p (\<lambda>h.
     r_bind (deliver (re_intercepted env) (p_input p)) (\<lambda>s.
     Inr (p\<lparr>p_input := s\<rparr>,
       if re_enable_context env then UIOHOOK_SUCCESS else UIOHOOK_ERROR_X_RECORD_ENABLE_CONTEXT)))"

definition xrecord_alloc :: "'x run_env \<Rightarrow> 'x x11_process \<Rightarrow> ('x x11_process \<times> c_int) result" where
  "xrecord_alloc env p =
     with_hook p (\<lambda>h.
     let p = set_hook (data_range_update (\<lambda>_. pointer_of (re_alloc_range env))) p in
     if re_alloc_range env then
       let p = p\<lparr>p_ranges := p_ranges p + 1\<rparr>;
           p = set_hook (ctrl_context_update (\<lambda>_. pointer_of (re_create_context env))) p in
       r_bind (if re_create_context env
               then r_bind (xrecord_block env (p\<lparr>p_contexts := p_contexts p + 1\<rparr>)) (\<lambda>(p, status).
                    Inr (p\<lparr>p_contexts := p_contexts p - 1\<rparr>, status))
               else Inr (p, UIOHOOK_ERROR_X_RECORD_CREATE_CONTEXT)) (\<lambda>(p, status).
       Inr (p\<lparr>p_ranges := p_ranges p - 1\<rparr>, status))
     else Inr (p, UIOHOOK_ERROR_X_RECORD_ALLOC_RANGE))"

definition xrecord_query :: "'x run_env \<Rightarrow> 'x x11_process \<Rightarrow> ('x x11_process \<times> c_int) result" where
  "xrecord_query env p =
     with_hook p (\<lambda>h.
     if re_record_version env then xrecord_alloc env p else Inr (p, UIOHOOK_ERROR_X_RECORD_NOT_FOUND))"

text \<open>The xcb connection and the context; then the state, whose arguments read both fields.\<close>

definition open_xkb :: "'x run_env \<Rightarrow> 'x x11_process \<Rightarrow> ('x x11_process \<times> 'x option) result" where
  "open_xkb env p =
     (let p = (if re_xcb_status env \<le> 0 \<and> re_xkb_context env
               then (set_hook (input_context_update (\<lambda>_. Set)) p)\<lparr>p_context_refs := p_context_refs p + 1 + 1\<rparr>
               else p)
      in with_hook p (\<lambda>h.
         if input_context h = Unwritten then Inl UninitialisedRead else create_xkb_state env p))"

definition close_xkb :: "'x x11_process \<Rightarrow> 'x x11_process result" where
  "close_xkb p =
     (let p = (if xkb_state (p_input p) \<noteq> None then destroy_xkb_state p else p)
      in case p_hook p of
           None \<Rightarrow> Inl NullDereference
         | Some h \<Rightarrow>
             if input_context h = Unwritten then Inl UninitialisedRead
             else if input_context h = Set
             then Inr ((set_hook (input_context_update (\<lambda>_. Null)) p)\<lparr>p_context_refs := p_context_refs p - 1\<rparr>)
             else Inr p)"

definition xrecord_session :: "'x run_env \<Rightarrow> 'x x11_process \<Rightarrow> ('x x11_process \<times> c_int) result" where
  "xrecord_session env p =
     (let xkb = use_xkb_common (hk_build (re_hook_env env)) in
      r_bind (if xkb
              then r_bind (open_xkb env p) (\<lambda>(p, st). Inr (p\<lparr>p_input := (p_input p)\<lparr>xkb_state := st\<rparr>\<rparr>))
              else Inr p) (\<lambda>p.
      r_bind (initialize_modifiers (re_hook_env env) (re_query env) (p_input p)) (\<lambda>s.
      r_bind (xrecord_query env (p\<lparr>p_input := s\<rparr>)) (\<lambda>(p, status).
      r_bind (if xkb then close_xkb p else Inr p) (\<lambda>p.
      Inr (p, status))))))"

definition open_displays :: "'x run_env \<Rightarrow> 'x x11_process \<Rightarrow> 'x x11_process" where
  "open_displays env p =
     (let p = set_hook (\<lambda>h. h\<lparr>ctrl_display := pointer_of (re_ctrl_display env)\<rparr>) p;
          p = set_hook (\<lambda>h. h\<lparr>data_display := pointer_of (re_data_display env)\<rparr>) p
      in p\<lparr>p_displays := p_displays p + of_bool (re_ctrl_display env) + of_bool (re_data_display env)\<rparr>)"

definition close_displays :: "'x x11_process \<Rightarrow> 'x x11_process result" where
  "close_displays p =
     (case p_hook p of
        None \<Rightarrow> Inl NullDereference
      | Some h \<Rightarrow>
          let p = (if data_display h = Set
                   then (set_hook (data_display_update (\<lambda>_. Null)) p)\<lparr>p_displays := p_displays p - 1\<rparr> else p)
          in Inr (if ctrl_display h = Set
                  then (set_hook (ctrl_display_update (\<lambda>_. Null)) p)\<lparr>p_displays := p_displays p - 1\<rparr> else p))"

definition xrecord_start :: "'x run_env \<Rightarrow> 'x x11_process \<Rightarrow> ('x x11_process \<times> c_int) result" where
  "xrecord_start env p =
     (let p = open_displays env p in
      r_bind (if re_ctrl_display env \<and> re_data_display env then xrecord_session env p
              else Inr (p, UIOHOOK_ERROR_X_OPEN_DISPLAY)) (\<lambda>(p, status).
      r_bind (close_displays p) (\<lambda>p. Inr (p, status))))"

definition hook_run :: "'x run_env \<Rightarrow> 'x x11_process \<Rightarrow> ('x x11_process \<times> c_int) result" where
  "hook_run env p =
     (if \<not> re_malloc env then Inr (p\<lparr>p_hook := None\<rparr>, UIOHOOK_ERROR_OUT_OF_MEMORY)
      else
        let p = p\<lparr>p_blocks := p_blocks p + 1,
                  p_hook := Some \<lparr>data_display = Unwritten, data_range = Unwritten, ctrl_display = Unwritten,
                                  ctrl_context = Unwritten, input_context = Unwritten\<rparr>,
                  p_input := (p_input p)\<lparr>in_mask := 0x0000, is_dragged := False, click_count := 0,
                                         click_time := 0, click_button := MOUSE_NOBUTTON\<rparr>\<rparr>
        in r_bind (xrecord_start env p) (\<lambda>(p, status).
           Inr (p\<lparr>p_blocks := p_blocks p - 1, p_hook := None\<rparr>, status)))"

section \<open>Stop\<close>

text \<open>
  \<open>se_get_context\<close> is what \<^verbatim>\<open>XRecordGetContext\<close> reports (\<open>None\<close> when it fails): whether the
  context is enabled. A block of memory is allocated for the answer and released again.
\<close>

record stop_env =
  se_malloc :: bool
  se_get_context :: "bool option"
  se_disable_context :: bool

definition hook_stop :: "stop_env \<Rightarrow> 'x x11_process \<Rightarrow> c_int result" where
  "hook_stop env p =
     (case p_hook p of
        None \<Rightarrow> Inr UIOHOOK_FAILURE
      | Some h \<Rightarrow>
          if ctrl_display h = Unwritten then Inl UninitialisedRead
          else if ctrl_display h = Null then Inr UIOHOOK_FAILURE
          else if ctrl_context h = Unwritten then Inl UninitialisedRead
          else if ctrl_context h = Null then Inr UIOHOOK_FAILURE
          else if \<not> se_malloc env then Inr UIOHOOK_ERROR_OUT_OF_MEMORY
          else case se_get_context env of
                 None \<Rightarrow> Inr UIOHOOK_ERROR_X_RECORD_GET_CONTEXT
               | Some enabled \<Rightarrow>
                   Inr (if enabled \<and> se_disable_context env then UIOHOOK_SUCCESS else UIOHOOK_FAILURE))"

section \<open>Lemmas on the start\<close>

definition same_ledger :: "'x x11_process \<Rightarrow> 'x x11_process \<Rightarrow> bool" where
  "same_ledger p p' \<longleftrightarrow> p_blocks p' = p_blocks p \<and> p_displays p' = p_displays p \<and> p_ranges p' = p_ranges p
     \<and> p_contexts p' = p_contexts p \<and> p_keymap_refs p' = p_keymap_refs p"

definition same_refs :: "'x x11_process \<Rightarrow> 'x x11_process \<Rightarrow> bool" where
  "same_refs p p' \<longleftrightarrow> p_state_refs p' = p_state_refs p \<and> p_context_refs p' = p_context_refs p
     \<and> map_option input_context (p_hook p') = map_option input_context (p_hook p)"

definition same_displays :: "'x x11_process \<Rightarrow> 'x x11_process \<Rightarrow> bool" where
  "same_displays p p' \<longleftrightarrow>
     map_option (\<lambda>h. (ctrl_display h, data_display h)) (p_hook p') =
     map_option (\<lambda>h. (ctrl_display h, data_display h)) (p_hook p)"

lemmas same_defs = same_ledger_def same_refs_def same_displays_def

lemma set_hook_fields [simp]:
  "p_hook (set_hook f p) = map_option f (p_hook p)"
  "p_input (set_hook f p) = p_input p"
  "p_blocks (set_hook f p) = p_blocks p"
  "p_displays (set_hook f p) = p_displays p"
  "p_ranges (set_hook f p) = p_ranges p"
  "p_contexts (set_hook f p) = p_contexts p"
  "p_keymap_refs (set_hook f p) = p_keymap_refs p"
  "p_state_refs (set_hook f p) = p_state_refs p"
  "p_context_refs (set_hook f p) = p_context_refs p"
  by (simp_all add: set_hook_def)

lemma with_hook_InrE:
  assumes "with_hook p f = Inr b"
  obtains h where "p_hook p = Some h" and "f h = Inr b"
  using assms by (auto simp: with_hook_def split: option.splits)

lemma with_hook_Some [simp]: "p_hook p = Some h \<Longrightarrow> with_hook p f = f h"
  by (simp add: with_hook_def)

definition record_status :: "'x run_env \<Rightarrow> c_int" where
  "record_status env =
     (if \<not> re_record_version env then UIOHOOK_ERROR_X_RECORD_NOT_FOUND
      else if \<not> re_alloc_range env then UIOHOOK_ERROR_X_RECORD_ALLOC_RANGE
      else if \<not> re_create_context env then UIOHOOK_ERROR_X_RECORD_CREATE_CONTEXT
      else if \<not> re_enable_context env then UIOHOOK_ERROR_X_RECORD_ENABLE_CONTEXT
      else UIOHOOK_SUCCESS)"

definition recording :: "'x run_env \<Rightarrow> bool" where
  "recording env \<longleftrightarrow> re_record_version env \<and> re_alloc_range env \<and> re_create_context env"

lemma xrecord_query_effect:
  assumes "xrecord_query env p = Inr (p', status)"
  shows "status = record_status env \<and> same_ledger p p' \<and> same_refs p p' \<and> same_displays p p'
    \<and> (if recording env then deliver (re_intercepted env) (p_input p) = Inr (p_input p') else p_input p' = p_input p)"
  using assms
  by (auto simp: xrecord_query_def xrecord_alloc_def xrecord_block_def record_status_def recording_def Let_def same_defs
      elim!: with_hook_InrE r_bind_InrE split: if_splits)

lemma deliver_append: "deliver (is @ js) s = r_bind (deliver is s) (deliver js)"
  by (induction "is" arbitrary: s) (simp_all add: r_bind_assoc, simp add: r_bind_def split: sum.split)

lemma hook_event_proc_xkb:
  assumes "hook_event_proc env c tm d s = Inr s'"
  shows "xkb_state s' = None \<longleftrightarrow> xkb_state s = None"
  using assms process_datum_effect
  by (fastforce simp: hook_event_proc_def Let_def same_setup_def split: record_category.splits elim!: r_bind_InrE)

lemma deliver_xkb: "deliver is s = Inr s' \<Longrightarrow> xkb_state s' = None \<longleftrightarrow> xkb_state s = None"
  by (induction "is" arbitrary: s) (auto elim!: r_bind_InrE dest: hook_event_proc_xkb)

lemma set_mask_fields [simp]:
  "xkb_state (set_modifier_mask msk s) = xkb_state s"
  "dispatcher (set_modifier_mask msk s) = dispatcher s"
  "dispatched (set_modifier_mask msk s) = dispatched s"
  "helper (set_modifier_mask msk s) = helper s"
  by (simp_all add: set_modifier_mask_def)

lemma if_held_fields [simp]:
  "xkb_state (if_held q ks msk s) = xkb_state s"
  "dispatcher (if_held q ks msk s) = dispatcher s"
  "dispatched (if_held q ks msk s) = dispatched s"
  "helper (if_held q ks msk s) = helper s"
  by (simp_all add: if_held_def)

lemma if_bit_fields [simp]:
  "(\<And>s. xkb_state (f s) = xkb_state s) \<Longrightarrow> xkb_state (if_bit m k f s) = xkb_state s"
  "(\<And>s. dispatcher (f s) = dispatcher s) \<Longrightarrow> dispatcher (if_bit m k f s) = dispatcher s"
  "(\<And>s. dispatched (f s) = dispatched s) \<Longrightarrow> dispatched (if_bit m k f s) = dispatched s"
  "(\<And>s. helper (f s) = helper s) \<Longrightarrow> helper (if_bit m k f s) = helper s"
  by (simp_all add: if_bit_def)

lemma initialize_modifiers_frame:
  assumes "initialize_modifiers env q s = Inr s'"
  shows "xkb_state s' = xkb_state s \<and> dispatcher s' = dispatcher s \<and> dispatched s' = dispatched s \<and> helper s' = helper s"
proof (cases "q_pointer q")
  case None
  with assms have "initialize_locks env (if_held q XK_Super_R MASK_META_R (if_held q XK_Super_L MASK_META_L
      (if_held q XK_Alt_R MASK_ALT_R (if_held q XK_Alt_L MASK_ALT_L (if_held q XK_Control_R MASK_CTRL_R
      (if_held q XK_Control_L MASK_CTRL_L (if_held q XK_Shift_R MASK_SHIFT_R (if_held q XK_Shift_L MASK_SHIFT_L
      (s\<lparr>in_mask := 0\<rparr>))))))))) = Inr s'"
    by (simp add: initialize_modifiers_def Let_def)
  from initialize_locks_frame [OF this] show ?thesis by simp
next
  case (Some msk)
  then show ?thesis
    using assms unfolding initialize_modifiers_def Let_def by (simp, drule_tac initialize_locks_frame) simp
qed

lemma open_xkb_effect:
  assumes "open_xkb env p = Inr (p', st)"
  shows "(\<exists>x. st = Some x) \<and> same_ledger p p' \<and> same_displays p p' \<and> p_input p' = p_input p
    \<and> (map_option input_context (p_hook p) = Some Unwritten \<longrightarrow>
        map_option input_context (p_hook p') = Some Set
        \<and> p_state_refs p' = p_state_refs p + 2 \<and> p_context_refs p' = p_context_refs p + 2)"
  using assms
  by (auto simp: open_xkb_def create_xkb_state_def Let_def same_defs with_hook_def
      elim!: r_bind_InrE split: if_splits option.splits dest!: sym [of "Some _"])

lemma close_xkb_effect:
  assumes "close_xkb p = Inr p'"
  shows "same_ledger p p' \<and> same_displays p p' \<and> p_input p' = p_input p
    \<and> p_state_refs p' = p_state_refs p - of_bool (xkb_state (p_input p) \<noteq> None)
    \<and> p_context_refs p' = p_context_refs p - of_bool (map_option input_context (p_hook p) = Some Set)"
  using assms
  by (cases "p_hook p") (auto simp: close_xkb_def destroy_xkb_state_def Let_def same_defs split: if_splits)


text \<open>\<open>fresh\<close> is the state after the allocation, \<open>opened\<close> the state after both displays were asked for.\<close>

definition fresh :: "'x x11_process \<Rightarrow> 'x x11_process" where
  "fresh p = p\<lparr>p_blocks := p_blocks p + 1,
     p_hook := Some \<lparr>data_display = Unwritten, data_range = Unwritten, ctrl_display = Unwritten,
                     ctrl_context = Unwritten, input_context = Unwritten\<rparr>,
     p_input := (p_input p)\<lparr>in_mask := 0x0000, is_dragged := False, click_count := 0,
                            click_time := 0, click_button := MOUSE_NOBUTTON\<rparr>\<rparr>"

definition opened :: "'x run_env \<Rightarrow> 'x x11_process \<Rightarrow> 'x x11_process" where
  "opened env p = open_displays env (fresh p)"

lemma hook_run_alt:
  "hook_run env p =
     (if \<not> re_malloc env then Inr (p\<lparr>p_hook := None\<rparr>, UIOHOOK_ERROR_OUT_OF_MEMORY)
      else r_bind (if re_ctrl_display env \<and> re_data_display env then xrecord_session env (opened env p)
              else Inr (opened env p, UIOHOOK_ERROR_X_OPEN_DISPLAY)) (\<lambda>(p, status).
           r_bind (close_displays p) (\<lambda>p. Inr (p\<lparr>p_blocks := p_blocks p - 1, p_hook := None\<rparr>, status))))"
  by (simp add: hook_run_def xrecord_start_def opened_def fresh_def Let_def r_bind_assoc case_prod_unfold)

lemma opened_fields [simp]:
  "p_input (opened env p) = (p_input p)\<lparr>in_mask := 0x0000, is_dragged := False, click_count := 0,
                            click_time := 0, click_button := MOUSE_NOBUTTON\<rparr>"
  "p_blocks (opened env p) = p_blocks p + 1"
  "p_displays (opened env p) = p_displays p + of_bool (re_ctrl_display env) + of_bool (re_data_display env)"
  "p_ranges (opened env p) = p_ranges p"
  "p_contexts (opened env p) = p_contexts p"
  "p_keymap_refs (opened env p) = p_keymap_refs p"
  "p_state_refs (opened env p) = p_state_refs p"
  "p_context_refs (opened env p) = p_context_refs p"
  "p_hook (opened env p) = Some \<lparr>data_display = pointer_of (re_data_display env), data_range = Unwritten,
     ctrl_display = pointer_of (re_ctrl_display env), ctrl_context = Unwritten, input_context = Unwritten\<rparr>"
  by (simp_all add: opened_def open_displays_def fresh_def Let_def)

lemma xrecord_session_effect:
  assumes "xrecord_session env p = Inr (p', status)"
  shows "status = record_status env \<and> same_ledger p p' \<and> same_displays p p'"
  using assms
  by (auto simp: xrecord_session_def Let_def same_defs elim!: r_bind_InrE split: if_splits
      dest!: open_xkb_effect close_xkb_effect xrecord_query_effect)

lemma xrecord_session_refs:
  assumes "xrecord_session env p = Inr (p', status)"
    and "use_xkb_common (hk_build (re_hook_env env))"
    and "map_option input_context (p_hook p) = Some Unwritten"
  shows "p_state_refs p' = p_state_refs p + 1 \<and> p_context_refs p' = p_context_refs p + 1"
proof -
  obtain p1 st s p2 where p1: "open_xkb env p = Inr (p1, st)"
    and s: "initialize_modifiers (re_hook_env env) (re_query env) ((p_input p1)\<lparr>xkb_state := st\<rparr>) = Inr s"
    and p2: "xrecord_query env (p1\<lparr>p_input := s\<rparr>) = Inr (p2, status)" and p': "close_xkb p2 = Inr p'"
    using assms(1,2) by (auto simp: xrecord_session_def Let_def elim!: r_bind_InrE)
  have "xkb_state s \<noteq> None"
    using initialize_modifiers_frame [OF s] open_xkb_effect [OF p1] by auto
  then have "xkb_state (p_input p2) \<noteq> None"
    using xrecord_query_effect [OF p2] deliver_xkb [of "re_intercepted env" s "p_input p2"]
    by (auto split: if_splits)
  with xrecord_query_effect [OF p2] open_xkb_effect [OF p1] close_xkb_effect [OF p'] assms(3) show ?thesis
    by (simp add: same_refs_def)
qed

lemma close_displays_opened:
  assumes "same_displays (opened env p) q" and "close_displays q = Inr q'"
  shows "p_displays q' = p_displays q - of_bool (re_ctrl_display env) - of_bool (re_data_display env)
    \<and> p_input q' = p_input q \<and> p_blocks q' = p_blocks q \<and> p_ranges q' = p_ranges q
    \<and> p_contexts q' = p_contexts q \<and> p_keymap_refs q' = p_keymap_refs q
    \<and> p_state_refs q' = p_state_refs q \<and> p_context_refs q' = p_context_refs q"
  using assms
  by (auto simp: same_displays_def close_displays_def pointer_of_def Let_def split: option.splits if_splits)

lemma same_displays_refl [simp]: "same_displays p p"
  by (simp add: same_displays_def)

lemma hook_run_cases:
  assumes "hook_run env p = Inr (p', status)"
  obtains (memory) "\<not> re_malloc env" "p' = p\<lparr>p_hook := None\<rparr>" "status = UIOHOOK_ERROR_OUT_OF_MEMORY"
    | (displays) "re_malloc env" "\<not> (re_ctrl_display env \<and> re_data_display env)"
        "status = UIOHOOK_ERROR_X_OPEN_DISPLAY" "p_hook p' = None" "same_ledger p p'"
        "p_state_refs p' = p_state_refs p" "p_context_refs p' = p_context_refs p"
    | (session) q where "re_malloc env" "re_ctrl_display env" "re_data_display env"
        "xrecord_session env (opened env p) = Inr (q, status)" "p_hook p' = None" "same_ledger p p'"
        "p_input p' = p_input q" "p_state_refs p' = p_state_refs q" "p_context_refs p' = p_context_refs q"
proof (cases "re_malloc env")
  case True
  show thesis
  proof (cases "re_ctrl_display env \<and> re_data_display env")
    case session: True
    with assms True obtain q q' where q: "xrecord_session env (opened env p) = Inr (q, status)"
      and q': "close_displays q = Inr q'" "p' = q'\<lparr>p_blocks := p_blocks q' - 1, p_hook := None\<rparr>"
      by (auto simp: hook_run_alt elim!: r_bind_InrE)
    with close_displays_opened [OF _ q'(1), of env p] xrecord_session_effect [OF q] session True show ?thesis
      by (intro that(3) [of q]) (simp_all add: same_ledger_def)
  next
    case False
    with assms True obtain q' where q': "close_displays (opened env p) = Inr q'"
      "p' = q'\<lparr>p_blocks := p_blocks q' - 1, p_hook := None\<rparr>" "status = UIOHOOK_ERROR_X_OPEN_DISPLAY"
      by (auto simp: hook_run_alt elim!: r_bind_InrE)
    with close_displays_opened [OF _ q'(1), of env p] False True show ?thesis
      by (intro that(2)) (simp_all add: same_ledger_def)
  qed
qed (use assms that in \<open>simp add: hook_run_alt\<close>)

section \<open>An example\<close>

definition desktop_run_env :: "nat run_env" where
  "desktop_run_env =
     \<lparr>re_hook_env = desktop_hook_env, re_xkb_file = False, re_malloc = True, re_ctrl_display = True,
      re_data_display = True, re_xcb_status = 0, re_xkb_context = True, re_device_id = 3, re_keymap = True,
      re_state = Some 0, re_query = \<lparr>q_keymap = (\<lambda>_. 0), q_keycode = (\<lambda>_. 50), q_pointer = Some 0\<rparr>,
      re_record_version = True, re_alloc_range = True, re_create_context = True,
      re_intercepted = map (\<lambda>(c, t). \<lparr>ic_env = desktop_hook_env, ic_category = c, ic_time = t,
          ic_datum = desktop_datum KeyPress 38\<rparr>)
        [(XRecordStartOfData, 5), (XRecordFromServer, 10), (XRecordEndOfData, 90)],
      re_enable_context = True\<rparr>"

definition desktop_process :: "nat x11_process" where
  "desktop_process =
     \<lparr>p_hook = None, p_input = desktop_hook, p_blocks = 0, p_displays = 0, p_ranges = 0, p_contexts = 0,
      p_keymap_refs = 0, p_state_refs = 0, p_context_refs = 0\<rparr>"

lemma desktop_hook_run: "\<exists>p'. hook_run desktop_run_env desktop_process = Inr (p', UIOHOOK_SUCCESS)"
proof -
  have "map_sum id snd (hook_run desktop_run_env desktop_process) = Inr 0" by code_simp
  then show ?thesis by (cases "hook_run desktop_run_env desktop_process") auto
qed

section \<open>Outcome of a run\<close>

text \<open>
  C5. Whatever the outcome, when a run returns everything it acquired is released: the memory,
  both displays, the record range and context, the keymap; and the static pointer is null.
\<close>

theorem hook_run_releases:
  assumes "hook_run env p = Inr (p', status)"
  shows "p_hook p' = None \<and> p_blocks p' = p_blocks p \<and> p_displays p' = p_displays p \<and> p_ranges p' = p_ranges p
     \<and> p_contexts p' = p_contexts p \<and> p_keymap_refs p' = p_keymap_refs p"
  using assms by (cases rule: hook_run_cases) (simp_all add: same_ledger_def)

theorem hook_run_releases_witness:
  "\<exists>p' status. hook_run desktop_run_env desktop_process = Inr (p', status) \<and> p_hook p' = None
     \<and> p_displays p' = p_displays desktop_process"
proof -
  obtain p' where "hook_run desktop_run_env desktop_process = Inr (p', UIOHOOK_SUCCESS)" using desktop_hook_run by blast
  with hook_run_releases [OF this] show ?thesis by blast
qed

text \<open>
  C11. The status of a run names the first step that failed, and is success when none did.
\<close>

theorem hook_run_status:
  assumes "hook_run env p = Inr (p', status)"
  shows "status =
    (if \<not> re_malloc env then UIOHOOK_ERROR_OUT_OF_MEMORY
     else if \<not> re_ctrl_display env \<or> \<not> re_data_display env then UIOHOOK_ERROR_X_OPEN_DISPLAY
     else if \<not> re_record_version env then UIOHOOK_ERROR_X_RECORD_NOT_FOUND
     else if \<not> re_alloc_range env then UIOHOOK_ERROR_X_RECORD_ALLOC_RANGE
     else if \<not> re_create_context env then UIOHOOK_ERROR_X_RECORD_CREATE_CONTEXT
     else if \<not> re_enable_context env then UIOHOOK_ERROR_X_RECORD_ENABLE_CONTEXT
     else UIOHOOK_SUCCESS)"
  using assms by (cases rule: hook_run_cases) (auto dest!: xrecord_session_effect simp: record_status_def)

theorem hook_run_status_witness:
  "\<exists>p'. hook_run (desktop_run_env\<lparr>re_record_version := False\<rparr>) desktop_process
     = Inr (p', UIOHOOK_ERROR_X_RECORD_NOT_FOUND)"
proof -
  let ?env = "desktop_run_env\<lparr>re_record_version := False\<rparr>"
  have "\<not> isl (hook_run ?env desktop_process)" by code_simp
  then obtain p' status where p': "hook_run ?env desktop_process = Inr (p', status)"
    by (cases "hook_run ?env desktop_process") auto
  have "re_malloc ?env" "re_ctrl_display ?env" "re_data_display ?env" "\<not> re_record_version ?env"
    by (simp_all add: desktop_run_env_def)
  with hook_run_status [OF p'] p' show ?thesis by simp
qed

text \<open>
  A successful run with xkbcommon leaves one reference to the state and one to the context:
  each is created, referenced once more, and released once.
\<close>

theorem hook_run_leaks_xkb:
  assumes "hook_run env p = Inr (p', status)"
    and "use_xkb_common (hk_build (re_hook_env env))"
    and "status = UIOHOOK_SUCCESS"
  shows "p_state_refs p' = p_state_refs p + 1 \<and> p_context_refs p' = p_context_refs p + 1"
  using assms by (cases rule: hook_run_cases) (auto dest!: xrecord_session_refs)

theorem hook_run_leaks_xkb_witness:
  "\<exists>p'. hook_run desktop_run_env desktop_process = Inr (p', UIOHOOK_SUCCESS) \<and> p_state_refs p' = 1"
proof -
  obtain p' where p': "hook_run desktop_run_env desktop_process = Inr (p', UIOHOOK_SUCCESS)" using desktop_hook_run by blast
  have "use_xkb_common (hk_build (re_hook_env desktop_run_env))"
    by (simp add: desktop_run_env_def desktop_hook_env_def desktop_defs)
  from hook_run_leaks_xkb [OF p' this] p' show ?thesis by (simp add: desktop_process_def)
qed

text \<open>
  If the xcb connection has an error or no context could be made, the run goes on and reads
  the context field, which nothing has written.
\<close>

theorem hook_run_uninitialised_context:
  assumes "re_malloc env" and "re_ctrl_display env" and "re_data_display env"
    and "use_xkb_common (hk_build (re_hook_env env))" and "re_xcb_status env > 0 \<or> \<not> re_xkb_context env"
  shows "hook_run env p = Inl UninitialisedRead"
  using assms by (auto simp: hook_run_alt xrecord_session_def open_xkb_def Let_def)

theorem hook_run_uninitialised_context_witness:
  "hook_run (desktop_run_env\<lparr>re_xcb_status := 1\<rparr>) desktop_process = Inl UninitialisedRead"
  by (rule hook_run_uninitialised_context)
    (simp_all add: desktop_run_env_def desktop_hook_env_def desktop_defs)

section \<open>A whole session\<close>

definition input_of :: "'x intercepted \<Rightarrow> 'x input" where
  "input_of i = (ic_env i, ic_time i, ic_datum i)"

lemma deliver_server:
  assumes "\<forall>i \<in> set is. ic_category i \<in> {XRecordFromServer, XRecordFromClient}"
  shows "deliver is s = run (map input_of is) s"
  using assms
proof (induction "is" arbitrary: s)
  case (Cons i "is")
  then have "hook_event_proc (ic_env i) (ic_category i) (ic_time i) (ic_datum i) s =
      process_datum (ic_env i) (ic_time i) (ic_datum i) s"
    by (auto simp: hook_event_proc_def)
  with Cons show ?case by (cases "process_datum (ic_env i) (ic_time i) (ic_datum i) s") (simp_all add: input_of_def)
qed simp

lemma deliver_session:
  assumes "deliver (start # body @ [stop]) s = Inr s'"
    and "ic_category start = XRecordStartOfData" and "ic_category stop = XRecordEndOfData"
    and "\<forall>i \<in> set body. ic_category i \<in> {XRecordFromServer, XRecordFromClient}"
    and "dispatcher s \<noteq> None"
  shows "\<exists>first evs last. dispatched s' = dispatched s @ first # evs @ [last]
    \<and> ev_type first = EVENT_HOOK_ENABLED \<and> ev_time first = ic_time start
    \<and> list_all well_formed evs
    \<and> ev_type last = EVENT_HOOK_DISABLED \<and> ev_time last = ic_time stop"
proof -
  obtain s1 s2 where s1: "hook_event_proc (ic_env start) XRecordStartOfData (ic_time start) (ic_datum start) s = Inr s1"
    and s2: "run (map input_of body) s1 = Inr s2"
    and s': "hook_event_proc (ic_env stop) XRecordEndOfData (ic_time stop) (ic_datum stop) s2 = Inr s'"
    using assms(1-3) deliver_server [OF assms(4)] by (auto simp: deliver_append elim!: r_bind_InrE)
  have "dispatcher s1 \<noteq> None"
    and "dispatched s1 = dispatched s @ [emitted EVENT_HOOK_ENABLED (ic_time start) 0 (ev_data (static_event s))]"
    using s1 assms(5) by (auto simp: hook_event_proc_def dispatched_fire elim!: r_bind_InrE)
  moreover have "dispatcher s2 = dispatcher s1" using run_setup [OF s2] by (simp add: same_setup_def)
  moreover obtain evs where "dispatched s2 = dispatched s1 @ evs" "list_all well_formed evs"
    using run_extends [OF s2] by (auto simp: extends_def)
  moreover have "dispatched s' = dispatched s2 @ [emitted EVENT_HOOK_DISABLED (ic_time stop) 0 (ev_data (static_event s2))]"
    using s' calculation(1,3) by (auto simp: hook_event_proc_def dispatched_fire Let_def)
  ultimately show ?thesis
    by (intro exI [of _ "emitted EVENT_HOOK_ENABLED (ic_time start) 0 (ev_data (static_event s))"] exI [of _ evs]
        exI [of _ "emitted EVENT_HOOK_DISABLED (ic_time stop) 0 (ev_data (static_event s2))"])
      (simp add: emitted_def)
qed

lemma xrecord_session_delivers:
  assumes "xrecord_session env p = Inr (p', status)" and "recording env"
  shows "\<exists>s. deliver (re_intercepted env) s = Inr (p_input p')
    \<and> dispatcher s = dispatcher (p_input p) \<and> dispatched s = dispatched (p_input p)"
proof -
  let ?xkb = "use_xkb_common (hk_build (re_hook_env env))"
  obtain p1 s p2 where
    p1: "(if ?xkb then r_bind (open_xkb env p) (\<lambda>(p, st). Inr (p\<lparr>p_input := (p_input p)\<lparr>xkb_state := st\<rparr>\<rparr>)) else Inr p) = Inr p1"
    and s: "initialize_modifiers (re_hook_env env) (re_query env) (p_input p1) = Inr s"
    and p2: "xrecord_query env (p1\<lparr>p_input := s\<rparr>) = Inr (p2, status)"
    and p3: "(if ?xkb then close_xkb p2 else Inr p2) = Inr p'"
    using assms(1) unfolding xrecord_session_def Let_def by (auto elim!: r_bind_InrE)
  have "dispatcher (p_input p1) = dispatcher (p_input p) \<and> dispatched (p_input p1) = dispatched (p_input p)"
    using p1 by (auto elim!: r_bind_InrE split: if_splits dest!: open_xkb_effect)
  moreover have "p_input p' = p_input p2"
    using p3 by (auto split: if_splits dest!: close_xkb_effect)
  ultimately show ?thesis
    using xrecord_query_effect [OF p2] assms(2) initialize_modifiers_frame [OF s] by (intro exI [of _ s]) auto
qed

lemma hook_run_events:
  assumes "hook_run env p = Inr (p', UIOHOOK_SUCCESS)"
    and "re_intercepted env = start # body @ [stop]"
    and "ic_category start = XRecordStartOfData" and "ic_category stop = XRecordEndOfData"
    and "\<forall>i \<in> set body. ic_category i \<in> {XRecordFromServer, XRecordFromClient}"
    and "dispatcher (p_input p) \<noteq> None"
  shows "\<exists>first evs last. dispatched (p_input p') = dispatched (p_input p) @ first # evs @ [last]
    \<and> ev_type first = EVENT_HOOK_ENABLED \<and> ev_time first = ic_time start
    \<and> list_all well_formed evs
    \<and> ev_type last = EVENT_HOOK_DISABLED \<and> ev_time last = ic_time stop"
  using assms(1)
proof (cases rule: hook_run_cases)
  case (session q)
  have "recording env"
    using xrecord_session_effect [OF session(4)] by (auto simp: recording_def record_status_def split: if_splits)
  from xrecord_session_delivers [OF session(4) this] obtain s where
    "deliver (start # body @ [stop]) s = Inr (p_input p')" "dispatcher s = dispatcher (p_input p)"
    "dispatched s = dispatched (p_input p)"
    using session assms(2) by auto
  with deliver_session [OF this(1) assms(3-5)] assms(6) show ?thesis by simp
qed simp_all

text \<open>
  C2. A successful run over a complete recording sends the hook-enabled event first, then
  well-formed events only, and the hook-disabled event last, with the times of the recording.
\<close>

theorem hook_run_session:
  assumes "hook_run env p = Inr (p', UIOHOOK_SUCCESS)"
    and "re_intercepted env = start # body @ [stop]"
    and "ic_category start = XRecordStartOfData" and "ic_category stop = XRecordEndOfData"
    and "\<forall>i \<in> set body. ic_category i \<in> {XRecordFromServer, XRecordFromClient}"
    and "dispatcher (p_input p) \<noteq> None"
  shows "\<exists>first evs last. dispatched (p_input p') = dispatched (p_input p) @ first # evs @ [last]
    \<and> ev_type first = EVENT_HOOK_ENABLED \<and> ev_time first = ic_time start
    \<and> list_all well_formed evs
    \<and> ev_type last = EVENT_HOOK_DISABLED \<and> ev_time last = ic_time stop"
  using assms by (rule hook_run_events)

theorem hook_run_session_witness:
  "\<exists>p' first evs last. hook_run desktop_run_env desktop_process = Inr (p', UIOHOOK_SUCCESS)
     \<and> dispatched (p_input p') = first # evs @ [last]
     \<and> ev_type first = EVENT_HOOK_ENABLED \<and> ev_type last = EVENT_HOOK_DISABLED"
proof -
  obtain p' where p': "hook_run desktop_run_env desktop_process = Inr (p', UIOHOOK_SUCCESS)" using desktop_hook_run by blast
  let ?i = "\<lambda>c t. \<lparr>ic_env = desktop_hook_env, ic_category = c, ic_time = t, ic_datum = desktop_datum KeyPress 38\<rparr>"
  have "re_intercepted desktop_run_env = ?i XRecordStartOfData 5 # [?i XRecordFromServer 10] @ [?i XRecordEndOfData 90]"
    by (simp add: desktop_run_env_def)
  moreover have "dispatcher (p_input desktop_process) \<noteq> None" "dispatched (p_input desktop_process) = []"
    by (simp_all add: desktop_process_def desktop_hook_def)
  ultimately show ?thesis
    using hook_run_session [OF p', of "?i XRecordStartOfData 5" "[?i XRecordFromServer 10]" "?i XRecordEndOfData 90"] p'
    by simp blast
qed

section \<open>A run returns\<close>

definition run_sound :: "'x run_env \<Rightarrow> bool" where
  "run_sound env \<longleftrightarrow>
     (let build = hk_build (re_hook_env env) in
      (use_xkb_common build \<longrightarrow> re_xcb_status env \<le> 0 \<and> re_xkb_context env
         \<and> (re_device_id env \<ge> 0 \<or> re_xkb_file env) \<and> re_keymap env \<and> re_state env \<noteq> None)
      \<and> (\<forall>i \<in> set (re_intercepted env).
           hk_build (ic_env i) = build \<and> click_time_ok build (hk_env (ic_env i)) \<and> screens_ok (hk_env (ic_env i))
           \<and> keyboard_names (hk_load (ic_env i)) \<noteq> Some None))"

lemma hook_event_proc_ok:
  assumes "env_ok env s" and "keyboard_names (hk_load env) \<noteq> Some None"
  shows "\<exists>s'. hook_event_proc env c tm d s = Inr s'"
  using process_datum_ok [OF assms(1)] assms(2)
  by (auto simp: hook_event_proc_def load_input_helper_def Let_def split: record_category.split option.split)

lemma deliver_ok:
  assumes "\<forall>i \<in> set is. env_ok (ic_env i) s \<and> keyboard_names (hk_load (ic_env i)) \<noteq> Some None"
  shows "\<exists>s'. deliver is s = Inr s'"
  using assms
proof (induction "is" arbitrary: s)
  case (Cons i "is")
  obtain s1 where s1: "hook_event_proc (ic_env i) (ic_category i) (ic_time i) (ic_datum i) s = Inr s1"
    using hook_event_proc_ok [of "ic_env i" s] Cons.prems by fastforce
  have "\<forall>j \<in> set is. env_ok (ic_env j) s1 \<and> keyboard_names (hk_load (ic_env j)) \<noteq> Some None"
    using Cons.prems hook_event_proc_xkb [OF s1] by (auto simp: env_ok_def)
  with Cons.IH s1 show ?case by simp
qed simp

lemma initialize_modifiers_ok:
  assumes "use_xkb_common (hk_build env) \<longrightarrow> xkb_state s \<noteq> None"
  shows "\<exists>s'. initialize_modifiers env q s = Inr s'"
proof -
  have locks: "\<exists>s'. initialize_locks env t = Inr s'" if "xkb_state t = xkb_state s" for t
    using that assms by (auto simp: initialize_locks_def Let_def split: option.split)
  show ?thesis
    unfolding initialize_modifiers_def Let_def by (cases "q_pointer q") (simp_all add: locks)
qed

lemma xrecord_query_ok:
  assumes "p_hook p = Some h" and "\<exists>s'. deliver (re_intercepted env) (p_input p) = Inr s'"
  shows "\<exists>p' status. xrecord_query env p = Inr (p', status) \<and> (\<exists>h'. p_hook p' = Some h' \<and> input_context h' = input_context h)"
  using assms by (auto simp: xrecord_query_def xrecord_alloc_def xrecord_block_def Let_def)

lemma xrecord_session_ok:
  assumes "run_sound env" and "p_hook p = Some h"
  shows "\<exists>p' status. xrecord_session env p = Inr (p', status)"
proof -
  let ?xkb = "use_xkb_common (hk_build (re_hook_env env))"
  obtain p1 h1 where
    p1: "(if ?xkb then r_bind (open_xkb env p) (\<lambda>(p, st). Inr (p\<lparr>p_input := (p_input p)\<lparr>xkb_state := st\<rparr>\<rparr>)) else Inr p) = Inr p1"
    and h1: "p_hook p1 = Some h1" "?xkb \<longrightarrow> xkb_state (p_input p1) \<noteq> None \<and> input_context h1 = Set"
    using assms by (cases ?xkb) (auto simp: run_sound_def open_xkb_def create_xkb_state_def Let_def)
  obtain s where s: "initialize_modifiers (re_hook_env env) (re_query env) (p_input p1) = Inr s"
    using initialize_modifiers_ok h1(2) by blast
  have xkb: "?xkb \<longrightarrow> xkb_state s \<noteq> None" using initialize_modifiers_frame [OF s] h1(2) by simp
  have "\<exists>s'. deliver (re_intercepted env) s = Inr s'"
    by (rule deliver_ok) (use assms(1) xkb in \<open>auto simp: run_sound_def env_ok_def Let_def\<close>)
  then obtain p2 status h2 where p2: "xrecord_query env (p1\<lparr>p_input := s\<rparr>) = Inr (p2, status)"
    and h2: "p_hook p2 = Some h2" "input_context h2 = input_context h1"
    using xrecord_query_ok [of "p1\<lparr>p_input := s\<rparr>" h1 env] h1(1) by auto
  have "\<exists>p3. (if ?xkb then close_xkb p2 else Inr p2) = Inr p3"
    using h1(2) h2 by (auto simp: close_xkb_def destroy_xkb_state_def Let_def)
  with p1 s p2 show ?thesis by (auto simp: xrecord_session_def Let_def)
qed

text \<open>
  C6. In a sound environment a run returns: no step of it faults, whatever is delivered.
\<close>

theorem hook_run_returns:
  assumes "run_sound env"
  shows "\<exists>p' status. hook_run env p = Inr (p', status)"
proof -
  have session: "\<exists>q status. xrecord_session env (opened env p) = Inr (q, status)"
    using xrecord_session_ok [OF assms] by simp
  have close: "\<exists>q'. close_displays q = Inr q'" if "same_displays (opened env p) q" for q
    using that by (auto simp: close_displays_def same_displays_def Let_def split: option.split)
  have "\<exists>q status. (if re_ctrl_display env \<and> re_data_display env then xrecord_session env (opened env p)
      else Inr (opened env p, UIOHOOK_ERROR_X_OPEN_DISPLAY)) = Inr (q, status) \<and> same_displays (opened env p) q"
    using session xrecord_session_effect by fastforce
  with close show ?thesis by (fastforce simp: hook_run_alt)
qed

theorem hook_run_returns_witness: "\<exists>p' status. hook_run desktop_run_env desktop_process = Inr (p', status)"
  by (rule hook_run_returns)
    (simp add: run_sound_def desktop_run_env_def desktop_hook_env_def click_time_ok_def screens_ok_def desktop_defs)

section \<open>Stop\<close>

text \<open>
  What stopping answers, once the record context has been created: success exactly when the
  context is enabled and could be disabled.
\<close>

theorem hook_stop_outcome:
  assumes "p_hook p = None \<or> (\<exists>h. p_hook p = Some h \<and> ctrl_display h \<noteq> Unwritten \<and> ctrl_context h \<noteq> Unwritten)"
  shows "hook_stop env p = Inr (
    case p_hook p of
      None \<Rightarrow> UIOHOOK_FAILURE
    | Some h \<Rightarrow>
        if ctrl_display h = Null \<or> ctrl_context h = Null then UIOHOOK_FAILURE
        else if \<not> se_malloc env then UIOHOOK_ERROR_OUT_OF_MEMORY
        else if se_get_context env = None then UIOHOOK_ERROR_X_RECORD_GET_CONTEXT
        else if se_get_context env = Some True \<and> se_disable_context env then UIOHOOK_SUCCESS else UIOHOOK_FAILURE)"
  using assms by (auto simp: hook_stop_def split: option.split)

theorem hook_stop_outcome_witness:
  "hook_stop \<lparr>se_malloc = True, se_get_context = Some True, se_disable_context = True\<rparr>
     (desktop_process\<lparr>p_hook := Some \<lparr>data_display = Set, data_range = Set, ctrl_display = Set,
        ctrl_context = Set, input_context = Set\<rparr>\<rparr>) = Inr UIOHOOK_SUCCESS"
  by (subst hook_stop_outcome) simp_all

text \<open>
  Stopping from another thread while the hook starts reads the context field before it was
  written.
\<close>

theorem hook_stop_before_record:
  assumes "re_ctrl_display env"
  shows "hook_stop senv (opened env p) = Inl UninitialisedRead"
  using assms by (simp add: hook_stop_def pointer_of_def)

theorem hook_stop_before_record_witness:
  "hook_stop \<lparr>se_malloc = True, se_get_context = Some True, se_disable_context = True\<rparr>
     (opened desktop_run_env desktop_process) = Inl UninitialisedRead"
  by (rule hook_stop_before_record) (simp add: desktop_run_env_def)

end
