(* ===== verification/X11_Post_Event.thy ===== *)
theory X11_Post_Event
  imports X11_Input_Hook
begin

text \<open>
  \<^verbatim>\<open>src/x11/post_event.c\<close>: an event given by the application becomes requests to the X server.
  With XTest they are fake input; without it they are events sent to a window, with a modifier
  mask that the file keeps itself. The requests are recorded in the order they are made.
\<close>

section \<open>Requests and state\<close>

text \<open>A window; 0 is \<^verbatim>\<open>None\<close>.\<close>

type_synonym window = nat

text \<open>
  The structures handed to \<^verbatim>\<open>XSendEvent\<close>, with the fields that the code fills with more than a
  constant.
\<close>

datatype x_event =
    XKeyEvent datum_type window c_long KeyCode
  | XButtonEvent datum_type window int16_t int16_t c_long uint32_t
  | XMotionEvent window int16_t int16_t int16_t int16_t c_long

datatype request =
    XLockDisplay
  | XUnlockDisplay
  | XSync
  | XFlush
  | XTestFakeKeyEvent KeyCode bool
  | XTestFakeButtonEvent uint32_t bool
  | XTestFakeMotionEvent int16_t int16_t
  | XWarpPointer window int16_t int16_t
  | XSelectInput window c_long
  | XSendEvent window c_long x_event

text \<open>
  Answers of the server: what the two calls whose result is tested return, the window with the
  focus, the root window, the windows below the root that contain the pointer (outermost
  first) with the pointer's position in the innermost one, and the pointer mapping.
\<close>

record post_env =
  po_build :: x11_build
  po_fake_key :: c_int
  po_send_event :: c_int
  po_focus :: window
  po_root :: window
  po_windows :: "window list"
  po_position :: "int16_t \<times> int16_t"
  po_mapping :: "uint8_t list"

record x_post =
  current_modifier_mask :: c_long
  requests :: "request list"

definition request :: "request \<Rightarrow> x_post \<Rightarrow> x_post" where
  "request r s = s\<lparr>requests := requests s @ [r]\<rparr>"

section \<open>Keys\<close>

definition key_state_mask :: "uint16_t \<Rightarrow> c_long" where
  "key_state_mask keycode =
     (if keycode = VC_SHIFT_L \<or> keycode = VC_SHIFT_R then 0x01
      else if keycode = VC_CONTROL_L \<or> keycode = VC_CONTROL_R then 0x04
      else if keycode = VC_META_L \<or> keycode = VC_META_R then 0x40
      else if keycode = VC_ALT_L \<or> keycode = VC_ALT_R then 0x08
      else 0x00)"

definition post_key_event ::
  "post_env \<Rightarrow> input_helper \<Rightarrow> uiohook_event \<Rightarrow> x_post \<Rightarrow> (x_post \<times> c_int) result" where
  "post_key_event env h event s =
     r_bind (keyboard_member event) (\<lambda>k.
     r_bind (scancode_to_keycode (is_evdev h) (kb_keycode k)) (\<lambda>keycode.
     if keycode = 0x0000 then Inr (s, UIOHOOK_FAILURE)
     else if use_xtest (po_build env) then
       if ev_type event = EVENT_KEY_PRESSED \<or> ev_type event = EVENT_KEY_RELEASED then
         Inr (request (XTestFakeKeyEvent keycode (ev_type event = EVENT_KEY_PRESSED)) s,
              if po_fake_key env \<noteq> 0 then UIOHOOK_FAILURE else UIOHOOK_SUCCESS)
       else Inr (s, UIOHOOK_FAILURE)
     else
       let state = current_modifier_mask s;
           mods = key_state_mask (kb_keycode k);
           send = (\<lambda>ty msk s.
             (request (XSendEvent (po_focus env) msk (XKeyEvent ty (po_focus env) state keycode))
               (request (XSelectInput (po_focus env) (0x01 OR 0x02)) s),
              if po_send_event env = 0 then UIOHOOK_FAILURE else UIOHOOK_SUCCESS))
       in if ev_type event = EVENT_KEY_PRESSED
          then Inr (send KeyPress 0x01 (s\<lparr>current_modifier_mask := state OR mods\<rparr>))
          else if ev_type event = EVENT_KEY_RELEASED
          then Inr (send KeyRelease 0x02 (s\<lparr>current_modifier_mask := state AND NOT mods\<rparr>))
          else Inr (s, UIOHOOK_FAILURE)))"

section \<open>Buttons\<close>

text \<open>
  Without XTest the window is found by descending from the root to the innermost window that
  contains the pointer; each step overwrites the coordinates of the event.
\<close>

primrec descend :: "window \<Rightarrow> window list \<Rightarrow> window" where
  "descend w [] = w"
| "descend w (c # cs) = descend c cs"

definition button_motion_mask :: "uint16_t \<Rightarrow> c_long option" where
  "button_motion_mask button =
     (if button = MOUSE_BUTTON1 then Some 0x0100
      else if button = MOUSE_BUTTON2 then Some 0x0200
      else if button = MOUSE_BUTTON3 then Some 0x0400
      else if button = MOUSE_BUTTON4 then Some 0x0800
      else if button = MOUSE_BUTTON5 then Some 0x1000
      else None)"

definition post_mouse_button_event ::
  "post_env \<Rightarrow> uiohook_event \<Rightarrow> x_post \<Rightarrow> (x_post \<times> c_int) result" where
  "post_mouse_button_event env event s =
     r_bind (mouse_member event) (\<lambda>m.
     let button = ms_button m; x = ms_x m; y = ms_y m in
     if use_xtest (po_build env) then
       let s = request (XTestFakeMotionEvent x y) s;
           invalid = button < MOUSE_BUTTON1 \<or> button > MOUSE_BUTTON5
       in if ev_type event = EVENT_MOUSE_PRESSED then
            if invalid then Inr (s, UIOHOOK_FAILURE)
            else Inr (request (XTestFakeButtonEvent (ucast button) True) s, UIOHOOK_SUCCESS)
          else if ev_type event = EVENT_MOUSE_RELEASED then
            if invalid then Inr (s, UIOHOOK_FAILURE)
            else Inr (request (XTestFakeButtonEvent (ucast button) False) s, UIOHOOK_SUCCESS)
          else Inr (s, UIOHOOK_FAILURE)
     else
       let s = request XFlush (request (XWarpPointer (po_root env) x y) s);
           window = descend (po_root env) (po_windows env);
           (wx, wy) = po_position env;
           send = (\<lambda>ty msk s. request (XSendEvent window msk
             (XButtonEvent ty window wx wy (current_modifier_mask s) (ucast button))) s)
       in if ev_type event = EVENT_MOUSE_PRESSED then
            case button_motion_mask button of
              Some msk \<Rightarrow> Inr (send ButtonPress 0x04
                (s\<lparr>current_modifier_mask := current_modifier_mask s OR msk\<rparr>), UIOHOOK_SUCCESS)
            | None \<Rightarrow> Inr (s, UIOHOOK_FAILURE)
          else if ev_type event = EVENT_MOUSE_RELEASED then
            case button_motion_mask button of
              Some msk \<Rightarrow> Inr (send ButtonRelease 0x08
                (s\<lparr>current_modifier_mask := current_modifier_mask s AND NOT msk\<rparr>), UIOHOOK_SUCCESS)
            | None \<Rightarrow> Inr (s, UIOHOOK_FAILURE)
          else Inr (s, UIOHOOK_FAILURE))"

section \<open>Wheel and motion\<close>

definition post_mouse_wheel_event ::
  "post_env \<Rightarrow> input_helper \<Rightarrow> uiohook_event \<Rightarrow> x_post \<Rightarrow> (x_post \<times> c_int) result" where
  "post_mouse_wheel_event env h event s =
     r_bind (wheel_member event) (\<lambda>w.
     let button = button_map_lookup h (po_mapping env) (if sint (wh_rotation w) < 0 then WheelUp else WheelDown) in
     if use_xtest (po_build env) then
       Inr (request (XTestFakeButtonEvent button False) (request (XTestFakeButtonEvent button True) s), UIOHOOK_SUCCESS)
     else
       let window = descend (po_root env) (po_windows env);
           (wx, wy) = po_position env;
           send = (\<lambda>ty msk s. request (XSendEvent window msk
             (XButtonEvent ty window wx wy (current_modifier_mask s) button)) s)
       in Inr (send ButtonRelease 0x08 (send ButtonPress 0x04 s), UIOHOOK_SUCCESS))"

text \<open>The root coordinates of a motion event are the abscissa twice; \<^verbatim>\<open>MotionNotify\<close> is 6.\<close>

definition post_mouse_motion_event :: "post_env \<Rightarrow> uiohook_event \<Rightarrow> x_post \<Rightarrow> x_post result" where
  "post_mouse_motion_event env event s =
     r_bind (mouse_member event) (\<lambda>m.
     let x = ms_x m; y = ms_y m in
     if use_xtest (po_build env) then Inr (request (XTestFakeMotionEvent x y) s)
     else
       let state = current_modifier_mask s OR 6
       in Inr (request (XSendEvent (po_focus env) state (XMotionEvent (po_focus env) x y x x state)) s))"

section \<open>Posting\<close>

text \<open>The \<open>switch\<close> on the type of the event; the status codes are dropped.\<close>

definition post_by_type :: "post_env \<Rightarrow> input_helper \<Rightarrow> uiohook_event \<Rightarrow> x_post \<Rightarrow> x_post result" where
  "post_by_type env h event s =
     (case ev_type event of
        EVENT_KEY_PRESSED \<Rightarrow> r_bind (post_key_event env h event s) (\<lambda>(s, _). Inr s)
      | EVENT_KEY_RELEASED \<Rightarrow> r_bind (post_key_event env h event s) (\<lambda>(s, _). Inr s)
      | EVENT_MOUSE_PRESSED \<Rightarrow> r_bind (post_mouse_button_event env event s) (\<lambda>(s, _). Inr s)
      | EVENT_MOUSE_RELEASED \<Rightarrow> r_bind (post_mouse_button_event env event s) (\<lambda>(s, _). Inr s)
      | EVENT_MOUSE_WHEEL \<Rightarrow> r_bind (post_mouse_wheel_event env h event s) (\<lambda>(s, _). Inr s)
      | EVENT_MOUSE_MOVED \<Rightarrow> post_mouse_motion_event env event s
      | EVENT_MOUSE_DRAGGED \<Rightarrow> post_mouse_motion_event env event s
      | EVENT_KEY_TYPED \<Rightarrow> Inr s
      | EVENT_MOUSE_CLICKED \<Rightarrow> Inr s
      | EVENT_HOOK_ENABLED \<Rightarrow> Inr s
      | EVENT_HOOK_DISABLED \<Rightarrow> Inr s)"

definition hook_post_event ::
  "post_env \<Rightarrow> input_helper \<Rightarrow> uiohook_event \<Rightarrow> x_post \<Rightarrow> x_post result" where
  "hook_post_event env h event s =
     (if \<not> helper_disp h then Inr s
      else r_bind (post_by_type env h event (request XLockDisplay s)) (\<lambda>s.
           Inr (request XUnlockDisplay (request XSync s))))"

section \<open>Properties\<close>

text \<open>An XTest build with the identity pointer mapping, and a key event, for the examples.\<close>

definition desktop_post_env :: post_env where
  "desktop_post_env =
     \<lparr>po_build = desktop_build, po_fake_key = 1, po_send_event = 1, po_focus = 7, po_root = 1,
      po_windows = [3, 7], po_position = (10, 20), po_mapping = [1, 2, 3, 4, 5, 6, 7, 8, 9]\<rparr>"

definition no_requests :: x_post where
  "no_requests = \<lparr>current_modifier_mask = 0, requests = []\<rparr>"

lemma requests_request [simp]:
  "requests (request r s) = requests s @ [r]"
  "current_modifier_mask (request r s) = current_modifier_mask s"
  by (simp_all add: request_def)

definition is_lock :: "request \<Rightarrow> bool" where
  "is_lock r \<longleftrightarrow> r = XLockDisplay \<or> r = XUnlockDisplay \<or> r = XSync"

text \<open>Requests that a step appends, none of which locks, unlocks or synchronises.\<close>

definition posts :: "x_post \<Rightarrow> x_post \<Rightarrow> bool" where
  "posts s s' \<longleftrightarrow> (\<exists>rs. requests s' = requests s @ rs \<and> list_all (\<lambda>r. \<not> is_lock r) rs)"

lemma posts_refl [simp]: "posts s s"
  by (simp add: posts_def)

lemma posts_mask [simp]: "posts s (t\<lparr>current_modifier_mask := m\<rparr>) = posts s t"
  by (simp add: posts_def)

lemma posts_request: "posts s t \<Longrightarrow> \<not> is_lock r \<Longrightarrow> posts s (request r t)"
  by (auto simp: posts_def)

lemma post_functions_posts:
  "post_key_event env h e s = Inr (s', st) \<Longrightarrow> posts s s'"
  "post_mouse_button_event env e s = Inr (s', st) \<Longrightarrow> posts s s'"
  "post_mouse_wheel_event env h e s = Inr (s', st) \<Longrightarrow> posts s s'"
  "post_mouse_motion_event env e s = Inr s' \<Longrightarrow> posts s s'"
  by (auto simp: post_key_event_def post_mouse_button_event_def post_mouse_wheel_event_def
      post_mouse_motion_event_def is_lock_def Let_def elim!: r_bind_InrE
      split: if_splits option.splits prod.splits intro!: posts_request)

lemma post_by_type_posts: "post_by_type env h event s = Inr s' \<Longrightarrow> posts s s'"
  by (auto simp: post_by_type_def elim!: r_bind_InrE split: event_type.splits dest: post_functions_posts)

text \<open>
  Posting an event either makes no request, without a display, or locks the display first,
  makes the requests of the event, synchronises and unlocks it last.
\<close>

theorem post_event_locked:
  assumes "hook_post_event env h event s = Inr s'"
  shows "if helper_disp h
    then \<exists>rs. requests s' = requests s @ XLockDisplay # rs @ [XSync, XUnlockDisplay] \<and> list_all (\<lambda>r. \<not> is_lock r) rs
    else s' = s"
proof (cases "helper_disp h")
  case True
  then obtain t where t: "post_by_type env h event (request XLockDisplay s) = Inr t"
    and s': "s' = request XUnlockDisplay (request XSync t)"
    using assms by (auto simp: hook_post_event_def elim!: r_bind_InrE)
  from post_by_type_posts [OF t] s' True show ?thesis by (auto simp: posts_def)
qed (use assms in \<open>simp add: hook_post_event_def\<close>)

theorem post_event_locked_witness:
  "\<exists>s' rs. hook_post_event desktop_post_env desktop_helper
      (emitted EVENT_MOUSE_MOVED 0 0 (mouse_data 0 0 5 6)) no_requests = Inr s'
     \<and> requests s' = XLockDisplay # rs @ [XSync, XUnlockDisplay]"
proof -
  let ?r = "hook_post_event desktop_post_env desktop_helper
    (emitted EVENT_MOUSE_MOVED 0 0 (mouse_data 0 0 5 6)) no_requests"
  have "\<not> isl ?r" by code_simp
  then obtain s' where r: "?r = Inr s'" by (cases ?r) auto
  have "helper_disp desktop_helper" by (simp add: desktop_helper_def)
  with post_event_locked [OF r] r show ?thesis by (auto simp: no_requests_def)
qed



text \<open>
  \<^verbatim>\<open>XTestFakeKeyEvent\<close> returns a nonzero status on success, and the code compares it with
  \<^verbatim>\<open>Success\<close>, which is 0: a key that was sent is reported as a failure.
\<close>

theorem post_key_success_is_failure:
  assumes "use_xtest (po_build env)" and "po_fake_key env \<noteq> 0"
    and "post_key_event env h event s = Inr (s', status)"
  shows "status = UIOHOOK_FAILURE"
  using assms by (auto simp: post_key_event_def elim!: r_bind_InrE split: if_splits)

theorem post_key_success_is_failure_witness:
  "\<exists>s'. post_key_event desktop_post_env desktop_helper
      (emitted EVENT_KEY_PRESSED 0 0 (key_data (keycode_to_scancode True 38) 0x61 0xFFFF)) no_requests
     = Inr (s', UIOHOOK_FAILURE)"
proof -
  let ?r = "post_key_event desktop_post_env desktop_helper
      (emitted EVENT_KEY_PRESSED 0 0 (key_data (keycode_to_scancode True 38) 0x61 0xFFFF)) no_requests"
  have "\<not> isl ?r" by code_simp
  then obtain s' status where r: "?r = Inr (s', status)" by (cases ?r) auto
  have "use_xtest (po_build desktop_post_env)" "po_fake_key desktop_post_env \<noteq> 0"
    by (simp_all add: desktop_post_env_def desktop_defs)
  from post_key_success_is_failure [OF this r] r show ?thesis by simp
qed

text \<open>
  A posted button is sent under its own number, while the hook exchanges 2 and 3 and takes
  4 to 7 for the wheel: on an unchanged pointer mapping a posted right button comes back as the
  middle one and the reverse, and the two extra buttons come back as wheel steps.
\<close>

theorem posted_button_comes_back:
  assumes "helper_disp h" and "use_xtest (po_build env)" and "ev_type event = EVENT_MOUSE_PRESSED"
    and "ev_data event = Mouse m" and "1 \<le> ms_button m" and "ms_button m \<le> 5"
    and "mouse_button_map h" and "po_mapping env = [1, 2, 3, 4, 5, 6, 7, 8, 9]"
  shows "\<exists>s' b. hook_post_event env h event s = Inr s'
    \<and> requests s' = requests s @ [XLockDisplay, XTestFakeMotionEvent (ms_x m) (ms_y m), XTestFakeButtonEvent b True, XSync, XUnlockDisplay]
    \<and> (let reported = button_map_lookup h (po_mapping env) b in
       if ms_button m \<ge> 4 then is_wheel reported
       else fst (virtual_button reported) = (if ms_button m = 2 then 3 else if ms_button m = 3 then 2 else ms_button m))"
proof -
  have "ms_button m \<in> {1, 2, 3, 4, 5}"
  proof -
    have "unat (ms_button m) \<in> {1..5}" using assms(5,6) by (simp add: word_le_nat_alt)
    then have "unat (ms_button m) \<in> {1, 2, 3, 4, 5}" by auto
    then show ?thesis by (auto simp: word_unat_eq_iff)
  qed
  moreover have "\<exists>s'. hook_post_event env h event s = Inr s'
    \<and> requests s' = requests s @ [XLockDisplay, XTestFakeMotionEvent (ms_x m) (ms_y m),
        XTestFakeButtonEvent (ucast (ms_button m)) True, XSync, XUnlockDisplay]"
    using assms(1-6)
    by (auto simp: hook_post_event_def post_by_type_def post_mouse_button_event_def mouse_member_def Let_def not_less word_less_nat_alt word_le_nat_alt)
  moreover have "let reported = button_map_lookup h [1, 2, 3, 4, 5, 6, 7, 8, 9] (ucast b) in
      if b \<ge> 4 then is_wheel reported
      else fst (virtual_button reported) = (if b = 2 then 3 else if b = 3 then 2 else b)"
    if "b \<in> {1, 2, 3, 4, 5}" for b :: uint16_t
    using that assms(1,7) by (auto simp: button_map_lookup_def is_wheel_def virtual_button_def word_le_nat_alt)
  ultimately show ?thesis using assms(8) by metis
qed

theorem posted_button_comes_back_witness:
  "\<exists>s' b. hook_post_event desktop_post_env desktop_helper
      (emitted EVENT_MOUSE_PRESSED 0 0 (mouse_data MOUSE_BUTTON2 1 5 6)) no_requests = Inr s'
     \<and> fst (virtual_button (button_map_lookup desktop_helper (po_mapping desktop_post_env) b)) = MOUSE_BUTTON3"
  using posted_button_comes_back [of desktop_helper desktop_post_env
      "emitted EVENT_MOUSE_PRESSED 0 0 (mouse_data MOUSE_BUTTON2 1 5 6)"
      "\<lparr>ms_button = MOUSE_BUTTON2, ms_clicks = 1, ms_x = 5, ms_y = 6\<rparr>" no_requests]
  by (auto simp: desktop_defs desktop_post_env_def emitted_def mouse_data_def no_requests_def)

text \<open>
  Without XTest a posted motion is sent with the abscissa as its root ordinate.
\<close>

theorem posted_motion_root:
  assumes "\<not> use_xtest (po_build env)" and "ev_data event = Mouse m"
  shows "\<exists>s' w state. post_mouse_motion_event env event s = Inr s'
    \<and> requests s' = requests s @ [XSendEvent w state (XMotionEvent w (ms_x m) (ms_y m) (ms_x m) (ms_x m) state)]"
  using assms by (simp add: post_mouse_motion_event_def mouse_member_def Let_def)

theorem posted_motion_root_witness:
  "\<exists>s' w state. post_mouse_motion_event (desktop_post_env\<lparr>po_build := desktop_build\<lparr>use_xtest := False\<rparr>\<rparr>)
      (emitted EVENT_MOUSE_MOVED 0 0 (mouse_data 0 0 5 6)) no_requests = Inr s'
     \<and> requests s' = [XSendEvent w state (XMotionEvent w 5 6 5 5 state)]"
  using posted_motion_root [of "desktop_post_env\<lparr>po_build := desktop_build\<lparr>use_xtest := False\<rparr>\<rparr>"
      "emitted EVENT_MOUSE_MOVED 0 0 (mouse_data 0 0 5 6)"
      "\<lparr>ms_button = 0, ms_clicks = 0, ms_x = 5, ms_y = 6\<rparr>" no_requests]
  by (simp add: emitted_def mouse_data_def no_requests_def)

end
