(* ===== verification/Windows_Keycode_Table.thy ===== *)
theory Windows_Keycode_Table
  imports Uiohook_Events
begin

text \<open>
  The key table of \<^verbatim>\<open>src/windows/input_helper.c\<close>, each row a pair: the virtual key code of the
  Windows key code that is the row's index, and the Windows key code for the scan code that is
  the row's index; in two halves, as \<^verbatim>\<open>scancode_to_keycode\<close> reads it. The names of the Windows
  key codes stand for the constants of \<^verbatim>\<open>winuser.h\<close>.
\<close>

section \<open>Windows key codes\<close>

abbreviation (input) VK_LBUTTON :: uint16_t where "VK_LBUTTON \<equiv> 0x01"
abbreviation (input) VK_RBUTTON :: uint16_t where "VK_RBUTTON \<equiv> 0x02"
abbreviation (input) VK_MBUTTON :: uint16_t where "VK_MBUTTON \<equiv> 0x04"
abbreviation (input) VK_XBUTTON1 :: uint16_t where "VK_XBUTTON1 \<equiv> 0x05"
abbreviation (input) VK_XBUTTON2 :: uint16_t where "VK_XBUTTON2 \<equiv> 0x06"
abbreviation (input) VK_BACK :: uint16_t where "VK_BACK \<equiv> 0x08"
abbreviation (input) VK_TAB :: uint16_t where "VK_TAB \<equiv> 0x09"
abbreviation (input) VK_CLEAR :: uint16_t where "VK_CLEAR \<equiv> 0x0C"
abbreviation (input) VK_RETURN :: uint16_t where "VK_RETURN \<equiv> 0x0D"
abbreviation (input) VK_SHIFT :: uint16_t where "VK_SHIFT \<equiv> 0x10"
abbreviation (input) VK_CONTROL :: uint16_t where "VK_CONTROL \<equiv> 0x11"
abbreviation (input) VK_MENU :: uint16_t where "VK_MENU \<equiv> 0x12"
abbreviation (input) VK_PAUSE :: uint16_t where "VK_PAUSE \<equiv> 0x13"
abbreviation (input) VK_CAPITAL :: uint16_t where "VK_CAPITAL \<equiv> 0x14"
abbreviation (input) VK_KANA :: uint16_t where "VK_KANA \<equiv> 0x15"
abbreviation (input) VK_KANJI :: uint16_t where "VK_KANJI \<equiv> 0x19"
abbreviation (input) VK_ESCAPE :: uint16_t where "VK_ESCAPE \<equiv> 0x1B"
abbreviation (input) VK_SPACE :: uint16_t where "VK_SPACE \<equiv> 0x20"
abbreviation (input) VK_PRIOR :: uint16_t where "VK_PRIOR \<equiv> 0x21"
abbreviation (input) VK_NEXT :: uint16_t where "VK_NEXT \<equiv> 0x22"
abbreviation (input) VK_END :: uint16_t where "VK_END \<equiv> 0x23"
abbreviation (input) VK_HOME :: uint16_t where "VK_HOME \<equiv> 0x24"
abbreviation (input) VK_LEFT :: uint16_t where "VK_LEFT \<equiv> 0x25"
abbreviation (input) VK_UP :: uint16_t where "VK_UP \<equiv> 0x26"
abbreviation (input) VK_RIGHT :: uint16_t where "VK_RIGHT \<equiv> 0x27"
abbreviation (input) VK_DOWN :: uint16_t where "VK_DOWN \<equiv> 0x28"
abbreviation (input) VK_SNAPSHOT :: uint16_t where "VK_SNAPSHOT \<equiv> 0x2C"
abbreviation (input) VK_INSERT :: uint16_t where "VK_INSERT \<equiv> 0x2D"
abbreviation (input) VK_DELETE :: uint16_t where "VK_DELETE \<equiv> 0x2E"
abbreviation (input) VK_LWIN :: uint16_t where "VK_LWIN \<equiv> 0x5B"
abbreviation (input) VK_RWIN :: uint16_t where "VK_RWIN \<equiv> 0x5C"
abbreviation (input) VK_APPS :: uint16_t where "VK_APPS \<equiv> 0x5D"
abbreviation (input) VK_SLEEP :: uint16_t where "VK_SLEEP \<equiv> 0x5F"
abbreviation (input) VK_NUMPAD0 :: uint16_t where "VK_NUMPAD0 \<equiv> 0x60"
abbreviation (input) VK_NUMPAD1 :: uint16_t where "VK_NUMPAD1 \<equiv> 0x61"
abbreviation (input) VK_NUMPAD2 :: uint16_t where "VK_NUMPAD2 \<equiv> 0x62"
abbreviation (input) VK_NUMPAD3 :: uint16_t where "VK_NUMPAD3 \<equiv> 0x63"
abbreviation (input) VK_NUMPAD4 :: uint16_t where "VK_NUMPAD4 \<equiv> 0x64"
abbreviation (input) VK_NUMPAD5 :: uint16_t where "VK_NUMPAD5 \<equiv> 0x65"
abbreviation (input) VK_NUMPAD6 :: uint16_t where "VK_NUMPAD6 \<equiv> 0x66"
abbreviation (input) VK_NUMPAD7 :: uint16_t where "VK_NUMPAD7 \<equiv> 0x67"
abbreviation (input) VK_NUMPAD8 :: uint16_t where "VK_NUMPAD8 \<equiv> 0x68"
abbreviation (input) VK_NUMPAD9 :: uint16_t where "VK_NUMPAD9 \<equiv> 0x69"
abbreviation (input) VK_MULTIPLY :: uint16_t where "VK_MULTIPLY \<equiv> 0x6A"
abbreviation (input) VK_ADD :: uint16_t where "VK_ADD \<equiv> 0x6B"
abbreviation (input) VK_SUBTRACT :: uint16_t where "VK_SUBTRACT \<equiv> 0x6D"
abbreviation (input) VK_DECIMAL :: uint16_t where "VK_DECIMAL \<equiv> 0x6E"
abbreviation (input) VK_DIVIDE :: uint16_t where "VK_DIVIDE \<equiv> 0x6F"
abbreviation (input) VK_F1 :: uint16_t where "VK_F1 \<equiv> 0x70"
abbreviation (input) VK_F2 :: uint16_t where "VK_F2 \<equiv> 0x71"
abbreviation (input) VK_F3 :: uint16_t where "VK_F3 \<equiv> 0x72"
abbreviation (input) VK_F4 :: uint16_t where "VK_F4 \<equiv> 0x73"
abbreviation (input) VK_F5 :: uint16_t where "VK_F5 \<equiv> 0x74"
abbreviation (input) VK_F6 :: uint16_t where "VK_F6 \<equiv> 0x75"
abbreviation (input) VK_F7 :: uint16_t where "VK_F7 \<equiv> 0x76"
abbreviation (input) VK_F8 :: uint16_t where "VK_F8 \<equiv> 0x77"
abbreviation (input) VK_F9 :: uint16_t where "VK_F9 \<equiv> 0x78"
abbreviation (input) VK_F10 :: uint16_t where "VK_F10 \<equiv> 0x79"
abbreviation (input) VK_F11 :: uint16_t where "VK_F11 \<equiv> 0x7A"
abbreviation (input) VK_F12 :: uint16_t where "VK_F12 \<equiv> 0x7B"
abbreviation (input) VK_F13 :: uint16_t where "VK_F13 \<equiv> 0x7C"
abbreviation (input) VK_F14 :: uint16_t where "VK_F14 \<equiv> 0x7D"
abbreviation (input) VK_F15 :: uint16_t where "VK_F15 \<equiv> 0x7E"
abbreviation (input) VK_F16 :: uint16_t where "VK_F16 \<equiv> 0x7F"
abbreviation (input) VK_F17 :: uint16_t where "VK_F17 \<equiv> 0x80"
abbreviation (input) VK_F18 :: uint16_t where "VK_F18 \<equiv> 0x81"
abbreviation (input) VK_F19 :: uint16_t where "VK_F19 \<equiv> 0x82"
abbreviation (input) VK_F20 :: uint16_t where "VK_F20 \<equiv> 0x83"
abbreviation (input) VK_F21 :: uint16_t where "VK_F21 \<equiv> 0x84"
abbreviation (input) VK_F22 :: uint16_t where "VK_F22 \<equiv> 0x85"
abbreviation (input) VK_F23 :: uint16_t where "VK_F23 \<equiv> 0x86"
abbreviation (input) VK_F24 :: uint16_t where "VK_F24 \<equiv> 0x87"
abbreviation (input) VK_NUMLOCK :: uint16_t where "VK_NUMLOCK \<equiv> 0x90"
abbreviation (input) VK_SCROLL :: uint16_t where "VK_SCROLL \<equiv> 0x91"
abbreviation (input) VK_LSHIFT :: uint16_t where "VK_LSHIFT \<equiv> 0xA0"
abbreviation (input) VK_RSHIFT :: uint16_t where "VK_RSHIFT \<equiv> 0xA1"
abbreviation (input) VK_LCONTROL :: uint16_t where "VK_LCONTROL \<equiv> 0xA2"
abbreviation (input) VK_RCONTROL :: uint16_t where "VK_RCONTROL \<equiv> 0xA3"
abbreviation (input) VK_LMENU :: uint16_t where "VK_LMENU \<equiv> 0xA4"
abbreviation (input) VK_RMENU :: uint16_t where "VK_RMENU \<equiv> 0xA5"
abbreviation (input) VK_BROWSER_BACK :: uint16_t where "VK_BROWSER_BACK \<equiv> 0xA6"
abbreviation (input) VK_BROWSER_FORWARD :: uint16_t where "VK_BROWSER_FORWARD \<equiv> 0xA7"
abbreviation (input) VK_BROWSER_REFRESH :: uint16_t where "VK_BROWSER_REFRESH \<equiv> 0xA8"
abbreviation (input) VK_BROWSER_STOP :: uint16_t where "VK_BROWSER_STOP \<equiv> 0xA9"
abbreviation (input) VK_BROWSER_SEARCH :: uint16_t where "VK_BROWSER_SEARCH \<equiv> 0xAA"
abbreviation (input) VK_BROWSER_FAVORITES :: uint16_t where "VK_BROWSER_FAVORITES \<equiv> 0xAB"
abbreviation (input) VK_BROWSER_HOME :: uint16_t where "VK_BROWSER_HOME \<equiv> 0xAC"
abbreviation (input) VK_VOLUME_MUTE :: uint16_t where "VK_VOLUME_MUTE \<equiv> 0xAD"
abbreviation (input) VK_VOLUME_DOWN :: uint16_t where "VK_VOLUME_DOWN \<equiv> 0xAE"
abbreviation (input) VK_VOLUME_UP :: uint16_t where "VK_VOLUME_UP \<equiv> 0xAF"
abbreviation (input) VK_MEDIA_NEXT_TRACK :: uint16_t where "VK_MEDIA_NEXT_TRACK \<equiv> 0xB0"
abbreviation (input) VK_MEDIA_PREV_TRACK :: uint16_t where "VK_MEDIA_PREV_TRACK \<equiv> 0xB1"
abbreviation (input) VK_MEDIA_STOP :: uint16_t where "VK_MEDIA_STOP \<equiv> 0xB2"
abbreviation (input) VK_MEDIA_PLAY_PAUSE :: uint16_t where "VK_MEDIA_PLAY_PAUSE \<equiv> 0xB3"
abbreviation (input) VK_LAUNCH_MEDIA_SELECT :: uint16_t where "VK_LAUNCH_MEDIA_SELECT \<equiv> 0xB5"
abbreviation (input) VK_LAUNCH_APP1 :: uint16_t where "VK_LAUNCH_APP1 \<equiv> 0xB6"
abbreviation (input) VK_LAUNCH_APP2 :: uint16_t where "VK_LAUNCH_APP2 \<equiv> 0xB7"
abbreviation (input) VK_OEM_1 :: uint16_t where "VK_OEM_1 \<equiv> 0xBA"
abbreviation (input) VK_OEM_PLUS :: uint16_t where "VK_OEM_PLUS \<equiv> 0xBB"
abbreviation (input) VK_OEM_COMMA :: uint16_t where "VK_OEM_COMMA \<equiv> 0xBC"
abbreviation (input) VK_OEM_MINUS :: uint16_t where "VK_OEM_MINUS \<equiv> 0xBD"
abbreviation (input) VK_OEM_PERIOD :: uint16_t where "VK_OEM_PERIOD \<equiv> 0xBE"
abbreviation (input) VK_OEM_2 :: uint16_t where "VK_OEM_2 \<equiv> 0xBF"
abbreviation (input) VK_OEM_3 :: uint16_t where "VK_OEM_3 \<equiv> 0xC0"
abbreviation (input) VK_OEM_5 :: uint16_t where "VK_OEM_5 \<equiv> 0xDC"
abbreviation (input) VK_OEM_7 :: uint16_t where "VK_OEM_7 \<equiv> 0xDE"
abbreviation (input) VK_OEM_8 :: uint16_t where "VK_OEM_8 \<equiv> 0xDF"
abbreviation (input) VK_OEM_102 :: uint16_t where "VK_OEM_102 \<equiv> 0xE2"

section \<open>The table\<close>

definition keycode_scancode_table_low :: "(uint16_t \<times> uint16_t) list" where
  "keycode_scancode_table_low = [
     (VC_UNDEFINED, 0x0000), (MOUSE_BUTTON1, VK_ESCAPE), (MOUSE_BUTTON2, 0x0031), (VC_UNDEFINED, 0x0032),
     (MOUSE_BUTTON3, 0x0033), (MOUSE_BUTTON4, 0x0034), (MOUSE_BUTTON5, 0x0035), (VC_UNDEFINED, 0x0036),
     (VC_BACKSPACE, 0x0037), (VC_TAB, 0x0038), (VC_UNDEFINED, 0x0039), (VC_UNDEFINED, 0x0030),
     (VC_CLEAR, VK_OEM_MINUS), (VC_ENTER, VK_OEM_PLUS), (VC_UNDEFINED, VK_BACK), (VC_UNDEFINED, VK_TAB),
     (VC_SHIFT_L, 0x0051), (VC_CONTROL_L, 0x0057), (VC_ALT_L, 0x0045), (VC_PAUSE, 0x0052),
     (VC_CAPS_LOCK, 0x0054), (VC_KATAKANA, 0x0059), (VC_UNDEFINED, 0x0055), (VC_UNDEFINED, 0x0049),
     (VC_UNDEFINED, 0x004F), (VC_KANJI, 0x0050), (VC_UNDEFINED, 0x00DB), (VC_ESCAPE, 0x00DD),
     (VC_UNDEFINED, VK_RETURN), (VC_UNDEFINED, VK_LCONTROL), (VC_UNDEFINED, 0x0041), (VC_UNDEFINED, 0x0053),
     (VC_SPACE, 0x0044), (VC_PAGE_UP, 0x0046), (VC_PAGE_DOWN, 0x0047), (VC_END, 0x0048),
     (VC_HOME, 0x004A), (VC_LEFT, 0x004B), (VC_UP, 0x004C), (VC_RIGHT, VK_OEM_1),
     (VC_DOWN, VK_OEM_7), (VC_UNDEFINED, VK_OEM_3), (VC_UNDEFINED, VK_LSHIFT), (VC_UNDEFINED, VK_OEM_5),
     (VC_PRINTSCREEN, 0x005A), (VC_INSERT, 0x0058), (VC_DELETE, 0x0043), (VC_UNDEFINED, 0x0056),
     (VC_0, 0x0042), (VC_1, 0x004E), (VC_2, 0x004D), (VC_3, VK_OEM_COMMA),
     (VC_4, VK_OEM_PERIOD), (VC_5, VK_OEM_2), (VC_6, VK_RSHIFT), (VC_7, VK_MULTIPLY),
     (VC_8, VK_LMENU), (VC_9, VK_SPACE), (VC_UNDEFINED, VK_CAPITAL), (VC_UNDEFINED, VK_F1),
     (VC_UNDEFINED, VK_F2), (VC_UNDEFINED, VK_F3), (VC_UNDEFINED, VK_F4), (VC_UNDEFINED, VK_F5),
     (VC_UNDEFINED, VK_F6), (VC_A, VK_F7), (VC_B, VK_F8), (VC_C, VK_F9),
     (VC_D, VK_F10), (VC_E, VK_NUMLOCK), (VC_F, VK_SCROLL), (VC_G, VK_NUMPAD7),
     (VC_H, VK_NUMPAD8), (VC_I, VK_NUMPAD9), (VC_J, VK_SUBTRACT), (VC_K, VK_NUMPAD4),
     (VC_L, VK_NUMPAD5), (VC_M, VK_NUMPAD6), (VC_N, VK_ADD), (VC_O, VK_NUMPAD1),
     (VC_P, VK_NUMPAD2), (VC_Q, VK_NUMPAD3), (VC_R, VK_NUMPAD0), (VC_S, VK_DECIMAL),
     (VC_T, 0x0000), (VC_U, 0x0000), (VC_V, 0x0000), (VC_W, VK_F11),
     (VC_X, VK_F12), (VC_Y, 0x0000), (VC_Z, 0x0000), (VC_META_L, VK_F13),
     (VC_META_R, VK_F14), (VC_CONTEXT_MENU, VK_F15), (VC_UNDEFINED, 0x0000), (VC_SLEEP, 0x0000),
     (VC_KP_0, 0x0000), (VC_KP_1, 0x0000), (VC_KP_2, 0x0000), (VC_KP_3, VK_F16),
     (VC_KP_4, VK_F17), (VC_KP_5, VK_F18), (VC_KP_6, VK_F19), (VC_KP_7, VK_F20),
     (VC_KP_8, VK_F21), (VC_KP_9, VK_F22), (VC_KP_MULTIPLY, VK_F23), (VC_KP_ADD, VK_F24),
     (VC_UNDEFINED, 0x0000), (VC_KP_SUBTRACT, 0x0000), (VC_KP_SEPARATOR, 0x0000), (VC_KP_DIVIDE, 0x0000),
     (VC_F1, VK_KANA), (VC_F2, 0x0000), (VC_F3, 0x0000), (VC_F4, 0x0000),
     (VC_F5, 0x0000), (VC_F6, 0x0000), (VC_F7, 0x0000), (VC_F8, 0x0000),
     (VC_F9, 0x0000), (VC_F10, VK_KANJI), (VC_F11, 0x0000), (VC_F12, 0x0000),
     (VC_F13, 0x0000), (VC_F14, VK_OEM_8), (VC_F15, 0x0000), (VC_F16, 0x0000)]"

definition keycode_scancode_table_high :: "(uint16_t \<times> uint16_t) list" where
  "keycode_scancode_table_high = [
     (VC_F17, 0x0000), (VC_F18, 0x0000), (VC_F19, 0x0000), (VC_F20, 0x0000),
     (VC_F21, 0x0000), (VC_F22, 0x0000), (VC_F23, 0x0000), (VC_F24, 0x0000),
     (VC_UNDEFINED, 0x0000), (VC_UNDEFINED, 0x0000), (VC_UNDEFINED, 0x0000), (VC_UNDEFINED, 0x0000),
     (VC_UNDEFINED, 0x0000), (VC_UNDEFINED, 0x0000), (VC_UNDEFINED, 0x0000), (VC_UNDEFINED, 0x0000),
     (VC_NUM_LOCK, VK_MEDIA_PREV_TRACK), (VC_SCROLL_LOCK, 0x0000), (VC_UNDEFINED, 0x0000), (VC_UNDEFINED, 0x0000),
     (VC_UNDEFINED, 0x0000), (VC_UNDEFINED, 0x0000), (VC_UNDEFINED, 0x0000), (VC_UNDEFINED, 0x0000),
     (VC_UNDEFINED, 0x0000), (VC_UNDEFINED, VK_MEDIA_NEXT_TRACK), (VC_UNDEFINED, 0x0000), (VC_UNDEFINED, 0x0000),
     (VC_UNDEFINED, 0x0000), (VC_UNDEFINED, VK_RCONTROL), (VC_UNDEFINED, 0x0000), (VC_UNDEFINED, 0x0000),
     (VC_SHIFT_L, VK_VOLUME_MUTE), (VC_SHIFT_R, VK_LAUNCH_APP2), (VC_CONTROL_L, VK_MEDIA_PLAY_PAUSE), (VC_CONTROL_R, 0x0000),
     (VC_ALT_L, VK_MEDIA_STOP), (VC_ALT_R, 0x0000), (VC_BROWSER_BACK, 0x0000), (VC_BROWSER_FORWARD, 0x0000),
     (VC_BROWSER_REFRESH, 0x0000), (VC_BROWSER_STOP, 0x0000), (VC_BROWSER_SEARCH, 0x0000), (VC_BROWSER_FAVORITES, 0x0000),
     (VC_BROWSER_HOME, 0x0000), (VC_VOLUME_MUTE, 0x0000), (VC_VOLUME_DOWN, VK_VOLUME_DOWN), (VC_VOLUME_UP, 0x0000),
     (VC_MEDIA_NEXT, VK_VOLUME_UP), (VC_MEDIA_PREVIOUS, 0x0000), (VC_MEDIA_STOP, VK_BROWSER_HOME), (VC_MEDIA_PLAY, 0x0000),
     (VC_UNDEFINED, 0x0000), (VC_MEDIA_SELECT, VK_DIVIDE), (VC_APP_MAIL, 0x0000), (VC_APP_CALCULATOR, VK_SNAPSHOT),
     (VC_UNDEFINED, VK_RMENU), (VC_UNDEFINED, 0x0000), (VC_SEMICOLON, 0x0000), (VC_EQUALS, 0x0000),
     (VC_COMMA, 0x00E6), (VC_MINUS, 0x0000), (VC_PERIOD, 0x0000), (VC_SLASH, 0x0000),
     (VC_BACKQUOTE, 0x0000), (VC_UNDEFINED, 0x0000), (VC_UNDEFINED, 0x0000), (VC_UNDEFINED, 0x0000),
     (VC_UNDEFINED, 0x0000), (VC_UNDEFINED, VK_PAUSE), (VC_UNDEFINED, 0x0000), (VC_UNDEFINED, VK_HOME),
     (VC_UNDEFINED, VK_UP), (VC_UNDEFINED, VK_PRIOR), (VC_UNDEFINED, 0x0000), (VC_UNDEFINED, VK_LEFT),
     (VC_UNDEFINED, VK_CLEAR), (VC_UNDEFINED, VK_RIGHT), (VC_UNDEFINED, 0x0000), (VC_UNDEFINED, VK_END),
     (VC_UNDEFINED, VK_DOWN), (VC_UNDEFINED, VK_NEXT), (VC_UNDEFINED, VK_INSERT), (VC_UNDEFINED, VK_DELETE),
     (VC_UNDEFINED, 0x0000), (VC_UNDEFINED, 0x0000), (VC_UNDEFINED, 0x0000), (VC_UNDEFINED, 0x0000),
     (VC_UNDEFINED, 0x0000), (VC_UNDEFINED, 0x0000), (VC_UNDEFINED, 0x0000), (VC_OPEN_BRACKET, VK_LWIN),
     (VC_BACK_SLASH, VK_RWIN), (VC_CLOSE_BRACKET, VK_APPS), (VC_QUOTE, 0x0000), (VC_YEN, VK_SLEEP),
     (VC_UNDEFINED, 0x0000), (VC_UNDEFINED, 0x0000), (VC_LESSER_GREATER, VK_OEM_102), (VC_UNDEFINED, 0x0000),
     (VC_UNDEFINED, 0x00E5), (VC_APP_PICTURES, VK_BROWSER_SEARCH), (VC_APP_MUSIC, VK_BROWSER_FAVORITES), (VC_UNDEFINED, VK_BROWSER_REFRESH),
     (VC_UNDEFINED, VK_BROWSER_STOP), (VC_UNDEFINED, VK_BROWSER_FORWARD), (VC_UNDEFINED, VK_BROWSER_BACK), (VC_UNDEFINED, 0x0000),
     (VC_UNDEFINED, VK_LAUNCH_APP1), (VC_UNDEFINED, VK_LAUNCH_MEDIA_SELECT), (VC_UNDEFINED, 0x0000), (VC_UNDEFINED, 0x0000),
     (VC_UNDEFINED, 0x0000), (VC_UNDEFINED, 0x0000), (VC_UNDEFINED, 0x0000), (VC_UNDEFINED, 0x0000),
     (VC_UNDEFINED, 0x0000), (VC_UNDEFINED, 0x0000), (VC_UNDEFINED, 0x0000), (VC_UNDEFINED, 0x0000),
     (VC_UNDEFINED, 0x0000), (VC_UNDEFINED, 0x0000), (VC_UNDEFINED, 0x0000), (VC_UNDEFINED, 0x0000),
     (VC_UNDEFINED, 0x0000), (VC_UNDEFINED, 0x0000), (VC_CLEAR, 0x0000), (VC_UNDEFINED, 0x0000)]"

definition keycode_scancode_table :: "(uint16_t \<times> uint16_t) list" where
  "keycode_scancode_table = keycode_scancode_table_low @ keycode_scancode_table_high"

end
