(* ===== verification/Windows_Input_Helper.thy ===== *)
theory Windows_Input_Helper
  imports Windows_Keycode_Table
begin

text \<open>
  \<^verbatim>\<open>src/windows/input_helper.c\<close>: key codes, the wheel accumulators, the cache of keyboard
  layouts, and the conversion of a key to UTF-16 from the tables of the active layout.
\<close>

section \<open>Key codes\<close>

type_synonym DWORD = "32 word"

text \<open>The flag \<^verbatim>\<open>LLKHF_EXTENDED\<close> is 0x01.\<close>

definition win_keycode_to_scancode :: "DWORD \<Rightarrow> DWORD \<Rightarrow> uint16_t" where
  "win_keycode_to_scancode vk_code flags =
     (if unat vk_code < length keycode_scancode_table then
        let scancode = fst (keycode_scancode_table ! unat vk_code) in
        if flags AND 0x01 \<noteq> 0 then
          if vk_code \<in> {ucast VK_PRIOR, ucast VK_NEXT, ucast VK_END, ucast VK_HOME, ucast VK_LEFT,
              ucast VK_UP, ucast VK_RIGHT, ucast VK_DOWN, ucast VK_INSERT, ucast VK_DELETE}
          then scancode OR 0xEE00
          else if vk_code = ucast VK_RETURN then scancode OR 0x0E00
          else scancode
        else scancode
      else VC_UNDEFINED)"

definition win_scancode_to_keycode :: "uint16_t \<Rightarrow> DWORD result" where
  "win_scancode_to_keycode scancode =
     (if scancode < 128 then
        if unat scancode < length keycode_scancode_table
        then Inr (ucast (snd (keycode_scancode_table ! unat scancode))) else Inl OutOfBounds
      else
        let i = (scancode AND 0x007F) OR 0x80 in
        if unat i < length keycode_scancode_table
        then Inr (ucast (snd (keycode_scancode_table ! unat i))) else Inr 0x0000)"

section \<open>The wheel\<close>

text \<open>
  The rotation since the last whole step is kept per direction, in 16 bits. \<^verbatim>\<open>WHEEL_DELTA\<close> is 120
  and \<^verbatim>\<open>GET_WHEEL_DELTA_WPARAM\<close> the high word of its argument.
\<close>

abbreviation (input) WHEEL_DELTA :: int where "WHEEL_DELTA \<equiv> 120"

record wheel_rotation =
  v_rotation :: int16_t
  h_rotation :: int16_t

definition HIWORD :: "DWORD \<Rightarrow> uint16_t" where
  "HIWORD data = ucast (drop_bit 16 data)"

definition get_scroll_wheel_rotation :: "DWORD \<Rightarrow> uint8_t \<Rightarrow> wheel_rotation \<Rightarrow> int16_t \<times> wheel_rotation" where
  "get_scroll_wheel_rotation data direction s =
     (if direction = WHEEL_VERTICAL_DIRECTION then
        let v = v_rotation s + HIWORD data
        in (word_of_int (c_div (sint v) (-1 * WHEEL_DELTA)),
            s\<lparr>v_rotation := word_of_int (c_mod (sint v) WHEEL_DELTA)\<rparr>)
      else
        let h = h_rotation s + HIWORD data
        in (word_of_int (c_div (sint h) WHEEL_DELTA),
            s\<lparr>h_rotation := word_of_int (c_mod (sint h) WHEEL_DELTA)\<rparr>))"

section \<open>Layout tables\<close>

text \<open>
  The tables of a layout library. A row has a virtual key, attributes and one character for each
  modification; the rows of a table end with the key 0, and the tables end with a size of 0. The
  widths of pointers under Wow64 only change where the same fields are read.
\<close>

abbreviation (input) CAPLOK :: uint8_t where "CAPLOK \<equiv> 0x01"
abbreviation (input) WCH_NONE :: uint16_t where "WCH_NONE \<equiv> 0xF000"
abbreviation (input) WCH_DEAD :: uint16_t where "WCH_DEAD \<equiv> 0xF001"

record vk_to_wchars =
  VirtualKey :: uint8_t
  Attributes :: uint8_t
  wch :: "uint16_t list"

record vk_to_wchar_table =
  pVkToWchars :: "vk_to_wchars list option"
  cbSize :: uint8_t

record deadkey =
  dwBoth :: DWORD
  wchComposed :: uint16_t

record keyboard_layout =
  lay_vk_to_bit :: "uint8_t list"
  lay_wchar_tables :: "vk_to_wchar_table list"
  lay_dead_keys :: "deadkey list"

text \<open>
  The cache is a linked list of the layouts, first to last; a layout is known by its id (the
  handle, which is never null), and \<open>locale_current\<close> points to an element of the list.
\<close>

type_synonym HKL = nat

record keyboard_locale =
  loc_id :: HKL
  loc_layout :: keyboard_layout

record win_helper = wheel_rotation +
  locales :: "keyboard_locale list"
  locale_current :: "HKL option"
  deadChar :: uint16_t
  libraries :: int

text \<open>
  The answers while the cache is refreshed: the two sizes and the list of layouts (0 is null), the
  layout with the focus, and for each layout its library's tables, if the registry, the system
  directory and the library give them.
\<close>

record layout_env =
  hkl_size :: int
  hkl_list :: "HKL list"
  hkl_focus :: HKL
  hkl_load :: "HKL \<Rightarrow> keyboard_layout option"

text \<open>
  The first loop drops cached layouts that are no longer in the list and erases from the list the
  ones that are. \<open>prev\<close> is the part of the cache already kept, newest first: its head is
  \<open>locale_previous\<close>, which is dereferenced when an element is removed.
\<close>

primrec erase_first :: "HKL \<Rightarrow> HKL list \<Rightarrow> HKL list" where
  "erase_first k [] = []"
| "erase_first k (x # xs) = (if x = k then 0 # xs else x # erase_first k xs)"

fun keep_loaded ::
  "HKL \<Rightarrow> keyboard_locale list \<Rightarrow> keyboard_locale list \<Rightarrow> HKL list \<Rightarrow> HKL option \<Rightarrow>
   (keyboard_locale list \<times> HKL list \<times> HKL option) result" where
  "keep_loaded focus prev [] hkls current = Inr (prev, hkls, current)"
| "keep_loaded focus prev (item # items) hkls current =
     (if loc_id item \<in> set hkls then
        keep_loaded focus (item # prev) items (erase_first (loc_id item) hkls)
          (if loc_id item = focus then Some (loc_id item) else current)
      else if prev = [] then Inl NullDereference
      else keep_loaded focus prev items hkls (if current = Some (loc_id item) then None else current))"

text \<open>The second loop appends a cache entry for each remaining layout that can be loaded.\<close>

primrec add_new ::
  "layout_env \<Rightarrow> HKL list \<Rightarrow> keyboard_locale list \<Rightarrow> HKL option \<Rightarrow> int \<Rightarrow>
   keyboard_locale list \<times> HKL option \<times> int" where
  "add_new env [] prev current libs = (prev, current, libs)"
| "add_new env (k # ks) prev current libs =
     (case (if k = 0 then None else hkl_load env k) of
        None \<Rightarrow> add_new env ks prev current libs
      | Some layout \<Rightarrow>
          add_new env ks (\<lparr>loc_id = k, loc_layout = layout\<rparr> # prev)
            (if k = hkl_focus env then Some k else current) (libs + 1))"

definition refresh_locale_list :: "layout_env \<Rightarrow> win_helper \<Rightarrow> (win_helper \<times> int) result" where
  "refresh_locale_list env s =
     (if hkl_size env > 0 \<and> hkl_list env \<noteq> [] then
        r_bind (keep_loaded (hkl_focus env) [] (locales s) (hkl_list env) (locale_current s))
          (\<lambda>(kept, hkls, current).
        let (all, current, libs) = add_new env hkls kept current (libraries s)
        in Inr (s\<lparr>locales := rev all, locale_current := current, libraries := libs\<rparr>, int (length all)))
      else Inr (s, 0))"

definition win_load_input_helper :: "layout_env \<Rightarrow> win_helper \<Rightarrow> (win_helper \<times> int) result" where
  "win_load_input_helper env s = refresh_locale_list env (s\<lparr>v_rotation := 0, h_rotation := 0\<rparr>)"

definition win_unload_input_helper :: "win_helper \<Rightarrow> win_helper \<times> int" where
  "win_unload_input_helper s =
     (s\<lparr>locales := [], locale_current := None, libraries := libraries s - int (length (locales s))\<rparr>,
      int (length (locales s)))"

section \<open>Characters of a key\<close>

text \<open>
  The answers while a key is converted: the layout of the window with the focus and of the thread
  (0 is null), the Caps Lock toggle and the keys that are down.
\<close>

record key_env = layout_env +
  ke_locale :: HKL
  ke_default :: HKL
  ke_caps :: bool
  ke_down :: "uint8_t \<Rightarrow> bool"

text \<open>
  The variables of the conversion: \<open>mod\<close>, the cached dead character, the caller's buffer of two
  characters (\<open>None\<close> where nothing was written) and the number of characters.
\<close>

record conversion =
  cv_mod :: int
  cv_dead :: uint16_t
  cv_buffer :: "uint16_t option \<times> uint16_t option"
  cv_count :: nat

text \<open>\<^verbatim>\<open>memset\<close> writes bytes, so a count of characters reaches half as far.\<close>

definition memset_buffer :: "uint16_t \<Rightarrow> nat \<Rightarrow> uint16_t option \<times> uint16_t option \<Rightarrow> uint16_t option \<times> uint16_t option" where
  "memset_buffer c count buffer =
     (let lo = c AND 0x00FF in
      if count = 0 then buffer
      else if count = 1 then (map_option (\<lambda>w. (w AND 0xFF00) OR lo) (fst buffer), snd buffer)
      else (Some (push_bit 8 lo OR lo), snd buffer))"

definition wch_at :: "vk_to_wchars \<Rightarrow> int \<Rightarrow> uint16_t result" where
  "wch_at row i = (if 0 \<le> i \<and> i < int (length (wch row)) then Inr (wch row ! nat i) else Inl OutOfBounds)"

definition match_row ::
  "bool \<Rightarrow> bool \<Rightarrow> nat \<Rightarrow> vk_to_wchars \<Rightarrow> vk_to_wchars list \<Rightarrow> conversion \<Rightarrow> conversion result" where
  "match_row capsLock is_shift buffer_size row rest cv =
     (let cv = (if Attributes row = CAPLOK \<and> capsLock
                then if is_shift \<and> cv_mod cv > 0 then cv\<lparr>cv_mod := cv_mod cv - 1\<rparr> else cv\<lparr>cv_mod := cv_mod cv + 1\<rparr>
                else cv)
      in r_bind (wch_at row (cv_mod cv)) (\<lambda>unicode.
         if unicode = WCH_DEAD then
           if cv_dead cv = WCH_NONE then
             case rest of
               [] \<Rightarrow> Inl OutOfBounds
             | next_row # _ \<Rightarrow> r_bind (wch_at next_row (cv_mod cv)) (\<lambda>d. Inr (cv\<lparr>cv_dead := d\<rparr>))
           else if buffer_size \<ge> 2 then
             Inr (cv\<lparr>cv_buffer := memset_buffer (cv_dead cv) 2 (cv_buffer cv), cv_dead := WCH_NONE, cv_count := 2\<rparr>)
           else Inr cv
         else if unicode \<noteq> WCH_NONE \<and> buffer_size \<ge> 1
         then Inr (cv\<lparr>cv_buffer := (Some unicode, snd (cv_buffer cv)), cv_count := 1\<rparr>)
         else Inr cv))"

primrec scan_rows ::
  "DWORD \<Rightarrow> bool \<Rightarrow> bool \<Rightarrow> nat \<Rightarrow> vk_to_wchars list \<Rightarrow> conversion \<Rightarrow> conversion result" where
  "scan_rows keycode capsLock is_shift buffer_size [] cv = Inl OutOfBounds"
| "scan_rows keycode capsLock is_shift buffer_size (row # rows) cv =
     (if ucast (VirtualKey row) = keycode then match_row capsLock is_shift buffer_size row rows cv
      else case rows of
             [] \<Rightarrow> Inl OutOfBounds
           | next_row # _ \<Rightarrow>
               if VirtualKey next_row \<noteq> 0 then scan_rows keycode capsLock is_shift buffer_size rows cv else Inr cv)"

primrec scan_tables ::
  "DWORD \<Rightarrow> bool \<Rightarrow> bool \<Rightarrow> nat \<Rightarrow> vk_to_wchar_table list \<Rightarrow> conversion \<Rightarrow> conversion result" where
  "scan_tables keycode capsLock is_shift buffer_size [] cv = Inl OutOfBounds"
| "scan_tables keycode capsLock is_shift buffer_size (t # ts) cv =
     r_bind (case pVkToWchars t of
               Some rows \<Rightarrow>
                 if cv_mod cv < c_div (int (unat (cbSize t)) - 2) 2
                 then scan_rows keycode capsLock is_shift buffer_size rows cv else Inr cv
             | None \<Rightarrow> Inr cv) (\<lambda>cv.
     if cbSize t \<noteq> 0 then scan_tables keycode capsLock is_shift buffer_size ts cv else Inr cv)"

primrec compose :: "nat \<Rightarrow> deadkey list \<Rightarrow> conversion \<Rightarrow> conversion result" where
  "compose buffer_size [] cv = Inl OutOfBounds"
| "compose buffer_size (d # ds) cv =
     (if dwBoth d = 0 then Inr cv
      else
        let baseChar = ucast (dwBoth d); diacritic = ucast (drop_bit 16 (dwBoth d)) in
        if buffer_size < 1 then compose buffer_size ds cv
        else case fst (cv_buffer cv) of
               None \<Rightarrow> Inl UninitialisedRead
             | Some b \<Rightarrow>
                 if baseChar = b \<and> diacritic = cv_dead cv
                 then compose buffer_size ds (cv\<lparr>cv_dead := WCH_NONE,
                        cv_buffer := (if cv_count cv \<le> buffer_size
                          then memset_buffer (wchComposed d) (cv_count cv) (cv_buffer cv) else cv_buffer cv)\<rparr>)
                 else compose buffer_size ds cv)"

text \<open>The modifier keys of the layout that are down, up to the terminating 0.\<close>

primrec modifiers_down :: "(uint8_t \<Rightarrow> bool) \<Rightarrow> uint8_t list \<Rightarrow> uint8_t set result" where
  "modifiers_down down [] = Inl OutOfBounds"
| "modifiers_down down (vk # vks) =
     (if vk = 0 then Inr {}
      else r_bind (modifiers_down down vks) (\<lambda>ks. Inr (if down vk then insert vk ks else ks)))"

definition convert_key ::
  "key_env \<Rightarrow> keyboard_layout \<Rightarrow> DWORD \<Rightarrow> nat \<Rightarrow> uint16_t \<Rightarrow> conversion result" where
  "convert_key env layout keycode buffer_size dead =
     r_bind (modifiers_down (ke_down env) (lay_vk_to_bit layout)) (\<lambda>ks.
     let is_shift = 0x10 \<in> ks; is_ctrl = 0x11 \<in> ks; is_alt = 0x12 \<in> ks;
         cv = \<lparr>cv_mod = (if is_shift then 1 else 0) + (if is_ctrl \<and> is_alt then 3 else 0),
               cv_dead = dead, cv_buffer = (None, None), cv_count = 0\<rparr> in
     r_bind (scan_tables keycode (ke_caps env) is_shift buffer_size (lay_wchar_tables layout) cv) (\<lambda>cv.
     if cv_dead cv \<noteq> WCH_NONE then compose buffer_size (lay_dead_keys layout) cv else Inr cv))"

definition select_locale :: "key_env \<Rightarrow> win_helper \<Rightarrow> win_helper result" where
  "select_locale env s =
     (let locale_id = (if ke_locale env = 0 then ke_default env else ke_locale env) in
      if locale_current s = Some locale_id then Inr s
      else
        let s = s\<lparr>locale_current := None\<rparr> in
        if locale_id \<in> loc_id ` set (locales s)
        then Inr (s\<lparr>locale_current := Some locale_id, deadChar := WCH_NONE\<rparr>)
        else r_bind (refresh_locale_list (layout_env.truncate env) s) (\<lambda>(s, _). Inr s))"

definition win_keycode_to_unicode ::
  "key_env \<Rightarrow> DWORD \<Rightarrow> nat \<Rightarrow> win_helper \<Rightarrow>
   (win_helper \<times> (uint16_t option \<times> uint16_t option) \<times> nat) result" where
  "win_keycode_to_unicode env keycode buffer_size s =
     r_bind (select_locale env s) (\<lambda>s.
     case locale_current s of
       None \<Rightarrow> Inr (s, (None, None), 0)
     | Some k \<Rightarrow>
         case find (\<lambda>l. loc_id l = k) (locales s) of
           None \<Rightarrow> Inl UseAfterFree
         | Some l \<Rightarrow>
             r_bind (convert_key env (loc_layout l) keycode buffer_size (deadChar s)) (\<lambda>cv.
             Inr (s\<lparr>deadChar := cv_dead cv\<rparr>, cv_buffer cv, cv_count cv)))"

end
