(* ===== verification/Windows_Input_Hook.thy ===== *)
theory Windows_Input_Hook
  imports Windows_Input_Helper
begin

text \<open>
  \<^verbatim>\<open>src/windows/input_hook.c\<close>: the two low-level hook procedures with their branches, the
  restart on a window event, and \<^verbatim>\<open>hook_run\<close> and \<^verbatim>\<open>hook_stop\<close>. On Windows a \<^verbatim>\<open>long\<close> has 32 bits.
\<close>

section \<open>State\<close>

text \<open>
  The statics of the file, added to the static event and the callback. A hook handle is set or
  null; \<open>w_installed\<close> counts the hooks that Windows has installed and not removed.
\<close>

record win_hook = dispatch_state +
  current_modifiers :: uint16_t
  w_click_count :: uint16_t
  w_click_time :: DWORD
  w_click_button :: uint16_t
  last_click :: "DWORD \<times> DWORD"
  w_helper :: win_helper
  hInst :: bool
  keyboard_event_hhook :: bool
  mouse_event_hhook :: bool
  win_event_hhook :: bool
  w_installed :: int

text \<open>
  The answers during one call: the double-click time, the wheel setting (\<open>None\<close> when the query
  fails), the answers to the conversion of a key, and what the bytes of the static event read as when
  they are taken for a wheel event.
\<close>

record win_env =
  we_key :: key_env
  we_double_click :: DWORD
  we_wheel_amount :: "DWORD option"
  we_stale :: mouse_wheel_event_data

record kbdllhook =
  vkCode :: DWORD
  kb_flags :: DWORD
  kb_time :: DWORD

record msllhook =
  pt :: "DWORD \<times> DWORD"
  mouseData :: DWORD
  ms_time :: DWORD

lemma win_fire_fields [simp]:
  "current_modifiers (fire ty tm msk dat s) = current_modifiers s"
  "w_click_count (fire ty tm msk dat s) = w_click_count s"
  "w_click_time (fire ty tm msk dat s) = w_click_time s"
  "w_click_button (fire ty tm msk dat s) = w_click_button s"
  "last_click (fire ty tm msk dat s) = last_click s"
  "w_helper (fire ty tm msk dat s) = w_helper s"
  "hInst (fire ty tm msk dat s) = hInst s"
  "keyboard_event_hhook (fire ty tm msk dat s) = keyboard_event_hhook s"
  "mouse_event_hhook (fire ty tm msk dat s) = mouse_event_hhook s"
  "win_event_hhook (fire ty tm msk dat s) = win_event_hhook s"
  "w_installed (fire ty tm msk dat s) = w_installed s"
  by (simp_all add: fire_def dispatch_event_def split: option.split)

section \<open>The modifier mask\<close>

definition win_set_modifier_mask :: "uint16_t \<Rightarrow> win_hook \<Rightarrow> win_hook" where
  "win_set_modifier_mask msk s = s\<lparr>current_modifiers := current_modifiers s OR msk\<rparr>"

definition win_unset_modifier_mask :: "uint16_t \<Rightarrow> win_hook \<Rightarrow> win_hook" where
  "win_unset_modifier_mask msk s = s\<lparr>current_modifiers := current_modifiers s AND NOT msk\<rparr>"

definition win_get_modifiers :: "win_hook \<Rightarrow> uint16_t" where
  "win_get_modifiers s = current_modifiers s"

interpretation wmask: mask_tracker win_set_modifier_mask win_unset_modifier_mask win_get_modifiers
  by unfold_locales (simp_all add: win_set_modifier_mask_def win_unset_modifier_mask_def win_get_modifiers_def)

text \<open>\<open>down\<close> says for which keys \<^verbatim>\<open>GetKeyState\<close> is negative.\<close>

definition win_initialize_modifiers :: "(uint16_t \<Rightarrow> bool) \<Rightarrow> win_hook \<Rightarrow> win_hook" where
  "win_initialize_modifiers down s =
     fold (\<lambda>(vk, msk) s. if down vk then win_set_modifier_mask msk s else s)
       [(VK_LSHIFT, MASK_SHIFT_L), (VK_RSHIFT, MASK_SHIFT_R), (VK_LCONTROL, MASK_CTRL_L),
        (VK_RCONTROL, MASK_CTRL_R), (VK_LMENU, MASK_ALT_L), (VK_RMENU, MASK_ALT_R),
        (VK_LWIN, MASK_META_L), (VK_RWIN, MASK_META_R),
        (VK_LBUTTON, MASK_BUTTON1), (VK_RBUTTON, MASK_BUTTON2), (VK_MBUTTON, MASK_BUTTON3),
        (VK_XBUTTON1, MASK_BUTTON4), (VK_XBUTTON2, MASK_BUTTON5),
        (VK_NUMLOCK, MASK_NUM_LOCK), (VK_CAPITAL, MASK_CAPS_LOCK), (VK_SCROLL, MASK_SCROLL_LOCK)]
       (s\<lparr>current_modifiers := 0x0000\<rparr>)"

definition vk_modifier :: "DWORD \<Rightarrow> uint16_t option" where
  "vk_modifier vk =
     (if vk = ucast VK_LSHIFT then Some MASK_SHIFT_L
      else if vk = ucast VK_RSHIFT then Some MASK_SHIFT_R
      else if vk = ucast VK_LCONTROL then Some MASK_CTRL_L
      else if vk = ucast VK_RCONTROL then Some MASK_CTRL_R
      else if vk = ucast VK_LMENU then Some MASK_ALT_L
      else if vk = ucast VK_RMENU then Some MASK_ALT_R
      else if vk = ucast VK_LWIN then Some MASK_META_L
      else if vk = ucast VK_RWIN then Some MASK_META_R
      else if vk = ucast VK_NUMLOCK then Some MASK_NUM_LOCK
      else if vk = ucast VK_CAPITAL then Some MASK_CAPS_LOCK
      else if vk = ucast VK_SCROLL then Some MASK_SCROLL_LOCK
      else None)"

section \<open>Keys\<close>

definition win_key_data :: "uint16_t \<Rightarrow> DWORD \<Rightarrow> uint16_t \<Rightarrow> event_data" where
  "win_key_data keycode vk keychar =
     Keyboard \<lparr>kb_keycode = keycode, kb_rawcode = ucast vk, kb_keychar = keychar\<rparr>"

primrec win_type_units :: "kbdllhook \<Rightarrow> uint16_t option list \<Rightarrow> win_hook \<Rightarrow> win_hook result" where
  "win_type_units kbhook [] s = Inr s"
| "win_type_units kbhook (c # cs) s =
     (case c of
        None \<Rightarrow> Inl UninitialisedRead
      | Some ch \<Rightarrow>
          win_type_units kbhook cs (fire EVENT_KEY_TYPED (ucast (kb_time kbhook)) (win_get_modifiers s)
            (win_key_data VC_UNDEFINED (vkCode kbhook) ch) s))"

definition process_key_pressed :: "win_env \<Rightarrow> kbdllhook \<Rightarrow> win_hook \<Rightarrow> win_hook result" where
  "process_key_pressed env kbhook s =
     (let s = (case vk_modifier (vkCode kbhook) of Some msk \<Rightarrow> win_set_modifier_mask msk s | None \<Rightarrow> s);
          s = fire EVENT_KEY_PRESSED (ucast (kb_time kbhook)) (win_get_modifiers s)
                (win_key_data (win_keycode_to_scancode (vkCode kbhook) (kb_flags kbhook)) (vkCode kbhook) CHAR_UNDEFINED) s
      in if not_consumed s then
           r_bind (win_keycode_to_unicode (we_key env) (vkCode kbhook) 4 (w_helper s)) (\<lambda>(h, buffer, count).
           win_type_units kbhook (take count [fst buffer, snd buffer]) (s\<lparr>w_helper := h\<rparr>))
         else Inr s)"

definition process_key_released :: "kbdllhook \<Rightarrow> win_hook \<Rightarrow> win_hook" where
  "process_key_released kbhook s =
     (let s = (case vk_modifier (vkCode kbhook) of Some msk \<Rightarrow> win_unset_modifier_mask msk s | None \<Rightarrow> s)
      in fire EVENT_KEY_RELEASED (ucast (kb_time kbhook)) (win_get_modifiers s)
           (win_key_data (win_keycode_to_scancode (vkCode kbhook) (kb_flags kbhook)) (vkCode kbhook) CHAR_UNDEFINED) s)"

datatype kb_message = WM_KEYDOWN | WM_SYSKEYDOWN | WM_KEYUP | WM_SYSKEYUP | WM_KEY_OTHER

text \<open>
  The result of a hook procedure is whether the event goes on to the next hook; it is \<open>False\<close>
  when the event is consumed. The test reads the static event, whatever wrote it last.
\<close>

definition passed_on :: "int \<Rightarrow> win_hook \<Rightarrow> bool" where
  "passed_on nCode s \<longleftrightarrow> nCode < 0 \<or> not_consumed s"

definition keyboard_hook_event_proc ::
  "win_env \<Rightarrow> int \<Rightarrow> kb_message \<Rightarrow> kbdllhook \<Rightarrow> win_hook \<Rightarrow> (win_hook \<times> bool) result" where
  "keyboard_hook_event_proc env nCode wParam kbhook s =
     r_bind (case wParam of
               WM_KEYDOWN \<Rightarrow> process_key_pressed env kbhook s
             | WM_SYSKEYDOWN \<Rightarrow> process_key_pressed env kbhook s
             | WM_KEYUP \<Rightarrow> Inr (process_key_released kbhook s)
             | WM_SYSKEYUP \<Rightarrow> Inr (process_key_released kbhook s)
             | WM_KEY_OTHER \<Rightarrow> Inr s) (\<lambda>s.
     Inr (s, passed_on nCode s))"

section \<open>Buttons\<close>

definition win_mouse_data :: "uint16_t \<Rightarrow> uint16_t \<Rightarrow> DWORD \<times> DWORD \<Rightarrow> event_data" where
  "win_mouse_data button clicks p =
     Mouse \<lparr>ms_button = button, ms_clicks = clicks, ms_x = ucast (fst p), ms_y = ucast (snd p)\<rparr>"

definition win_count_press :: "DWORD \<Rightarrow> uint16_t \<Rightarrow> DWORD \<Rightarrow> win_hook \<Rightarrow> win_hook" where
  "win_count_press multi_click button timestamp s =
     (let s = (if button = w_click_button s \<and> sint (timestamp - w_click_time s) \<le> sint multi_click
               then if w_click_count s < 0xFFFF then s\<lparr>w_click_count := w_click_count s + 1\<rparr> else s
               else s\<lparr>w_click_count := 1, w_click_button := button\<rparr>)
      in s\<lparr>w_click_time := timestamp\<rparr>)"

definition process_button_pressed :: "win_env \<Rightarrow> msllhook \<Rightarrow> uint16_t \<Rightarrow> win_hook \<Rightarrow> win_hook" where
  "process_button_pressed env mshook button s =
     (let s = win_count_press (we_double_click env) button (ms_time mshook) s;
          s = s\<lparr>last_click := pt mshook\<rparr>
      in fire EVENT_MOUSE_PRESSED (ucast (ms_time mshook)) (win_get_modifiers s)
           (win_mouse_data button (w_click_count s) (pt mshook)) s)"

text \<open>The difference of a 64-bit and a 32-bit time is narrowed to a \<^verbatim>\<open>long\<close>.\<close>

definition time_since :: "uint64_t \<Rightarrow> DWORD \<Rightarrow> int" where
  "time_since time click = sint (ucast (time - ucast click) :: DWORD)"

definition process_button_released :: "win_env \<Rightarrow> msllhook \<Rightarrow> uint16_t \<Rightarrow> win_hook \<Rightarrow> win_hook" where
  "process_button_released env mshook button s =
     (let s = fire EVENT_MOUSE_RELEASED (ucast (ms_time mshook)) (win_get_modifiers s)
                (win_mouse_data button (w_click_count s) (pt mshook)) s;
          s = (if not_consumed s \<and> last_click s = pt mshook
               then fire EVENT_MOUSE_CLICKED (ucast (ms_time mshook)) (win_get_modifiers s)
                      (win_mouse_data button (w_click_count s) (pt mshook)) s
               else s)
      in if button = w_click_button s
            \<and> time_since (ev_time (static_event s)) (w_click_time s) > sint (we_double_click env)
         then s\<lparr>w_click_count := 0\<rparr> else s)"

definition process_mouse_moved :: "win_env \<Rightarrow> msllhook \<Rightarrow> win_hook \<Rightarrow> win_hook" where
  "process_mouse_moved env mshook s =
     (if last_click s \<noteq> pt mshook then
        let s = (if w_click_count s \<noteq> 0
                    \<and> time_since (ucast (ms_time mshook)) (w_click_time s) > sint (we_double_click env)
                 then s\<lparr>w_click_count := 0\<rparr> else s);
            msk = win_get_modifiers s;
            mouse_dragged = msk AND (MASK_BUTTON1 OR MASK_BUTTON2 OR MASK_BUTTON3 OR MASK_BUTTON4 OR MASK_BUTTON5) \<noteq> 0
        in fire (if mouse_dragged then EVENT_MOUSE_DRAGGED else EVENT_MOUSE_MOVED) (ucast (ms_time mshook)) msk
             (win_mouse_data MOUSE_NOBUTTON (w_click_count s) (pt mshook)) s
      else s)"

text \<open>
  Without the wheel setting nothing is dispatched: the static event is written, but for three fields
  of the wheel, and marked as consumed. \<^verbatim>\<open>WHEEL_PAGESCROLL\<close> is the largest unsigned value.
\<close>

definition process_mouse_wheel :: "win_env \<Rightarrow> msllhook \<Rightarrow> uint8_t \<Rightarrow> win_hook \<Rightarrow> win_hook" where
  "process_mouse_wheel env mshook direction s =
     (let s = s\<lparr>w_click_count := 1, w_click_button := MOUSE_NOBUTTON\<rparr>;
          (rotation, wr) = get_scroll_wheel_rotation (mouseData mshook) direction (wheel_rotation.truncate (w_helper s));
          s = s\<lparr>w_helper := (w_helper s)\<lparr>v_rotation := v_rotation wr, h_rotation := h_rotation wr\<rparr>\<rparr>
      in case we_wheel_amount env of
           Some wheel_amount \<Rightarrow>
             fire EVENT_MOUSE_WHEEL (ucast (ms_time mshook)) (win_get_modifiers s)
               (Wheel \<lparr>wh_clicks = w_click_count s, wh_x = ucast (fst (pt mshook)), wh_y = ucast (snd (pt mshook)),
                       wh_type = (if wheel_amount = 0xFFFFFFFF then WHEEL_BLOCK_SCROLL else WHEEL_UNIT_SCROLL),
                       wh_amount = (if wheel_amount = 0xFFFFFFFF then 1 else ucast wheel_amount),
                       wh_rotation = rotation, wh_direction = direction\<rparr>) s
         | None \<Rightarrow>
             let old = (case ev_data (static_event s) of Wheel wheel \<Rightarrow> wheel | _ \<Rightarrow> we_stale env)
             in s\<lparr>static_event := \<lparr>ev_type = EVENT_MOUSE_WHEEL, ev_time = ucast (ms_time mshook),
                  ev_mask = win_get_modifiers s, ev_reserved = 0x01,
                  ev_data = Wheel (old\<lparr>wh_clicks := w_click_count s, wh_x := ucast (fst (pt mshook)),
                    wh_y := ucast (snd (pt mshook)), wh_rotation := rotation\<rparr>)\<rparr>\<rparr>)"

section \<open>The mouse hook\<close>

datatype ms_message =
    WM_LBUTTONDOWN | WM_RBUTTONDOWN | WM_MBUTTONDOWN | WM_XBUTTONDOWN | WM_NCXBUTTONDOWN
  | WM_LBUTTONUP | WM_RBUTTONUP | WM_MBUTTONUP | WM_XBUTTONUP | WM_NCXBUTTONUP
  | WM_MOUSEMOVE | WM_MOUSEWHEEL | WM_MOUSEHWHEEL | WM_MOUSE_OTHER

definition process_xbutton_down :: "win_env \<Rightarrow> msllhook \<Rightarrow> win_hook \<Rightarrow> win_hook" where
  "process_xbutton_down env mshook s =
     (let button = HIWORD (mouseData mshook) in
      if button = 1 then process_button_pressed env mshook MOUSE_BUTTON4 (win_set_modifier_mask MASK_BUTTON4 s)
      else if button = 2 then process_button_pressed env mshook MOUSE_BUTTON5 (win_set_modifier_mask MASK_BUTTON5 s)
      else process_button_pressed env mshook button
             (if button = 4 then win_set_modifier_mask MOUSE_BUTTON4 s
              else if button = 5 then win_set_modifier_mask MOUSE_BUTTON5 s else s))"

definition process_xbutton_up :: "win_env \<Rightarrow> msllhook \<Rightarrow> win_hook \<Rightarrow> win_hook" where
  "process_xbutton_up env mshook s =
     (let button = HIWORD (mouseData mshook) in
      if button = 1 then process_button_released env mshook MOUSE_BUTTON4 (win_unset_modifier_mask MASK_BUTTON4 s)
      else if button = 2 then process_button_released env mshook MOUSE_BUTTON5 (win_unset_modifier_mask MASK_BUTTON5 s)
      else process_button_released env mshook MOUSE_BUTTON5
             (if button = 4 then win_unset_modifier_mask MOUSE_BUTTON4 s
              else if button = 5 then win_unset_modifier_mask MOUSE_BUTTON5 s else s))"

definition mouse_event :: "win_env \<Rightarrow> ms_message \<Rightarrow> msllhook \<Rightarrow> win_hook \<Rightarrow> win_hook" where
  "mouse_event env wParam mshook s =
     (case wParam of
        WM_LBUTTONDOWN \<Rightarrow> process_button_pressed env mshook MOUSE_BUTTON1 (win_set_modifier_mask MASK_BUTTON1 s)
      | WM_RBUTTONDOWN \<Rightarrow> process_button_pressed env mshook MOUSE_BUTTON2 (win_set_modifier_mask MASK_BUTTON2 s)
      | WM_MBUTTONDOWN \<Rightarrow> process_button_pressed env mshook MOUSE_BUTTON3 (win_set_modifier_mask MASK_BUTTON3 s)
      | WM_XBUTTONDOWN \<Rightarrow> process_xbutton_down env mshook s
      | WM_NCXBUTTONDOWN \<Rightarrow> process_xbutton_down env mshook s
      | WM_LBUTTONUP \<Rightarrow> process_button_released env mshook MOUSE_BUTTON1 (win_unset_modifier_mask MASK_BUTTON1 s)
      | WM_RBUTTONUP \<Rightarrow> process_button_released env mshook MOUSE_BUTTON2 (win_unset_modifier_mask MASK_BUTTON2 s)
      | WM_MBUTTONUP \<Rightarrow> process_button_released env mshook MOUSE_BUTTON3 (win_unset_modifier_mask MASK_BUTTON3 s)
      | WM_XBUTTONUP \<Rightarrow> process_xbutton_up env mshook s
      | WM_NCXBUTTONUP \<Rightarrow> process_xbutton_up env mshook s
      | WM_MOUSEMOVE \<Rightarrow> process_mouse_moved env mshook s
      | WM_MOUSEWHEEL \<Rightarrow> process_mouse_wheel env mshook WHEEL_VERTICAL_DIRECTION s
      | WM_MOUSEHWHEEL \<Rightarrow> process_mouse_wheel env mshook WHEEL_HORIZONTAL_DIRECTION s
      | WM_MOUSE_OTHER \<Rightarrow> s)"

definition mouse_hook_event_proc ::
  "win_env \<Rightarrow> int \<Rightarrow> ms_message \<Rightarrow> msllhook \<Rightarrow> win_hook \<Rightarrow> win_hook \<times> bool" where
  "mouse_hook_event_proc env nCode wParam mshook s =
     (let s = mouse_event env wParam mshook s in (s, passed_on nCode s))"

section \<open>Start and stop\<close>

text \<open>
  Removing a hook uninstalls it; setting one installs it when Windows agrees.
\<close>

definition unregister_running_hooks :: "win_hook \<Rightarrow> win_hook" where
  "unregister_running_hooks s =
     (let s = (if win_event_hhook s then s\<lparr>win_event_hhook := False, w_installed := w_installed s - 1\<rparr> else s);
          s = (if keyboard_event_hhook s then s\<lparr>keyboard_event_hhook := False, w_installed := w_installed s - 1\<rparr> else s)
      in if mouse_event_hhook s then s\<lparr>mouse_event_hhook := False, w_installed := w_installed s - 1\<rparr> else s)"

definition hook_start_proc :: "layout_env \<Rightarrow> uint64_t \<Rightarrow> win_hook \<Rightarrow> win_hook result" where
  "hook_start_proc lenv message_time s =
     r_bind (win_load_input_helper lenv (w_helper s)) (\<lambda>(h, _).
     Inr (fire EVENT_HOOK_ENABLED message_time 0x00 (ev_data (static_event s)) (s\<lparr>w_helper := h\<rparr>)))"

definition hook_stop_proc :: "uint64_t \<Rightarrow> win_hook \<Rightarrow> win_hook" where
  "hook_stop_proc message_time s =
     (let s = fire EVENT_HOOK_DISABLED message_time 0x00 (ev_data (static_event s)) s
      in s\<lparr>w_helper := fst (win_unload_input_helper (w_helper s))\<rparr>)"

text \<open>
  A window event of the type the hook was set for: both input hooks are set again.
\<close>

definition win_hook_event_proc :: "bool \<Rightarrow> bool \<Rightarrow> (uint16_t \<Rightarrow> bool) \<Rightarrow> win_hook \<Rightarrow> win_hook" where
  "win_hook_event_proc kb_ok ms_ok down s =
     (let s = (if keyboard_event_hhook s then s\<lparr>w_installed := w_installed s - 1\<rparr> else s);
          s = (if mouse_event_hhook s then s\<lparr>w_installed := w_installed s - 1\<rparr> else s);
          s = s\<lparr>keyboard_event_hhook := kb_ok, w_installed := w_installed s + of_bool kb_ok\<rparr>;
          s = s\<lparr>mouse_event_hhook := ms_ok, w_installed := w_installed s + of_bool ms_ok\<rparr>
      in win_initialize_modifiers down s)"

datatype win_message =
    KeyMessage win_env int kb_message kbdllhook
  | MouseMessage win_env int ms_message msllhook
  | WindowMessage bool bool "uint16_t \<Rightarrow> bool"

definition dispatch_message :: "win_message \<Rightarrow> win_hook \<Rightarrow> win_hook result" where
  "dispatch_message m s =
     (case m of
        KeyMessage env nCode wParam kbhook \<Rightarrow>
          r_bind (keyboard_hook_event_proc env nCode wParam kbhook s) (\<lambda>(s, _). Inr s)
      | MouseMessage env nCode wParam mshook \<Rightarrow> Inr (fst (mouse_hook_event_proc env nCode wParam mshook s))
      | WindowMessage kb_ok ms_ok down \<Rightarrow> Inr (win_hook_event_proc kb_ok ms_ok down s))"

primrec message_loop :: "win_message list \<Rightarrow> win_hook \<Rightarrow> win_hook result" where
  "message_loop [] s = Inr s"
| "message_loop (m # ms) s = r_bind (dispatch_message m s) (message_loop ms)"

text \<open>
  The answers of a run: the module handle, the three hooks, the keys that are down, the layouts,
  the two message times, and the messages until \<^verbatim>\<open>WM_QUIT\<close>.
\<close>

record win_run_env =
  wr_module :: bool
  wr_keyboard :: bool
  wr_mouse :: bool
  wr_window :: bool
  wr_down :: "uint16_t \<Rightarrow> bool"
  wr_layouts :: layout_env
  wr_start_time :: uint64_t
  wr_stop_time :: uint64_t
  wr_messages :: "win_message list"

definition spot_check_module :: "win_run_env \<Rightarrow> win_hook \<Rightarrow> (win_hook \<times> c_int) result" where
  "spot_check_module env s =
     (if \<not> hInst s then
        if wr_module env
        then r_bind (win_load_input_helper (wr_layouts env) (w_helper s)) (\<lambda>(h, _).
             Inr (s\<lparr>hInst := True, w_helper := h\<rparr>, UIOHOOK_FAILURE))
        else Inr (s, UIOHOOK_ERROR_GET_MODULE_HANDLE)
      else Inr (s, UIOHOOK_FAILURE))"

definition install_hooks :: "win_run_env \<Rightarrow> win_hook \<Rightarrow> win_hook" where
  "install_hooks env s =
     s\<lparr>keyboard_event_hhook := wr_keyboard env, mouse_event_hhook := wr_mouse env,
       win_event_hhook := wr_window env,
       w_installed := w_installed s + of_bool (wr_keyboard env) + of_bool (wr_mouse env) + of_bool (wr_window env)\<rparr>"

definition process_messages :: "win_run_env \<Rightarrow> win_hook \<Rightarrow> (win_hook \<times> c_int) result" where
  "process_messages env s =
     (if keyboard_event_hhook s \<and> mouse_event_hhook s
      then r_bind (hook_start_proc (wr_layouts env) (wr_start_time env) (win_initialize_modifiers (wr_down env) s)) (\<lambda>s.
           r_bind (message_loop (wr_messages env) s) (\<lambda>s. Inr (s, UIOHOOK_SUCCESS)))
      else Inr (s, UIOHOOK_ERROR_SET_WINDOWS_HOOK_EX))"

definition win_hook_run :: "win_run_env \<Rightarrow> win_hook \<Rightarrow> (win_hook \<times> c_int) result" where
  "win_hook_run env s =
     r_bind (spot_check_module env s) (\<lambda>(s, status).
     r_bind (process_messages env (install_hooks env s)) (\<lambda>(s, status).
     Inr (hook_stop_proc (wr_stop_time env) (unregister_running_hooks s), status)))"

text \<open>\<open>posted\<close> is whether \<^verbatim>\<open>PostThreadMessage\<close> could queue the quit message.\<close>

definition win_hook_stop :: "bool \<Rightarrow> c_int" where
  "win_hook_stop posted = (if posted then UIOHOOK_SUCCESS else UIOHOOK_FAILURE)"

end
