(* ===== verification/Windows_Hook_Properties.thy ===== *)
theory Windows_Hook_Properties
  imports Windows_Input_Hook
begin

text \<open>
  What holds of the Windows hook over any sequence of messages: the modifier mask, the click counter,
  the events that are dispatched, and the hooks that are installed. The mask and the click counter
  rest on the same two locales as those of the X11 back end.
\<close>

section \<open>A hook at rest\<close>

definition idle_hook :: win_hook where
  "idle_hook = \<lparr>static_event = \<lparr>ev_type = EVENT_HOOK_ENABLED, ev_time = 0, ev_mask = 0, ev_reserved = 0,
       ev_data = Keyboard \<lparr>kb_keycode = 0, kb_rawcode = 0, kb_keychar = 0\<rparr>\<rparr>,
     dispatcher = Some (\<lambda>_ e. e), dispatched = [], current_modifiers = 0, w_click_count = 0, w_click_time = 0,
     w_click_button = 0, last_click = (0, 0),
     w_helper = \<lparr>v_rotation = 0, h_rotation = 0, locales = [], locale_current = None, deadChar = WCH_NONE, libraries = 0\<rparr>,
     hInst = False, keyboard_event_hhook = False, mouse_event_hhook = False, win_event_hhook = False, w_installed = 0\<rparr>"

definition idle_env :: win_env where
  "idle_env = \<lparr>we_key = \<lparr>hkl_size = 0, hkl_list = [], hkl_focus = 0, hkl_load = (\<lambda>_. None), ke_locale = 0,
       ke_default = 0, ke_caps = False, ke_down = (\<lambda>_. False)\<rparr>, we_double_click = 500, we_wheel_amount = Some 3,
     we_stale = \<lparr>wh_clicks = 0, wh_x = 0, wh_y = 0, wh_type = 0, wh_amount = 0, wh_rotation = 0, wh_direction = 0\<rparr>\<rparr>"

definition at_time :: "DWORD \<Rightarrow> msllhook" where
  "at_time t = \<lparr>pt = (0, 0), mouseData = 0, ms_time = t\<rparr>"

section \<open>What a message changes\<close>

lemma win_mask_fields [simp]:
  "static_event (win_set_modifier_mask m s) = static_event s"
  "dispatcher (win_set_modifier_mask m s) = dispatcher s"
  "dispatched (win_set_modifier_mask m s) = dispatched s"
  "w_click_count (win_set_modifier_mask m s) = w_click_count s"
  "w_click_time (win_set_modifier_mask m s) = w_click_time s"
  "w_click_button (win_set_modifier_mask m s) = w_click_button s"
  "last_click (win_set_modifier_mask m s) = last_click s"
  "keyboard_event_hhook (win_set_modifier_mask m s) = keyboard_event_hhook s"
  "mouse_event_hhook (win_set_modifier_mask m s) = mouse_event_hhook s"
  "win_event_hhook (win_set_modifier_mask m s) = win_event_hhook s"
  "w_installed (win_set_modifier_mask m s) = w_installed s"
  "static_event (win_unset_modifier_mask m s) = static_event s"
  "dispatcher (win_unset_modifier_mask m s) = dispatcher s"
  "dispatched (win_unset_modifier_mask m s) = dispatched s"
  "w_click_count (win_unset_modifier_mask m s) = w_click_count s"
  "w_click_time (win_unset_modifier_mask m s) = w_click_time s"
  "w_click_button (win_unset_modifier_mask m s) = w_click_button s"
  "last_click (win_unset_modifier_mask m s) = last_click s"
  "keyboard_event_hhook (win_unset_modifier_mask m s) = keyboard_event_hhook s"
  "mouse_event_hhook (win_unset_modifier_mask m s) = mouse_event_hhook s"
  "win_event_hhook (win_unset_modifier_mask m s) = win_event_hhook s"
  "w_installed (win_unset_modifier_mask m s) = w_installed s"
  by (simp_all add: win_set_modifier_mask_def win_unset_modifier_mask_def)

text \<open>\<open>same_hooks\<close>: the mask and the handles; the handlers for keys and buttons change the mask only before they fire.\<close>

definition same_hooks :: "win_hook \<Rightarrow> win_hook \<Rightarrow> bool" where
  "same_hooks s s' \<longleftrightarrow> current_modifiers s' = current_modifiers s \<and> w_installed s' = w_installed s
     \<and> keyboard_event_hhook s' = keyboard_event_hhook s \<and> mouse_event_hhook s' = mouse_event_hhook s
     \<and> win_event_hhook s' = win_event_hhook s"

lemma same_hooks_refl [simp]: "same_hooks s s"
  by (simp add: same_hooks_def)

lemma same_hooks_updates [simp]:
  "same_hooks s (fire ty tm msk dat t) = same_hooks s t"
  "same_hooks s (t\<lparr>w_helper := h\<rparr>) = same_hooks s t"
  "same_hooks s (t\<lparr>w_click_count := c\<rparr>) = same_hooks s t"
  "same_hooks s (t\<lparr>w_click_button := c\<rparr>) = same_hooks s t"
  "same_hooks s (t\<lparr>w_click_time := tm32\<rparr>) = same_hooks s t"
  "same_hooks s (t\<lparr>last_click := p\<rparr>) = same_hooks s t"
  "same_hooks s (t\<lparr>static_event := e\<rparr>) = same_hooks s t"
  by (simp_all add: same_hooks_def)

lemma win_type_units_hooks: "win_type_units kb cs t = Inr s' \<Longrightarrow> same_hooks s t \<Longrightarrow> same_hooks s s'"
  by (induction cs arbitrary: t) (auto split: option.splits)

lemma process_button_hooks [simp]:
  "same_hooks s (process_button_pressed env ms b t) = same_hooks s t"
  "same_hooks s (process_button_released env ms b t) = same_hooks s t"
  "same_hooks s (process_mouse_moved env ms t) = same_hooks s t"
  "same_hooks s (process_mouse_wheel env ms d t) = same_hooks s t"
  by (simp_all add: process_button_pressed_def win_count_press_def process_button_released_def
      process_mouse_moved_def process_mouse_wheel_def Let_def split: prod.split option.split)

text \<open>The transitions of the mask that a message makes, in order.\<close>

definition vk_bit :: "DWORD \<Rightarrow> nat option" where
  "vk_bit vk = map_of [(0xA0, 0), (0xA1, 4), (0xA2, 1), (0xA3, 5), (0xA4, 3), (0xA5, 7), (0x5B, 2), (0x5C, 6),
     (0x90, 13), (0x14, 14), (0x91, 15)] vk"

lemma vk_modifier_bit: "vk_modifier vk = map_option flag (vk_bit vk)"
  by (simp add: vk_modifier_def vk_bit_def)

definition xbutton_bits :: "uint16_t \<Rightarrow> nat list" where
  "xbutton_bits b = (if b = 1 then [11] else if b = 2 then [12] else if b = 4 then [2] else if b = 5 then [0, 2] else [])"

definition win_transition :: "win_message \<Rightarrow> (nat \<times> bool) list" where
  "win_transition m =
     (case m of
        KeyMessage env nCode wParam kb \<Rightarrow>
          (case wParam of
             WM_KEYDOWN \<Rightarrow> map (\<lambda>k. (k, True)) (case vk_bit (vkCode kb) of None \<Rightarrow> [] | Some k \<Rightarrow> [k])
           | WM_SYSKEYDOWN \<Rightarrow> map (\<lambda>k. (k, True)) (case vk_bit (vkCode kb) of None \<Rightarrow> [] | Some k \<Rightarrow> [k])
           | WM_KEYUP \<Rightarrow> map (\<lambda>k. (k, False)) (case vk_bit (vkCode kb) of None \<Rightarrow> [] | Some k \<Rightarrow> [k])
           | WM_SYSKEYUP \<Rightarrow> map (\<lambda>k. (k, False)) (case vk_bit (vkCode kb) of None \<Rightarrow> [] | Some k \<Rightarrow> [k])
           | WM_KEY_OTHER \<Rightarrow> [])
      | MouseMessage env nCode wParam ms \<Rightarrow>
          (case wParam of
             WM_LBUTTONDOWN \<Rightarrow> [(8, True)] | WM_RBUTTONDOWN \<Rightarrow> [(9, True)] | WM_MBUTTONDOWN \<Rightarrow> [(10, True)]
           | WM_XBUTTONDOWN \<Rightarrow> map (\<lambda>k. (k, True)) (xbutton_bits (HIWORD (mouseData ms)))
           | WM_NCXBUTTONDOWN \<Rightarrow> map (\<lambda>k. (k, True)) (xbutton_bits (HIWORD (mouseData ms)))
           | WM_LBUTTONUP \<Rightarrow> [(8, False)] | WM_RBUTTONUP \<Rightarrow> [(9, False)] | WM_MBUTTONUP \<Rightarrow> [(10, False)]
           | WM_XBUTTONUP \<Rightarrow> map (\<lambda>k. (k, False)) (xbutton_bits (HIWORD (mouseData ms)))
           | WM_NCXBUTTONUP \<Rightarrow> map (\<lambda>k. (k, False)) (xbutton_bits (HIWORD (mouseData ms)))
           | _ \<Rightarrow> [])
      | WindowMessage kb_ok ms_ok down \<Rightarrow> [])"

lemma small_masks: "(4 :: uint16_t) = flag 2" "(5 :: uint16_t) = flag 0 OR flag 2"
  by code_simp+

lemma track_small_masks:
  "win_set_modifier_mask 4 s = wmask.track [(2, True)] s"
  "win_set_modifier_mask 5 s = wmask.track [(0, True), (2, True)] s"
  "win_unset_modifier_mask 4 s = wmask.track [(2, False)] s"
  "win_unset_modifier_mask 5 s = wmask.track [(0, False), (2, False)] s"
  unfolding small_masks
  by (simp_all add: win_set_modifier_mask_def win_unset_modifier_mask_def or.assoc and.assoc)

lemma process_xbutton_hooks:
  "same_hooks (wmask.track (map (\<lambda>k. (k, True)) (xbutton_bits (HIWORD (mouseData ms)))) s) (process_xbutton_down env ms s)"
  "same_hooks (wmask.track (map (\<lambda>k. (k, False)) (xbutton_bits (HIWORD (mouseData ms)))) s) (process_xbutton_up env ms s)"
  by (auto simp: process_xbutton_down_def process_xbutton_up_def xbutton_bits_def track_small_masks Let_def)

lemma process_key_hooks:
  "process_key_pressed env kb s = Inr s' \<Longrightarrow>
     same_hooks (wmask.track (map (\<lambda>k. (k, True)) (case vk_bit (vkCode kb) of None \<Rightarrow> [] | Some k \<Rightarrow> [k])) s) s'"
  "same_hooks (wmask.track (map (\<lambda>k. (k, False)) (case vk_bit (vkCode kb) of None \<Rightarrow> [] | Some k \<Rightarrow> [k])) s)
     (process_key_released kb s)"
  by (auto simp: process_key_pressed_def process_key_released_def vk_modifier_bit Let_def
      split: if_splits option.splits elim!: r_bind_InrE intro: win_type_units_hooks)

lemma dispatch_message_hooks:
  assumes "dispatch_message m s = Inr s'" and "\<forall>a b c. m \<noteq> WindowMessage a b c"
  shows "same_hooks (wmask.track (win_transition m) s) s'"
proof (cases m)
  case (KeyMessage env nCode wParam kb)
  then show ?thesis
    using assms process_key_hooks
    by (cases wParam) (fastforce simp: dispatch_message_def win_transition_def keyboard_hook_event_proc_def elim!: r_bind_InrE)+
next
  case (MouseMessage env nCode wParam ms)
  then have s': "s' = mouse_event env wParam ms s"
    using assms(1) by (simp add: dispatch_message_def mouse_hook_event_proc_def Let_def)
  show ?thesis
    unfolding s' using process_xbutton_hooks
    by (cases wParam) (simp_all add: mouse_event_def win_transition_def MouseMessage)
qed (use assms in simp)

lemma track_mask_only:
  "current_modifiers s = current_modifiers t \<Longrightarrow>
     current_modifiers (wmask.track ts s) = current_modifiers (wmask.track ts t)"
proof (induction ts arbitrary: s t)
  case (Cons x ts)
  have "current_modifiers (if snd x then win_set_modifier_mask (flag (fst x)) s else win_unset_modifier_mask (flag (fst x)) s) =
      current_modifiers (if snd x then win_set_modifier_mask (flag (fst x)) t else win_unset_modifier_mask (flag (fst x)) t)"
    using Cons.prems by (simp add: win_set_modifier_mask_def win_unset_modifier_mask_def)
  from Cons.IH [OF this] show ?case by simp
qed simp

definition is_window_message :: "win_message \<Rightarrow> bool" where
  "is_window_message m = (case m of WindowMessage _ _ _ \<Rightarrow> True | _ \<Rightarrow> False)"

lemma message_loop_track:
  assumes "message_loop ms s = Inr s'" and "\<forall>m \<in> set ms. \<not> is_window_message m"
  shows "current_modifiers s' = current_modifiers (wmask.track (concat (map win_transition ms)) s)"
  using assms
proof (induction ms arbitrary: s)
  case (Cons m ms)
  then obtain s1 where s1: "dispatch_message m s = Inr s1" and "message_loop ms s1 = Inr s'"
    by (auto elim!: r_bind_InrE)
  moreover have "\<forall>a b c. m \<noteq> WindowMessage a b c" using Cons.prems(2) by (auto simp: is_window_message_def)
  ultimately have "current_modifiers s1 = current_modifiers (wmask.track (win_transition m) s)"
    using dispatch_message_hooks by (simp add: same_hooks_def)
  from track_mask_only [OF this, of "concat (map win_transition ms)"]
    Cons.IH [OF \<open>message_loop ms s1 = Inr s'\<close>] Cons.prems(2) show ?case
    by (simp add: wmask.track_append)
qed simp

text \<open>
  C9. On Windows, over any sequence of keyboard and mouse messages, a flag of the mask is up exactly when
  the last message that moves it was a press; a flag no message moves keeps its value.
\<close>

theorem win_modifiers_follow_keys:
  assumes "message_loop ms s = Inr s'" and "\<forall>m \<in> set ms. \<not> is_window_message m" and "k < 16"
  shows "bit (current_modifiers s') k \<longleftrightarrow>
    (case find (\<lambda>t. fst t = k) (rev (concat (map win_transition ms))) of
       Some t \<Rightarrow> snd t | None \<Rightarrow> bit (current_modifiers s) k)"
  using message_loop_track [OF assms(1,2)] wmask.bit_track [OF assms(3), of "concat (map win_transition ms)" s]
  unfolding win_get_modifiers_def by simp

theorem win_modifiers_follow_keys_witness:
  "\<exists>s'. message_loop [MouseMessage idle_env 0 WM_RBUTTONDOWN (at_time 5),
        KeyMessage idle_env 0 WM_KEYUP \<lparr>vkCode = 0xA0, kb_flags = 0, kb_time = 7\<rparr>] idle_hook = Inr s'
     \<and> bit (current_modifiers s') 9 \<and> \<not> bit (current_modifiers s') 0"
proof -
  let ?ms = "[MouseMessage idle_env 0 WM_RBUTTONDOWN (at_time 5),
        KeyMessage idle_env 0 WM_KEYUP \<lparr>vkCode = 0xA0, kb_flags = 0, kb_time = 7\<rparr>]"
  obtain s' where run: "message_loop ?ms idle_hook = Inr s'"
    by (simp add: dispatch_message_def keyboard_hook_event_proc_def)
  then show ?thesis
    using win_modifiers_follow_keys [OF run, of 9] win_modifiers_follow_keys [OF run, of 0]
    by (simp add: is_window_message_def win_transition_def vk_bit_def)
qed

section \<open>Clicks\<close>

interpretation wclick: click_counter "win_count_press mc" w_click_count w_click_button w_click_time
  "\<lambda>t t'. sint (t - t') \<le> sint mc" for mc :: DWORD
  by unfold_locales (simp_all add: win_count_press_def Let_def)

text \<open>The button that a message presses.\<close>

definition pressed_button :: "ms_message \<Rightarrow> msllhook \<Rightarrow> uint16_t option" where
  "pressed_button wParam mshook =
     (let b = HIWORD (mouseData mshook); x = (if b = 1 then MOUSE_BUTTON4 else if b = 2 then MOUSE_BUTTON5 else b) in
      case wParam of
        WM_LBUTTONDOWN \<Rightarrow> Some MOUSE_BUTTON1 | WM_RBUTTONDOWN \<Rightarrow> Some MOUSE_BUTTON2 | WM_MBUTTONDOWN \<Rightarrow> Some MOUSE_BUTTON3
      | WM_XBUTTONDOWN \<Rightarrow> Some x | WM_NCXBUTTONDOWN \<Rightarrow> Some x | _ \<Rightarrow> None)"

definition win_same_clicks :: "win_hook \<Rightarrow> win_hook \<Rightarrow> bool" where
  "win_same_clicks s s' \<longleftrightarrow> w_click_count s' = w_click_count s \<and> w_click_button s' = w_click_button s
     \<and> w_click_time s' = w_click_time s"

lemma win_count_press_cong:
  assumes "win_same_clicks s s'"
  shows "win_same_clicks (win_count_press mc b tm s) (win_count_press mc b tm s')"
  using assms by (simp add: win_same_clicks_def win_count_press_def Let_def)

lemma process_button_pressed_clicks:
  assumes "win_same_clicks s t"
  shows "win_same_clicks (win_count_press (we_double_click env) b (ms_time ms) s) (process_button_pressed env ms b t)"
  using win_count_press_cong [OF assms, of "we_double_click env" b "ms_time ms"]
  by (simp add: process_button_pressed_def win_same_clicks_def Let_def)

lemma mouse_event_press:
  assumes "pressed_button wParam ms = Some b"
  shows "win_same_clicks (win_count_press (we_double_click env) b (ms_time ms) s) (mouse_event env wParam ms s)"
  using assms
  by (auto simp: pressed_button_def mouse_event_def process_xbutton_down_def Let_def win_same_clicks_def
      split: ms_message.splits if_splits intro!: process_button_pressed_clicks [unfolded win_same_clicks_def])

primrec press_run :: "(win_env \<times> ms_message \<times> msllhook) list \<Rightarrow> win_hook \<Rightarrow> win_hook" where
  "press_run [] s = s"
| "press_run (m # ms) s =
     (case m of (env, wParam, mshook) \<Rightarrow> fst (mouse_hook_event_proc env 0 wParam mshook (press_run ms s)))"

definition win_press :: "win_env \<times> ms_message \<times> msllhook \<Rightarrow> uint16_t \<times> DWORD" where
  "win_press m = (case m of (env, wParam, mshook) \<Rightarrow> (the (pressed_button wParam mshook), ms_time mshook))"

lemma press_run_clicks:
  assumes "\<forall>(env, wParam, mshook) \<in> set ms. pressed_button wParam mshook \<noteq> None \<and> we_double_click env = mc"
  shows "win_same_clicks (wclick.presses mc (map win_press ms) s) (press_run ms s)"
  using assms
proof (induction ms)
  case (Cons m ms)
  obtain env w h where m: "m = (env, w, h)" by (cases m) auto
  then obtain b where b: "pressed_button w h = Some b" and mc: "we_double_click env = mc"
    using Cons.prems by auto
  have "win_same_clicks (win_count_press mc b (ms_time h) (wclick.presses mc (map win_press ms) s))
      (win_count_press mc b (ms_time h) (press_run ms s))"
    using Cons by (intro win_count_press_cong) simp
  moreover have "win_same_clicks (win_count_press mc b (ms_time h) (press_run ms s)) (mouse_event env w h (press_run ms s))"
    using mouse_event_press [OF b, of env] by (simp add: mc)
  moreover have "win_press m = (b, ms_time h)" by (simp add: win_press_def m b)
  ultimately show ?case
    by (simp add: win_same_clicks_def m mouse_hook_event_proc_def Let_def)
qed (simp add: win_same_clicks_def)

text \<open>
  The click counter of the Windows hook, over any sequence of button presses (the latest first) under
  one double-click time, is the count of the shared reference: the presses of the same button in a
  row, each in time after the one before.
\<close>

theorem win_clicks_refine_reference:
  assumes "\<forall>(env, wParam, mshook) \<in> set ms. pressed_button wParam mshook \<noteq> None \<and> we_double_click env = mc"
    and "ms \<noteq> []" and "w_click_count s = 0"
  shows "unat (w_click_count (press_run ms s)) = clicks_of (\<lambda>t t'. sint (t - t') \<le> sint mc) (map win_press ms)"
proof -
  have "unat (w_click_count (wclick.presses mc (map win_press ms) s)) =
      clicks_of (\<lambda>t t'. sint (t - t') \<le> sint mc) (map win_press ms)"
    using assms(2,3) by (intro wclick.count_refines) simp_all
  with press_run_clicks [OF assms(1)] show ?thesis by (simp add: win_same_clicks_def)
qed

theorem win_clicks_refine_reference_witness:
  "unat (w_click_count (press_run [(idle_env, WM_LBUTTONDOWN, at_time 300), (idle_env, WM_LBUTTONDOWN, at_time 100)] idle_hook)) = 2"
  using win_clicks_refine_reference [of "[(idle_env, WM_LBUTTONDOWN, at_time 300), (idle_env, WM_LBUTTONDOWN, at_time 100)]"
      500 idle_hook]
  by (simp add: pressed_button_def idle_env_def idle_hook_def at_time_def win_press_def)

section \<open>Dispatched events\<close>

text \<open>
  A button release on Windows sends a released event and then, unless the callback consumed it or the
  pointer has left the place of the press, a clicked event with the same click count.
\<close>

theorem win_button_release_dispatches:
  assumes "dispatcher s = Some d"
  shows "let released = emitted EVENT_MOUSE_RELEASED (ucast (ms_time mshook)) (current_modifiers s)
               (win_mouse_data button (w_click_count s) (pt mshook));
             clicked = emitted EVENT_MOUSE_CLICKED (ucast (ms_time mshook)) (current_modifiers s)
               (win_mouse_data button (w_click_count s) (pt mshook))
    in dispatched (process_button_released env mshook button s) = dispatched s @ released #
         (if ev_reserved (d (dispatched s) released) = 1 \<or> last_click s \<noteq> pt mshook then [] else [clicked])"
  using assms
  by (auto simp: process_button_released_def dispatched_fire not_consumed_iff static_event_fire
      win_get_modifiers_def Let_def)

theorem win_button_release_dispatches_witness:
  "map ev_type (dispatched (process_button_released idle_env (at_time 9) MOUSE_BUTTON1 idle_hook)) =
     [EVENT_MOUSE_RELEASED, EVENT_MOUSE_CLICKED]"
  using win_button_release_dispatches [where s = idle_hook and d = "\<lambda>_ e. e" and mshook = "at_time 9"
      and env = idle_env and button = MOUSE_BUTTON1]
  by (simp add: idle_hook_def at_time_def emitted_def Let_def)

text \<open>
  A mouse message for which nothing is dispatched is passed on or swallowed by what the callback
  answered to the event before it.
\<close>

theorem win_stale_consumption:
  assumes "last_click s = pt mshook" and "0 \<le> nCode"
  shows "mouse_hook_event_proc env nCode WM_MOUSEMOVE mshook s = (s, ev_reserved (static_event s) \<noteq> 1)"
  using assms
  by (simp add: mouse_hook_event_proc_def mouse_event_def process_mouse_moved_def passed_on_def not_consumed_iff)

theorem win_stale_consumption_witness:
  "snd (mouse_hook_event_proc idle_env 0 WM_MOUSEMOVE (at_time 9)
     (idle_hook\<lparr>static_event := (static_event idle_hook)\<lparr>ev_reserved := 1\<rparr>\<rparr>)) = False"
  using win_stale_consumption [of "idle_hook\<lparr>static_event := (static_event idle_hook)\<lparr>ev_reserved := 1\<rparr>\<rparr>" "at_time 9" 0 idle_env]
  by (simp add: idle_hook_def at_time_def)

text \<open>
  The press of an extra mouse button numbered 4 raises the flag of the left Meta key and its release
  takes it down: the number of the button is used where its mask is meant.
\<close>

theorem win_extra_button_is_meta:
  assumes "HIWORD (mouseData mshook) = 4"
  shows "bit (current_modifiers (mouse_event env WM_XBUTTONDOWN mshook s)) 2
    \<and> \<not> bit (current_modifiers (mouse_event env WM_XBUTTONUP mshook s)) 2"
proof -
  have "current_modifiers (mouse_event env WM_XBUTTONDOWN mshook s) = current_modifiers s OR flag 2"
    "current_modifiers (mouse_event env WM_XBUTTONUP mshook s) = current_modifiers s AND NOT (flag 2)"
    using process_xbutton_hooks [of mshook s env] assms
    by (simp_all add: mouse_event_def same_hooks_def xbutton_bits_def win_set_modifier_mask_def win_unset_modifier_mask_def)
  then show ?thesis by (simp add: bit_flags)
qed

theorem win_extra_button_is_meta_witness:
  "bit (current_modifiers (mouse_event idle_env WM_XBUTTONDOWN ((at_time 3)\<lparr>mouseData := 0x00040000\<rparr>) idle_hook)) 2"
  using win_extra_button_is_meta [of "(at_time 3)\<lparr>mouseData := 0x00040000\<rparr>" idle_env idle_hook]
  by (simp add: HIWORD_def)

section \<open>The events of a session\<close>

lemma fits_type_win [simp]:
  "ty \<in> {EVENT_KEY_PRESSED, EVENT_KEY_RELEASED} \<Longrightarrow> ch = CHAR_UNDEFINED \<Longrightarrow> fits_type (emitted ty tm msk (win_key_data c vk ch))"
  "c = VC_UNDEFINED \<Longrightarrow> fits_type (emitted EVENT_KEY_TYPED tm msk (win_key_data c vk ch))"
  "ty \<in> {EVENT_MOUSE_PRESSED, EVENT_MOUSE_RELEASED, EVENT_MOUSE_CLICKED} \<Longrightarrow> fits_type (emitted ty tm msk (win_mouse_data b n p))"
  "ty \<in> {EVENT_MOUSE_MOVED, EVENT_MOUSE_DRAGGED} \<Longrightarrow> fits_type (emitted ty tm msk (win_mouse_data MOUSE_NOBUTTON n p))"
  "wh_clicks w = 1 \<Longrightarrow> fits_type (emitted EVENT_MOUSE_WHEEL tm msk (Wheel w))"
  by (auto simp: fits_type_def emitted_def win_key_data_def win_mouse_data_def)

lemma reports_win_updates [simp]:
  "reports s (t\<lparr>w_helper := h\<rparr>) = reports s t"
  "reports s (t\<lparr>w_click_count := c\<rparr>) = reports s t"
  "reports s (t\<lparr>w_click_button := c\<rparr>) = reports s t"
  "reports s (t\<lparr>w_click_time := tm32\<rparr>) = reports s t"
  "reports s (t\<lparr>last_click := p\<rparr>) = reports s t"
  "reports s (t\<lparr>static_event := e\<rparr>) = reports s t"
  "reports s (t\<lparr>w_installed := k\<rparr>) = reports s t"
  "reports s (t\<lparr>keyboard_event_hhook := b\<rparr>) = reports s t"
  "reports s (t\<lparr>mouse_event_hhook := b\<rparr>) = reports s t"
  "reports s (t\<lparr>current_modifiers := msk\<rparr>) = reports s t"
  "reports s (win_set_modifier_mask msk t) = reports s t"
  "reports s (win_unset_modifier_mask msk t) = reports s t"
  "reports s (win_initialize_modifiers down t) = reports s t"
  by (simp_all add: reports_def win_set_modifier_mask_def win_unset_modifier_mask_def win_initialize_modifiers_def)

lemma win_type_units_reports: "win_type_units kb cs t = Inr s' \<Longrightarrow> reports s t \<Longrightarrow> reports s s'"
proof (induction cs arbitrary: t)
  case (Cons c cs)
  then obtain ch where "win_type_units kb cs (fire EVENT_KEY_TYPED (ucast (kb_time kb)) (win_get_modifiers t)
      (win_key_data VC_UNDEFINED (vkCode kb) ch) t) = Inr s'"
    by (auto split: option.splits)
  then show ?case using Cons.IH Cons.prems(2) reports_fire fits_type_win(2) by blast
qed simp

lemma win_button_reports:
  "reports s t \<Longrightarrow> reports s (process_button_pressed env ms b t)"
  "reports s t \<Longrightarrow> reports s (process_button_released env ms b t)"
  "reports s t \<Longrightarrow> reports s (process_mouse_moved env ms t)"
  "reports s t \<Longrightarrow> reports s (process_mouse_wheel env ms d t)"
  by (auto simp: process_button_pressed_def win_count_press_def process_button_released_def process_mouse_moved_def
      process_mouse_wheel_def Let_def intro!: reports_fire split: prod.split option.split)

lemma win_key_reports:
  "process_key_pressed env kb s = Inr s' \<Longrightarrow> reports s s'"
  "reports s (process_key_released kb s)"
  by (auto simp: process_key_pressed_def process_key_released_def Let_def split: if_splits option.splits
      elim!: r_bind_InrE win_type_units_reports intro!: reports_fire)

lemma dispatch_message_reports:
  assumes "dispatch_message m s = Inr s'"
  shows "reports s s'"
proof (cases m)
  case (KeyMessage env nCode wParam kb)
  then show ?thesis
    using assms by (cases wParam)
      (auto simp: dispatch_message_def keyboard_hook_event_proc_def elim!: r_bind_InrE intro: win_key_reports)
next
  case (MouseMessage env nCode wParam ms)
  then show ?thesis
    using assms by (cases wParam)
      (auto simp: dispatch_message_def mouse_hook_event_proc_def mouse_event_def process_xbutton_down_def
        process_xbutton_up_def Let_def intro!: win_button_reports)
next
  case (WindowMessage kb_ok ms_ok down)
  then show ?thesis using assms by (auto simp: dispatch_message_def win_hook_event_proc_def Let_def)
qed

interpretation wsource: event_source dispatch_message message_loop
  by unfold_locales (simp_all add: dispatch_message_reports)

text \<open>What the start and the end of a run leave as they were.\<close>

lemma win_run_frame [simp]:
  "dispatcher (win_initialize_modifiers down s) = dispatcher s"
  "dispatched (win_initialize_modifiers down s) = dispatched s"
  "dispatcher (install_hooks env s) = dispatcher s" "dispatched (install_hooks env s) = dispatched s"
  "dispatcher (unregister_running_hooks s) = dispatcher s" "dispatched (unregister_running_hooks s) = dispatched s"
  "keyboard_event_hhook (install_hooks env s) = wr_keyboard env" "mouse_event_hhook (install_hooks env s) = wr_mouse env"
  by (simp_all add: win_initialize_modifiers_def win_set_modifier_mask_def install_hooks_def unregister_running_hooks_def Let_def)

lemma spot_check_module_frame:
  "spot_check_module env s = Inr (t, st) \<Longrightarrow> dispatcher t = dispatcher s \<and> dispatched t = dispatched s"
  by (auto simp: spot_check_module_def elim!: r_bind_InrE split: if_splits)

text \<open>
  A run sends the enabled event first and the disabled event last. One whose hooks cannot be set sends the
  disabled event alone.
\<close>

lemma win_hook_run_events:
  assumes "win_hook_run env s = Inr (s', status)" and "dispatcher s \<noteq> None"
  shows "\<exists>evs dat dat'. list_all fits_type evs \<and> dispatched s' = dispatched s @
    (if status = UIOHOOK_SUCCESS then emitted EVENT_HOOK_ENABLED (wr_start_time env) 0 dat # evs else [])
    @ [emitted EVENT_HOOK_DISABLED (wr_stop_time env) 0 dat']"
proof -
  obtain t st u where t: "spot_check_module env s = Inr (t, st)"
    and u: "process_messages env (install_hooks env t) = Inr (u, status)"
    and s': "s' = hook_stop_proc (wr_stop_time env) (unregister_running_hooks u)"
    using assms by (auto simp: win_hook_run_def elim!: r_bind_InrE)
  let ?v = "unregister_running_hooks u"
  have fired: "dispatched s' = dispatched (fire EVENT_HOOK_DISABLED (wr_stop_time env) 0 (ev_data (static_event ?v)) ?v)"
    by (simp add: s' hook_stop_proc_def Let_def)
  show ?thesis
  proof (cases "wr_keyboard env \<and> wr_mouse env")
    case True
    then obtain w where w: "hook_start_proc (wr_layouts env) (wr_start_time env)
        (win_initialize_modifiers (wr_down env) (install_hooks env t)) = Inr w"
      and run: "message_loop (wr_messages env) w = Inr u" and status: "status = UIOHOOK_SUCCESS"
      using u by (auto simp: process_messages_def elim!: r_bind_InrE)
    have "dispatched w = dispatched s @ [emitted EVENT_HOOK_ENABLED (wr_start_time env) 0 dat]" "dispatcher w = dispatcher s"
      if "dat = ev_data (static_event (win_initialize_modifiers (wr_down env) (install_hooks env t)))" for dat
      using w assms(2) spot_check_module_frame [OF t] that
      by (auto simp: hook_start_proc_def dispatched_fire elim!: r_bind_InrE)
    moreover obtain evs where "dispatched u = dispatched w @ evs" "list_all fits_type evs" "dispatcher u = dispatcher w"
      using wsource.run_reports [OF run] by (auto simp: reports_def)
    ultimately show ?thesis
      using fired assms(2) status by (intro exI [of _ evs]) (auto simp: dispatched_fire)
  next
    case False
    then have "u = install_hooks env t" "status = UIOHOOK_ERROR_SET_WINDOWS_HOOK_EX"
      using u by (auto simp: process_messages_def)
    then show ?thesis
      using fired assms(2) spot_check_module_frame [OF t] by (intro exI [of _ "[]"]) (auto simp: dispatched_fire)
  qed
qed

section \<open>Start and stop\<close>

definition balanced :: "int \<Rightarrow> win_hook \<Rightarrow> bool" where
  "balanced k s \<longleftrightarrow> w_installed s = k + of_bool (keyboard_event_hhook s) + of_bool (mouse_event_hhook s)
     + of_bool (win_event_hhook s)"

lemma balanced_same: "same_hooks s s' \<Longrightarrow> balanced k s \<Longrightarrow> balanced k s'"
  by (simp add: balanced_def same_hooks_def)

lemma balanced_mask [simp]:
  "balanced k (win_set_modifier_mask m s) = balanced k s"
  "balanced k (win_unset_modifier_mask m s) = balanced k s"
  "balanced k (s\<lparr>current_modifiers := m\<rparr>) = balanced k s"
  by (simp_all add: balanced_def)

lemma track_handles [simp]: "balanced k (wmask.track ts s) = balanced k s"
  by (induction ts arbitrary: s) simp_all

lemma initialize_handles [simp]: "balanced k (win_initialize_modifiers down s) = balanced k s"
proof -
  have "balanced k (fold (\<lambda>(vk, msk) s. if down vk then win_set_modifier_mask msk s else s) xs t) = balanced k t"
    for xs and t :: win_hook
    by (induction xs arbitrary: t) (simp_all add: case_prod_unfold)
  then show ?thesis unfolding win_initialize_modifiers_def by simp
qed

lemma win_hook_event_proc_balanced: "balanced k s \<Longrightarrow> balanced k (win_hook_event_proc a b down s)"
  by (auto simp: win_hook_event_proc_def Let_def) (auto simp: balanced_def)

lemma message_loop_balanced:
  assumes "message_loop ms s = Inr s'" and "balanced k s"
  shows "balanced k s'"
  using assms
proof (induction ms arbitrary: s)
  case (Cons m ms)
  then obtain s1 where s1: "dispatch_message m s = Inr s1" and "message_loop ms s1 = Inr s'"
    by (auto elim!: r_bind_InrE)
  moreover have "balanced k s1"
  proof (cases "is_window_message m")
    case True
    then show ?thesis
      using s1 win_hook_event_proc_balanced [OF Cons.prems(2)]
      by (auto simp: is_window_message_def dispatch_message_def split: win_message.splits)
  next
    case False
    then have "same_hooks (wmask.track (win_transition m) s) s1"
      by (intro dispatch_message_hooks [OF s1]) (auto simp: is_window_message_def)
    then show ?thesis by (rule balanced_same) (use Cons.prems(2) in simp)
  qed
  ultimately show ?case using Cons.IH by blast
qed simp

lemma unregister_balanced:
  assumes "balanced k s"
  shows "w_installed (unregister_running_hooks s) = k \<and> \<not> keyboard_event_hhook (unregister_running_hooks s)
    \<and> \<not> mouse_event_hhook (unregister_running_hooks s) \<and> \<not> win_event_hhook (unregister_running_hooks s)"
  using assms by (auto simp: balanced_def unregister_running_hooks_def Let_def)

lemma hook_procs_balanced:
  "hook_start_proc lenv tm s = Inr s' \<Longrightarrow> balanced k s \<Longrightarrow> balanced k s'"
  by (auto simp: hook_start_proc_def balanced_def elim!: r_bind_InrE)

lemma process_messages_balanced:
  assumes "process_messages env s = Inr (s', status)" and "balanced k s"
  shows "balanced k s' \<and> status =
    (if keyboard_event_hhook s \<and> mouse_event_hhook s then UIOHOOK_SUCCESS else UIOHOOK_ERROR_SET_WINDOWS_HOOK_EX)"
proof (cases "keyboard_event_hhook s \<and> mouse_event_hhook s")
  case True
  then obtain t where t: "hook_start_proc (wr_layouts env) (wr_start_time env) (win_initialize_modifiers (wr_down env) s) = Inr t"
    and "message_loop (wr_messages env) t = Inr s'" and "status = UIOHOOK_SUCCESS"
    using assms(1) by (auto simp: process_messages_def elim!: r_bind_InrE)
  moreover have "balanced k t" using hook_procs_balanced [OF t] assms(2) by simp
  ultimately show ?thesis using True message_loop_balanced by auto
qed (use assms in \<open>auto simp: process_messages_def\<close>)

text \<open>
  C10. Whatever the messages and whichever hooks Windows refuses or renews, a run that returns has removed
  every hook it had installed and cleared the three handles, and answers success exactly when the
  keyboard and the mouse hook were both set. The module handle does not enter the status.
\<close>

theorem win_hook_run_uninstalls:
  assumes "win_hook_run env s = Inr (s', status)"
  shows "w_installed s' = w_installed s \<and> \<not> keyboard_event_hhook s' \<and> \<not> mouse_event_hhook s' \<and> \<not> win_event_hhook s'
    \<and> status = (if wr_keyboard env \<and> wr_mouse env then UIOHOOK_SUCCESS else UIOHOOK_ERROR_SET_WINDOWS_HOOK_EX)"
proof -
  obtain t st u where t: "spot_check_module env s = Inr (t, st)"
    and u: "process_messages env (install_hooks env t) = Inr (u, status)"
    and s': "s' = hook_stop_proc (wr_stop_time env) (unregister_running_hooks u)"
    using assms by (auto simp: win_hook_run_def elim!: r_bind_InrE)
  have "w_installed t = w_installed s"
    using t by (auto simp: spot_check_module_def elim!: r_bind_InrE split: if_splits)
  then have "balanced (w_installed s) (install_hooks env t)"
    by (simp add: balanced_def install_hooks_def)
  from process_messages_balanced [OF u this] have u': "balanced (w_installed s) u"
    and "status = (if wr_keyboard env \<and> wr_mouse env then UIOHOOK_SUCCESS else UIOHOOK_ERROR_SET_WINDOWS_HOOK_EX)"
    by (simp_all add: install_hooks_def)
  with unregister_balanced [OF u'] show ?thesis by (simp add: s' hook_stop_proc_def Let_def)
qed

theorem win_hook_run_uninstalls_witness:
  "\<exists>s'. win_hook_run \<lparr>wr_module = True, wr_keyboard = True, wr_mouse = True, wr_window = False, wr_down = (\<lambda>_. False),
        wr_layouts = \<lparr>hkl_size = 0, hkl_list = [], hkl_focus = 0, hkl_load = (\<lambda>_. None)\<rparr>, wr_start_time = 1, wr_stop_time = 9,
        wr_messages = [WindowMessage True False (\<lambda>_. False), MouseMessage idle_env 0 WM_LBUTTONDOWN (at_time 5)]\<rparr> idle_hook
      = Inr (s', UIOHOOK_SUCCESS) \<and> w_installed s' = 0"
proof -
  let ?env = "\<lparr>wr_module = True, wr_keyboard = True, wr_mouse = True, wr_window = False, wr_down = (\<lambda>_. False),
        wr_layouts = \<lparr>hkl_size = 0, hkl_list = [], hkl_focus = 0, hkl_load = (\<lambda>_. None)\<rparr>, wr_start_time = 1, wr_stop_time = 9,
        wr_messages = [WindowMessage True False (\<lambda>_. False), MouseMessage idle_env 0 WM_LBUTTONDOWN (at_time 5)]\<rparr>"
  have "\<not> hInst idle_hook" by (simp add: idle_hook_def)
  then obtain s' status where run: "win_hook_run ?env idle_hook = Inr (s', status)"
    by (simp add: win_hook_run_def spot_check_module_def process_messages_def install_hooks_def hook_start_proc_def
        win_load_input_helper_def refresh_locale_list_def dispatch_message_def)
  then show ?thesis using win_hook_run_uninstalls [OF run] by (simp add: idle_hook_def)
qed

end
