(* ===== verification/Windows_Helper_Properties.thy ===== *)
theory Windows_Helper_Properties
  imports Windows_Input_Helper
begin

text \<open>
  What holds of the Windows input helper: the way back from a virtual code to a key, the bookkeeping
  of wheel steps, the characters of a key, and the life of the cached layouts. \<open>helper_reach\<close> are the
  states that loading, unloading and converting keys lead to.
\<close>

section \<open>A small layout\<close>

text \<open>Two letters and a dead acute accent, whose second row holds the accent itself.\<close>

definition plain_layout :: keyboard_layout where
  "plain_layout = \<lparr>lay_vk_to_bit = [0x10, 0x11, 0x12, 0],
     lay_wchar_tables =
       [\<lparr>pVkToWchars = Some [\<lparr>VirtualKey = 0x41, Attributes = 1, wch = [97, 65]\<rparr>,
            \<lparr>VirtualKey = 0x42, Attributes = 1, wch = [98, 66]\<rparr>,
            \<lparr>VirtualKey = 0xDD, Attributes = 0, wch = [WCH_DEAD, 0x60]\<rparr>,
            \<lparr>VirtualKey = 0xFF, Attributes = 0, wch = [0xB4, WCH_NONE]\<rparr>,
            \<lparr>VirtualKey = 0, Attributes = 0, wch = [0, 0]\<rparr>], cbSize = 6\<rparr>,
        \<lparr>pVkToWchars = None, cbSize = 0\<rparr>],
     lay_dead_keys = [\<lparr>dwBoth = 0x00B40061, wchComposed = 0xE1\<rparr>, \<lparr>dwBoth = 0, wchComposed = 0\<rparr>]\<rparr>"

definition plain_env :: "(uint8_t \<Rightarrow> bool) \<Rightarrow> key_env" where
  "plain_env down = \<lparr>hkl_size = 1, hkl_list = [1033], hkl_focus = 1033, hkl_load = (\<lambda>_. Some plain_layout),
     ke_locale = 1033, ke_default = 1033, ke_caps = False, ke_down = down\<rparr>"

section \<open>Properties of the key codes\<close>

definition win_roundtrip_at :: "nat \<Rightarrow> bool" where
  "win_roundtrip_at n \<longleftrightarrow>
     (let s = win_keycode_to_scancode (of_nat n) 0
      in s = VC_UNDEFINED \<or> n \<in> {1, 2, 4, 5, 6, 16, 17, 18, 226, 254}
         \<or> win_scancode_to_keycode s = Inr (of_nat n))"

lemma win_roundtrip_low: "list_all win_roundtrip_at [0..<128]"
  by code_simp

lemma win_roundtrip_high: "list_all win_roundtrip_at [128..<256]"
  by code_simp

lemmas win_roundtrip_plain = list_all_halves [OF win_roundtrip_low win_roundtrip_high]

text \<open>The keys of the navigation block, which the extended flag distinguishes.\<close>

definition navigation_keys :: "DWORD list" where
  "navigation_keys = [0x21, 0x22, 0x23, 0x24, 0x25, 0x26, 0x27, 0x28, 0x2D, 0x2E]"

lemma win_roundtrip_navigation:
  "list_all (\<lambda>vk. win_scancode_to_keycode (win_keycode_to_scancode vk 1) = Inr vk) navigation_keys"
  by code_simp

lemma win_keycode_flags:
  "win_keycode_to_scancode vk flags =
     win_keycode_to_scancode vk (if flags AND 1 \<noteq> 0 \<and> (vk \<in> set navigation_keys \<or> vk = 13) then 1 else 0)"
  by (auto simp: win_keycode_to_scancode_def navigation_keys_def Let_def)

lemma win_keycode_back:
  assumes "win_keycode_to_scancode vk flags \<noteq> VC_UNDEFINED"
    and "vk \<notin> {1, 2, 4, 5, 6, 0x10, 0x11, 0x12, 0xE2, 0xFE}"
    and "\<not> (vk = ucast VK_RETURN \<and> flags AND 1 \<noteq> 0)"
  shows "win_scancode_to_keycode (win_keycode_to_scancode vk flags) = Inr vk"
proof (cases "flags AND 1 \<noteq> 0 \<and> vk \<in> set navigation_keys")
  case True
  then show ?thesis
    using win_roundtrip_navigation win_keycode_flags [of vk flags] by (simp add: list_all_iff)
next
  case False
  then have plain: "win_keycode_to_scancode vk flags = win_keycode_to_scancode vk 0"
    using win_keycode_flags [of vk flags] assms(3) by auto
  have bound: "unat vk < length keycode_scancode_table"
    using assms(1) by (auto simp: win_keycode_to_scancode_def split: if_splits)
  also have "length keycode_scancode_table = 256" by code_simp
  finally have "win_roundtrip_at (unat vk)" using win_roundtrip_plain by (simp only: list_all_upt)
  moreover have inverse: "of_nat (unat vk) = vk" by simp
  have "unat vk \<noteq> n" if "vk \<noteq> of_nat n" for n using that inverse by metis
  from this [of 1] this [of 2] this [of 4] this [of 5] this [of 6] this [of 16] this [of 17] this [of 18]
    this [of 226] this [of 254] assms(2)
  have "unat vk \<notin> {1, 2, 4, 5, 6, 16, 17, 18, 226, 254}" by auto
  ultimately show ?thesis
    using assms(1) plain by (auto simp: win_roundtrip_at_def inverse Let_def)
qed

text \<open>
  C26. On Windows a virtual key that has a code is found again from the code the hook reports for it.
  The exceptions are the mouse buttons and the unsided modifier keys, which share the code of another
  key, two keys of the table without a way back, and the Return key of the keypad.
\<close>

theorem win_keycode_roundtrip:
  assumes "win_keycode_to_scancode vk flags \<noteq> VC_UNDEFINED"
    and "vk \<notin> {1, 2, 4, 5, 6, 0x10, 0x11, 0x12, 0xE2, 0xFE}"
    and "\<not> (vk = ucast VK_RETURN \<and> flags AND 1 \<noteq> 0)"
  shows "win_scancode_to_keycode (win_keycode_to_scancode vk flags) = Inr vk"
  using assms by (rule win_keycode_back)

theorem win_keycode_roundtrip_witness:
  "win_scancode_to_keycode (win_keycode_to_scancode 0x26 1) = Inr 0x26 \<and> win_keycode_to_scancode 0x26 1 = 0xEE48"
proof -
  have code: "win_keycode_to_scancode 0x26 1 = 0xEE48" by code_simp
  then show ?thesis using win_keycode_roundtrip [of "0x26" 1] by simp
qed

section \<open>Properties of the wheel\<close>

primrec rotations :: "uint8_t \<Rightarrow> DWORD list \<Rightarrow> wheel_rotation \<Rightarrow> int16_t list \<times> wheel_rotation" where
  "rotations direction [] s = ([], s)"
| "rotations direction (d # ds) s =
     (let (v, s) = get_scroll_wheel_rotation d direction s; (vs, s) = rotations direction ds s in (v # vs, s))"

lemma sint16_range: "- 32768 \<le> sint (w :: int16_t)" "sint w < 32768" for w :: int16_t
  using sint_ge [of w] sint_lt [of w] by simp_all

lemma sint16_of_int:
  assumes "- 32768 \<le> i" and "i < 32768"
  shows "sint (word_of_int i :: int16_t) = i"
  using assms by (simp add: sint_sbintrunc' signed_take_bit_int_eq_self)

lemma sint16_add:
  fixes a b :: int16_t
  assumes "- 32768 \<le> sint a + sint b" and "sint a + sint b < 32768"
  shows "sint (a + b) = sint a + sint b"
  using sint16_of_int [OF assms] by simp

definition rest_of :: "uint8_t \<Rightarrow> wheel_rotation \<Rightarrow> int" where
  "rest_of direction s = sint (if direction = WHEEL_VERTICAL_DIRECTION then v_rotation s else h_rotation s)"

definition wheel_sign :: "uint8_t \<Rightarrow> int" where
  "wheel_sign direction = (if direction = WHEEL_VERTICAL_DIRECTION then - 1 else 1)"

lemma rotation_step:
  assumes "\<bar>rest_of direction s\<bar> < 120" and "\<bar>sint (HIWORD d)\<bar> \<le> 32647"
    and "get_scroll_wheel_rotation d direction s = (v, s')"
  shows "\<bar>rest_of direction s'\<bar> < 120
    \<and> rest_of direction s + sint (HIWORD d) = 120 * (wheel_sign direction * sint v) + rest_of direction s'"
proof -
  let ?r = "if direction = WHEEL_VERTICAL_DIRECTION then v_rotation s else h_rotation s"
  let ?t = "sint ?r + sint (HIWORD d)"
  have t: "sint (?r + HIWORD d) = ?t" and range: "\<bar>?t\<bar> < 32768"
    using assms(1,2) sint16_add [of ?r "HIWORD d"] by (auto simp: rest_of_def)
  have rem: "sint (word_of_int (c_mod ?t 120) :: int16_t) = c_mod ?t 120"
    using c_mod_bounds [of 120 ?t] by (intro sint16_of_int) auto
  have quot: "sint (word_of_int (c_div ?t 120) :: int16_t) = c_div ?t 120"
    "sint (word_of_int (- c_div ?t 120) :: int16_t) = - c_div ?t 120"
    using c_div_bound [of 120 ?t] range by (intro sint16_of_int; linarith)+
  show ?thesis
  proof (cases "direction = WHEEL_VERTICAL_DIRECTION")
    case True
    then have "v = word_of_int (- c_div ?t 120)" "v_rotation s' = word_of_int (c_mod ?t 120)"
      using assms(3) t by (auto simp: get_scroll_wheel_rotation_def Let_def c_div_neg)
    with True rem quot show ?thesis
      using c_mod_bounds [of 120 ?t] c_div_mod [of ?t 120] by (simp add: rest_of_def wheel_sign_def)
  next
    case False
    then have "v = word_of_int (c_div ?t 120)" "h_rotation s' = word_of_int (c_mod ?t 120)"
      using assms(3) t by (auto simp: get_scroll_wheel_rotation_def Let_def)
    with False rem quot show ?thesis
      using c_mod_bounds [of 120 ?t] c_div_mod [of ?t 120] by (simp add: rest_of_def wheel_sign_def)
  qed
qed



section \<open>Properties of the characters\<close>

text \<open>
  A layout as the libraries have them: the modifier keys end with 0, the tables with a null one of
  size 0, the rows of a table with the key 0, and each row has a character per modification.
\<close>

definition modifications :: "vk_to_wchar_table \<Rightarrow> int" where
  "modifications t = c_div (int (unat (cbSize t)) - 2) 2"

definition sound_table :: "vk_to_wchar_table \<Rightarrow> bool" where
  "sound_table t \<longleftrightarrow> cbSize t \<noteq> 0 \<and>
     (case pVkToWchars t of
        None \<Rightarrow> False
      | Some rows \<Rightarrow> 2 \<le> length rows \<and> VirtualKey (last rows) = 0 \<and>
          (\<forall>r \<in> set (butlast rows). VirtualKey r \<noteq> 0 \<and> modifications t \<le> int (length (wch r))))"

definition sound_tables :: "vk_to_wchar_table list \<Rightarrow> bool" where
  "sound_tables ts \<longleftrightarrow> ts \<noteq> [] \<and> list_all sound_table (butlast ts) \<and> cbSize (last ts) = 0 \<and> pVkToWchars (last ts) = None"

text \<open>What a table says about a key and a modification, and what the layout says about it.\<close>

definition table_char :: "DWORD \<Rightarrow> int \<Rightarrow> vk_to_wchar_table \<Rightarrow> uint16_t list" where
  "table_char keycode n t =
     (case pVkToWchars t of
        None \<Rightarrow> []
      | Some rows \<Rightarrow>
          if n < modifications t
          then (case find (\<lambda>r. ucast (VirtualKey r) = keycode) (butlast rows) of
                  None \<Rightarrow> [] | Some r \<Rightarrow> [wch r ! nat n])
          else [])"

definition layout_chars :: "DWORD \<Rightarrow> int \<Rightarrow> vk_to_wchar_table list \<Rightarrow> uint16_t list" where
  "layout_chars keycode n ts = concat (map (table_char keycode n) ts)"

lemma scan_rows_find:
  assumes "rows \<noteq> []" and "VirtualKey e = 0" and "\<forall>r \<in> set rows. VirtualKey r \<noteq> 0"
  shows "\<exists>rest. scan_rows keycode caps sh n (rows @ [e]) cv =
    (case find (\<lambda>r. ucast (VirtualKey r) = keycode) rows of
       None \<Rightarrow> Inr cv | Some r \<Rightarrow> match_row caps sh n r rest cv)"
  using assms
proof (induction rows)
  case (Cons r rows)
  then show ?case by (cases rows) auto
qed simp

lemma match_row_plain:
  assumes "0 \<le> cv_mod cv" and "cv_mod cv < int (length (wch r))"
    and "wch r ! nat (cv_mod cv) \<noteq> WCH_DEAD" and "1 \<le> n"
  shows "match_row False sh n r rest cv =
    Inr (if wch r ! nat (cv_mod cv) = WCH_NONE then cv
         else cv\<lparr>cv_buffer := (Some (wch r ! nat (cv_mod cv)), snd (cv_buffer cv)), cv_count := 1\<rparr>)"
  using assms by (simp add: match_row_def wch_at_def)

text \<open>Taking over the characters of the tables, one after the other.\<close>

definition take_char :: "uint16_t \<Rightarrow> conversion \<Rightarrow> conversion" where
  "take_char c cv = (if c = WCH_NONE then cv else cv\<lparr>cv_buffer := (Some c, snd (cv_buffer cv)), cv_count := 1\<rparr>)"

lemma take_char_fields [simp]:
  "cv_mod (take_char c cv) = cv_mod cv"
  "cv_dead (take_char c cv) = cv_dead cv"
  by (simp_all add: take_char_def)

lemma fold_take_char_fields [simp]:
  "cv_mod (fold take_char cs cv) = cv_mod cv"
  "cv_dead (fold take_char cs cv) = cv_dead cv"
  by (induction cs arbitrary: cv) simp_all

lemma fold_take_char:
  "fold take_char cs cv =
     (case rev (filter (\<lambda>c. c \<noteq> WCH_NONE) cs) of
        [] \<Rightarrow> cv | c # _ \<Rightarrow> cv\<lparr>cv_buffer := (Some c, snd (cv_buffer cv)), cv_count := 1\<rparr>)"
  by (induction cs rule: rev_induct) (auto simp: take_char_def split: list.split)

lemma scan_table:
  assumes "sound_table t" and "0 \<le> cv_mod cv" and "WCH_DEAD \<notin> set (table_char keycode (cv_mod cv) t)" and "1 \<le> n"
  shows "(case pVkToWchars t of
       Some rows \<Rightarrow> if cv_mod cv < c_div (int (unat (cbSize t)) - 2) 2 then scan_rows keycode False sh n rows cv else Inr cv
     | None \<Rightarrow> Inr cv) = Inr (fold take_char (table_char keycode (cv_mod cv) t) cv)"
proof -
  obtain rows where rows: "pVkToWchars t = Some rows" "2 \<le> length rows" "VirtualKey (last rows) = 0"
    "\<forall>r \<in> set (butlast rows). VirtualKey r \<noteq> 0 \<and> modifications t \<le> int (length (wch r))"
    using assms(1) by (auto simp: sound_table_def split: option.splits)
  have split: "butlast rows @ [last rows] = rows" and "butlast rows \<noteq> []"
    using rows(2) by (cases rows; auto)+
  then obtain rest where "scan_rows keycode False sh n rows cv =
      (case find (\<lambda>r. ucast (VirtualKey r) = keycode) (butlast rows) of
         None \<Rightarrow> Inr cv | Some r \<Rightarrow> match_row False sh n r rest cv)"
    using scan_rows_find [of "butlast rows" "last rows" keycode False sh n cv] rows(3,4) by auto
  moreover have "match_row False sh n r rest cv = Inr (take_char (wch r ! nat (cv_mod cv)) cv)"
    if r: "find (\<lambda>r. ucast (VirtualKey r) = keycode) (butlast rows) = Some r" and m: "cv_mod cv < modifications t" for r
  proof -
    from r have "r \<in> set (butlast rows)" by (auto simp: find_Some_iff)
    with rows(4) m have "cv_mod cv < int (length (wch r))" by fastforce
    moreover have "wch r ! nat (cv_mod cv) \<noteq> WCH_DEAD" using assms(3) r m rows(1) by (simp add: table_char_def)
    ultimately show ?thesis using assms(2,4) by (simp add: match_row_plain take_char_def)
  qed
  ultimately show ?thesis
    using rows(1) by (auto simp: table_char_def modifications_def split: option.split)
qed

lemma scan_tables_chars:
  assumes "sound_tables ts" and "0 \<le> cv_mod cv" and "WCH_DEAD \<notin> set (layout_chars keycode (cv_mod cv) ts)" and "1 \<le> n"
  shows "scan_tables keycode False sh n ts cv = Inr (fold take_char (layout_chars keycode (cv_mod cv) ts) cv)"
  using assms
proof (induction ts arbitrary: cv)
  case (Cons t ts)
  show ?case
  proof (cases "ts = []")
    case True
    with Cons.prems show ?thesis by (simp add: sound_tables_def layout_chars_def table_char_def)
  next
    case False
    then have "sound_tables ts" and t: "sound_table t" using Cons.prems(1) by (auto simp: sound_tables_def)
    with Cons.prems show ?thesis
      using scan_table [OF t Cons.prems(2) _ Cons.prems(4), of keycode sh]
        Cons.IH [of "fold take_char (table_char keycode (cv_mod cv) t) cv"]
      by (simp add: layout_chars_def sound_table_def)
  qed
qed (simp add: sound_tables_def)

lemma modifiers_down_set:
  assumes "0 \<in> set vks"
  shows "modifiers_down down vks = Inr {vk \<in> set (takeWhile (\<lambda>vk. vk \<noteq> 0) vks). down vk}"
  using assms by (induction vks) (auto simp: Collect_conv_if)

definition modification :: "key_env \<Rightarrow> keyboard_layout \<Rightarrow> int" where
  "modification env layout =
     (let pressed = (\<lambda>vk. vk \<in> set (takeWhile (\<lambda>v. v \<noteq> 0) (lay_vk_to_bit layout)) \<and> ke_down env vk)
      in (if pressed 0x10 then 1 else 0) + (if pressed 0x11 \<and> pressed 0x12 then 3 else 0))"



section \<open>Properties of the layout cache\<close>

definition cached :: "keyboard_locale list \<Rightarrow> HKL option \<Rightarrow> bool" where
  "cached ls current \<longleftrightarrow> set_option current \<subseteq> loc_id ` set ls"

lemma cached_simps [simp]:
  "cached ls None"
  "cached ls (Some k) \<longleftrightarrow> k \<in> loc_id ` set ls"
  by (simp_all add: cached_def)

lemma keep_loaded_cached:
  assumes "keep_loaded focus prev items hkls current = Inr (kept, hkls', current')"
    and "cached (prev @ items) current"
  shows "cached kept current'"
  using assms
proof (induction focus prev items hkls current rule: keep_loaded.induct)
  case (2 focus prev item items hkls current)
  then show ?case
    by (cases current) (auto split: if_splits)
qed simp

lemma add_new_cached:
  assumes "add_new env ks prev current libs = (all, current', libs')" and "cached prev current"
  shows "cached all current'"
  using assms
proof (induction ks arbitrary: prev current libs)
  case (Cons k ks)
  show ?case
  proof (cases "if k = 0 then None else hkl_load env k")
    case None
    with Cons show ?thesis by simp
  next
    case (Some layout)
    with Cons.prems have
      "add_new env ks (\<lparr>loc_id = k, loc_layout = layout\<rparr> # prev) (if k = hkl_focus env then Some k else current) (libs + 1)
        = (all, current', libs')"
      by simp
    then show ?thesis by (rule Cons.IH) (use Cons.prems(2) in \<open>auto simp: cached_def\<close>)
  qed
qed simp

lemma refresh_cached:
  assumes "refresh_locale_list env s = Inr (s', n)" and "cached (locales s) (locale_current s)"
  shows "cached (locales s') (locale_current s')"
proof (cases "hkl_size env > 0 \<and> hkl_list env \<noteq> []")
  case True
  then obtain kept hkls current all cur libs where
    kept: "keep_loaded (hkl_focus env) [] (locales s) (hkl_list env) (locale_current s) = Inr (kept, hkls, current)"
    and all: "add_new env hkls kept current (libraries s) = (all, cur, libs)"
    and s': "s' = s\<lparr>locales := rev all, locale_current := cur, libraries := libs\<rparr>"
    using assms(1) by (auto simp: refresh_locale_list_def elim!: r_bind_InrE split: prod.splits)
  have "cached kept current" using keep_loaded_cached [OF kept] assms(2) by simp
  then show ?thesis using add_new_cached [OF all] by (simp add: s' cached_def)
qed (use assms in \<open>auto simp: refresh_locale_list_def\<close>)

lemma select_locale_cached:
  assumes "select_locale env s = Inr s'" and "cached (locales s) (locale_current s)"
  shows "cached (locales s') (locale_current s')"
  using assms refresh_cached
  by (fastforce simp: select_locale_def Let_def split: if_splits elim!: r_bind_InrE)

text \<open>The helper's states: from nothing cached, by loading, unloading and converting keys.\<close>

definition helper_start :: win_helper where
  "helper_start = \<lparr>v_rotation = 0, h_rotation = 0, locales = [], locale_current = None, deadChar = WCH_NONE,
     libraries = 0\<rparr>"

inductive helper_reach :: "win_helper \<Rightarrow> bool" where
  reach_start: "helper_reach helper_start"
| reach_load: "helper_reach s \<Longrightarrow> win_load_input_helper env s = Inr (s', n) \<Longrightarrow> helper_reach s'"
| reach_unload: "helper_reach s \<Longrightarrow> helper_reach (fst (win_unload_input_helper s))"
| reach_key: "helper_reach s \<Longrightarrow> win_keycode_to_unicode env keycode size' s = Inr (s', out) \<Longrightarrow> helper_reach s'"

lemma win_keycode_to_unicode_cached:
  assumes "win_keycode_to_unicode env keycode n s = Inr (s', out)" and "cached (locales s) (locale_current s)"
  shows "cached (locales s') (locale_current s')"
  using assms select_locale_cached
  by (fastforce simp: win_keycode_to_unicode_def elim!: r_bind_InrE split: option.splits)

lemma helper_reach_cached: "helper_reach s \<Longrightarrow> cached (locales s) (locale_current s)"
proof (induction rule: helper_reach.induct)
  case (reach_load s env s' n)
  then show ?case
    using refresh_cached [of env "s\<lparr>v_rotation := 0, h_rotation := 0\<rparr>" s' n]
    by (simp add: win_load_input_helper_def)
next
  case (reach_key s env keycode size' s' out)
  then show ?case using win_keycode_to_unicode_cached by blast
qed (simp_all add: helper_start_def win_unload_input_helper_def)

definition no_uaf :: "'a result \<Rightarrow> bool" where
  "no_uaf r \<longleftrightarrow> r \<noteq> Inl UseAfterFree"

lemma no_uaf_simps [simp]:
  "no_uaf (Inr a)"
  "no_uaf (Inl OutOfBounds)"
  "no_uaf (Inl UninitialisedRead)"
  "no_uaf (Inl NullDereference)"
  "no_uaf (Inl DivisionByZero)"
  by (simp_all add: no_uaf_def)

lemma no_uaf_bind: "no_uaf m \<Longrightarrow> (\<And>a. m = Inr a \<Longrightarrow> no_uaf (f a)) \<Longrightarrow> no_uaf (r_bind m f)"
  by (cases m) (auto simp: no_uaf_def)

lemma no_uaf_wch_at [simp]: "no_uaf (wch_at row i)"
  by (simp add: wch_at_def)

lemma no_uaf_match_row [simp]: "no_uaf (match_row caps sh n row rest cv)"
  by (auto simp: match_row_def Let_def split: list.split intro!: no_uaf_bind)

lemma no_uaf_scan_rows [simp]: "no_uaf (scan_rows k caps sh n rows cv)"
  by (induction rows) (auto split: list.split)

lemma no_uaf_scan_tables [simp]: "no_uaf (scan_tables k caps sh n ts cv)"
  by (induction ts arbitrary: cv) (auto intro!: no_uaf_bind split: option.split)

lemma no_uaf_compose [simp]: "no_uaf (compose n ds cv)"
  by (induction ds arbitrary: cv) (auto simp: Let_def split: option.split)

lemma no_uaf_modifiers_down [simp]: "no_uaf (modifiers_down down vks)"
  by (induction vks) (auto intro!: no_uaf_bind)

lemma no_uaf_convert_key [simp]: "no_uaf (convert_key env layout k n dead)"
  by (auto simp: convert_key_def Let_def intro!: no_uaf_bind)

lemma no_uaf_keep_loaded [simp]: "no_uaf (keep_loaded focus prev items hkls current)"
  by (induction focus prev items hkls current rule: keep_loaded.induct) auto

lemma no_uaf_select_locale [simp]: "no_uaf (select_locale env s)"
  by (auto simp: select_locale_def refresh_locale_list_def Let_def intro!: no_uaf_bind split: prod.split)

text \<open>
  C34. However loading, unloading and converting keys are interleaved, and whatever layouts Windows lists,
  a conversion never follows the current layout to a cache entry that was freed.
\<close>

theorem no_freed_locale_used:
  assumes "helper_reach s"
  shows "win_keycode_to_unicode env keycode n s \<noteq> Inl UseAfterFree"
proof -
  have "no_uaf (win_keycode_to_unicode env keycode n s)"
    unfolding win_keycode_to_unicode_def
  proof (rule no_uaf_bind)
    fix t
    assume "select_locale env s = Inr t"
    then have "cached (locales t) (locale_current t)"
      using select_locale_cached helper_reach_cached [OF assms] by blast
    then show "no_uaf (case locale_current t of
        None \<Rightarrow> Inr (t, (None, None), 0)
      | Some k \<Rightarrow> (case find (\<lambda>l. loc_id l = k) (locales t) of
          None \<Rightarrow> Inl UseAfterFree
        | Some l \<Rightarrow> r_bind (convert_key env (loc_layout l) keycode n (deadChar t)) (\<lambda>cv.
            Inr (t\<lparr>deadChar := cv_dead cv\<rparr>, cv_buffer cv, cv_count cv))))"
      by (auto simp: find_None_iff split: option.split intro!: no_uaf_bind)
  qed simp
  then show ?thesis by (simp add: no_uaf_def)
qed

text \<open>
  When the first cached layout is no longer in the list of layouts, the refresh writes through the
  null pointer to the element before it.
\<close>

theorem first_locale_removed_faults:
  assumes "hkl_size env > 0" and "hkl_list env \<noteq> []"
    and "locales s = l # ls" and "loc_id l \<notin> set (hkl_list env)"
  shows "refresh_locale_list env s = Inl NullDereference"
  using assms by (simp add: refresh_locale_list_def)

text \<open>
  A key that leaves a dead key pending and writes no character, the dead key itself, makes the
  composition read the first character of the buffer, which nothing has written.
\<close>

theorem pending_dead_key_reads_unwritten:
  assumes "modifiers_down (ke_down env) (lay_vk_to_bit layout) = Inr ks"
    and "scan_tables keycode (ke_caps env) (0x10 \<in> ks) n (lay_wchar_tables layout)
          \<lparr>cv_mod = (if 0x10 \<in> ks then 1 else 0) + (if 0x11 \<in> ks \<and> 0x12 \<in> ks then 3 else 0),
           cv_dead = dead, cv_buffer = (None, None), cv_count = 0\<rparr> = Inr cv"
    and "cv_dead cv \<noteq> WCH_NONE" and "cv_count cv = 0" and "fst (cv_buffer cv) = None"
    and "lay_dead_keys layout = d # ds" and "dwBoth d \<noteq> 0" and "1 \<le> n"
  shows "convert_key env layout keycode n dead = Inl UninitialisedRead"
  using assms by (simp add: convert_key_def Let_def)

text \<open>A run: the layout 1033 is loaded and a key converted, then only the layout 1031 is left.\<close>

definition loaded_helper :: win_helper where
  "loaded_helper = helper_start\<lparr>locales := [\<lparr>loc_id = 1033, loc_layout = plain_layout\<rparr>],
     locale_current := Some 1033, libraries := 1\<rparr>"

lemma load_helper: "win_load_input_helper (layout_env.truncate (plain_env d)) helper_start = Inr (loaded_helper, 1)"
  by (simp add: win_load_input_helper_def refresh_locale_list_def plain_env_def helper_start_def loaded_helper_def
      layout_env.truncate_def)

theorem no_freed_locale_used_witness:
  "win_keycode_to_unicode (plain_env (\<lambda>_. False)) 0x41 4 loaded_helper \<noteq> Inl UseAfterFree"
  by (rule no_freed_locale_used, rule reach_load [OF reach_start load_helper])

theorem first_locale_removed_faults_witness:
  "refresh_locale_list \<lparr>hkl_size = 1, hkl_list = [1031], hkl_focus = 1031, hkl_load = (\<lambda>_. Some plain_layout)\<rparr>
     loaded_helper = Inl NullDereference"
  by (rule first_locale_removed_faults [where l = "\<lparr>loc_id = 1033, loc_layout = plain_layout\<rparr>" and ls = "[]"])
    (simp_all add: loaded_helper_def)

theorem pending_dead_key_reads_unwritten_witness:
  "convert_key (plain_env (\<lambda>_. False)) plain_layout 0xDD 4 WCH_NONE = Inl UninitialisedRead"
  by (rule pending_dead_key_reads_unwritten [where ks = "{}"
        and cv = "\<lparr>cv_mod = 0, cv_dead = 0xB4, cv_buffer = (None, None), cv_count = 0\<rparr>"
        and d = "\<lparr>dwBoth = 0x00B40061, wchComposed = 0xE1\<rparr>"])
    (simp_all add: plain_layout_def plain_env_def c_div_def match_row_def wch_at_def)

end
