(* ===== verification/Windows_Post_Event.thy ===== *)
theory Windows_Post_Event
  imports Windows_Helper_Properties Windows_Input_Hook
begin

text \<open>
  \<^verbatim>\<open>src/windows/post_event.c\<close>: an event becomes an \<^verbatim>\<open>INPUT\<close> structure for \<^verbatim>\<open>SendInput\<close>. The function
  writes to the event it is given, so the event after the call is part of the result.
\<close>

section \<open>Inputs\<close>

datatype input =
    KeyboardInput uint16_t DWORD
  | MouseInput DWORD DWORD DWORD DWORD

text \<open>
  Answers: the screen size, whether each of the two allocations succeeds, and the two bytes of
  a wheel event where the ordinate of a mouse event is read (the wheel type and a padding byte).
\<close>

record win_post_env =
  wp_screen_width :: c_int
  wp_screen_height :: c_int
  wp_calloc :: bool
  wp_calloc_moved :: bool
  wp_overlap :: int16_t

abbreviation (input) KEYEVENTF_EXTENDEDKEY :: DWORD where "KEYEVENTF_EXTENDEDKEY \<equiv> 0x0001"
abbreviation (input) KEYEVENTF_KEYUP :: DWORD where "KEYEVENTF_KEYUP \<equiv> 0x0002"
abbreviation (input) KEYEVENTF_KEYDOWN :: DWORD where "KEYEVENTF_KEYDOWN \<equiv> 0x0000"
abbreviation (input) MAX_WINDOWS_COORD_VALUE :: int where "MAX_WINDOWS_COORD_VALUE \<equiv> 65536"

definition extend_key_table :: "uint16_t list" where
  "extend_key_table = [VK_UP, VK_DOWN, VK_LEFT, VK_RIGHT, VK_HOME, VK_END, VK_PRIOR, VK_NEXT, VK_INSERT, VK_DELETE]"

definition convert_to_relative_position :: "int \<Rightarrow> int \<Rightarrow> int result" where
  "convert_to_relative_position coordinate screen_size =
     (let offset = (if coordinate > 0 then 1 else -1) in
      if screen_size = 0 then Inl DivisionByZero
      else Inr (c_div (coordinate * MAX_WINDOWS_COORD_VALUE) screen_size + offset))"

section \<open>Keys\<close>

text \<open>The loop goes on while the entry is the key, so it only looks at a prefix of the table.\<close>

definition map_keyboard_event :: "uiohook_event \<Rightarrow> (input option \<times> c_int) result" where
  "map_keyboard_event event =
     (if ev_type event \<noteq> EVENT_KEY_PRESSED \<and> ev_type event \<noteq> EVENT_KEY_RELEASED then Inr (None, UIOHOOK_FAILURE)
      else
        let flags = (if ev_type event = EVENT_KEY_PRESSED then KEYEVENTF_KEYDOWN else KEYEVENTF_KEYUP) in
        case ev_data event of
          Keyboard k \<Rightarrow>
            r_bind (win_scancode_to_keycode (kb_keycode k)) (\<lambda>vk.
            let wVk = ucast vk in
            if wVk = 0x0000 then Inr (None, UIOHOOK_FAILURE)
            else
              let flags = (if ev_mask event AND MASK_SHIFT \<noteq> 0
                           then fold (\<lambda>_ f. f OR KEYEVENTF_EXTENDEDKEY) (takeWhile (\<lambda>e. wVk = e) extend_key_table) flags
                           else flags)
              in Inr (Some (KeyboardInput wVk flags), UIOHOOK_SUCCESS))
        | _ \<Rightarrow> Inl UninitialisedRead)"

section \<open>Mouse\<close>

text \<open>The coordinates are read through the mouse member of the union, also for a wheel event.\<close>

definition mouse_position :: "win_post_env \<Rightarrow> uiohook_event \<Rightarrow> (int16_t \<times> int16_t) result" where
  "mouse_position env event =
     (case ev_data event of
        Mouse m \<Rightarrow> Inr (ms_x m, ms_y m)
      | Wheel w \<Rightarrow> Inr (wh_y w, wp_overlap env)
      | Keyboard k \<Rightarrow> Inl UninitialisedRead)"

definition relative_position :: "win_post_env \<Rightarrow> uiohook_event \<Rightarrow> (DWORD \<times> DWORD) result" where
  "relative_position env event =
     (let screen_width = ucast (wp_screen_width env) :: uint16_t;
          screen_height = ucast (wp_screen_height env) :: uint16_t in
      r_bind (mouse_position env event) (\<lambda>(x, y).
      r_bind (convert_to_relative_position (sint x) (uint screen_width)) (\<lambda>dx.
      r_bind (convert_to_relative_position (sint y) (uint screen_height)) (\<lambda>dy.
      Inr (word_of_int dx, word_of_int dy)))))"

text \<open>The flags and the data of a button: \<open>None\<close> when no button is given.\<close>

definition button_flags :: "bool \<Rightarrow> uint16_t \<Rightarrow> (DWORD \<times> DWORD) option" where
  "button_flags down button =
     (if button = MOUSE_NOBUTTON then None
      else if button = MOUSE_BUTTON1 then Some (if down then 0x0002 else 0x0004, 0)
      else if button = MOUSE_BUTTON2 then Some (if down then 0x0008 else 0x0010, 0)
      else if button = MOUSE_BUTTON3 then Some (if down then 0x0020 else 0x0040, 0)
      else Some (if down then 0x0080 else 0x0100,
                 if button = MOUSE_BUTTON4 then 1 else if button = MOUSE_BUTTON5 then 2
                 else ucast button - 3))"

text \<open>
  Moving the pointer is posting the event as a moved event: absolute coordinates (0x8000) and a
  move (0x0001).
\<close>

definition post_moved :: "win_post_env \<Rightarrow> bool \<Rightarrow> uiohook_event \<Rightarrow> input list result" where
  "post_moved env calloc_ok event =
     (if calloc_ok then
        r_bind (relative_position env event) (\<lambda>(dx, dy). Inr [MouseInput dx dy 0 (0x8000 OR 0x0001)])
      else Inr [])"

definition wheel_data :: "uiohook_event \<Rightarrow> DWORD result" where
  "wheel_data event =
     (case ev_data event of
        Wheel w \<Rightarrow> Inr (word_of_int (uint (wh_amount w) * sint (wh_rotation w) * WHEEL_DELTA))
      | _ \<Rightarrow> Inl UninitialisedRead)"

text \<open>
  The result: the inputs already sent, the input to send if the mapping succeeded, and the
  event as the function leaves it.
\<close>

definition map_mouse_event ::
  "win_post_env \<Rightarrow> uiohook_event \<Rightarrow> (input list \<times> input option \<times> uiohook_event) result" where
  "map_mouse_event env event =
     r_bind (relative_position env event) (\<lambda>(dx, dy).
     if ev_type event = EVENT_MOUSE_PRESSED \<or> ev_type event = EVENT_MOUSE_RELEASED then
       case ev_data event of
         Mouse m \<Rightarrow>
           (case button_flags (ev_type event = EVENT_MOUSE_PRESSED) (ms_button m) of
              None \<Rightarrow> Inr ([], None, event)
            | Some (flags, data) \<Rightarrow>
                r_bind (post_moved env (wp_calloc_moved env) (event\<lparr>ev_type := EVENT_MOUSE_MOVED\<rparr>)) (\<lambda>sent.
                Inr (sent, Some (MouseInput dx dy data flags), event\<lparr>ev_type := EVENT_MOUSE_PRESSED\<rparr>)))
       | _ \<Rightarrow> Inl UninitialisedRead
     else if ev_type event = EVENT_MOUSE_WHEEL then
       r_bind (wheel_data event) (\<lambda>data. Inr ([], Some (MouseInput dx dy data 0x0800), event))
     else if ev_type event = EVENT_MOUSE_DRAGGED \<or> ev_type event = EVENT_MOUSE_MOVED then
       Inr ([], Some (MouseInput dx dy 0 (0x8000 OR 0x0001)), event)
     else Inr ([], None, event))"

section \<open>Posting\<close>

definition win_hook_post_event ::
  "win_post_env \<Rightarrow> uiohook_event \<Rightarrow> (input list \<times> uiohook_event) result" where
  "win_hook_post_event env event =
     (if \<not> wp_calloc env then Inr ([], event)
      else if ev_type event = EVENT_KEY_PRESSED \<or> ev_type event = EVENT_KEY_RELEASED then
        r_bind (map_keyboard_event event) (\<lambda>(inp, status).
        Inr (case inp of None \<Rightarrow> [] | Some i \<Rightarrow> [i], event))
      else if ev_type event \<in> {EVENT_MOUSE_PRESSED, EVENT_MOUSE_RELEASED, EVENT_MOUSE_WHEEL, EVENT_MOUSE_MOVED, EVENT_MOUSE_DRAGGED} then
        r_bind (map_mouse_event env event) (\<lambda>(sent, inp, event).
        Inr (sent @ (case inp of None \<Rightarrow> [] | Some i \<Rightarrow> [i]), event))
      else Inr ([], event))"

section \<open>Properties\<close>

text \<open>
  Windows takes the coordinate \<open>r\<close> of 65536 to the pixel \<open>r * w div 65536\<close> of a screen of width
  \<open>w\<close>. The coordinate computed for a pixel of the screen is taken to that very pixel, with one
  exception: the first column is taken to -1, outside of the screen.
\<close>

theorem posted_position_exact:
  assumes "0 \<le> c" and "c < w" and "w < 65536"
  shows "\<exists>r. convert_to_relative_position c w = Inr r \<and> r * w div 65536 = (if c = 0 then - 1 else c)"
proof (cases "c = 0")
  case True
  have "- w div 65536 = - 1" using assms by (intro int_div_pos_eq [where r = "65536 - w"]) auto
  with True assms show ?thesis by (simp add: convert_to_relative_position_def c_div_def)
next
  case False
  let ?q = "c * 65536 div w"
  have q: "convert_to_relative_position c w = Inr (?q + 1)"
    using False assms by (simp add: convert_to_relative_position_def c_div_def sgn_mult)
  have "?q * w \<le> c * 65536"
    using div_mult_mod_eq [of "c * 65536" w] pos_mod_sign [of w "c * 65536"] assms by linarith
  moreover have "c * 65536 < (?q + 1) * w"
  proof -
    have "c * 65536 mod w < w" using assms by simp
    then show ?thesis using div_mult_mod_eq [of "c * 65536" w] unfolding distrib_right by linarith
  qed
  ultimately have "(?q + 1) * w div 65536 = c"
    using assms by (intro int_div_pos_eq [where r = "(?q + 1) * w - 65536 * c"]) (auto simp: algebra_simps)
  with False show ?thesis unfolding q by auto
qed

theorem posted_position_exact_witness:
  "\<exists>r. convert_to_relative_position 1919 1920 = Inr r \<and> r * 1920 div 65536 = 1919"
  using posted_position_exact [of 1919 1920] by simp

lemma extended_prefix: "takeWhile (\<lambda>e. wVk = e) extend_key_table = (if wVk = VK_UP then [VK_UP] else [])"
  by (simp add: extend_key_table_def)

text \<open>
  Posting a key event with a code that the hook reports sends one input, for the very key that
  was reported, up or down as the event says, and leaves the event as it was. Of the extended keys
  only the cursor-up key is marked as extended, and that only under Shift.
\<close>

theorem win_post_reported_key:
  assumes "win_keycode_to_scancode vk flags \<noteq> VC_UNDEFINED"
    and "vk \<notin> {1, 2, 4, 5, 6, 0x10, 0x11, 0x12, 0xE2, 0xFE}"
    and "\<not> (vk = ucast VK_RETURN \<and> flags AND 1 \<noteq> 0)"
    and "ev_data event = Keyboard k" and "kb_keycode k = win_keycode_to_scancode vk flags"
    and "ev_type event \<in> {EVENT_KEY_PRESSED, EVENT_KEY_RELEASED}" and "wp_calloc env"
    and "ucast vk \<noteq> (0 :: uint16_t)"
  shows "win_hook_post_event env event = Inr ([KeyboardInput (ucast vk)
    ((if ev_type event = EVENT_KEY_PRESSED then 0 else 2) OR
     (if ev_mask event AND MASK_SHIFT \<noteq> 0 \<and> ucast vk = VK_UP then 1 else 0))], event)"
  using win_keycode_back [OF assms(1-3)] assms(4-8)
  by (auto simp: win_hook_post_event_def map_keyboard_event_def extended_prefix Let_def)

theorem win_post_reported_key_witness:
  "win_hook_post_event \<lparr>wp_screen_width = 1920, wp_screen_height = 1080, wp_calloc = True, wp_calloc_moved = True, wp_overlap = 0\<rparr>
     \<lparr>ev_type = EVENT_KEY_RELEASED, ev_time = 0, ev_mask = MASK_SHIFT_L, ev_reserved = 0,
      ev_data = Keyboard \<lparr>kb_keycode = 0xEE50, kb_rawcode = 0, kb_keychar = 0\<rparr>\<rparr> =
   Inr ([KeyboardInput VK_DOWN 2],
     \<lparr>ev_type = EVENT_KEY_RELEASED, ev_time = 0, ev_mask = MASK_SHIFT_L, ev_reserved = 0,
      ev_data = Keyboard \<lparr>kb_keycode = 0xEE50, kb_rawcode = 0, kb_keychar = 0\<rparr>\<rparr>)"
proof -
  have "win_keycode_to_scancode 0x28 1 = 0xEE50" by code_simp
  then show ?thesis
    using win_post_reported_key [of "0x28" 1 "\<lparr>ev_type = EVENT_KEY_RELEASED, ev_time = 0, ev_mask = MASK_SHIFT_L,
        ev_reserved = 0, ev_data = Keyboard \<lparr>kb_keycode = 0xEE50, kb_rawcode = 0, kb_keychar = 0\<rparr>\<rparr>"
        "\<lparr>kb_keycode = 0xEE50, kb_rawcode = 0, kb_keychar = 0\<rparr>"
        "\<lparr>wp_screen_width = 1920, wp_screen_height = 1080, wp_calloc = True, wp_calloc_moved = True, wp_overlap = 0\<rparr>"]
    by simp
qed

text \<open>
  Posting a button event sends two inputs, both at the position of the event: the pointer is
  moved there, then the button goes up or down. Afterwards the caller's event says pressed, also
  when it was a release.
\<close>

theorem win_post_button:
  assumes "ev_type event \<in> {EVENT_MOUSE_PRESSED, EVENT_MOUSE_RELEASED}" and "ev_data event = Mouse m"
    and "button_flags (ev_type event = EVENT_MOUSE_PRESSED) (ms_button m) = Some (flags, data)"
    and "relative_position env event = Inr (dx, dy)" and "wp_calloc env" and "wp_calloc_moved env"
  shows "win_hook_post_event env event =
    Inr ([MouseInput dx dy 0 0x8001, MouseInput dx dy data flags], event\<lparr>ev_type := EVENT_MOUSE_PRESSED\<rparr>)"
proof -
  have "relative_position env (event\<lparr>ev_type := EVENT_MOUSE_MOVED\<rparr>) = Inr (dx, dy)"
    using assms(4) by (simp add: relative_position_def mouse_position_def)
  with assms show ?thesis
    by (auto simp: win_hook_post_event_def map_mouse_event_def post_moved_def)
qed

theorem win_post_button_witness:
  "ev_type (snd (projr (win_hook_post_event
     \<lparr>wp_screen_width = 1920, wp_screen_height = 1080, wp_calloc = True, wp_calloc_moved = True, wp_overlap = 0\<rparr>
     \<lparr>ev_type = EVENT_MOUSE_RELEASED, ev_time = 0, ev_mask = 0, ev_reserved = 0,
      ev_data = Mouse \<lparr>ms_button = MOUSE_BUTTON1, ms_clicks = 1, ms_x = 960, ms_y = 540\<rparr>\<rparr>))) = EVENT_MOUSE_PRESSED"
proof -
  let ?env = "\<lparr>wp_screen_width = 1920, wp_screen_height = 1080, wp_calloc = True, wp_calloc_moved = True, wp_overlap = 0\<rparr>"
  let ?event = "\<lparr>ev_type = EVENT_MOUSE_RELEASED, ev_time = 0, ev_mask = 0, ev_reserved = 0,
      ev_data = Mouse \<lparr>ms_button = MOUSE_BUTTON1, ms_clicks = 1, ms_x = 960, ms_y = 540\<rparr>\<rparr>"
  have "relative_position ?env ?event = Inr (32769, 32769)" by code_simp
  from win_post_button [OF _ _ _ this] show ?thesis by (simp add: button_flags_def)
qed

end
