(* ===== verification/Windows_System_Properties.thy ===== *)
theory Windows_System_Properties
  imports Windows_Input_Hook
begin

text \<open>
  \<^verbatim>\<open>src/windows/system_properties.c\<close>: the monitors, the keyboard and pointer settings, and the
  entry point of the library. A \<^verbatim>\<open>long\<close> has 32 bits.
\<close>

section \<open>Monitors\<close>

record rect =
  r_left :: c_int
  r_top :: c_int
  r_right :: c_int
  r_bottom :: c_int

text \<open>
  The structure the callback fills: the count, an 8-bit number, and the array (\<open>None\<close> for null).
  \<open>alloc\<close> is whether the allocation of a call succeeds; its result is not tested.
\<close>

record screen_info =
  si_count :: uint8_t
  si_data :: "screen_data option list option"

definition monitor_enum_proc :: "bool \<times> rect \<Rightarrow> screen_info \<Rightarrow> screen_info result" where
  "monitor_enum_proc m screens =
     (let (alloc, monitor) = m;
          width = r_right monitor - r_left monitor; height = r_bottom monitor - r_top monitor in
      if sint width > 0 \<and> sint height > 0 then
        let current_screen = unat (si_count screens); count = si_count screens + 1;
            screen = \<lparr>scr_number = count, scr_x = ucast (r_left monitor), scr_y = ucast (r_top monitor),
                      scr_width = ucast width, scr_height = ucast height\<rparr>;
            data = (case si_data screens of
                      None \<Rightarrow> [None]
                    | Some old \<Rightarrow> take (unat count) old @ replicate (unat count - length old) None)
        in if \<not> alloc then Inl NullDereference
           else if current_screen < length data
           then Inr \<lparr>si_count = count, si_data = Some (data[current_screen := Some screen])\<rparr>
           else Inl OutOfBounds
      else Inr screens)"

primrec enum_monitors :: "(bool \<times> rect) list \<Rightarrow> screen_info \<Rightarrow> screen_info result" where
  "enum_monitors [] screens = Inr screens"
| "enum_monitors (m # ms) screens = r_bind (monitor_enum_proc m screens) (enum_monitors ms)"

record win_screen_env =
  ws_monitors :: "(bool \<times> rect) list"
  ws_status :: bool
  ws_metrics :: "c_int \<times> c_int"
  ws_malloc :: bool

definition win_hook_create_screen_info ::
  "win_screen_env \<Rightarrow> (uint8_t \<times> screen_data option list option) result" where
  "win_hook_create_screen_info env =
     r_bind (enum_monitors (ws_monitors env) \<lparr>si_count = 0, si_data = None\<rparr>) (\<lambda>screens.
     if \<not> ws_status env \<or> si_count screens = 0 then
       let (width, height) = ws_metrics env in
       if sint width > 0 \<and> sint height > 0 then
         if ws_malloc env
         then Inr (1, Some [Some \<lparr>scr_number = 1, scr_x = 0, scr_y = 0, scr_width = ucast width, scr_height = ucast height\<rparr>])
         else Inr (0, None)
       else Inr (0, si_data screens)
     else Inr (si_count screens, si_data screens))"

section \<open>Settings\<close>

text \<open>Each query is answered or fails; a failed one gives -1.\<close>

definition win_setting :: "c_int option \<Rightarrow> c_int" where
  "win_setting answer = (case answer of Some v \<Rightarrow> v | None \<Rightarrow> -1)"

definition win_hook_get_auto_repeat_rate :: "c_int option \<Rightarrow> c_int" where
  "win_hook_get_auto_repeat_rate rate = win_setting rate"

definition win_hook_get_auto_repeat_delay :: "c_int option \<Rightarrow> c_int" where
  "win_hook_get_auto_repeat_delay delay = win_setting delay"

definition win_hook_get_pointer_acceleration_multiplier :: "(c_int \<times> c_int \<times> c_int) option \<Rightarrow> c_int" where
  "win_hook_get_pointer_acceleration_multiplier mouse = win_setting (map_option (\<lambda>(m0, m1, m2). m2) mouse)"

definition win_hook_get_pointer_acceleration_threshold :: "(c_int \<times> c_int \<times> c_int) option \<Rightarrow> c_int" where
  "win_hook_get_pointer_acceleration_threshold mouse =
     win_setting (map_option (\<lambda>(m0, m1, m2). word_of_int (c_div (sint (m0 + m1)) 2)) mouse)"

definition win_hook_get_pointer_sensitivity :: "c_int option \<Rightarrow> c_int" where
  "win_hook_get_pointer_sensitivity sensitivity = win_setting sensitivity"

definition win_hook_get_multi_click_time :: "DWORD \<Rightarrow> c_int" where
  "win_hook_get_multi_click_time clicktime = clicktime"

section \<open>The library entry point\<close>

datatype dll_reason = DLL_PROCESS_ATTACH | DLL_PROCESS_DETACH | DLL_THREAD_ATTACH | DLL_THREAD_DETACH

definition DllMain :: "bool \<Rightarrow> dll_reason \<Rightarrow> win_hook \<Rightarrow> win_hook" where
  "DllMain hInstDLL fdwReason s =
     (case fdwReason of
        DLL_PROCESS_ATTACH \<Rightarrow> s\<lparr>hInst := hInstDLL\<rparr>
      | DLL_PROCESS_DETACH \<Rightarrow> unregister_running_hooks s
      | DLL_THREAD_ATTACH \<Rightarrow> s
      | DLL_THREAD_DETACH \<Rightarrow> s)"

section \<open>Properties\<close>

definition usable :: "rect \<Rightarrow> bool" where
  "usable m \<longleftrightarrow> sint (r_right m - r_left m) > 0 \<and> sint (r_bottom m - r_top m) > 0"

definition screen_of :: "nat \<Rightarrow> rect \<Rightarrow> screen_data" where
  "screen_of i m = \<lparr>scr_number = of_nat (Suc i), scr_x = ucast (r_left m), scr_y = ucast (r_top m),
     scr_width = ucast (r_right m - r_left m), scr_height = ucast (r_bottom m - r_top m)\<rparr>"

text \<open>The structure after the monitors \<open>rs\<close> were seen: one element each, in order, numbered from 1.\<close>

definition listed :: "rect list \<Rightarrow> screen_info" where
  "listed rs = \<lparr>si_count = of_nat (length rs),
     si_data = (if rs = [] then None else Some (map Some (map2 screen_of [0..<length rs] rs)))\<rparr>"

lemma unat_count: "n < 256 \<Longrightarrow> unat (of_nat n :: uint8_t) = n"
  by (simp add: unat_of_nat take_bit_eq_mod)

lemma monitor_enum_listed:
  assumes "length rs < 255"
  shows "monitor_enum_proc (True, m) (listed rs) = Inr (listed (rs @ (if usable m then [m] else [])))"
proof (cases "usable m")
  case True
  have count: "unat (of_nat (length rs) :: uint8_t) = length rs"
    "unat (1 + of_nat (length rs) :: uint8_t) = Suc (length rs)"
    using assms unat_count [of "length rs"] unat_count [of "Suc (length rs)"] by (simp_all add: add.commute)
  show ?thesis
    using True by (cases "rs = []")
      (simp_all add: monitor_enum_proc_def listed_def usable_def screen_of_def count Let_def
        zip_append1 list_update_append add.commute)
qed (auto simp: monitor_enum_proc_def usable_def Let_def)

lemma enum_monitors_listed:
  assumes "length (rs @ filter usable ms) < 256"
  shows "enum_monitors (map (Pair True) ms) (listed rs) = Inr (listed (rs @ filter usable ms))"
  using assms
proof (induction ms arbitrary: rs)
  case (Cons m ms)
  show ?case
  proof (cases "usable m")
    case True
    with Cons.prems have "length rs < 255" by simp
    with True Cons.IH [of "rs @ [m]"] Cons.prems show ?thesis by (simp add: monitor_enum_listed)
  next
    case False
    then have "monitor_enum_proc (True, m) (listed rs) = Inr (listed rs)"
      by (auto simp: monitor_enum_proc_def usable_def Let_def)
    with False Cons show ?thesis by simp
  qed
qed simp

text \<open>
  With fewer than 256 monitors of a positive size, and memory for them, the screens are exactly
  those monitors, in the order Windows lists them and numbered from 1, and the count is their number;
  without any, the primary screen is the only one.
\<close>

theorem win_screens_listed:
  assumes "ws_monitors env = map (Pair True) ms" and "length (filter usable ms) < 256" and "ws_status env"
    and "ws_metrics env = (width, height)" and "0 < sint width" and "0 < sint height" and "ws_malloc env"
  shows "win_hook_create_screen_info env =
    Inr (if filter usable ms = []
         then (1, Some [Some \<lparr>scr_number = 1, scr_x = 0, scr_y = 0, scr_width = ucast width, scr_height = ucast height\<rparr>])
         else (of_nat (length (filter usable ms)),
               Some (map Some (map2 screen_of [0..<length (filter usable ms)] (filter usable ms)))))"
proof -
  have run: "enum_monitors (ws_monitors env) \<lparr>si_count = 0, si_data = None\<rparr> = Inr (listed (filter usable ms))"
    using enum_monitors_listed [of "[]" ms] assms(2) by (simp add: assms(1) listed_def)
  have "unat (of_nat (length (filter usable ms)) :: uint8_t) = length (filter usable ms)"
    using assms(2) by (simp add: unat_count)
  then have "of_nat (length (filter usable ms)) = (0 :: uint8_t) \<longleftrightarrow> filter usable ms = []"
    using unat_eq_0 [of "of_nat (length (filter usable ms)) :: uint8_t"] by (simp only: length_0_conv)
  with assms(3-7) show ?thesis
    unfolding win_hook_create_screen_info_def run by (simp add: listed_def)
qed

theorem win_screens_listed_witness:
  "\<exists>screens. win_hook_create_screen_info
     \<lparr>ws_monitors = [(True, \<lparr>r_left = 0, r_top = 0, r_right = 1920, r_bottom = 1080\<rparr>),
        (True, \<lparr>r_left = 0, r_top = 0, r_right = 0, r_bottom = 0\<rparr>),
        (True, \<lparr>r_left = - 1280, r_top = 0, r_right = 0, r_bottom = 1024\<rparr>)],
      ws_status = True, ws_metrics = (1920, 1080), ws_malloc = True\<rparr> = Inr (2, Some screens) \<and> length screens = 2"
  using win_screens_listed [of _ "[\<lparr>r_left = 0, r_top = 0, r_right = 1920, r_bottom = 1080\<rparr>,
        \<lparr>r_left = 0, r_top = 0, r_right = 0, r_bottom = 0\<rparr>, \<lparr>r_left = - 1280, r_top = 0, r_right = 0, r_bottom = 1024\<rparr>]"
      1920 1080]
  by (simp add: usable_def)

end
