(* ===== verification/Darwin_Keycode_Table.thy ===== *)
theory Darwin_Keycode_Table
  imports Uiohook_Events
begin

text \<open>
  The key table of \<^verbatim>\<open>src/darwin/input_helper.c\<close>, each row a pair: the virtual key code of the
  Darwin key code that is the row's index, and the Darwin key code for the scan code that is the
  row's index; in two halves, as \<^verbatim>\<open>scancode_to_keycode\<close> reads it. The names of the Darwin key codes
  stand for the constants of the Carbon header \<^verbatim>\<open>Events.h\<close> and, for the last ones, of
  \<^verbatim>\<open>src/darwin/input_helper.h\<close>.
\<close>

section \<open>Darwin key codes\<close>

abbreviation (input) kVK_ANSI_A :: uint16_t where "kVK_ANSI_A \<equiv> 0x00"
abbreviation (input) kVK_ANSI_S :: uint16_t where "kVK_ANSI_S \<equiv> 0x01"
abbreviation (input) kVK_ANSI_D :: uint16_t where "kVK_ANSI_D \<equiv> 0x02"
abbreviation (input) kVK_ANSI_F :: uint16_t where "kVK_ANSI_F \<equiv> 0x03"
abbreviation (input) kVK_ANSI_H :: uint16_t where "kVK_ANSI_H \<equiv> 0x04"
abbreviation (input) kVK_ANSI_G :: uint16_t where "kVK_ANSI_G \<equiv> 0x05"
abbreviation (input) kVK_ANSI_Z :: uint16_t where "kVK_ANSI_Z \<equiv> 0x06"
abbreviation (input) kVK_ANSI_X :: uint16_t where "kVK_ANSI_X \<equiv> 0x07"
abbreviation (input) kVK_ANSI_C :: uint16_t where "kVK_ANSI_C \<equiv> 0x08"
abbreviation (input) kVK_ANSI_V :: uint16_t where "kVK_ANSI_V \<equiv> 0x09"
abbreviation (input) kVK_ANSI_B :: uint16_t where "kVK_ANSI_B \<equiv> 0x0B"
abbreviation (input) kVK_ANSI_Q :: uint16_t where "kVK_ANSI_Q \<equiv> 0x0C"
abbreviation (input) kVK_ANSI_W :: uint16_t where "kVK_ANSI_W \<equiv> 0x0D"
abbreviation (input) kVK_ANSI_E :: uint16_t where "kVK_ANSI_E \<equiv> 0x0E"
abbreviation (input) kVK_ANSI_R :: uint16_t where "kVK_ANSI_R \<equiv> 0x0F"
abbreviation (input) kVK_ANSI_Y :: uint16_t where "kVK_ANSI_Y \<equiv> 0x10"
abbreviation (input) kVK_ANSI_T :: uint16_t where "kVK_ANSI_T \<equiv> 0x11"
abbreviation (input) kVK_ANSI_1 :: uint16_t where "kVK_ANSI_1 \<equiv> 0x12"
abbreviation (input) kVK_ANSI_2 :: uint16_t where "kVK_ANSI_2 \<equiv> 0x13"
abbreviation (input) kVK_ANSI_3 :: uint16_t where "kVK_ANSI_3 \<equiv> 0x14"
abbreviation (input) kVK_ANSI_4 :: uint16_t where "kVK_ANSI_4 \<equiv> 0x15"
abbreviation (input) kVK_ANSI_6 :: uint16_t where "kVK_ANSI_6 \<equiv> 0x16"
abbreviation (input) kVK_ANSI_5 :: uint16_t where "kVK_ANSI_5 \<equiv> 0x17"
abbreviation (input) kVK_ANSI_Equal :: uint16_t where "kVK_ANSI_Equal \<equiv> 0x18"
abbreviation (input) kVK_ANSI_9 :: uint16_t where "kVK_ANSI_9 \<equiv> 0x19"
abbreviation (input) kVK_ANSI_7 :: uint16_t where "kVK_ANSI_7 \<equiv> 0x1A"
abbreviation (input) kVK_ANSI_Minus :: uint16_t where "kVK_ANSI_Minus \<equiv> 0x1B"
abbreviation (input) kVK_ANSI_8 :: uint16_t where "kVK_ANSI_8 \<equiv> 0x1C"
abbreviation (input) kVK_ANSI_0 :: uint16_t where "kVK_ANSI_0 \<equiv> 0x1D"
abbreviation (input) kVK_ANSI_RightBracket :: uint16_t where "kVK_ANSI_RightBracket \<equiv> 0x1E"
abbreviation (input) kVK_ANSI_O :: uint16_t where "kVK_ANSI_O \<equiv> 0x1F"
abbreviation (input) kVK_ANSI_U :: uint16_t where "kVK_ANSI_U \<equiv> 0x20"
abbreviation (input) kVK_ANSI_LeftBracket :: uint16_t where "kVK_ANSI_LeftBracket \<equiv> 0x21"
abbreviation (input) kVK_ANSI_I :: uint16_t where "kVK_ANSI_I \<equiv> 0x22"
abbreviation (input) kVK_ANSI_P :: uint16_t where "kVK_ANSI_P \<equiv> 0x23"
abbreviation (input) kVK_Return :: uint16_t where "kVK_Return \<equiv> 0x24"
abbreviation (input) kVK_ANSI_L :: uint16_t where "kVK_ANSI_L \<equiv> 0x25"
abbreviation (input) kVK_ANSI_J :: uint16_t where "kVK_ANSI_J \<equiv> 0x26"
abbreviation (input) kVK_ANSI_Quote :: uint16_t where "kVK_ANSI_Quote \<equiv> 0x27"
abbreviation (input) kVK_ANSI_K :: uint16_t where "kVK_ANSI_K \<equiv> 0x28"
abbreviation (input) kVK_ANSI_Semicolon :: uint16_t where "kVK_ANSI_Semicolon \<equiv> 0x29"
abbreviation (input) kVK_ANSI_Backslash :: uint16_t where "kVK_ANSI_Backslash \<equiv> 0x2A"
abbreviation (input) kVK_ANSI_Comma :: uint16_t where "kVK_ANSI_Comma \<equiv> 0x2B"
abbreviation (input) kVK_ANSI_Slash :: uint16_t where "kVK_ANSI_Slash \<equiv> 0x2C"
abbreviation (input) kVK_ANSI_N :: uint16_t where "kVK_ANSI_N \<equiv> 0x2D"
abbreviation (input) kVK_ANSI_M :: uint16_t where "kVK_ANSI_M \<equiv> 0x2E"
abbreviation (input) kVK_ANSI_Period :: uint16_t where "kVK_ANSI_Period \<equiv> 0x2F"
abbreviation (input) kVK_Tab :: uint16_t where "kVK_Tab \<equiv> 0x30"
abbreviation (input) kVK_Space :: uint16_t where "kVK_Space \<equiv> 0x31"
abbreviation (input) kVK_ANSI_Grave :: uint16_t where "kVK_ANSI_Grave \<equiv> 0x32"
abbreviation (input) kVK_Delete :: uint16_t where "kVK_Delete \<equiv> 0x33"
abbreviation (input) kVK_Escape :: uint16_t where "kVK_Escape \<equiv> 0x35"
abbreviation (input) kVK_RightCommand :: uint16_t where "kVK_RightCommand \<equiv> 0x36"
abbreviation (input) kVK_Command :: uint16_t where "kVK_Command \<equiv> 0x37"
abbreviation (input) kVK_Shift :: uint16_t where "kVK_Shift \<equiv> 0x38"
abbreviation (input) kVK_CapsLock :: uint16_t where "kVK_CapsLock \<equiv> 0x39"
abbreviation (input) kVK_Option :: uint16_t where "kVK_Option \<equiv> 0x3A"
abbreviation (input) kVK_Control :: uint16_t where "kVK_Control \<equiv> 0x3B"
abbreviation (input) kVK_RightShift :: uint16_t where "kVK_RightShift \<equiv> 0x3C"
abbreviation (input) kVK_RightOption :: uint16_t where "kVK_RightOption \<equiv> 0x3D"
abbreviation (input) kVK_RightControl :: uint16_t where "kVK_RightControl \<equiv> 0x3E"
abbreviation (input) kVK_F17 :: uint16_t where "kVK_F17 \<equiv> 0x40"
abbreviation (input) kVK_ANSI_KeypadDecimal :: uint16_t where "kVK_ANSI_KeypadDecimal \<equiv> 0x41"
abbreviation (input) kVK_ANSI_KeypadMultiply :: uint16_t where "kVK_ANSI_KeypadMultiply \<equiv> 0x43"
abbreviation (input) kVK_ANSI_KeypadPlus :: uint16_t where "kVK_ANSI_KeypadPlus \<equiv> 0x45"
abbreviation (input) kVK_ANSI_KeypadClear :: uint16_t where "kVK_ANSI_KeypadClear \<equiv> 0x47"
abbreviation (input) kVK_VolumeUp :: uint16_t where "kVK_VolumeUp \<equiv> 0x48"
abbreviation (input) kVK_VolumeDown :: uint16_t where "kVK_VolumeDown \<equiv> 0x49"
abbreviation (input) kVK_Mute :: uint16_t where "kVK_Mute \<equiv> 0x4A"
abbreviation (input) kVK_ANSI_KeypadDivide :: uint16_t where "kVK_ANSI_KeypadDivide \<equiv> 0x4B"
abbreviation (input) kVK_ANSI_KeypadEnter :: uint16_t where "kVK_ANSI_KeypadEnter \<equiv> 0x4C"
abbreviation (input) kVK_ANSI_KeypadMinus :: uint16_t where "kVK_ANSI_KeypadMinus \<equiv> 0x4E"
abbreviation (input) kVK_F18 :: uint16_t where "kVK_F18 \<equiv> 0x4F"
abbreviation (input) kVK_F19 :: uint16_t where "kVK_F19 \<equiv> 0x50"
abbreviation (input) kVK_ANSI_KeypadEquals :: uint16_t where "kVK_ANSI_KeypadEquals \<equiv> 0x51"
abbreviation (input) kVK_ANSI_Keypad0 :: uint16_t where "kVK_ANSI_Keypad0 \<equiv> 0x52"
abbreviation (input) kVK_ANSI_Keypad1 :: uint16_t where "kVK_ANSI_Keypad1 \<equiv> 0x53"
abbreviation (input) kVK_ANSI_Keypad2 :: uint16_t where "kVK_ANSI_Keypad2 \<equiv> 0x54"
abbreviation (input) kVK_ANSI_Keypad3 :: uint16_t where "kVK_ANSI_Keypad3 \<equiv> 0x55"
abbreviation (input) kVK_ANSI_Keypad4 :: uint16_t where "kVK_ANSI_Keypad4 \<equiv> 0x56"
abbreviation (input) kVK_ANSI_Keypad5 :: uint16_t where "kVK_ANSI_Keypad5 \<equiv> 0x57"
abbreviation (input) kVK_ANSI_Keypad6 :: uint16_t where "kVK_ANSI_Keypad6 \<equiv> 0x58"
abbreviation (input) kVK_ANSI_Keypad7 :: uint16_t where "kVK_ANSI_Keypad7 \<equiv> 0x59"
abbreviation (input) kVK_F20 :: uint16_t where "kVK_F20 \<equiv> 0x5A"
abbreviation (input) kVK_ANSI_Keypad8 :: uint16_t where "kVK_ANSI_Keypad8 \<equiv> 0x5B"
abbreviation (input) kVK_ANSI_Keypad9 :: uint16_t where "kVK_ANSI_Keypad9 \<equiv> 0x5C"
abbreviation (input) kVK_JIS_Yen :: uint16_t where "kVK_JIS_Yen \<equiv> 0x5D"
abbreviation (input) kVK_JIS_Underscore :: uint16_t where "kVK_JIS_Underscore \<equiv> 0x5E"
abbreviation (input) kVK_JIS_KeypadComma :: uint16_t where "kVK_JIS_KeypadComma \<equiv> 0x5F"
abbreviation (input) kVK_F5 :: uint16_t where "kVK_F5 \<equiv> 0x60"
abbreviation (input) kVK_F6 :: uint16_t where "kVK_F6 \<equiv> 0x61"
abbreviation (input) kVK_F7 :: uint16_t where "kVK_F7 \<equiv> 0x62"
abbreviation (input) kVK_F3 :: uint16_t where "kVK_F3 \<equiv> 0x63"
abbreviation (input) kVK_F8 :: uint16_t where "kVK_F8 \<equiv> 0x64"
abbreviation (input) kVK_F9 :: uint16_t where "kVK_F9 \<equiv> 0x65"
abbreviation (input) kVK_F11 :: uint16_t where "kVK_F11 \<equiv> 0x67"
abbreviation (input) kVK_JIS_Kana :: uint16_t where "kVK_JIS_Kana \<equiv> 0x68"
abbreviation (input) kVK_F13 :: uint16_t where "kVK_F13 \<equiv> 0x69"
abbreviation (input) kVK_F16 :: uint16_t where "kVK_F16 \<equiv> 0x6A"
abbreviation (input) kVK_F14 :: uint16_t where "kVK_F14 \<equiv> 0x6B"
abbreviation (input) kVK_F10 :: uint16_t where "kVK_F10 \<equiv> 0x6D"
abbreviation (input) kVK_F12 :: uint16_t where "kVK_F12 \<equiv> 0x6F"
abbreviation (input) kVK_F15 :: uint16_t where "kVK_F15 \<equiv> 0x71"
abbreviation (input) kVK_Help :: uint16_t where "kVK_Help \<equiv> 0x72"
abbreviation (input) kVK_Home :: uint16_t where "kVK_Home \<equiv> 0x73"
abbreviation (input) kVK_PageUp :: uint16_t where "kVK_PageUp \<equiv> 0x74"
abbreviation (input) kVK_ForwardDelete :: uint16_t where "kVK_ForwardDelete \<equiv> 0x75"
abbreviation (input) kVK_F4 :: uint16_t where "kVK_F4 \<equiv> 0x76"
abbreviation (input) kVK_End :: uint16_t where "kVK_End \<equiv> 0x77"
abbreviation (input) kVK_F2 :: uint16_t where "kVK_F2 \<equiv> 0x78"
abbreviation (input) kVK_PageDown :: uint16_t where "kVK_PageDown \<equiv> 0x79"
abbreviation (input) kVK_F1 :: uint16_t where "kVK_F1 \<equiv> 0x7A"
abbreviation (input) kVK_LeftArrow :: uint16_t where "kVK_LeftArrow \<equiv> 0x7B"
abbreviation (input) kVK_RightArrow :: uint16_t where "kVK_RightArrow \<equiv> 0x7C"
abbreviation (input) kVK_DownArrow :: uint16_t where "kVK_DownArrow \<equiv> 0x7D"
abbreviation (input) kVK_UpArrow :: uint16_t where "kVK_UpArrow \<equiv> 0x7E"
abbreviation (input) kVK_NX_Power :: uint16_t where "kVK_NX_Power \<equiv> 0xE6"
abbreviation (input) kVK_NX_Eject :: uint16_t where "kVK_NX_Eject \<equiv> 0xEE"
abbreviation (input) kVK_MEDIA_Play :: uint16_t where "kVK_MEDIA_Play \<equiv> 0xF0"
abbreviation (input) kVK_MEDIA_Next :: uint16_t where "kVK_MEDIA_Next \<equiv> 0xF1"
abbreviation (input) kVK_MEDIA_Previous :: uint16_t where "kVK_MEDIA_Previous \<equiv> 0xF2"
abbreviation (input) kVK_Undefined :: uint16_t where "kVK_Undefined \<equiv> 0xFF"

section \<open>The table\<close>

definition mac_keycode_scancode_table_low :: "(uint16_t \<times> uint16_t) list" where
  "mac_keycode_scancode_table_low = [
     (VC_A, kVK_Undefined), (VC_S, kVK_Escape), (VC_D, kVK_ANSI_1),
     (VC_F, kVK_ANSI_2), (VC_H, kVK_ANSI_3), (VC_G, kVK_ANSI_4),
     (VC_Z, kVK_ANSI_5), (VC_X, kVK_ANSI_6), (VC_C, kVK_ANSI_7),
     (VC_V, kVK_ANSI_8), (VC_UNDEFINED, kVK_ANSI_9), (VC_B, kVK_ANSI_0),
     (VC_Q, kVK_ANSI_Minus), (VC_W, kVK_ANSI_Equal), (VC_E, kVK_Delete),
     (VC_R, kVK_Tab), (VC_Y, kVK_ANSI_Q), (VC_T, kVK_ANSI_W),
     (VC_1, kVK_ANSI_E), (VC_2, kVK_ANSI_R), (VC_3, kVK_ANSI_T),
     (VC_4, kVK_ANSI_Y), (VC_6, kVK_ANSI_U), (VC_5, kVK_ANSI_I),
     (VC_EQUALS, kVK_ANSI_O), (VC_9, kVK_ANSI_P), (VC_7, kVK_ANSI_LeftBracket),
     (VC_MINUS, kVK_ANSI_RightBracket), (VC_8, kVK_Return), (VC_0, kVK_Control),
     (VC_CLOSE_BRACKET, kVK_ANSI_A), (VC_O, kVK_ANSI_S), (VC_U, kVK_ANSI_D),
     (VC_OPEN_BRACKET, kVK_ANSI_F), (VC_I, kVK_ANSI_G), (VC_P, kVK_ANSI_H),
     (VC_ENTER, kVK_ANSI_J), (VC_L, kVK_ANSI_K), (VC_J, kVK_ANSI_L),
     (VC_QUOTE, kVK_ANSI_Semicolon), (VC_K, kVK_ANSI_Quote), (VC_SEMICOLON, kVK_ANSI_Grave),
     (VC_BACK_SLASH, kVK_Shift), (VC_COMMA, kVK_ANSI_Backslash), (VC_SLASH, kVK_ANSI_Z),
     (VC_N, kVK_ANSI_X), (VC_M, kVK_ANSI_C), (VC_PERIOD, kVK_ANSI_V),
     (VC_TAB, kVK_ANSI_B), (VC_SPACE, kVK_ANSI_N), (VC_BACKQUOTE, kVK_ANSI_M),
     (VC_BACKSPACE, kVK_ANSI_Comma), (VC_UNDEFINED, kVK_ANSI_Period), (VC_ESCAPE, kVK_ANSI_Slash),
     (VC_META_R, kVK_RightShift), (VC_META_L, kVK_ANSI_KeypadMultiply), (VC_SHIFT_L, kVK_Option),
     (VC_CAPS_LOCK, kVK_Space), (VC_ALT_L, kVK_CapsLock), (VC_CONTROL_L, kVK_F1),
     (VC_SHIFT_R, kVK_F2), (VC_ALT_R, kVK_F3), (VC_CONTROL_R, kVK_F4),
     (VC_UNDEFINED, kVK_F5), (VC_F17, kVK_F6), (VC_KP_SEPARATOR, kVK_F7),
     (VC_UNDEFINED, kVK_F8), (VC_KP_MULTIPLY, kVK_F9), (VC_UNDEFINED, kVK_F10),
     (VC_KP_ADD, kVK_ANSI_KeypadClear), (VC_UNDEFINED, kVK_Undefined), (VC_NUM_LOCK, kVK_ANSI_Keypad7),
     (VC_VOLUME_UP, kVK_ANSI_Keypad8), (VC_VOLUME_DOWN, kVK_ANSI_Keypad9), (VC_VOLUME_MUTE, kVK_ANSI_KeypadMinus),
     (VC_KP_DIVIDE, kVK_ANSI_Keypad4), (VC_KP_ENTER, kVK_ANSI_Keypad5), (VC_UNDEFINED, kVK_ANSI_Keypad6),
     (VC_KP_SUBTRACT, kVK_ANSI_KeypadPlus), (VC_F18, kVK_ANSI_Keypad1), (VC_F19, kVK_ANSI_Keypad2),
     (VC_KP_EQUALS, kVK_ANSI_Keypad3), (VC_KP_0, kVK_ANSI_Keypad0), (VC_KP_1, kVK_ANSI_KeypadDecimal),
     (VC_KP_2, kVK_Undefined), (VC_KP_3, kVK_Undefined), (VC_KP_4, kVK_Undefined),
     (VC_KP_5, kVK_F11), (VC_KP_6, kVK_F12), (VC_KP_7, kVK_Undefined),
     (VC_F20, kVK_Undefined), (VC_KP_8, kVK_F13), (VC_KP_9, kVK_F14),
     (VC_YEN, kVK_F15), (VC_UNDERSCORE, kVK_Undefined), (VC_KP_COMMA, kVK_Undefined),
     (VC_F5, kVK_Undefined), (VC_F6, kVK_Undefined), (VC_F7, kVK_Undefined),
     (VC_F3, kVK_F16), (VC_F8, kVK_F17), (VC_F9, kVK_F18),
     (VC_UNDEFINED, kVK_F19), (VC_F11, kVK_F20), (VC_KATAKANA, kVK_Undefined),
     (VC_F13, kVK_Undefined), (VC_F16, kVK_Undefined), (VC_F14, kVK_Undefined),
     (VC_UNDEFINED, kVK_Undefined), (VC_F10, kVK_Undefined), (VC_UNDEFINED, kVK_Undefined),
     (VC_F12, kVK_Undefined), (VC_UNDEFINED, kVK_JIS_Kana), (VC_F15, kVK_Undefined),
     (VC_INSERT, kVK_Undefined), (VC_HOME, kVK_JIS_Underscore), (VC_PAGE_UP, kVK_Undefined),
     (VC_DELETE, kVK_Undefined), (VC_F4, kVK_Undefined), (VC_END, kVK_Undefined),
     (VC_F2, kVK_Undefined), (VC_PAGE_DOWN, kVK_Undefined), (VC_F1, kVK_Undefined),
     (VC_LEFT, kVK_Undefined), (VC_RIGHT, kVK_Undefined), (VC_DOWN, kVK_JIS_Yen),
     (VC_UP, kVK_JIS_KeypadComma), (VC_UNDEFINED, kVK_Undefined)]"

definition mac_keycode_scancode_table_high :: "(uint16_t \<times> uint16_t) list" where
  "mac_keycode_scancode_table_high = [
     (VC_UNDEFINED, kVK_Undefined), (VC_UNDEFINED, kVK_Undefined), (VC_UNDEFINED, kVK_Undefined),
     (VC_UNDEFINED, kVK_Undefined), (VC_UNDEFINED, kVK_Undefined), (VC_UNDEFINED, kVK_Undefined),
     (VC_UNDEFINED, kVK_Undefined), (VC_UNDEFINED, kVK_Undefined), (VC_UNDEFINED, kVK_Undefined),
     (VC_UNDEFINED, kVK_Undefined), (VC_UNDEFINED, kVK_Undefined), (VC_UNDEFINED, kVK_Undefined),
     (VC_UNDEFINED, kVK_Undefined), (VC_UNDEFINED, kVK_ANSI_KeypadEquals), (VC_UNDEFINED, kVK_Undefined),
     (VC_UNDEFINED, kVK_Undefined), (VC_UNDEFINED, kVK_MEDIA_Previous), (VC_UNDEFINED, kVK_Undefined),
     (VC_UNDEFINED, kVK_Undefined), (VC_UNDEFINED, kVK_Undefined), (VC_UNDEFINED, kVK_Undefined),
     (VC_UNDEFINED, kVK_Undefined), (VC_UNDEFINED, kVK_Undefined), (VC_UNDEFINED, kVK_Undefined),
     (VC_UNDEFINED, kVK_Undefined), (VC_UNDEFINED, kVK_MEDIA_Next), (VC_UNDEFINED, kVK_Undefined),
     (VC_UNDEFINED, kVK_Undefined), (VC_UNDEFINED, kVK_ANSI_KeypadEnter), (VC_UNDEFINED, kVK_RightControl),
     (VC_UNDEFINED, kVK_Undefined), (VC_UNDEFINED, kVK_Undefined), (VC_UNDEFINED, kVK_Mute),
     (VC_UNDEFINED, kVK_Undefined), (VC_UNDEFINED, kVK_MEDIA_Play), (VC_UNDEFINED, kVK_Undefined),
     (VC_UNDEFINED, kVK_Undefined), (VC_UNDEFINED, kVK_Undefined), (VC_UNDEFINED, kVK_Undefined),
     (VC_UNDEFINED, kVK_Undefined), (VC_UNDEFINED, kVK_Undefined), (VC_UNDEFINED, kVK_Undefined),
     (VC_UNDEFINED, kVK_Undefined), (VC_UNDEFINED, kVK_Undefined), (VC_UNDEFINED, kVK_NX_Eject),
     (VC_UNDEFINED, kVK_Undefined), (VC_UNDEFINED, kVK_VolumeDown), (VC_UNDEFINED, kVK_Undefined),
     (VC_UNDEFINED, kVK_VolumeUp), (VC_UNDEFINED, kVK_Undefined), (VC_UNDEFINED, kVK_Undefined),
     (VC_UNDEFINED, kVK_Undefined), (VC_UNDEFINED, kVK_Undefined), (VC_UNDEFINED, kVK_ANSI_KeypadDivide),
     (VC_UNDEFINED, kVK_Undefined), (VC_UNDEFINED, kVK_Undefined), (VC_UNDEFINED, kVK_RightOption),
     (VC_UNDEFINED, kVK_Undefined), (VC_UNDEFINED, kVK_Undefined), (VC_UNDEFINED, kVK_Undefined),
     (VC_UNDEFINED, kVK_Undefined), (VC_UNDEFINED, kVK_Undefined), (VC_UNDEFINED, kVK_Undefined),
     (VC_UNDEFINED, kVK_Undefined), (VC_UNDEFINED, kVK_Undefined), (VC_UNDEFINED, kVK_Undefined),
     (VC_UNDEFINED, kVK_Undefined), (VC_UNDEFINED, kVK_Undefined), (VC_UNDEFINED, kVK_Undefined),
     (VC_UNDEFINED, kVK_Undefined), (VC_UNDEFINED, kVK_Undefined), (VC_UNDEFINED, kVK_Home),
     (VC_UNDEFINED, kVK_UpArrow), (VC_UNDEFINED, kVK_PageUp), (VC_UNDEFINED, kVK_Undefined),
     (VC_UNDEFINED, kVK_LeftArrow), (VC_UNDEFINED, kVK_Undefined), (VC_UNDEFINED, kVK_RightArrow),
     (VC_UNDEFINED, kVK_Undefined), (VC_UNDEFINED, kVK_End), (VC_UNDEFINED, kVK_DownArrow),
     (VC_UNDEFINED, kVK_PageDown), (VC_UNDEFINED, kVK_Help), (VC_UNDEFINED, kVK_ForwardDelete),
     (VC_UNDEFINED, kVK_Undefined), (VC_UNDEFINED, kVK_Undefined), (VC_UNDEFINED, kVK_Undefined),
     (VC_UNDEFINED, kVK_Undefined), (VC_UNDEFINED, kVK_Undefined), (VC_UNDEFINED, kVK_Undefined),
     (VC_UNDEFINED, kVK_Undefined), (VC_UNDEFINED, kVK_Command), (VC_UNDEFINED, kVK_RightCommand),
     (VC_UNDEFINED, kVK_Undefined), (VC_UNDEFINED, kVK_NX_Power), (VC_UNDEFINED, kVK_Undefined),
     (VC_UNDEFINED, kVK_Undefined), (VC_UNDEFINED, kVK_Undefined), (VC_LESSER_GREATER, kVK_Undefined),
     (VC_UNDEFINED, kVK_Undefined), (VC_UNDEFINED, kVK_Undefined), (VC_UNDEFINED, kVK_Undefined),
     (VC_POWER, kVK_Undefined), (VC_UNDEFINED, kVK_Undefined), (VC_UNDEFINED, kVK_Undefined),
     (VC_UNDEFINED, kVK_Undefined), (VC_UNDEFINED, kVK_Undefined), (VC_UNDEFINED, kVK_Undefined),
     (VC_UNDEFINED, kVK_Undefined), (VC_UNDEFINED, kVK_Undefined), (VC_MEDIA_EJECT, kVK_Undefined),
     (VC_UNDEFINED, kVK_Undefined), (VC_MEDIA_PLAY, kVK_Undefined), (VC_MEDIA_NEXT, kVK_Undefined),
     (VC_MEDIA_PREVIOUS, kVK_Undefined), (VC_UNDEFINED, kVK_Undefined), (VC_UNDEFINED, kVK_Undefined),
     (VC_UNDEFINED, kVK_Undefined), (VC_UNDEFINED, kVK_Undefined), (VC_UNDEFINED, kVK_Undefined),
     (VC_UNDEFINED, kVK_Undefined), (VC_UNDEFINED, kVK_Undefined), (VC_UNDEFINED, kVK_Undefined),
     (VC_UNDEFINED, kVK_Undefined), (VC_UNDEFINED, kVK_Undefined), (VC_UNDEFINED, kVK_Undefined),
     (VC_UNDEFINED, kVK_Undefined), (VC_UNDEFINED, kVK_Undefined)]"

definition mac_keycode_scancode_table :: "(uint16_t \<times> uint16_t) list" where
  "mac_keycode_scancode_table = mac_keycode_scancode_table_low @ mac_keycode_scancode_table_high"

end
