(* ===== verification/Uiohook_Floats.thy ===== *)
theory Uiohook_Floats
  imports Complex_Main Uiohook_Prelude
begin

text \<open>
  Floating-point values as the Darwin back end uses them: a finite value is a rational number, the
  result of an operation is rounded to the nearest value of 24 or 53 significant bits, ties to
  even, and conversion to an integer truncates. Overflow and subnormal values do not occur in the
  source's computations.
\<close>

section \<open>Conversion to an integer\<close>

definition c_trunc :: "rat \<Rightarrow> int" where
  "c_trunc x = (if 0 \<le> x then \<lfloor>x\<rfloor> else \<lceil>x\<rceil>)"

lemma c_trunc_of_int [simp]: "c_trunc (of_int i) = i"
  by (simp add: c_trunc_def)

lemma c_trunc_near: "\<bar>of_int (c_trunc x) - x\<bar> < 1"
  by (cases "0 \<le> x") (simp_all add: c_trunc_def, linarith+)

section \<open>Rounding\<close>

definition pow2 :: "int \<Rightarrow> rat" where
  "pow2 e = (if 0 \<le> e then 2 ^ nat e else 1 / 2 ^ nat (- e))"

fun bits_of :: "nat \<Rightarrow> nat" where
  "bits_of n = (if n = 0 then 0 else Suc (bits_of (n div 2)))"

declare bits_of.simps [simp del]

definition binade :: "rat \<Rightarrow> int" where
  "binade x =
     (let (n, d) = quotient_of \<bar>x\<bar>; e = int (bits_of (nat n)) - int (bits_of (nat d))
      in if pow2 e \<le> \<bar>x\<bar> then e else e - 1)"

definition round_even :: "rat \<Rightarrow> int" where
  "round_even x =
     (let f = \<lfloor>x\<rfloor>; r = x - of_int f
      in if r < 1 / 2 then f else if r > 1 / 2 then f + 1 else if even f then f else f + 1)"

definition float_round :: "nat \<Rightarrow> rat \<Rightarrow> rat" where
  "float_round p x =
     (if x = 0 then 0
      else let u = pow2 (binade x - int p + 1) in of_int (round_even (x / u)) * u)"

abbreviation (input) single :: "rat \<Rightarrow> rat" where "single \<equiv> float_round 24"
abbreviation (input) double :: "rat \<Rightarrow> rat" where "double \<equiv> float_round 53"

lemma round_even_of_int [simp]: "round_even (of_int i) = i"
  by (simp add: round_even_def)

lemma round_even_near: "\<bar>of_int (round_even x) - x\<bar> \<le> 1 / 2"
proof -
  have "of_int \<lfloor>x\<rfloor> \<le> x" "x < of_int \<lfloor>x\<rfloor> + 1" by linarith+
  then show ?thesis unfolding round_even_def Let_def by (simp split: if_splits; linarith)
qed

lemma pow2_pos: "0 < pow2 e"
  by (simp add: pow2_def)

text \<open>A value with few enough significant bits is not changed, and every other one by half a unit.\<close>

lemma float_round_exact:
  assumes "x = of_int m * pow2 (binade x - int p + 1)"
  shows "float_round p x = x"
proof (cases "x = 0")
  case False
  let ?u = "pow2 (binade x - int p + 1)"
  have "x / ?u = of_int m" using assms pow2_pos [of "binade x - int p + 1"] by (metis nonzero_mult_div_cancel_right less_irrefl)
  with False assms show ?thesis by (simp add: float_round_def Let_def)
qed (simp add: float_round_def)

lemma float_round_near:
  "\<bar>float_round p x - x\<bar> \<le> pow2 (binade x - int p + 1) / 2"
proof (cases "x = 0")
  case False
  let ?u = "pow2 (binade x - int p + 1)"
  have u: "0 < ?u" by (rule pow2_pos)
  have "float_round p x - x = (of_int (round_even (x / ?u)) - x / ?u) * ?u"
    using False u by (simp add: float_round_def Let_def field_simps)
  also have "\<bar>\<dots>\<bar> \<le> 1 / 2 * ?u"
    unfolding abs_mult using u round_even_near [of "x / ?u"] by (intro mult_mono) auto
  finally show ?thesis by simp
qed (simp add: float_round_def pow2_pos less_imp_le)

lemma pow2_powi: "pow2 e = 2 powi e"
  by (simp add: pow2_def power_int_def inverse_eq_divide power_one_over)

lemma bits_of_bounds: "0 < n \<Longrightarrow> 2 ^ (bits_of n - 1) \<le> n \<and> n < 2 ^ bits_of n \<and> 0 < bits_of n"
proof (induction n rule: bits_of.induct)
  case (1 n)
  show ?case
  proof (cases "n = 1")
    case True
    then show ?thesis by (simp add: bits_of.simps)
  next
    case False
    with "1.prems" have pos: "0 < n div 2" by linarith
    with "1.IH" "1.prems" have IH: "2 ^ (bits_of (n div 2) - 1) \<le> n div 2" "n div 2 < 2 ^ bits_of (n div 2)" "0 < bits_of (n div 2)"
      by auto
    from IH(3) have "2 * 2 ^ (bits_of (n div 2) - 1) = (2 :: nat) ^ bits_of (n div 2)"
      by (metis Suc_diff_1 power_Suc)
    with IH have "2 ^ bits_of (n div 2) \<le> n" "n < 2 * 2 ^ bits_of (n div 2)" by linarith+
    with "1.prems" show ?thesis by (simp add: bits_of.simps [of n])
  qed
qed

text \<open>The binade of a number is a lower bound of it, so rounding is relative to the number.\<close>

lemma binade_le:
  assumes "x \<noteq> 0"
  shows "pow2 (binade x) \<le> \<bar>x\<bar>"
proof -
  obtain n d where q: "quotient_of \<bar>x\<bar> = (n, d)" by fastforce
  then have x: "\<bar>x\<bar> = of_int n / of_int d" and d: "0 < d" by (simp_all add: quotient_of_div quotient_of_denom_pos)
  with assms have n: "0 < n" by (metis div_0 of_int_0_less_iff zero_less_abs_iff zero_less_divide_iff of_int_pos not_less_iff_gr_or_eq order.strict_trans)
  define e where "e = int (bits_of (nat n)) - int (bits_of (nat d))"
  have bn: "2 ^ (bits_of (nat n) - 1) \<le> nat n" "0 < bits_of (nat n)" and bd: "nat d < 2 ^ bits_of (nat d)"
    using bits_of_bounds [of "nat n"] bits_of_bounds [of "nat d"] n d by simp_all
  have "(2 :: rat) ^ (bits_of (nat n) - 1) \<le> of_int n"
    using bn(1) n by (metis int_nat_eq less_imp_le of_int_le_iff of_int_of_nat_eq of_nat_le_iff of_nat_numeral of_nat_power)
  moreover have "of_int d \<le> (2 :: rat) ^ bits_of (nat d)"
    using bd d by (metis int_nat_eq less_imp_le of_int_le_iff of_int_of_nat_eq of_nat_le_iff of_nat_numeral of_nat_power)
  ultimately have "2 ^ (bits_of (nat n) - 1) / 2 ^ bits_of (nat d) \<le> (of_int n / of_int d :: rat)"
    using d n by (intro frac_le) simp_all
  moreover have "pow2 (e - 1) = 2 ^ (bits_of (nat n) - 1) / 2 ^ bits_of (nat d)"
    using bn(2) by (simp add: pow2_powi e_def power_int_diff of_nat_diff flip: power_int_of_nat)
  ultimately have "pow2 (e - 1) \<le> \<bar>x\<bar>" by (simp add: x)
  then show ?thesis by (auto simp: binade_def q e_def [symmetric])
qed

lemma float_round_relative: "\<bar>float_round p x - x\<bar> \<le> \<bar>x\<bar> / 2 ^ p"
proof (cases "x = 0")
  case False
  have "pow2 (binade x - int p + 1) / 2 = pow2 (binade x) / 2 ^ p"
    by (simp add: pow2_powi power_int_add power_int_diff)
  also have "\<dots> \<le> \<bar>x\<bar> / 2 ^ p" using binade_le [OF False] by (intro divide_right_mono) simp_all
  finally show ?thesis using float_round_near [of p x] by linarith
qed (simp add: float_round_def)

lemma float_round_within:
  assumes "\<bar>x - y\<bar> \<le> e" and "\<bar>y\<bar> \<le> b"
  shows "\<bar>float_round p x - y\<bar> \<le> e + (b + e) / 2 ^ p"
proof -
  have "\<bar>x\<bar> / 2 ^ p \<le> (b + e) / 2 ^ p" using assms by (intro divide_right_mono) (linarith, simp)
  with float_round_relative [of p x] assms(1) show ?thesis by linarith
qed

lemma divide_within: "\<bar>x - y\<bar> \<le> (e :: rat) \<Longrightarrow> 0 < k \<Longrightarrow> \<bar>x / k - y / k\<bar> \<le> e / k"
  by (metis abs_divide abs_of_pos diff_divide_distrib divide_right_mono less_imp_le)

end
