(* ===== verification/Darwin_Input_Helper.thy ===== *)
theory Darwin_Input_Helper
  imports Darwin_Keycode_Table Uiohook_Floats
begin

text \<open>
  \<^verbatim>\<open>src/darwin/input_helper.c\<close>: the accessibility check, key codes, and the conversion of a key to
  UTF-16 by the current keyboard layout with its dead-key state.
\<close>

section \<open>Build options and events\<close>

text \<open>The options \<^verbatim>\<open>USE_CARBON_LEGACY\<close>, \<^verbatim>\<open>USE_APPLICATION_SERVICES\<close>, \<^verbatim>\<open>USE_IOKIT\<close> and \<^verbatim>\<open>USE_OBJC\<close>.\<close>

record mac_build =
  use_carbon_legacy :: bool
  use_application_services :: bool
  use_iokit :: bool
  use_objc :: bool

datatype cg_event_type =
    kCGEventKeyDown | kCGEventKeyUp | kCGEventFlagsChanged | NX_SYSDEFINED
  | kCGEventLeftMouseDown | kCGEventRightMouseDown | kCGEventOtherMouseDown
  | kCGEventLeftMouseUp | kCGEventRightMouseUp | kCGEventOtherMouseUp
  | kCGEventLeftMouseDragged | kCGEventRightMouseDragged | kCGEventOtherMouseDragged
  | kCGEventMouseMoved | kCGEventScrollWheel | kCGEventTapDisabledByTimeout | kCGEventUnhandled

text \<open>
  What the code reads of a \<^verbatim>\<open>CGEvent\<close>: its type, key code, flags, location, button number, time stamp, the
  line and point deltas of the two axes and whether they are continuous.
\<close>

record cg_event =
  cg_type :: cg_event_type
  cg_keycode :: uint64_t
  cg_flags :: uint64_t
  cg_location :: "rat \<times> rat"
  cg_button :: c_long
  cg_timestamp :: uint64_t
  cg_delta1 :: c_long
  cg_delta2 :: c_long
  cg_point_delta1 :: c_long
  cg_point_delta2 :: c_long
  cg_continuous :: c_long

abbreviation (input) kCGEventFlagMaskAlphaShift :: uint64_t where "kCGEventFlagMaskAlphaShift \<equiv> 0x00010000"
abbreviation (input) kCGEventFlagMaskShift :: uint64_t where "kCGEventFlagMaskShift \<equiv> 0x00020000"
abbreviation (input) kCGEventFlagMaskControl :: uint64_t where "kCGEventFlagMaskControl \<equiv> 0x00040000"
abbreviation (input) kCGEventFlagMaskAlternate :: uint64_t where "kCGEventFlagMaskAlternate \<equiv> 0x00080000"
abbreviation (input) kCGEventFlagMaskCommand :: uint64_t where "kCGEventFlagMaskCommand \<equiv> 0x00100000"
abbreviation (input) kCGEventFlagMaskNumericPad :: uint64_t where "kCGEventFlagMaskNumericPad \<equiv> 0x00200000"

section \<open>Accessibility\<close>

text \<open>
  The answers of the dynamic linker: the new function and what it answers, the name of its option
  and whether looking it up left an error, and the same for the old function. The dictionary of
  options that is created for the new function is the second result: it is never released.
\<close>

record ax_env =
  ax_trusted :: "bool option"
  ax_prompt_error :: bool
  ax_prompt :: bool
  ax_enabled :: "bool option"
  ax_enabled_error :: bool

definition is_accessibility_enabled :: "ax_env \<Rightarrow> bool \<times> int" where
  "is_accessibility_enabled env =
     (case ax_trusted env of
        Some trusted \<Rightarrow>
          if ax_prompt_error env then (False, 0)
          else if ax_prompt env then (trusted, 1)
          else (False, 0)
      | None \<Rightarrow>
          if ax_enabled_error env then (False, 0)
          else case ax_enabled env of Some enabled \<Rightarrow> (enabled, 0) | None \<Rightarrow> (False, 0))"

section \<open>Key codes\<close>

definition mac_keycode_to_scancode :: "uint64_t \<Rightarrow> uint16_t" where
  "mac_keycode_to_scancode keycode =
     (if unat keycode < length mac_keycode_scancode_table
      then fst (mac_keycode_scancode_table ! unat keycode) else VC_UNDEFINED)"

definition mac_scancode_to_keycode :: "uint16_t \<Rightarrow> uint64_t result" where
  "mac_scancode_to_keycode scancode =
     (if scancode < 128 then
        if unat scancode < length mac_keycode_scancode_table
        then Inr (ucast (snd (mac_keycode_scancode_table ! unat scancode))) else Inl OutOfBounds
      else
        let i = (scancode AND 0x007F) OR 0x80 in
        if unat i < length mac_keycode_scancode_table
        then Inr (ucast (snd (mac_keycode_scancode_table ! unat i))) else Inr (ucast kVK_Undefined))"

section \<open>Characters of a key\<close>

text \<open>
  A keyboard layout is known by a number; \<open>layouts_held\<close> counts the references that the helper has
  not released. \<open>None\<close> is the null layout.
\<close>

type_synonym layout = nat

record mac_helper =
  deadkey_state :: uint32_t
  prev_keyboard_layout :: "layout option"
  layouts_held :: int

text \<open>
  The current input source: its layout, whether it has the type of an input source, and its layout
  data: whether that is a data object, its length and its bytes, as the layout they describe.
\<close>

record layout_data =
  ld_is_data :: bool
  ld_length :: int
  ld_bytes :: "layout option"

record input_source =
  is_layout :: layout
  is_input_source :: bool
  is_data :: "layout_data option"

text \<open>
  The answers to a conversion. \<open>translate\<close> stands for \<^verbatim>\<open>UCKeyTranslate\<close>: from layout, key code, modifier
  byte, dead-key state, size and buffer it gives whether it succeeded, the new dead-key state, the
  count and the buffer. \<open>uppercase\<close> stands for \<^verbatim>\<open>CFStringUppercase\<close> on a string over the first units
  of the buffer (\<open>None\<close> when the string cannot be created), \<open>unicode_string\<close> for
  \<^verbatim>\<open>CGEventKeyboardGetUnicodeString\<close>. \<open>ue_carbon\<close> is the layout data of the Carbon functions, the
  outer \<open>None\<close> when one of them fails.
\<close>

record unicode_env =
  ue_on_main :: bool
  ue_source :: "input_source option"
  ue_carbon :: "layout option option"
  translate :: "layout \<Rightarrow> uint16_t \<Rightarrow> uint32_t \<Rightarrow> uint32_t \<Rightarrow> nat \<Rightarrow> uint16_t list \<Rightarrow>
    bool \<times> uint32_t \<times> nat \<times> uint16_t list"
  uppercase :: "(uint16_t list \<Rightarrow> nat \<Rightarrow> uint16_t list) option"
  unicode_string :: "cg_event \<Rightarrow> nat \<Rightarrow> uint16_t list \<Rightarrow> nat \<times> uint16_t list"

text \<open>The dead-key state is dropped when the layout changes; the layout of the key is kept.\<close>

definition track_layout :: "input_source option \<Rightarrow> mac_helper \<Rightarrow> mac_helper" where
  "track_layout current s =
     (let s = (if current \<noteq> None then s\<lparr>layouts_held := layouts_held s + 1\<rparr> else s);
          s = (if prev_keyboard_layout s \<noteq> None \<and> current \<noteq> None
                  \<and> map_option is_layout current \<noteq> prev_keyboard_layout s
               then s\<lparr>deadkey_state := 0x00\<rparr> else s);
          s = (if prev_keyboard_layout s \<noteq> None
               then s\<lparr>prev_keyboard_layout := None, layouts_held := layouts_held s - 1\<rparr> else s)
      in case current of Some source \<Rightarrow> s\<lparr>prev_keyboard_layout := Some (is_layout source)\<rparr> | None \<Rightarrow> s)"

definition source_data :: "input_source option \<Rightarrow> layout_data option" where
  "source_data current =
     (case current of
        Some source \<Rightarrow>
          if is_input_source source
          then (case is_data source of
                  Some data \<Rightarrow> if ld_is_data data \<and> ld_length data > 0 then Some data else None
                | None \<Rightarrow> None)
          else None
      | None \<Rightarrow> None)"

text \<open>The layout that is translated with, and the helper after it was looked up.\<close>

definition current_layout :: "mac_build \<Rightarrow> unicode_env \<Rightarrow> mac_helper \<Rightarrow> layout option \<times> mac_helper" where
  "current_layout build env s =
     (if use_carbon_legacy build then (case ue_carbon env of Some l \<Rightarrow> l | None \<Rightarrow> None, s)
      else if ue_on_main env
      then (case source_data (ue_source env) of Some data \<Rightarrow> ld_bytes data | None \<Rightarrow> None,
            track_layout (ue_source env) s)
      else (None, s))"

definition translate_key ::
  "unicode_env \<Rightarrow> layout \<Rightarrow> cg_event \<Rightarrow> nat \<Rightarrow> uint16_t list \<Rightarrow> mac_helper \<Rightarrow>
   mac_helper \<times> uint16_t list \<times> nat" where
  "translate_key env l event capacity buffer s =
     (let keycode = ucast (cg_keycode event);
          modifiers = cg_flags event AND
            NOT (kCGEventFlagMaskCommand OR kCGEventFlagMaskControl OR kCGEventFlagMaskAlternate);
          is_caps_lock = modifiers AND kCGEventFlagMaskAlphaShift \<noteq> 0;
          modifiers = modifiers AND NOT kCGEventFlagMaskAlphaShift;
          (ok, dead, count, buffer) =
            translate env l keycode (ucast (drop_bit 16 modifiers AND 0xFF)) (deadkey_state s) capacity buffer;
          s = s\<lparr>deadkey_state := dead\<rparr>
      in if ok \<and> count > 0 then
           if is_caps_lock
           then case uppercase env of
                  Some upper \<Rightarrow> (s, upper buffer count, count)
                | None \<Rightarrow> (s, buffer, 0)
           else (s, buffer, count)
         else (s, buffer, 0))"

definition invalid_codes :: "uint16_t list" where
  "invalid_codes = [0x01, 0x04, 0x05, 0x10, 0x0B, 0x0C, 0x1F]"

definition drop_invalid :: "uint16_t list \<Rightarrow> nat \<Rightarrow> nat" where
  "drop_invalid buffer count = (if count = 1 \<and> (case buffer of c # _ \<Rightarrow> c \<in> set invalid_codes | [] \<Rightarrow> False) then 0 else count)"

definition mac_keycode_to_unicode ::
  "mac_build \<Rightarrow> unicode_env \<Rightarrow> cg_event \<Rightarrow> nat \<Rightarrow> uint16_t list \<Rightarrow> mac_helper \<Rightarrow>
   mac_helper \<times> uint16_t list \<times> nat" where
  "mac_keycode_to_unicode build env event capacity buffer s =
     (let (s, buffer, count) =
        (if use_carbon_legacy build \<or> use_application_services build then
           case current_layout build env s of
             (Some l, s) \<Rightarrow> translate_key env l event capacity buffer s
           | (None, s) \<Rightarrow> (s, buffer, 0)
         else case unicode_string env event capacity buffer of (count, buffer) \<Rightarrow> (s, buffer, count))
      in (s, buffer, drop_invalid buffer count))"

section \<open>Loading and unloading\<close>

definition mac_load_input_helper :: "mac_helper \<Rightarrow> mac_helper" where
  "mac_load_input_helper s = s"

definition mac_unload_input_helper :: "mac_build \<Rightarrow> mac_helper \<Rightarrow> mac_helper" where
  "mac_unload_input_helper build s =
     (if (use_carbon_legacy build \<or> use_application_services build) \<and> prev_keyboard_layout s \<noteq> None
      then s\<lparr>prev_keyboard_layout := None, layouts_held := layouts_held s - 1\<rparr> else s)"

end
