(* ===== verification/Darwin_Input_Hook.thy ===== *)
theory Darwin_Input_Hook
  imports Darwin_Input_Helper
begin

text \<open>
  The event handler of \<^verbatim>\<open>src/darwin/input_hook.c\<close>: \<^verbatim>\<open>hook_event_proc\<close>, which the event tap calls, with
  one definition per branch, and the observer of the run loop. A \<^verbatim>\<open>long\<close> has 64 bits.
\<close>

section \<open>State\<close>

text \<open>A pointer to a block of memory: null, to a block that was freed, or to a value.\<close>

datatype 'a block = NullBlock | Freed | Block 'a

definition deref :: "'a block \<Rightarrow> 'a result" where
  "deref p = (case p of NullBlock \<Rightarrow> Inl NullDereference | Freed \<Rightarrow> Inl UseAfterFree | Block a \<Rightarrow> Inr a)"

record tis_keycode_message =
  tis_event :: "cg_event option"
  tis_buffer :: "uint16_t list"
  tis_length :: nat

text \<open>The three references of the hook, each null or not.\<close>

record event_runloop_info =
  hk_port :: bool
  hk_source :: bool
  hk_observer :: bool

text \<open>
  The statics of the file. \<open>keycode_message\<close> and \<open>event_message\<close> are \<^verbatim>\<open>tis_keycode_message\<close> and
  \<^verbatim>\<open>tis_event_message\<close> (subtype and data), \<open>dispatch_sync\<close> and \<open>dispatch_queue\<close> say whether the two
  symbols of the dispatch library were found, \<open>tap_enabled\<close> whether the event tap is enabled.
\<close>

record mac_hook = dispatch_state +
  mac_modifiers :: uint16_t
  mac_click_count :: uint16_t
  mac_click_time :: uint64_t
  mac_click_button :: uint16_t
  mouse_dragged :: bool
  system_time :: "uint64_t \<times> uint64_t"
  mac_helper :: mac_helper
  keycode_message :: "tis_keycode_message block"
  event_message :: "(uint32_t \<times> uint32_t) block"
  dispatch_sync :: bool
  dispatch_queue :: bool
  hook_info :: "event_runloop_info option"
  tap_enabled :: bool

text \<open>
  The answers during one call: the build, whether the hook runs on the main run loop, whether that
  loop has a mode and whether it converted the key before it woke the handler, the answers to the
  conversion, the multi-click time, the time of day, whether events can be created, what \<^verbatim>\<open>NSEvent\<close>
  says of an event, the serialised event and whether memory for four bytes can be allocated.
\<close>

record mac_env =
  me_build :: mac_build
  me_is_main :: bool
  me_mode :: bool
  me_converted :: bool
  me_unicode :: unicode_env
  me_multi_click :: c_long
  me_time :: "uint64_t \<times> uint64_t"
  me_create :: bool
  me_ns_event :: "uint32_t \<times> uint32_t"
  me_data :: "uint8_t list option"
  me_malloc :: bool

lemma mac_fire_fields [simp]:
  "mac_modifiers (fire ty tm msk dat s) = mac_modifiers s"
  "mac_click_count (fire ty tm msk dat s) = mac_click_count s"
  "mac_click_time (fire ty tm msk dat s) = mac_click_time s"
  "mac_click_button (fire ty tm msk dat s) = mac_click_button s"
  "mouse_dragged (fire ty tm msk dat s) = mouse_dragged s"
  "system_time (fire ty tm msk dat s) = system_time s"
  "mac_helper (fire ty tm msk dat s) = mac_helper s"
  "keycode_message (fire ty tm msk dat s) = keycode_message s"
  "event_message (fire ty tm msk dat s) = event_message s"
  "dispatch_sync (fire ty tm msk dat s) = dispatch_sync s"
  "dispatch_queue (fire ty tm msk dat s) = dispatch_queue s"
  "hook_info (fire ty tm msk dat s) = hook_info s"
  "tap_enabled (fire ty tm msk dat s) = tap_enabled s"
  by (simp_all add: fire_def dispatch_event_def split: option.split)

section \<open>The modifier mask\<close>

definition mac_set_modifier_mask :: "uint16_t \<Rightarrow> mac_hook \<Rightarrow> mac_hook" where
  "mac_set_modifier_mask msk s = s\<lparr>mac_modifiers := mac_modifiers s OR msk\<rparr>"

definition mac_unset_modifier_mask :: "uint16_t \<Rightarrow> mac_hook \<Rightarrow> mac_hook" where
  "mac_unset_modifier_mask msk s = s\<lparr>mac_modifiers := mac_modifiers s AND NOT msk\<rparr>"

definition mac_get_modifiers :: "mac_hook \<Rightarrow> uint16_t" where
  "mac_get_modifiers s = mac_modifiers s"

interpretation mmask: mask_tracker mac_set_modifier_mask mac_unset_modifier_mask mac_get_modifiers
  by unfold_locales (simp_all add: mac_set_modifier_mask_def mac_unset_modifier_mask_def mac_get_modifiers_def)

text \<open>\<open>key\<close> and \<open>button\<close> are the answers about single keys and buttons, \<open>flags\<close> about the modifiers.\<close>

definition mac_initialize_modifiers ::
  "(uint16_t \<Rightarrow> bool) \<Rightarrow> (nat \<Rightarrow> bool) \<Rightarrow> uint64_t \<Rightarrow> mac_hook \<Rightarrow> mac_hook" where
  "mac_initialize_modifiers key button flags s =
     (let s = s\<lparr>mac_modifiers := 0x0000\<rparr>;
          s = fold (\<lambda>(k, msk) s. if key k then mac_set_modifier_mask msk s else s)
                [(kVK_Shift, MASK_SHIFT_L), (kVK_RightShift, MASK_SHIFT_R),
                 (kVK_Control, MASK_CTRL_L), (kVK_RightControl, MASK_CTRL_R),
                 (kVK_Option, MASK_ALT_L), (kVK_RightOption, MASK_ALT_R),
                 (kVK_Command, MASK_META_L), (kVK_RightCommand, MASK_META_R)] s;
          s = fold (\<lambda>(b, msk) s. if button b then mac_set_modifier_mask msk s else s)
                [(0, MASK_BUTTON1), (1, MASK_BUTTON2), (2, MASK_BUTTON3), (3, MASK_BUTTON4), (4, MASK_BUTTON5)] s;
          s = (if flags AND kCGEventFlagMaskAlphaShift \<noteq> 0 then mac_set_modifier_mask MASK_CAPS_LOCK s else s);
          s = mac_unset_modifier_mask MASK_NUM_LOCK s
      in mac_unset_modifier_mask MASK_SCROLL_LOCK s)"

section \<open>Keys\<close>

definition mac_key_data :: "uint16_t \<Rightarrow> uint64_t \<Rightarrow> uint16_t \<Rightarrow> event_data" where
  "mac_key_data keycode raw keychar =
     Keyboard \<lparr>kb_keycode = keycode, kb_rawcode = ucast raw, kb_keychar = keychar\<rparr>"

abbreviation (input) KEY_BUFFER_SIZE :: nat where "KEY_BUFFER_SIZE \<equiv> 4"

definition keycode_to_lookup ::
  "mac_env \<Rightarrow> bool \<Rightarrow> tis_keycode_message \<Rightarrow> mac_helper \<Rightarrow> mac_helper \<times> tis_keycode_message" where
  "keycode_to_lookup env on_main data h =
     (case tis_event data of
        Some event \<Rightarrow>
          let (h, buffer, count) =
                mac_keycode_to_unicode (me_build env) ((me_unicode env)\<lparr>ue_on_main := on_main\<rparr>) event
                  KEY_BUFFER_SIZE (tis_buffer data) h
          in (h, data\<lparr>tis_buffer := buffer, tis_length := count\<rparr>)
      | None \<Rightarrow> (h, data))"

text \<open>
  Where the key is converted: on the main queue, on the main run loop, which wakes the handler when
  it has converted the key or when it ends, or in place. The second way is part of one build only.
\<close>

definition convert_on_runloop ::
  "mac_env \<Rightarrow> mac_hook \<Rightarrow> tis_keycode_message \<Rightarrow> mac_helper \<times> tis_keycode_message" where
  "convert_on_runloop env s data =
     (if dispatch_sync s \<and> dispatch_queue s \<and> \<not> me_is_main env then keycode_to_lookup env True data (mac_helper s)
      else if \<not> use_carbon_legacy (me_build env) \<and> use_application_services (me_build env) \<and> \<not> me_is_main env
      then if me_mode env \<and> me_converted env then keycode_to_lookup env True data (mac_helper s)
           else (mac_helper s, data)
      else keycode_to_lookup env (me_is_main env) data (mac_helper s))"

primrec mac_type_units ::
  "uint64_t \<Rightarrow> uint64_t \<Rightarrow> uint16_t option list \<Rightarrow> mac_hook \<Rightarrow> mac_hook result" where
  "mac_type_units timestamp keycode [] s = Inr s"
| "mac_type_units timestamp keycode (c # cs) s =
     (case c of
        None \<Rightarrow> Inl OutOfBounds
      | Some ch \<Rightarrow>
          mac_type_units timestamp keycode cs (fire EVENT_KEY_TYPED timestamp (mac_get_modifiers s)
            (mac_key_data VC_UNDEFINED keycode ch) s))"

definition buffer_units :: "tis_keycode_message \<Rightarrow> uint16_t option list" where
  "buffer_units data =
     map (\<lambda>i. if i < length (tis_buffer data) then Some (tis_buffer data ! i) else None) [0..<tis_length data]"

definition mac_process_key_pressed :: "mac_env \<Rightarrow> uint64_t \<Rightarrow> cg_event \<Rightarrow> mac_hook \<Rightarrow> mac_hook result" where
  "mac_process_key_pressed env timestamp event s =
     (let s = fire EVENT_KEY_PRESSED timestamp (mac_get_modifiers s)
                (mac_key_data (mac_keycode_to_scancode (cg_keycode event)) (cg_keycode event) CHAR_UNDEFINED) s
      in if not_consumed s then
           r_bind (deref (keycode_message s)) (\<lambda>data.
           let data = data\<lparr>tis_event := Some event, tis_length := 0\<rparr>;
               (h, data) = convert_on_runloop env s data
           in mac_type_units timestamp (cg_keycode event) (buffer_units data)
                (s\<lparr>mac_helper := h, keycode_message := Block data\<rparr>))
         else Inr s)"

definition mac_process_key_released :: "uint64_t \<Rightarrow> cg_event \<Rightarrow> mac_hook \<Rightarrow> mac_hook" where
  "mac_process_key_released timestamp event s =
     fire EVENT_KEY_RELEASED timestamp (mac_get_modifiers s)
       (mac_key_data (mac_keycode_to_scancode (cg_keycode event)) (cg_keycode event) CHAR_UNDEFINED) s"

section \<open>Modifier keys\<close>

text \<open>The flag of the event is shared by the left and the right key.\<close>

definition mac_modifier_keys :: "(uint16_t \<times> uint64_t \<times> uint16_t) list" where
  "mac_modifier_keys =
     [(kVK_Shift, kCGEventFlagMaskShift, MASK_SHIFT_L),
      (kVK_Control, kCGEventFlagMaskControl, MASK_CTRL_L),
      (kVK_Command, kCGEventFlagMaskCommand, MASK_META_L),
      (kVK_Option, kCGEventFlagMaskAlternate, MASK_ALT_L),
      (kVK_RightShift, kCGEventFlagMaskShift, MASK_SHIFT_R),
      (kVK_RightControl, kCGEventFlagMaskControl, MASK_CTRL_R),
      (kVK_RightCommand, kCGEventFlagMaskCommand, MASK_META_R),
      (kVK_RightOption, kCGEventFlagMaskAlternate, MASK_ALT_R)]"

definition process_modifier_changed :: "mac_env \<Rightarrow> uint64_t \<Rightarrow> cg_event \<Rightarrow> mac_hook \<Rightarrow> mac_hook result" where
  "process_modifier_changed env timestamp event s =
     (case find (\<lambda>(k, flg, msk). cg_keycode event = ucast k) mac_modifier_keys of
        Some (k, flg, msk) \<Rightarrow>
          if cg_flags event AND flg \<noteq> 0
          then mac_process_key_pressed env timestamp event (mac_set_modifier_mask msk s)
          else Inr (mac_process_key_released timestamp event (mac_unset_modifier_mask msk s))
      | None \<Rightarrow>
          if cg_keycode event = ucast kVK_CapsLock
          then Inr (if mac_modifiers s AND MASK_CAPS_LOCK \<noteq> 0
                    then mac_unset_modifier_mask MASK_CAPS_LOCK s
                    else mac_set_modifier_mask MASK_CAPS_LOCK s)
          else Inr s)"

section \<open>System keys\<close>

text \<open>Four bytes of the serialised event, the most significant first.\<close>

definition be32 :: "uint8_t list \<Rightarrow> nat \<Rightarrow> uint32_t" where
  "be32 bs i =
     push_bit 24 (ucast (bs ! i)) OR push_bit 16 (ucast (bs ! (i + 1)))
       OR push_bit 8 (ucast (bs ! (i + 2))) OR ucast (bs ! (i + 3))"

definition serialised_data :: "mac_env \<Rightarrow> (uint32_t \<times> uint32_t) option" where
  "serialised_data env =
     (case me_data env of
        None \<Rightarrow> None
      | Some bs \<Rightarrow>
          if length bs < 132 then None
          else if me_malloc env then Some (be32 bs 120, be32 bs 128) else None)"

definition system_event_data ::
  "mac_env \<Rightarrow> mac_hook \<Rightarrow> (mac_hook \<times> (uint32_t \<times> uint32_t) option) result" where
  "system_event_data env s =
     (if use_objc (me_build env) then
        r_bind (deref (event_message s)) (\<lambda>_.
        let s = s\<lparr>event_message := Block (0, 0)\<rparr> in
        if (dispatch_sync s \<and> dispatch_queue s \<and> \<not> me_is_main env) \<or> me_is_main env
        then Inr (s\<lparr>event_message := Block (me_ns_event env)\<rparr>, Some (me_ns_event env))
        else Inr (s, serialised_data env))
      else Inr (s, serialised_data env))"

abbreviation (input) NX_KEYTYPE_SOUND_UP :: uint32_t where "NX_KEYTYPE_SOUND_UP \<equiv> 0x00"
abbreviation (input) NX_KEYTYPE_SOUND_DOWN :: uint32_t where "NX_KEYTYPE_SOUND_DOWN \<equiv> 0x01"
abbreviation (input) NX_KEYTYPE_CAPS_LOCK :: uint32_t where "NX_KEYTYPE_CAPS_LOCK \<equiv> 0x04"
abbreviation (input) NX_KEYTYPE_MUTE :: uint32_t where "NX_KEYTYPE_MUTE \<equiv> 0x07"
abbreviation (input) NX_KEYTYPE_EJECT :: uint32_t where "NX_KEYTYPE_EJECT \<equiv> 0x0E"
abbreviation (input) NX_KEYTYPE_PLAY :: uint32_t where "NX_KEYTYPE_PLAY \<equiv> 0x10"
abbreviation (input) NX_KEYTYPE_FAST :: uint32_t where "NX_KEYTYPE_FAST \<equiv> 0x13"
abbreviation (input) NX_KEYTYPE_REWIND :: uint32_t where "NX_KEYTYPE_REWIND \<equiv> 0x14"

definition system_keys :: "(uint32_t \<times> uint16_t) list" where
  "system_keys =
     [(NX_KEYTYPE_CAPS_LOCK, kVK_CapsLock), (NX_KEYTYPE_SOUND_UP, kVK_VolumeUp),
      (NX_KEYTYPE_SOUND_DOWN, kVK_VolumeDown), (NX_KEYTYPE_MUTE, kVK_Mute), (NX_KEYTYPE_EJECT, kVK_NX_Eject),
      (NX_KEYTYPE_PLAY, kVK_MEDIA_Play), (NX_KEYTYPE_FAST, kVK_MEDIA_Next), (NX_KEYTYPE_REWIND, kVK_MEDIA_Previous)]"

text \<open>
  The branches for the eight keys differ in the key only: a keyboard event with the flags of the
  system event is made up. It has to exist for its flags to be set.
\<close>

definition process_system_key :: "mac_env \<Rightarrow> uint64_t \<Rightarrow> cg_event \<Rightarrow> mac_hook \<Rightarrow> mac_hook result" where
  "process_system_key env timestamp event s =
     (if cg_type event = NX_SYSDEFINED then
        r_bind (system_event_data env s) (\<lambda>(s, answer).
        case answer of
          None \<Rightarrow> Inr s
        | Some (subtype, data1) \<Rightarrow>
            if subtype = 8 then
              let key_code = drop_bit 16 (data1 AND 0xFFFF0000);
                  key_flags = data1 AND 0xFFFF;
                  key_state = drop_bit 8 (key_flags AND 0xFF00);
                  key_down = (key_state AND 0x1 = 0)
              in case map_of system_keys key_code of
                   None \<Rightarrow> Inr s
                 | Some k \<Rightarrow>
                     if \<not> me_create env then Inl NullDereference
                     else
                       let ns_event = event\<lparr>cg_keycode := ucast k\<rparr> in
                       if key_down then mac_process_key_pressed env timestamp ns_event s
                       else Inr (mac_process_key_released timestamp ns_event s)
            else Inr s)
      else Inr s)"

section \<open>Buttons\<close>

definition mac_mouse_data :: "uint16_t \<Rightarrow> uint16_t \<Rightarrow> rat \<times> rat \<Rightarrow> event_data" where
  "mac_mouse_data button clicks p =
     Mouse \<lparr>ms_button = button, ms_clicks = clicks,
            ms_x = word_of_int (c_trunc (fst p)), ms_y = word_of_int (c_trunc (snd p))\<rparr>"

text \<open>The time since the last press in milliseconds.\<close>

definition millis_between :: "uint64_t \<Rightarrow> uint64_t \<Rightarrow> int" where
  "millis_between t t' = c_div (sint (t - t')) 1000000"

definition mac_count_press :: "c_long \<Rightarrow> uint16_t \<Rightarrow> uint64_t \<Rightarrow> mac_hook \<Rightarrow> mac_hook" where
  "mac_count_press multi_click button timestamp s =
     (let s = (if button = mac_click_button s \<and> millis_between timestamp (mac_click_time s) \<le> sint multi_click
               then if mac_click_count s < 0xFFFF then s\<lparr>mac_click_count := mac_click_count s + 1\<rparr> else s
               else s\<lparr>mac_click_count := 1, mac_click_button := button\<rparr>)
      in s\<lparr>mac_click_time := timestamp\<rparr>)"

definition mac_process_button_pressed ::
  "mac_env \<Rightarrow> uint64_t \<Rightarrow> cg_event \<Rightarrow> uint16_t \<Rightarrow> mac_hook \<Rightarrow> mac_hook" where
  "mac_process_button_pressed env timestamp event button s =
     (let s = mac_count_press (me_multi_click env) button timestamp s
      in fire EVENT_MOUSE_PRESSED timestamp (mac_get_modifiers s)
           (mac_mouse_data button (mac_click_count s) (cg_location event)) s)"

definition mac_process_button_released ::
  "mac_env \<Rightarrow> uint64_t \<Rightarrow> cg_event \<Rightarrow> uint16_t \<Rightarrow> mac_hook \<Rightarrow> mac_hook" where
  "mac_process_button_released env timestamp event button s =
     (let s = fire EVENT_MOUSE_RELEASED timestamp (mac_get_modifiers s)
                (mac_mouse_data button (mac_click_count s) (cg_location event)) s;
          s = (if not_consumed s \<and> mouse_dragged s \<noteq> True
               then fire EVENT_MOUSE_CLICKED timestamp (mac_get_modifiers s)
                      (mac_mouse_data button (mac_click_count s) (cg_location event)) s
               else s)
      in if millis_between timestamp (mac_click_time s) > sint (me_multi_click env)
         then s\<lparr>mac_click_count := 0\<rparr> else s)"

definition mac_process_mouse_moved :: "mac_env \<Rightarrow> uint64_t \<Rightarrow> cg_event \<Rightarrow> mac_hook \<Rightarrow> mac_hook" where
  "mac_process_mouse_moved env timestamp event s =
     (let s = (if mac_click_count s \<noteq> 0
                  \<and> millis_between timestamp (mac_click_time s) > sint (me_multi_click env)
               then s\<lparr>mac_click_count := 0\<rparr> else s)
      in fire (if mouse_dragged s then EVENT_MOUSE_DRAGGED else EVENT_MOUSE_MOVED) timestamp (mac_get_modifiers s)
           (mac_mouse_data MOUSE_NOBUTTON (mac_click_count s) (cg_location event)) s)"

definition mac_process_mouse_wheel :: "uint64_t \<Rightarrow> cg_event \<Rightarrow> mac_hook \<Rightarrow> mac_hook" where
  "mac_process_mouse_wheel timestamp event s =
     (let s = s\<lparr>mac_click_count := 1, mac_click_button := MOUSE_NOBUTTON\<rparr> in
      if cg_delta1 event \<noteq> 0 \<or> cg_delta2 event \<noteq> 0 then
        let (amount, rotation) =
              (if cg_delta1 event \<noteq> 0
               then (word_of_int (c_div (sint (cg_point_delta1 event)) (sint (cg_delta1 event))), ucast (cg_delta1 event * -1))
               else if cg_delta2 event \<noteq> 0
               then (word_of_int (c_div (sint (cg_point_delta2 event)) (sint (cg_delta2 event))), ucast (cg_delta2 event * -1))
               else (0, 0))
        in fire EVENT_MOUSE_WHEEL timestamp (mac_get_modifiers s)
             (Wheel \<lparr>wh_clicks = mac_click_count s,
                     wh_x = word_of_int (c_trunc (fst (cg_location event))),
                     wh_y = word_of_int (c_trunc (snd (cg_location event))),
                     wh_type = (if cg_continuous event = 0 then WHEEL_BLOCK_SCROLL else WHEEL_UNIT_SCROLL),
                     wh_amount = amount, wh_rotation = rotation,
                     wh_direction = (if cg_delta1 event \<noteq> 0 then WHEEL_VERTICAL_DIRECTION else WHEEL_HORIZONTAL_DIRECTION)\<rparr>) s
      else s)"

section \<open>The event tap\<close>

text \<open>An extra button has a number below \<^verbatim>\<open>UINT16_MAX\<close>; its release is handled as a press, too.\<close>

definition other_button :: "cg_event \<Rightarrow> uint16_t option" where
  "other_button event = (if sint (cg_button event) < 65535 then Some (ucast (cg_button event) + 1) else None)"

definition process_other_down :: "mac_env \<Rightarrow> uint64_t \<Rightarrow> cg_event \<Rightarrow> mac_hook \<Rightarrow> mac_hook" where
  "process_other_down env timestamp event s =
     (case other_button event of
        None \<Rightarrow> s
      | Some button \<Rightarrow>
          mac_process_button_pressed env timestamp event button
            (if button = 4 then mac_set_modifier_mask MOUSE_BUTTON4 s
             else if button = 5 then mac_set_modifier_mask MOUSE_BUTTON5 s else s))"

definition process_other_up :: "mac_env \<Rightarrow> uint64_t \<Rightarrow> cg_event \<Rightarrow> mac_hook \<Rightarrow> mac_hook" where
  "process_other_up env timestamp event s =
     (case other_button event of
        None \<Rightarrow> s
      | Some button \<Rightarrow>
          mac_process_button_pressed env timestamp event button
            (if button = 4 then mac_unset_modifier_mask MOUSE_BUTTON4 s
             else if button = 5 then mac_unset_modifier_mask MOUSE_BUTTON5 s else s))"

definition reenable_tap :: "mac_hook \<Rightarrow> mac_hook result" where
  "reenable_tap s =
     (case hook_info s of
        None \<Rightarrow> Inl NullDereference
      | Some h \<Rightarrow> Inr (if hk_port h then s\<lparr>tap_enabled := True\<rparr> else s))"

definition mac_event :: "mac_env \<Rightarrow> cg_event_type \<Rightarrow> cg_event \<Rightarrow> mac_hook \<Rightarrow> mac_hook result" where
  "mac_event env type event s =
     (let timestamp = cg_timestamp event in
      case type of
        kCGEventKeyDown \<Rightarrow> mac_process_key_pressed env timestamp event s
      | kCGEventKeyUp \<Rightarrow> Inr (mac_process_key_released timestamp event s)
      | kCGEventFlagsChanged \<Rightarrow> process_modifier_changed env timestamp event s
      | NX_SYSDEFINED \<Rightarrow> process_system_key env timestamp event s
      | kCGEventLeftMouseDown \<Rightarrow>
          Inr (mac_process_button_pressed env timestamp event MOUSE_BUTTON1 (mac_set_modifier_mask MASK_BUTTON1 s))
      | kCGEventRightMouseDown \<Rightarrow>
          Inr (mac_process_button_pressed env timestamp event MOUSE_BUTTON2 (mac_set_modifier_mask MASK_BUTTON2 s))
      | kCGEventOtherMouseDown \<Rightarrow> Inr (process_other_down env timestamp event s)
      | kCGEventLeftMouseUp \<Rightarrow>
          Inr (mac_process_button_released env timestamp event MOUSE_BUTTON1 (mac_unset_modifier_mask MASK_BUTTON1 s))
      | kCGEventRightMouseUp \<Rightarrow>
          Inr (mac_process_button_released env timestamp event MOUSE_BUTTON2 (mac_unset_modifier_mask MASK_BUTTON2 s))
      | kCGEventOtherMouseUp \<Rightarrow> Inr (process_other_up env timestamp event s)
      | kCGEventLeftMouseDragged \<Rightarrow> Inr (mac_process_mouse_moved env timestamp event (s\<lparr>mouse_dragged := True\<rparr>))
      | kCGEventRightMouseDragged \<Rightarrow> Inr (mac_process_mouse_moved env timestamp event (s\<lparr>mouse_dragged := True\<rparr>))
      | kCGEventOtherMouseDragged \<Rightarrow> Inr (mac_process_mouse_moved env timestamp event (s\<lparr>mouse_dragged := True\<rparr>))
      | kCGEventMouseMoved \<Rightarrow> Inr (mac_process_mouse_moved env timestamp event (s\<lparr>mouse_dragged := False\<rparr>))
      | kCGEventScrollWheel \<Rightarrow> Inr (mac_process_mouse_wheel timestamp event s)
      | kCGEventTapDisabledByTimeout \<Rightarrow> reenable_tap s
      | kCGEventUnhandled \<Rightarrow> Inr s)"

text \<open>The second result is whether the event is passed on.\<close>

definition mac_hook_event_proc ::
  "mac_env \<Rightarrow> cg_event_type \<Rightarrow> cg_event \<Rightarrow> mac_hook \<Rightarrow> (mac_hook \<times> bool) result" where
  "mac_hook_event_proc env type event s =
     r_bind (mac_event env type event (s\<lparr>system_time := me_time env\<rparr>)) (\<lambda>s. Inr (s, not_consumed s))"

section \<open>The observer\<close>

datatype run_loop_activity = kCFRunLoopEntry | kCFRunLoopExit | OtherActivity

definition hook_status_proc :: "mac_build \<Rightarrow> run_loop_activity \<Rightarrow> uint64_t \<Rightarrow> mac_hook \<Rightarrow> mac_hook" where
  "hook_status_proc build activity timestamp s =
     (case activity of
        kCFRunLoopEntry \<Rightarrow>
          fire EVENT_HOOK_ENABLED timestamp 0x00 (ev_data (static_event s))
            (s\<lparr>mac_helper := mac_load_input_helper (mac_helper s)\<rparr>)
      | kCFRunLoopExit \<Rightarrow>
          let s = fire EVENT_HOOK_DISABLED timestamp 0x00 (ev_data (static_event s)) s
          in s\<lparr>mac_helper := mac_unload_input_helper build (mac_helper s)\<rparr>
      | OtherActivity \<Rightarrow> s)"

end
