(* ===== verification/Darwin_Hook_Properties.thy ===== *)
theory Darwin_Hook_Properties
  imports Darwin_Input_Hook
begin

text \<open>
  What holds of the Darwin event handler over any run of the event tap: the modifier mask, the
  click counter, the events that are dispatched, and that it does not fault. The mask and the
  click counter rest on the two locales shared with the other back ends.
\<close>

section \<open>Runs\<close>

type_synonym tapped = "mac_env \<times> cg_event_type \<times> cg_event"

primrec tap_run :: "tapped list \<Rightarrow> mac_hook \<Rightarrow> mac_hook result" where
  "tap_run [] s = Inr s"
| "tap_run (t # ts) s =
     (case t of (env, type, event) \<Rightarrow>
        r_bind (mac_hook_event_proc env type event s) (\<lambda>(s, passed). tap_run ts s))"

lemma tap_run_append: "tap_run (ts @ us) s = r_bind (tap_run ts s) (tap_run us)"
  by (induction ts arbitrary: s) (auto simp: r_bind_assoc case_prod_unfold)

section \<open>What the handler changes\<close>

lemma mac_mask_fields [simp]:
  "static_event (mac_set_modifier_mask m s) = static_event s"
  "dispatcher (mac_set_modifier_mask m s) = dispatcher s"
  "dispatched (mac_set_modifier_mask m s) = dispatched s"
  "mac_click_count (mac_set_modifier_mask m s) = mac_click_count s"
  "mac_click_time (mac_set_modifier_mask m s) = mac_click_time s"
  "mac_click_button (mac_set_modifier_mask m s) = mac_click_button s"
  "mouse_dragged (mac_set_modifier_mask m s) = mouse_dragged s"
  "mac_helper (mac_set_modifier_mask m s) = mac_helper s"
  "keycode_message (mac_set_modifier_mask m s) = keycode_message s"
  "event_message (mac_set_modifier_mask m s) = event_message s"
  "dispatch_sync (mac_set_modifier_mask m s) = dispatch_sync s"
  "dispatch_queue (mac_set_modifier_mask m s) = dispatch_queue s"
  "hook_info (mac_set_modifier_mask m s) = hook_info s"
  "static_event (mac_unset_modifier_mask m s) = static_event s"
  "dispatcher (mac_unset_modifier_mask m s) = dispatcher s"
  "dispatched (mac_unset_modifier_mask m s) = dispatched s"
  "mac_click_count (mac_unset_modifier_mask m s) = mac_click_count s"
  "mac_click_time (mac_unset_modifier_mask m s) = mac_click_time s"
  "mac_click_button (mac_unset_modifier_mask m s) = mac_click_button s"
  "mouse_dragged (mac_unset_modifier_mask m s) = mouse_dragged s"
  "mac_helper (mac_unset_modifier_mask m s) = mac_helper s"
  "keycode_message (mac_unset_modifier_mask m s) = keycode_message s"
  "event_message (mac_unset_modifier_mask m s) = event_message s"
  "dispatch_sync (mac_unset_modifier_mask m s) = dispatch_sync s"
  "dispatch_queue (mac_unset_modifier_mask m s) = dispatch_queue s"
  "hook_info (mac_unset_modifier_mask m s) = hook_info s"
  by (simp_all add: mac_set_modifier_mask_def mac_unset_modifier_mask_def)

text \<open>\<open>mac_same\<close>: what no event changes, and the mask.\<close>

definition mac_same :: "mac_hook \<Rightarrow> mac_hook \<Rightarrow> bool" where
  "mac_same s s' \<longleftrightarrow> mac_modifiers s' = mac_modifiers s \<and> dispatcher s' = dispatcher s
     \<and> dispatch_sync s' = dispatch_sync s \<and> dispatch_queue s' = dispatch_queue s \<and> hook_info s' = hook_info s"

lemma mac_same_refl [simp]: "mac_same s s"
  by (simp add: mac_same_def)

lemma mac_same_updates [simp]:
  "mac_same s (fire ty tm msk dat t) = mac_same s t"
  "mac_same (fire ty tm msk dat t) s = mac_same t s"
  "mac_same s (t\<lparr>mac_helper := h\<rparr>) = mac_same s t"
  "mac_same (t\<lparr>mac_helper := h\<rparr>) s = mac_same t s"
  "mac_same s (t\<lparr>keycode_message := km\<rparr>) = mac_same s t"
  "mac_same (t\<lparr>keycode_message := km\<rparr>) s = mac_same t s"
  "mac_same s (t\<lparr>event_message := em\<rparr>) = mac_same s t"
  "mac_same (t\<lparr>event_message := em\<rparr>) s = mac_same t s"
  "mac_same s (t\<lparr>mac_click_count := c\<rparr>) = mac_same s t"
  "mac_same (t\<lparr>mac_click_count := c\<rparr>) s = mac_same t s"
  "mac_same s (t\<lparr>mac_click_time := ct\<rparr>) = mac_same s t"
  "mac_same (t\<lparr>mac_click_time := ct\<rparr>) s = mac_same t s"
  "mac_same s (t\<lparr>mac_click_button := b\<rparr>) = mac_same s t"
  "mac_same (t\<lparr>mac_click_button := b\<rparr>) s = mac_same t s"
  "mac_same s (t\<lparr>mouse_dragged := d\<rparr>) = mac_same s t"
  "mac_same (t\<lparr>mouse_dragged := d\<rparr>) s = mac_same t s"
  "mac_same s (t\<lparr>tap_enabled := e\<rparr>) = mac_same s t"
  "mac_same (t\<lparr>tap_enabled := e\<rparr>) s = mac_same t s"
  "mac_same s (t\<lparr>system_time := st\<rparr>) = mac_same s t"
  "mac_same (t\<lparr>system_time := st\<rparr>) s = mac_same t s"
  by (simp_all add: mac_same_def)

lemma mac_type_units_same: "mac_type_units ts k cs s = Inr s' \<Longrightarrow> mac_same s s'"
  by (induction cs arbitrary: s) (fastforce split: option.splits)+

lemma mac_process_key_pressed_same: "mac_process_key_pressed env ts event s = Inr s' \<Longrightarrow> mac_same s s'"
  by (auto simp: mac_process_key_pressed_def Let_def split: if_splits prod.splits elim!: r_bind_InrE
      dest!: mac_type_units_same)

lemma mac_process_same [simp]:
  "mac_same s (mac_process_key_released ts event t) = mac_same s t"
  "mac_same s (mac_process_button_pressed env ts event b t) = mac_same s t"
  "mac_same s (mac_process_button_released env ts event b t) = mac_same s t"
  "mac_same s (mac_process_mouse_moved env ts event t) = mac_same s t"
  "mac_same s (mac_process_mouse_wheel ts event t) = mac_same s t"
  by (simp_all add: mac_process_key_released_def mac_process_button_pressed_def mac_count_press_def
      mac_process_button_released_def mac_process_mouse_moved_def mac_process_mouse_wheel_def Let_def
      split: prod.split)

lemma system_event_data_same: "system_event_data env s = Inr (s', answer) \<Longrightarrow> mac_same s s'"
  by (auto simp: system_event_data_def Let_def elim!: r_bind_InrE split: if_splits)

lemma mac_same_trans: "mac_same s t \<Longrightarrow> mac_same t u \<Longrightarrow> mac_same s u"
  by (simp add: mac_same_def)

lemma process_system_key_same:
  assumes "process_system_key env ts event s = Inr s'"
  shows "mac_same s s'"
proof (cases "cg_type event = NX_SYSDEFINED")
  case True
  with assms obtain t answer where t: "system_event_data env s = Inr (t, answer)"
    and "mac_same t s'"
    by (auto simp: process_system_key_def Let_def elim!: r_bind_InrE split: if_splits option.splits prod.splits
        dest!: mac_process_key_pressed_same)
  with system_event_data_same [OF t] show ?thesis by (blast intro: mac_same_trans)
qed (use assms in \<open>simp add: process_system_key_def\<close>)

section \<open>The modifier mask\<close>

text \<open>
  The transitions of an event, in order. Caps Lock is left out: its flag is turned over by each
  event of its key, whatever the event says.
\<close>

definition mac_modifier_bit :: "uint64_t \<Rightarrow> (nat \<times> uint64_t) option" where
  "mac_modifier_bit keycode =
     map_of [(0x38, (0, kCGEventFlagMaskShift)), (0x3B, (1, kCGEventFlagMaskControl)),
       (0x37, (2, kCGEventFlagMaskCommand)), (0x3A, (3, kCGEventFlagMaskAlternate)),
       (0x3C, (4, kCGEventFlagMaskShift)), (0x3E, (5, kCGEventFlagMaskControl)),
       (0x36, (6, kCGEventFlagMaskCommand)), (0x3D, (7, kCGEventFlagMaskAlternate))] keycode"

definition other_bits :: "cg_event \<Rightarrow> nat list" where
  "other_bits event =
     (if other_button event = Some 4 then [2] else if other_button event = Some 5 then [0, 2] else [])"

definition is_caps_event :: "cg_event_type \<Rightarrow> cg_event \<Rightarrow> bool" where
  "is_caps_event type event \<longleftrightarrow> type = kCGEventFlagsChanged \<and> cg_keycode event = 0x39"

definition mac_transition :: "cg_event_type \<Rightarrow> cg_event \<Rightarrow> (nat \<times> bool) list" where
  "mac_transition type event =
     (case type of
        kCGEventFlagsChanged \<Rightarrow>
          (case mac_modifier_bit (cg_keycode event) of
             Some (k, flg) \<Rightarrow> [(k, cg_flags event AND flg \<noteq> 0)] | None \<Rightarrow> [])
      | kCGEventLeftMouseDown \<Rightarrow> [(8, True)] | kCGEventRightMouseDown \<Rightarrow> [(9, True)]
      | kCGEventLeftMouseUp \<Rightarrow> [(8, False)] | kCGEventRightMouseUp \<Rightarrow> [(9, False)]
      | kCGEventOtherMouseDown \<Rightarrow> map (\<lambda>k. (k, True)) (other_bits event)
      | kCGEventOtherMouseUp \<Rightarrow> map (\<lambda>k. (k, False)) (other_bits event)
      | _ \<Rightarrow> [])"

lemma mac_modifier_keys_bit:
  "find (\<lambda>(k, flg, msk). c = ucast k) mac_modifier_keys =
     (case mac_modifier_bit c of None \<Rightarrow> None | Some (k, flg) \<Rightarrow> Some (ucast c, flg, flag k))"
  by (simp add: mac_modifier_keys_def mac_modifier_bit_def flag_def)

definition toggle_caps :: "mac_hook \<Rightarrow> mac_hook" where
  "toggle_caps s = mmask.track [(14, \<not> bit (mac_modifiers s) 14)] s"

lemma process_modifier_changed_mask:
  assumes "process_modifier_changed env ts event s = Inr s'"
  shows "mac_same (if cg_keycode event = 0x39 then toggle_caps s
      else mmask.track (mac_transition kCGEventFlagsChanged event) s) s'"
proof (cases "mac_modifier_bit (cg_keycode event)")
  case None
  then have "s' = (if cg_keycode event = 0x39
      then if bit (mac_modifiers s) 14 then mac_unset_modifier_mask (flag 14) s else mac_set_modifier_mask (flag 14) s
      else s)"
    using assms unfolding process_modifier_changed_def mac_modifier_keys_bit and_flag_eq_0_iff
    by (simp split: if_splits)
  with None show ?thesis by (simp add: mac_transition_def toggle_caps_def)
next
  case (Some b)
  then obtain k flg where b: "mac_modifier_bit (cg_keycode event) = Some (k, flg)" by (cases b) auto
  then have "cg_keycode event \<noteq> 0x39" by (auto simp: mac_modifier_bit_def)
  moreover have "mac_same (mmask.track [(k, cg_flags event AND flg \<noteq> 0)] s) s'"
    using assms unfolding process_modifier_changed_def mac_modifier_keys_bit b
    by (auto split: if_splits dest!: mac_process_key_pressed_same)
  ultimately show ?thesis by (simp add: mac_transition_def b)
qed

lemma mac_small_masks: "(4 :: uint16_t) = flag 2" "(5 :: uint16_t) = flag 0 OR flag 2"
  by code_simp+

lemma mac_track_small_masks:
  "mac_set_modifier_mask 4 s = mmask.track [(2, True)] s"
  "mac_set_modifier_mask 5 s = mmask.track [(0, True), (2, True)] s"
  "mac_unset_modifier_mask 4 s = mmask.track [(2, False)] s"
  "mac_unset_modifier_mask 5 s = mmask.track [(0, False), (2, False)] s"
  unfolding mac_small_masks
  by (simp_all add: mac_set_modifier_mask_def mac_unset_modifier_mask_def or.assoc and.assoc)

lemma mac_event_mask:
  assumes "mac_event env type event s = Inr s'"
  shows "mac_same (if is_caps_event type event then toggle_caps s else mmask.track (mac_transition type event) s) s'"
proof (cases type)
  case kCGEventFlagsChanged
  with assms process_modifier_changed_mask show ?thesis
    by (fastforce simp: mac_event_def is_caps_event_def)
next
  case kCGEventOtherMouseDown
  with assms show ?thesis
    by (auto simp: mac_event_def is_caps_event_def mac_transition_def process_other_down_def other_bits_def
        mac_track_small_masks split: option.splits)
next
  case kCGEventOtherMouseUp
  with assms show ?thesis
    by (auto simp: mac_event_def is_caps_event_def mac_transition_def process_other_up_def other_bits_def
        mac_track_small_masks split: option.splits)
next
  case kCGEventTapDisabledByTimeout
  with assms show ?thesis
    by (auto simp: mac_event_def is_caps_event_def mac_transition_def reenable_tap_def split: option.splits)
qed (use assms in \<open>auto simp: mac_event_def is_caps_event_def mac_transition_def flag_def
      dest!: mac_process_key_pressed_same process_system_key_same\<close>)

lemma mac_transition_no_caps: "(k, d) \<in> set (mac_transition type event) \<Longrightarrow> k < 10"
  by (auto simp: mac_transition_def mac_modifier_bit_def other_bits_def
      split: cg_event_type.splits option.splits if_splits)

lemma mac_event_bit:
  assumes "mac_event env type event s = Inr s'" and "k < 16"
  shows "bit (mac_modifiers s') k \<longleftrightarrow>
    (if k = 14 \<and> is_caps_event type event then \<not> bit (mac_modifiers s) 14
     else case find (\<lambda>t. fst t = k) (rev (mac_transition type event)) of
            Some t \<Rightarrow> snd t | None \<Rightarrow> bit (mac_modifiers s) k)"
proof (cases "is_caps_event type event")
  case True
  then have "mac_transition type event = []"
    by (auto simp: is_caps_event_def mac_transition_def mac_modifier_bit_def)
  with True mac_event_mask [OF assms(1)] mmask.bit_track [OF assms(2), of "[(14, \<not> bit (mac_modifiers s) 14)]" s]
  show ?thesis by (auto simp: toggle_caps_def mac_same_def mac_get_modifiers_def)
next
  case False
  then have "mac_modifiers s' = mac_modifiers (mmask.track (mac_transition type event) s)"
    using mac_event_mask [OF assms(1)] by (simp add: mac_same_def)
  with False mmask.bit_track [OF assms(2), of "mac_transition type event" s]
  show ?thesis unfolding mac_get_modifiers_def by simp
qed

definition transitions_of :: "tapped list \<Rightarrow> (nat \<times> bool) list" where
  "transitions_of ts = concat (map (\<lambda>(env, type, event). mac_transition type event) ts)"

definition caps_events :: "tapped list \<Rightarrow> tapped list" where
  "caps_events ts = filter (\<lambda>(env, type, event). is_caps_event type event) ts"

lemma tap_run_Cons:
  assumes "tap_run ((env, type, event) # ts) s = Inr s'"
  obtains t where "mac_event env type event (s\<lparr>system_time := me_time env\<rparr>) = Inr t" and "tap_run ts t = Inr s'"
  using assms by (auto simp: mac_hook_event_proc_def elim!: r_bind_InrE)

lemma find_append: "find P (xs @ ys) = (case find P xs of None \<Rightarrow> find P ys | Some x \<Rightarrow> Some x)"
  by (induction xs) simp_all

lemma tap_run_bit:
  assumes "tap_run ts s = Inr s'" and "k < 16" and "k \<noteq> 14"
  shows "bit (mac_modifiers s') k \<longleftrightarrow>
    (case find (\<lambda>t. fst t = k) (rev (transitions_of ts)) of
       Some t \<Rightarrow> snd t | None \<Rightarrow> bit (mac_modifiers s) k)"
  using assms(1)
proof (induction ts arbitrary: s)
  case (Cons x ts)
  obtain env type event where x: "x = (env, type, event)" by (cases x) auto
  then obtain t where t: "mac_event env type event (s\<lparr>system_time := me_time env\<rparr>) = Inr t" "tap_run ts t = Inr s'"
    using Cons.prems tap_run_Cons by blast
  from Cons.IH [OF t(2)] mac_event_bit [OF t(1) assms(2)] assms(3) show ?case
    by (auto simp: x transitions_of_def find_append split: option.split)
qed (simp add: transitions_of_def)

lemma tap_run_caps:
  assumes "tap_run ts s = Inr s'"
  shows "bit (mac_modifiers s') 14 \<longleftrightarrow> bit (mac_modifiers s) 14 \<noteq> odd (length (caps_events ts))"
  using assms
proof (induction ts arbitrary: s)
  case (Cons x ts)
  obtain env type event where x: "x = (env, type, event)" by (cases x) auto
  then obtain t where t: "mac_event env type event (s\<lparr>system_time := me_time env\<rparr>) = Inr t" "tap_run ts t = Inr s'"
    using Cons.prems tap_run_Cons by blast
  have "find (\<lambda>t. fst t = 14) (rev (mac_transition type event)) = None"
    using mac_transition_no_caps [of 14 _ type event] by (auto simp: find_None_iff)
  with Cons.IH [OF t(2)] mac_event_bit [OF t(1), of 14] show ?case
    by (auto simp: x caps_events_def)
qed (simp add: caps_events_def)

section \<open>Typed characters\<close>

text \<open>What the conversions of the system promise: they write inside the buffer and count what they wrote.\<close>

definition sound_unicode :: "unicode_env \<Rightarrow> bool" where
  "sound_unicode env \<longleftrightarrow>
     (\<forall>l k m d n b. case translate env l k m d n b of (ok, dead, count, b') \<Rightarrow> length b' = length b \<and> count \<le> n)
     \<and> (\<forall>upper b n. uppercase env = Some upper \<longrightarrow> length (upper b n) = length b)
     \<and> (\<forall>event n b. case unicode_string env event n b of (count, b') \<Rightarrow> length b' = length b \<and> count \<le> n)"

lemma sound_unicode_translate:
  "sound_unicode env \<Longrightarrow> translate env l k m d n b = (ok, dead, count, b') \<Longrightarrow> length b' = length b \<and> count \<le> n"
  unfolding sound_unicode_def by (metis (mono_tags, lifting) case_prod_conv)

lemma sound_unicode_uppercase:
  "sound_unicode env \<Longrightarrow> uppercase env = Some upper \<Longrightarrow> length (upper b n) = length b"
  by (simp add: sound_unicode_def)

lemma sound_unicode_string:
  "sound_unicode env \<Longrightarrow> unicode_string env event n b = (count, b') \<Longrightarrow> length b' = length b \<and> count \<le> n"
  unfolding sound_unicode_def by (metis (mono_tags, lifting) case_prod_conv)

lemma sound_on_main [simp]: "sound_unicode (env\<lparr>ue_on_main := b\<rparr>) = sound_unicode env"
  by (simp add: sound_unicode_def)

lemma translate_key_bounds:
  assumes "sound_unicode env" and "translate_key env l event n b h = (h', b', count)"
  shows "length b' = length b \<and> count \<le> n"
  using assms sound_unicode_translate [OF assms(1)] sound_unicode_uppercase [OF assms(1)]
  by (fastforce simp: translate_key_def Let_def split: prod.splits if_splits option.splits)

lemma mac_keycode_to_unicode_bounds:
  assumes "sound_unicode env" and "mac_keycode_to_unicode build env event n b h = (h', b', count)"
  shows "length b' = length b \<and> count \<le> n"
  using assms translate_key_bounds [OF assms(1)] sound_unicode_string [OF assms(1)]
  by (fastforce simp: mac_keycode_to_unicode_def drop_invalid_def split: prod.splits if_splits option.splits)

definition message_ready :: "mac_hook \<Rightarrow> bool" where
  "message_ready s \<longleftrightarrow> (\<exists>data. keycode_message s = Block data \<and> length (tis_buffer data) = KEY_BUFFER_SIZE)"

lemma convert_on_runloop_bounds:
  assumes "sound_unicode (me_unicode env)" and "length (tis_buffer data) = KEY_BUFFER_SIZE"
    and "tis_length data = 0" and "convert_on_runloop env s data = (h, data')"
  shows "length (tis_buffer data') = KEY_BUFFER_SIZE \<and> tis_length data' \<le> KEY_BUFFER_SIZE"
proof -
  have "length (tis_buffer d') = KEY_BUFFER_SIZE \<and> tis_length d' \<le> KEY_BUFFER_SIZE"
    if "keycode_to_lookup env m data (mac_helper s) = (h', d')" for m h' d'
    using that assms(2,3) mac_keycode_to_unicode_bounds [of "(me_unicode env)\<lparr>ue_on_main := m\<rparr>"] assms(1)
    by (fastforce simp: keycode_to_lookup_def split: option.splits prod.splits)
  with assms(2-4) show ?thesis by (auto simp: convert_on_runloop_def split: if_splits)
qed

lemma buffer_units_take:
  assumes "tis_length data \<le> length (tis_buffer data)"
  shows "buffer_units data = map Some (take (tis_length data) (tis_buffer data))"
proof -
  have "map (\<lambda>i. if i < length xs then Some (xs ! i) else None) [0..<n] = map Some (take n xs)"
    if "n \<le> length xs" for n and xs :: "uint16_t list"
    using that by (intro nth_equalityI) simp_all
  with assms show ?thesis by (simp add: buffer_units_def)
qed

definition typed_events :: "uint64_t \<Rightarrow> uint64_t \<Rightarrow> uint16_t \<Rightarrow> uint16_t list \<Rightarrow> uiohook_event list" where
  "typed_events ts keycode msk cs =
     map (\<lambda>c. emitted EVENT_KEY_TYPED ts msk (mac_key_data VC_UNDEFINED keycode c)) cs"

lemma mac_type_units_run:
  "\<exists>s'. mac_type_units ts k (map Some cs) s = Inr s' \<and> dispatcher s' = dispatcher s \<and> keycode_message s' = keycode_message s
     \<and> event_message s' = event_message s \<and> mac_helper s' = mac_helper s
     \<and> dispatched s' = (if dispatcher s = None then dispatched s
          else dispatched s @ typed_events ts k (mac_modifiers s) cs)"
proof (induction cs arbitrary: s)
  case (Cons c cs)
  let ?t = "fire EVENT_KEY_TYPED ts (mac_get_modifiers s) (mac_key_data VC_UNDEFINED k c) s"
  from Cons [of ?t] show ?case by (auto simp: dispatched_fire typed_events_def mac_get_modifiers_def)
qed (simp add: typed_events_def)

text \<open>The characters a key press types: the part of the buffer that the conversion counted.\<close>

definition units_of :: "mac_env \<Rightarrow> cg_event \<Rightarrow> mac_hook \<Rightarrow> uint16_t list" where
  "units_of env event s =
     (case keycode_message s of
        Block data \<Rightarrow>
          let (h, data) = convert_on_runloop env s (data\<lparr>tis_event := Some event, tis_length := 0\<rparr>)
          in take (tis_length data) (tis_buffer data)
      | _ \<Rightarrow> [])"

lemma convert_on_runloop_fire [simp]:
  "convert_on_runloop env (fire ty tm msk dat s) data = convert_on_runloop env s data"
  unfolding convert_on_runloop_def mac_fire_fields ..

lemma mac_process_key_pressed_run:
  assumes "message_ready s" and "sound_unicode (me_unicode env)"
  shows "\<exists>s'. mac_process_key_pressed env ts event s = Inr s' \<and> message_ready s' \<and> event_message s' = event_message s
    \<and> (\<forall>d. dispatcher s = Some d \<longrightarrow>
        (let pressed = emitted EVENT_KEY_PRESSED ts (mac_modifiers s)
               (mac_key_data (mac_keycode_to_scancode (cg_keycode event)) (cg_keycode event) CHAR_UNDEFINED)
         in dispatched s' = dispatched s @ pressed #
              (if ev_reserved (d (dispatched s) pressed) = 1 then []
               else typed_events ts (cg_keycode event) (mac_modifiers s) (units_of env event s))))"
proof -
  let ?msk = "mac_modifiers s" and ?dat = "mac_key_data (mac_keycode_to_scancode (cg_keycode event)) (cg_keycode event) CHAR_UNDEFINED"
  let ?s = "fire EVENT_KEY_PRESSED ts ?msk ?dat s"
  obtain data where data: "keycode_message s = Block data" "length (tis_buffer data) = KEY_BUFFER_SIZE"
    using assms(1) by (auto simp: message_ready_def)
  obtain h data' where conv: "convert_on_runloop env s (data\<lparr>tis_event := Some event, tis_length := 0\<rparr>) = (h, data')"
    by fastforce
  with data assms(2) have bounds: "length (tis_buffer data') = KEY_BUFFER_SIZE" "tis_length data' \<le> KEY_BUFFER_SIZE"
    using convert_on_runloop_bounds [OF assms(2) _ _ conv] by simp_all
  have units: "units_of env event s = take (tis_length data') (tis_buffer data')"
    by (simp add: units_of_def data conv)
  let ?t = "?s\<lparr>mac_helper := h, keycode_message := Block data'\<rparr>"
  obtain s' where s': "mac_type_units ts (cg_keycode event) (buffer_units data') ?t = Inr s'"
    "keycode_message s' = Block data'" "event_message s' = event_message s"
    "dispatched s' = (if dispatcher s = None then dispatched ?s
       else dispatched ?s @ typed_events ts (cg_keycode event) ?msk (units_of env event s))"
    using mac_type_units_run [of ts "cg_keycode event" "units_of env event s" ?t] buffer_units_take [of data'] bounds units
    by auto
  have "mac_process_key_pressed env ts event s = (if not_consumed ?s then Inr s' else Inr ?s)"
    using s'(1) by (simp add: mac_process_key_pressed_def mac_get_modifiers_def deref_def data conv Let_def)
  with s' data bounds show ?thesis
    by (auto simp: message_ready_def dispatched_fire not_consumed_iff static_event_fire Let_def split: if_splits)
qed

section \<open>No faults\<close>

text \<open>A hook that was started: the messages are allocated and the hook's structure exists.\<close>

definition started :: "mac_build \<Rightarrow> mac_hook \<Rightarrow> bool" where
  "started build s \<longleftrightarrow> message_ready s \<and> hook_info s \<noteq> None
     \<and> (use_objc build \<longrightarrow> (\<exists>m. event_message s = Block m))"

definition sound_env :: "mac_build \<Rightarrow> mac_env \<Rightarrow> bool" where
  "sound_env build env \<longleftrightarrow> me_build env = build \<and> me_create env \<and> sound_unicode (me_unicode env)"

lemma started_updates [simp]:
  "started b (fire ty tm msk dat s) = started b s"
  "started b (s\<lparr>mac_click_count := c\<rparr>) = started b s"
  "started b (s\<lparr>mac_click_time := ct\<rparr>) = started b s"
  "started b (s\<lparr>mac_click_button := cb\<rparr>) = started b s"
  "started b (s\<lparr>mouse_dragged := d\<rparr>) = started b s"
  "started b (s\<lparr>tap_enabled := e\<rparr>) = started b s"
  "started b (s\<lparr>system_time := st\<rparr>) = started b s"
  "started b (s\<lparr>mac_helper := h\<rparr>) = started b s"
  "started b (mac_set_modifier_mask m s) = started b s"
  "started b (mac_unset_modifier_mask m s) = started b s"
  by (simp_all add: started_def message_ready_def)

lemma mac_process_started [simp]:
  "started b (mac_process_key_released ts event t) = started b t"
  "started b (mac_process_button_pressed env ts event bt t) = started b t"
  "started b (mac_process_button_released env ts event bt t) = started b t"
  "started b (mac_process_mouse_moved env ts event t) = started b t"
  "started b (mac_process_mouse_wheel ts event t) = started b t"
  by (simp_all add: mac_process_key_released_def mac_process_button_pressed_def mac_count_press_def
      mac_process_button_released_def mac_process_mouse_moved_def mac_process_mouse_wheel_def Let_def
      split: prod.split)

lemma mac_process_key_pressed_started:
  assumes "started build s" and "sound_env build env"
  shows "\<exists>s'. mac_process_key_pressed env ts event s = Inr s' \<and> started build s'"
proof -
  obtain s' where s': "mac_process_key_pressed env ts event s = Inr s'" "message_ready s'" "event_message s' = event_message s"
    using mac_process_key_pressed_run [of s env ts event] assms by (auto simp: started_def sound_env_def)
  with assms(1) mac_process_key_pressed_same [OF s'(1)] show ?thesis by (auto simp: started_def mac_same_def)
qed

lemma process_modifier_changed_started:
  assumes "started build s" and "sound_env build env"
  shows "\<exists>s'. process_modifier_changed env ts event s = Inr s' \<and> started build s'"
  using assms mac_process_key_pressed_started
  by (auto simp: process_modifier_changed_def split: option.split prod.split)

lemma system_event_data_started:
  assumes "started build s" and "sound_env build env"
  shows "\<exists>s' answer. system_event_data env s = Inr (s', answer) \<and> started build s'"
  using assms by (auto simp: system_event_data_def started_def sound_env_def message_ready_def deref_def Let_def)

lemma process_system_key_started:
  assumes "started build s" and "sound_env build env"
  shows "\<exists>s'. process_system_key env ts event s = Inr s' \<and> started build s'"
proof -
  obtain t answer where t: "system_event_data env s = Inr (t, answer)" "started build t"
    using system_event_data_started [OF assms] by blast
  have "me_create env" using assms(2) by (simp add: sound_env_def)
  with t assms mac_process_key_pressed_started [OF t(2) assms(2)] show ?thesis
    by (auto simp: process_system_key_def Let_def split: option.split prod.split)
qed

lemma mac_event_started:
  assumes "started build s" and "sound_env build env"
  shows "\<exists>s'. mac_event env type event s = Inr s' \<and> started build s'"
proof (cases type)
  case kCGEventTapDisabledByTimeout
  with assms(1) show ?thesis by (auto simp: mac_event_def reenable_tap_def started_def message_ready_def)
qed (use assms mac_process_key_pressed_started [OF assms] process_modifier_changed_started [OF assms]
      process_system_key_started [OF assms]
    in \<open>simp_all add: mac_event_def process_other_down_def process_other_up_def split: option.split\<close>)

lemma tap_run_started:
  assumes "started build s" and "\<forall>(env, type, event) \<in> set ts. sound_env build env"
  shows "\<exists>s'. tap_run ts s = Inr s' \<and> started build s'"
  using assms
proof (induction ts arbitrary: s)
  case (Cons x ts)
  obtain env type event where x: "x = (env, type, event)" by (cases x) auto
  with Cons.prems obtain t where "mac_event env type event (s\<lparr>system_time := me_time env\<rparr>) = Inr t" "started build t"
    using mac_event_started [of build "s\<lparr>system_time := me_time env\<rparr>" env type event] by auto
  with Cons.IH [of t] Cons.prems(2) show ?case by (simp add: x mac_hook_event_proc_def)
qed simp

section \<open>A hook at rest\<close>

text \<open>
  The build with Application Services on the main run loop, a layout that translates each key code
  to the letter with its number, and a hook that was started.
\<close>

definition plain_unicode :: unicode_env where
  "plain_unicode = \<lparr>ue_on_main = True,
     ue_source = Some \<lparr>is_layout = 1, is_input_source = True,
       is_data = Some \<lparr>ld_is_data = True, ld_length = 1, ld_bytes = Some 1\<rparr>\<rparr>,
     ue_carbon = None,
     translate = (\<lambda>l k m d n b. if n = 0 \<or> b = [] then (True, d, 0, b) else (True, d, 1, b[0 := k + 97])),
     uppercase = Some (\<lambda>b n. b), unicode_string = (\<lambda>event n b. (0, b))\<rparr>"

definition mac_desktop :: mac_build where
  "mac_desktop = \<lparr>use_carbon_legacy = False, use_application_services = True, use_iokit = True, use_objc = False\<rparr>"

definition mac_desktop_env :: mac_env where
  "mac_desktop_env = \<lparr>me_build = mac_desktop, me_is_main = True, me_mode = True, me_converted = True,
     me_unicode = plain_unicode, me_multi_click = 500, me_time = (0, 0), me_create = True,
     me_ns_event = (0, 0), me_data = None, me_malloc = True\<rparr>"

definition mac_idle :: mac_hook where
  "mac_idle = \<lparr>static_event = \<lparr>ev_type = EVENT_HOOK_ENABLED, ev_time = 0, ev_mask = 0, ev_reserved = 0,
       ev_data = Keyboard \<lparr>kb_keycode = 0, kb_rawcode = 0, kb_keychar = 0\<rparr>\<rparr>,
     dispatcher = Some (\<lambda>_ e. e), dispatched = [], mac_modifiers = 0, mac_click_count = 0, mac_click_time = 0,
     mac_click_button = 0, mouse_dragged = False, system_time = (0, 0),
     mac_helper = \<lparr>deadkey_state = 0, prev_keyboard_layout = None, layouts_held = 0\<rparr>,
     keycode_message = Block \<lparr>tis_event = None, tis_buffer = [0, 0, 0, 0], tis_length = 0\<rparr>,
     event_message = NullBlock, dispatch_sync = False, dispatch_queue = False,
     hook_info = Some \<lparr>hk_port = True, hk_source = True, hk_observer = True\<rparr>, tap_enabled = True\<rparr>"

definition event_of :: "uint64_t \<Rightarrow> uint64_t \<Rightarrow> uint64_t \<Rightarrow> cg_event" where
  "event_of keycode flags tm = \<lparr>cg_type = kCGEventKeyDown, cg_keycode = keycode, cg_flags = flags, cg_location = (10, 20),
     cg_button = 2, cg_timestamp = tm, cg_delta1 = 0, cg_delta2 = 0, cg_point_delta1 = 0, cg_point_delta2 = 0,
     cg_continuous = 0\<rparr>"

lemma plain_unicode_sound: "sound_unicode plain_unicode"
  by (simp add: sound_unicode_def plain_unicode_def)

lemma mac_idle_started: "started mac_desktop mac_idle"
  by (simp add: started_def message_ready_def mac_idle_def mac_desktop_def)

lemma mac_desktop_env_sound: "sound_env mac_desktop mac_desktop_env"
  by (simp add: sound_env_def mac_desktop_env_def plain_unicode_sound)

lemma mac_desktop_runs:
  assumes "\<forall>(env, type, event) \<in> set ts. env = mac_desktop_env"
  shows "\<exists>s'. tap_run ts mac_idle = Inr s'"
  using tap_run_started [OF mac_idle_started, of ts] mac_desktop_env_sound assms by fastforce

text \<open>
  A key press on Darwin sends one pressed event with the code of the key and the mask, and then,
  unless the callback consumed it, one typed event for each UTF-16 unit that the conversion counted,
  in order; it does not fault.
\<close>

theorem mac_key_press_dispatches:
  assumes "message_ready s" and "sound_unicode (me_unicode env)" and "dispatcher s = Some d"
  shows "\<exists>s'. mac_process_key_pressed env ts event s = Inr s' \<and>
    (let pressed = emitted EVENT_KEY_PRESSED ts (mac_modifiers s)
           (mac_key_data (mac_keycode_to_scancode (cg_keycode event)) (cg_keycode event) CHAR_UNDEFINED)
     in dispatched s' = dispatched s @ pressed #
          (if ev_reserved (d (dispatched s) pressed) = 1 then []
           else typed_events ts (cg_keycode event) (mac_modifiers s) (units_of env event s)))"
  using mac_process_key_pressed_run [OF assms(1,2)] assms(3) by blast

theorem mac_key_press_dispatches_witness:
  "\<exists>s'. mac_process_key_pressed mac_desktop_env 9 (event_of 1 0 9) mac_idle = Inr s'
     \<and> map ev_type (dispatched s') = [EVENT_KEY_PRESSED, EVENT_KEY_TYPED]"
proof -
  have units: "units_of mac_desktop_env (event_of 1 0 9) mac_idle = [98]"
    by (simp add: units_of_def mac_idle_def convert_on_runloop_def mac_desktop_env_def mac_desktop_def
        keycode_to_lookup_def mac_keycode_to_unicode_def current_layout_def plain_unicode_def source_data_def
        track_layout_def translate_key_def event_of_def drop_invalid_def invalid_codes_def Let_def)
  have ready: "message_ready mac_idle" and callback: "dispatcher mac_idle = Some (\<lambda>_ e. e)" and "dispatched mac_idle = []"
    by (simp_all add: message_ready_def mac_idle_def)
  moreover have sound: "sound_unicode (me_unicode mac_desktop_env)" by (simp add: mac_desktop_env_def plain_unicode_sound)
  ultimately obtain s' where "mac_process_key_pressed mac_desktop_env 9 (event_of 1 0 9) mac_idle = Inr s'"
    "map ev_type (dispatched s') = [EVENT_KEY_PRESSED, EVENT_KEY_TYPED]"
    using mac_key_press_dispatches [OF ready sound callback, of 9 "event_of 1 0 9"]
    unfolding units by (auto simp only: emitted_def typed_events_def Let_def list.map append.simps uiohook_event.simps
        if_False zero_neq_one)
  then show ?thesis by (intro exI conjI)
qed



section \<open>The mask of a run\<close>

text \<open>
  C7. On Darwin, over any run of the event tap, the flag of a modifier key or button is up exactly
  when the last event that moves it says so; an event of a modifier key says what its flag says,
  which the left and the right key share. The flag of Caps Lock is turned over by each event of its
  key.
\<close>

theorem mac_modifiers_follow_keys:
  assumes "tap_run ts s = Inr s'"
  shows "(\<forall>k<16. k \<noteq> 14 \<longrightarrow>
      (bit (mac_modifiers s') k \<longleftrightarrow>
        (case find (\<lambda>t. fst t = k) (rev (transitions_of ts)) of
           Some t \<Rightarrow> snd t | None \<Rightarrow> bit (mac_modifiers s) k)))
    \<and> (bit (mac_modifiers s') 14 \<longleftrightarrow> bit (mac_modifiers s) 14 \<noteq> odd (length (caps_events ts)))"
  using tap_run_bit [OF assms] tap_run_caps [OF assms] by blast

theorem mac_modifiers_follow_keys_witness:
  "\<exists>s'. tap_run [(mac_desktop_env, kCGEventFlagsChanged, event_of 0x3B 0x00040000 5),
        (mac_desktop_env, kCGEventFlagsChanged, event_of 0x39 0 6),
        (mac_desktop_env, kCGEventFlagsChanged, event_of 0x3B 0 7)] mac_idle = Inr s'
     \<and> \<not> bit (mac_modifiers s') 1 \<and> bit (mac_modifiers s') 14"
proof -
  let ?ts = "[(mac_desktop_env, kCGEventFlagsChanged, event_of 0x3B 0x00040000 5),
        (mac_desktop_env, kCGEventFlagsChanged, event_of 0x39 0 6),
        (mac_desktop_env, kCGEventFlagsChanged, event_of 0x3B 0 7)]"
  obtain s' where run: "tap_run ?ts mac_idle = Inr s'" using mac_desktop_runs [of ?ts] by auto
  have "transitions_of ?ts = [(1, True), (1, False)]"
    by (simp add: transitions_of_def mac_transition_def mac_modifier_bit_def event_of_def)
  moreover have "length (caps_events ?ts) = 1"
    by (simp add: caps_events_def is_caps_event_def event_of_def)
  ultimately have "\<not> bit (mac_modifiers s') 1" "bit (mac_modifiers s') 14"
    using mac_modifiers_follow_keys [OF run] by (simp_all add: mac_idle_def)
  with run show ?thesis by blast
qed

section \<open>Buttons\<close>

interpretation mclick: click_counter "mac_count_press mc" mac_click_count mac_click_button mac_click_time
  "\<lambda>t t'. millis_between t t' \<le> sint mc" for mc :: c_long
  by unfold_locales (simp_all add: mac_count_press_def Let_def)

text \<open>The button that an event presses, as the handler sees it.\<close>

definition mac_pressed_button :: "cg_event_type \<Rightarrow> cg_event \<Rightarrow> uint16_t option" where
  "mac_pressed_button type event =
     (case type of
        kCGEventLeftMouseDown \<Rightarrow> Some MOUSE_BUTTON1 | kCGEventRightMouseDown \<Rightarrow> Some MOUSE_BUTTON2
      | kCGEventOtherMouseDown \<Rightarrow> other_button event | kCGEventOtherMouseUp \<Rightarrow> other_button event
      | _ \<Rightarrow> None)"

definition mac_same_clicks :: "mac_hook \<Rightarrow> mac_hook \<Rightarrow> bool" where
  "mac_same_clicks s s' \<longleftrightarrow> mac_click_count s' = mac_click_count s \<and> mac_click_button s' = mac_click_button s
     \<and> mac_click_time s' = mac_click_time s"

lemma mac_count_press_cong:
  assumes "mac_same_clicks s s'"
  shows "mac_same_clicks (mac_count_press mc b tm s) (mac_count_press mc b tm s')"
  using assms by (simp add: mac_same_clicks_def mac_count_press_def Let_def)

lemma mac_event_press:
  assumes "mac_pressed_button type event = Some b" and "mac_same_clicks s t"
  shows "\<exists>s'. mac_event env type event t = Inr s'
    \<and> mac_same_clicks (mac_count_press (me_multi_click env) b (cg_timestamp event) s) s'"
proof -
  have "mac_same_clicks s (mac_set_modifier_mask m t)" "mac_same_clicks s (mac_unset_modifier_mask m t)" for m
    using assms(2) by (simp_all add: mac_same_clicks_def)
  then have "mac_same_clicks (mac_count_press (me_multi_click env) b (cg_timestamp event) s)
      (mac_process_button_pressed env (cg_timestamp event) event b u)"
    if "u = t \<or> (\<exists>m. u = mac_set_modifier_mask m t) \<or> (\<exists>m. u = mac_unset_modifier_mask m t)" for u
    using mac_count_press_cong [of s u "me_multi_click env" b "cg_timestamp event"] that assms(2)
    by (auto simp: mac_process_button_pressed_def mac_same_clicks_def Let_def)
  with assms(1) show ?thesis
    by (auto simp: mac_pressed_button_def mac_event_def process_other_down_def process_other_up_def
        split: cg_event_type.splits option.splits)
qed

definition mac_press :: "tapped \<Rightarrow> uint16_t \<times> uint64_t" where
  "mac_press x = (case x of (env, type, event) \<Rightarrow> (the (mac_pressed_button type event), cg_timestamp event))"

lemma tap_run_clicks:
  assumes "\<forall>(env, type, event) \<in> set ts. mac_pressed_button type event \<noteq> None \<and> me_multi_click env = mc"
  shows "\<exists>s'. tap_run (rev ts) s = Inr s' \<and> mac_same_clicks (mclick.presses mc (map mac_press ts) s) s'"
  using assms
proof (induction ts)
  case (Cons x ts)
  obtain env type event where x: "x = (env, type, event)" by (cases x) auto
  then obtain b where b: "mac_pressed_button type event = Some b" and mc: "me_multi_click env = mc"
    using Cons.prems by auto
  from Cons obtain t where t: "tap_run (rev ts) s = Inr t"
    "mac_same_clicks (mclick.presses mc (map mac_press ts) s) t" by auto
  then have "mac_same_clicks (mclick.presses mc (map mac_press ts) s) (t\<lparr>system_time := me_time env\<rparr>)"
    by (simp add: mac_same_clicks_def)
  moreover have "mac_press x = (b, cg_timestamp event)" by (simp add: mac_press_def x b)
  ultimately show ?case
    using mac_event_press [OF b, of _ "t\<lparr>system_time := me_time env\<rparr>" env] t(1)
    by (fastforce simp: tap_run_append x mac_hook_event_proc_def mc)
qed (simp add: mac_same_clicks_def)

text \<open>
  The click counter of the Darwin handler, over any run of events that press a button (the latest
  first) under one multi-click time, is the count of the shared reference.
\<close>

theorem mac_clicks_refine_reference:
  assumes "\<forall>(env, type, event) \<in> set ts. mac_pressed_button type event \<noteq> None \<and> me_multi_click env = mc"
    and "ts \<noteq> []" and "mac_click_count s = 0"
  shows "\<exists>s'. tap_run (rev ts) s = Inr s' \<and>
    unat (mac_click_count s') = clicks_of (\<lambda>t t'. millis_between t t' \<le> sint mc) (map mac_press ts)"
proof -
  obtain s' where "tap_run (rev ts) s = Inr s'" "mac_same_clicks (mclick.presses mc (map mac_press ts) s) s'"
    using tap_run_clicks [OF assms(1)] by blast
  moreover have "unat (mac_click_count (mclick.presses mc (map mac_press ts) s)) =
      clicks_of (\<lambda>t t'. millis_between t t' \<le> sint mc) (map mac_press ts)"
    using assms(2,3) by (intro mclick.count_refines) simp_all
  ultimately show ?thesis by (auto simp: mac_same_clicks_def)
qed

theorem mac_clicks_refine_reference_witness:
  "\<exists>s'. tap_run (rev [(mac_desktop_env, kCGEventLeftMouseDown, event_of 0 0 300000000),
       (mac_desktop_env, kCGEventLeftMouseDown, event_of 0 0 100000000)]) mac_idle = Inr s' \<and> unat (mac_click_count s') = 2"
proof -
  have "clicks_of (\<lambda>t t'. millis_between t t' \<le> sint (500 :: c_long)) [(MOUSE_BUTTON1, 300000000), (MOUSE_BUTTON1, 100000000)] = 2"
    by (simp add: millis_between_def c_div_def)
  then show ?thesis
    using mac_clicks_refine_reference [of "[(mac_desktop_env, kCGEventLeftMouseDown, event_of 0 0 300000000),
       (mac_desktop_env, kCGEventLeftMouseDown, event_of 0 0 100000000)]" 500 mac_idle]
    by (simp add: mac_pressed_button_def mac_desktop_env_def mac_press_def event_of_def mac_idle_def)
qed

text \<open>
  The release of a middle or extra button is reported as another press of it: one pressed event
  is sent, no released and no clicked event.
\<close>

theorem mac_other_release_is_press:
  assumes "other_button event = Some b" and "dispatcher s = Some d"
  shows "\<exists>s' clicks msk. mac_event env kCGEventOtherMouseUp event s = Inr s'
    \<and> dispatched s' = dispatched s @ [emitted EVENT_MOUSE_PRESSED (cg_timestamp event) msk
        (mac_mouse_data b clicks (cg_location event))]"
  using assms
  by (auto simp: mac_event_def process_other_up_def mac_process_button_pressed_def dispatched_fire
      mac_count_press_def mac_get_modifiers_def Let_def)

theorem mac_other_release_is_press_witness:
  "\<exists>s'. mac_event mac_desktop_env kCGEventOtherMouseUp (event_of 0 0 7) mac_idle = Inr s'
     \<and> map ev_type (dispatched s') = [EVENT_MOUSE_PRESSED]"
  using mac_other_release_is_press [of "event_of 0 0 7" 3 mac_idle "\<lambda>_ e. e" mac_desktop_env]
  by (fastforce simp: other_button_def event_of_def mac_idle_def emitted_def)

text \<open>
  The release of the left or the right button on Darwin sends a released event and then, unless
  the callback consumed it or the mouse was dragged, a clicked event with the same click count.
\<close>

theorem mac_button_release_dispatches:
  assumes "dispatcher s = Some d"
  shows "let released = emitted EVENT_MOUSE_RELEASED ts (mac_modifiers s)
               (mac_mouse_data button (mac_click_count s) (cg_location event));
             clicked = emitted EVENT_MOUSE_CLICKED ts (mac_modifiers s)
               (mac_mouse_data button (mac_click_count s) (cg_location event))
    in dispatched (mac_process_button_released env ts event button s) = dispatched s @ released #
         (if ev_reserved (d (dispatched s) released) = 1 \<or> mouse_dragged s then [] else [clicked])"
  using assms
  by (auto simp: mac_process_button_released_def dispatched_fire not_consumed_iff static_event_fire
      mac_get_modifiers_def Let_def)

theorem mac_button_release_dispatches_witness:
  "map ev_type (dispatched (mac_process_button_released mac_desktop_env 7 (event_of 0 0 7) MOUSE_BUTTON1 mac_idle)) =
     [EVENT_MOUSE_RELEASED, EVENT_MOUSE_CLICKED]"
  using mac_button_release_dispatches [of mac_idle "\<lambda>_ e. e" 7 MOUSE_BUTTON1 "event_of 0 0 7" mac_desktop_env]
  by (simp add: mac_idle_def emitted_def Let_def)

section \<open>Layouts\<close>

text \<open>The helper holds a reference to the layout it remembers, and to no other.\<close>

definition layout_refs :: "mac_helper \<Rightarrow> bool" where
  "layout_refs h \<longleftrightarrow> layouts_held h = of_bool (prev_keyboard_layout h \<noteq> None)"

lemma track_layout_refs: "layout_refs h \<Longrightarrow> layout_refs (track_layout current h)"
  by (auto simp: layout_refs_def track_layout_def Let_def split: option.split)

lemma translate_key_refs: "layout_refs h \<Longrightarrow> translate_key env l event n b h = (h', b', c) \<Longrightarrow> layout_refs h'"
  by (auto simp: layout_refs_def translate_key_def Let_def split: prod.splits if_splits option.splits)

lemma current_layout_refs: "layout_refs h \<Longrightarrow> current_layout build env h = (l, h') \<Longrightarrow> layout_refs h'"
  by (auto simp: current_layout_def track_layout_refs split: if_splits)

lemma mac_keycode_to_unicode_refs:
  "layout_refs h \<Longrightarrow> mac_keycode_to_unicode build env event n b h = (h', b', c) \<Longrightarrow> layout_refs h'"
  by (auto simp: mac_keycode_to_unicode_def split: if_splits prod.splits option.splits
      dest: current_layout_refs translate_key_refs)

lemma convert_on_runloop_refs:
  assumes "layout_refs (mac_helper s)" and "convert_on_runloop env s data = (h', data')"
  shows "layout_refs h'"
proof -
  have "layout_refs h" if "keycode_to_lookup env m data (mac_helper s) = (h, d)" for m h d
    using that assms(1)
    by (auto simp: keycode_to_lookup_def split: option.splits prod.splits dest: mac_keycode_to_unicode_refs)
  with assms show ?thesis by (auto simp: convert_on_runloop_def split: if_splits)
qed

lemma mac_type_units_helper: "mac_type_units ts k cs s = Inr s' \<Longrightarrow> mac_helper s' = mac_helper s"
  by (induction cs arbitrary: s) (fastforce split: option.splits)+

lemma mac_process_key_pressed_refs:
  assumes "mac_process_key_pressed env ts event s = Inr s'" and "layout_refs (mac_helper s)"
  shows "layout_refs (mac_helper s')"
  using assms convert_on_runloop_refs [of s env]
  by (fastforce simp: mac_process_key_pressed_def Let_def split: if_splits prod.splits elim!: r_bind_InrE
      dest!: mac_type_units_helper)

lemma mac_process_helper [simp]:
  "mac_helper (mac_process_key_released ts event t) = mac_helper t"
  "mac_helper (mac_process_button_pressed env ts event b t) = mac_helper t"
  "mac_helper (mac_process_button_released env ts event b t) = mac_helper t"
  "mac_helper (mac_process_mouse_moved env ts event t) = mac_helper t"
  "mac_helper (mac_process_mouse_wheel ts event t) = mac_helper t"
  "mac_helper (process_other_down env ts event t) = mac_helper t"
  "mac_helper (process_other_up env ts event t) = mac_helper t"
  by (simp_all add: mac_process_key_released_def mac_process_button_pressed_def mac_count_press_def
      mac_process_button_released_def mac_process_mouse_moved_def mac_process_mouse_wheel_def
      process_other_down_def process_other_up_def Let_def split: prod.split option.split)

lemma process_modifier_changed_refs:
  assumes "process_modifier_changed env ts event s = Inr s'" and "layout_refs (mac_helper s)"
  shows "layout_refs (mac_helper s')"
  using assms
  by (auto simp: process_modifier_changed_def split: option.splits prod.splits if_splits
      dest: mac_process_key_pressed_refs)

lemma system_event_data_helper: "system_event_data env s = Inr (s', answer) \<Longrightarrow> mac_helper s' = mac_helper s"
  by (auto simp: system_event_data_def Let_def elim!: r_bind_InrE split: if_splits)

lemma process_system_key_refs:
  assumes "process_system_key env ts event s = Inr s'" and "layout_refs (mac_helper s)"
  shows "layout_refs (mac_helper s')"
proof (cases "cg_type event = NX_SYSDEFINED")
  case True
  with assms obtain t answer where t: "system_event_data env s = Inr (t, answer)"
    by (auto simp: process_system_key_def elim!: r_bind_InrE)
  with assms(1) True have "mac_helper s' = mac_helper t \<or> (\<exists>e. mac_process_key_pressed env ts e t = Inr s')"
    by (auto simp: process_system_key_def Let_def split: if_splits option.splits prod.splits)
  with system_event_data_helper [OF t] assms(2) mac_process_key_pressed_refs show ?thesis by auto
qed (use assms in \<open>simp add: process_system_key_def\<close>)

lemma mac_event_refs:
  assumes "mac_event env type event s = Inr s'" and "layout_refs (mac_helper s)"
  shows "layout_refs (mac_helper s')"
proof (cases type)
  case kCGEventTapDisabledByTimeout
  with assms show ?thesis by (auto simp: mac_event_def reenable_tap_def split: option.splits)
qed (use assms in \<open>auto simp: mac_event_def
      dest: mac_process_key_pressed_refs process_modifier_changed_refs process_system_key_refs\<close>)

lemma tap_run_refs: "tap_run ts s = Inr s' \<Longrightarrow> layout_refs (mac_helper s) \<Longrightarrow> layout_refs (mac_helper s')"
  by (induction ts arbitrary: s)
    (auto simp: mac_hook_event_proc_def elim!: r_bind_InrE dest!: mac_event_refs split: prod.splits)

text \<open>
  Over any run of the event tap the helper holds exactly one reference to a keyboard layout when it
  remembers one and none otherwise, so that unloading leaves no reference behind.
\<close>

theorem mac_layout_references:
  assumes "tap_run ts s = Inr s'" and "layouts_held (mac_helper s) = of_bool (prev_keyboard_layout (mac_helper s) \<noteq> None)"
    and "use_carbon_legacy build \<or> use_application_services build"
  shows "layouts_held (mac_helper s') = of_bool (prev_keyboard_layout (mac_helper s') \<noteq> None)
    \<and> layouts_held (mac_unload_input_helper build (mac_helper s')) = 0"
proof -
  have "layout_refs (mac_helper s')" using tap_run_refs [OF assms(1)] assms(2) by (simp add: layout_refs_def)
  with assms(3) show ?thesis by (auto simp: layout_refs_def mac_unload_input_helper_def)
qed

theorem mac_layout_references_witness:
  "\<exists>s'. tap_run [(mac_desktop_env, kCGEventKeyDown, event_of 1 0 9)] mac_idle = Inr s'
     \<and> layouts_held (mac_unload_input_helper mac_desktop (mac_helper s')) = 0"
proof -
  obtain s' where run: "tap_run [(mac_desktop_env, kCGEventKeyDown, event_of 1 0 9)] mac_idle = Inr s'"
    using mac_desktop_runs [of "[(mac_desktop_env, kCGEventKeyDown, event_of 1 0 9)]"] by auto
  then show ?thesis
    using mac_layout_references [OF run, of mac_desktop] by (simp add: mac_idle_def mac_desktop_def)
qed

end
