(* ===== verification/Darwin_Lifecycle.thy ===== *)
theory Darwin_Lifecycle
  imports Darwin_Hook_Properties
begin

text \<open>
  Start and stop of the Darwin hook (\<^verbatim>\<open>src/darwin/input_hook.c\<close>): the structures for the event run
  loop and the main run loop, \<^verbatim>\<open>hook_run\<close>, which blocks in \<^verbatim>\<open>CFRunLoopRun\<close> while the event tap calls the
  handler, and \<^verbatim>\<open>hook_stop\<close>. The state counts what is acquired and released.
\<close>

section \<open>State\<close>

record main_runloop_info =
  mi_source :: pointer
  mi_observer :: pointer

text \<open>
  \<open>mp_input\<close> is the state of the handler with the static \<^verbatim>\<open>hook\<close>, \<open>mp_main\<close> the static
  \<^verbatim>\<open>main_runloop_keycode\<close>. The counters are the blocks of memory, Core Foundation objects and
  autorelease pools acquired and not yet released, and the sources and observers added to a run
  loop and not yet removed.
\<close>

record mac_process =
  mp_input :: mac_hook
  mp_main :: "main_runloop_info option"
  mp_event_loop :: bool
  mp_blocks :: int
  mp_objects :: int
  mp_pools :: int
  mp_source_added :: bool
  mp_observer_added :: bool
  mp_main_source_added :: bool
  mp_main_observer_added :: bool

text \<open>
  The answers of one run: the accessibility check, the current run loop and whether it is the main
  one, the keys, buttons and flags, the allocations and creations in the order they are asked for,
  the two symbols of the dispatch library, and the run: its two times and the events of the tap.
\<close>

record mac_run_env =
  mr_build :: mac_build
  mr_ax :: ax_env
  mr_loop :: bool
  mr_is_main :: bool
  mr_key :: "uint16_t \<Rightarrow> bool"
  mr_button :: "nat \<Rightarrow> bool"
  mr_flags :: uint64_t
  mr_calloc_hook :: bool
  mr_port :: bool
  mr_source :: bool
  mr_observer :: bool
  mr_calloc_keycode :: bool
  mr_calloc_event :: bool
  mr_dispatch_sync :: bool
  mr_dispatch_queue :: bool
  mr_malloc_main :: bool
  mr_main_observer :: bool
  mr_main_source :: bool
  mr_entry_time :: uint64_t
  mr_exit_time :: uint64_t
  mr_events :: "tapped list"

definition set_info :: "event_runloop_info option \<Rightarrow> mac_process \<Rightarrow> mac_process" where
  "set_info h p = p\<lparr>mp_input := (mp_input p)\<lparr>hook_info := h\<rparr>\<rparr>"

section \<open>The event run loop\<close>

text \<open>Creating an object that is not null adds to the objects that have to be released; an event tap is created enabled.\<close>

definition create_event_runloop_info :: "mac_run_env \<Rightarrow> mac_process \<Rightarrow> mac_process \<times> c_int" where
  "create_event_runloop_info env p =
     (if hook_info (mp_input p) \<noteq> None then (p, UIOHOOK_FAILURE)
      else if \<not> mr_calloc_hook env then (p, UIOHOOK_ERROR_OUT_OF_MEMORY)
      else
        let h = \<lparr>hk_port = mr_port env, hk_source = False, hk_observer = False\<rparr>;
            p = p\<lparr>mp_input := (mp_input p)\<lparr>hook_info := Some h, tap_enabled := mr_port env\<rparr>,
                  mp_blocks := mp_blocks p + 1,
                  mp_objects := mp_objects p + of_bool (mr_port env)\<rparr> in
        if \<not> mr_port env then (p, UIOHOOK_ERROR_CREATE_EVENT_PORT)
        else
          let h = h\<lparr>hk_source := mr_source env\<rparr>;
              p = (set_info (Some h) p)\<lparr>mp_objects := mp_objects p + of_bool (mr_source env)\<rparr> in
          if \<not> mr_source env then (p, UIOHOOK_ERROR_CREATE_RUN_LOOP_SOURCE)
          else
            let h = h\<lparr>hk_observer := mr_observer env\<rparr>;
                p = (set_info (Some h) p)\<lparr>mp_objects := mp_objects p + of_bool (mr_observer env)\<rparr> in
            if \<not> mr_observer env then (p, UIOHOOK_ERROR_CREATE_OBSERVER)
            else (p\<lparr>mp_source_added := True, mp_observer_added := True\<rparr>, UIOHOOK_SUCCESS))"

definition destroy_event_runloop_info :: "mac_process \<Rightarrow> mac_process" where
  "destroy_event_runloop_info p =
     (case hook_info (mp_input p) of
        None \<Rightarrow> p
      | Some h \<Rightarrow>
          let p = (if hk_observer h
                   then p\<lparr>mp_observer_added := False, mp_objects := mp_objects p - 1\<rparr> else p);
              p = (if hk_source h
                   then p\<lparr>mp_source_added := False, mp_objects := mp_objects p - 1\<rparr> else p);
              p = (if hk_port h
                   then p\<lparr>mp_objects := mp_objects p - 1, mp_input := (mp_input p)\<lparr>tap_enabled := False\<rparr>\<rparr> else p)
          in (set_info None p)\<lparr>mp_blocks := mp_blocks p - 1\<rparr>)"

section \<open>The main run loop\<close>

definition create_main_runloop_info :: "mac_run_env \<Rightarrow> mac_process \<Rightarrow> mac_process \<times> c_int" where
  "create_main_runloop_info env p =
     (if mp_main p \<noteq> None then (p, UIOHOOK_FAILURE)
      else if \<not> mr_malloc_main env then (p, UIOHOOK_ERROR_OUT_OF_MEMORY)
      else
        let m = \<lparr>mi_source = Unwritten, mi_observer = pointer_of (mr_main_observer env)\<rparr>;
            p = p\<lparr>mp_main := Some m, mp_blocks := mp_blocks p + 1,
                  mp_objects := mp_objects p + of_bool (mr_main_observer env)\<rparr> in
        if \<not> mr_main_observer env then (p, UIOHOOK_ERROR_CREATE_OBSERVER)
        else
          let m = m\<lparr>mi_source := pointer_of (mr_main_source env)\<rparr>;
              p = p\<lparr>mp_main := Some m, mp_objects := mp_objects p + of_bool (mr_main_source env)\<rparr> in
          if \<not> mr_main_source env then (p, UIOHOOK_ERROR_CREATE_RUN_LOOP_SOURCE)
          else (p\<lparr>mp_main_source_added := True, mp_main_observer_added := True\<rparr>, UIOHOOK_SUCCESS))"

text \<open>The structure is not cleared when it is allocated, so a field may be read unwritten.\<close>

definition destroy_main_runloop_info :: "mac_process \<Rightarrow> mac_process result" where
  "destroy_main_runloop_info p =
     (case mp_main p of
        None \<Rightarrow> Inr p
      | Some m \<Rightarrow>
          if mi_observer m = Unwritten then Inl UninitialisedRead
          else
            let p = (if mi_observer m = Set
                     then p\<lparr>mp_main_observer_added := False, mp_objects := mp_objects p - 1\<rparr> else p) in
            if mi_source m = Unwritten then Inl UninitialisedRead
            else
              let p = (if mi_source m = Set
                       then p\<lparr>mp_main_source_added := False, mp_objects := mp_objects p - 1\<rparr> else p)
              in Inr (p\<lparr>mp_main := None, mp_blocks := mp_blocks p - 1\<rparr>))"

definition main_runloop_build :: "mac_build \<Rightarrow> bool" where
  "main_runloop_build build \<longleftrightarrow> \<not> use_carbon_legacy build \<and> use_application_services build"

section \<open>Start\<close>

definition run_loop :: "mac_run_env \<Rightarrow> mac_hook \<Rightarrow> mac_hook result" where
  "run_loop env s =
     r_bind (tap_run (mr_events env) (hook_status_proc (mr_build env) kCFRunLoopEntry (mr_entry_time env) s)) (\<lambda>s.
     Inr (hook_status_proc (mr_build env) kCFRunLoopExit (mr_exit_time env) s))"

text \<open>The two message blocks; the first result is whether both could be allocated.\<close>

definition allocate_messages :: "mac_run_env \<Rightarrow> mac_process \<Rightarrow> bool \<times> mac_process" where
  "allocate_messages env p =
     (if \<not> mr_calloc_keycode env then (False, p\<lparr>mp_input := (mp_input p)\<lparr>keycode_message := NullBlock\<rparr>\<rparr>)
      else
        let p = p\<lparr>mp_blocks := mp_blocks p + 1,
                  mp_input := (mp_input p)\<lparr>keycode_message :=
                    Block \<lparr>tis_event = None, tis_buffer = [0, 0, 0, 0], tis_length = 0\<rparr>\<rparr>\<rparr> in
        if use_objc (mr_build env)
        then if mr_calloc_event env
             then (True, p\<lparr>mp_blocks := mp_blocks p + 1, mp_input := (mp_input p)\<lparr>event_message := Block (0, 0)\<rparr>\<rparr>)
             else (False, p\<lparr>mp_input := (mp_input p)\<lparr>event_message := NullBlock\<rparr>\<rparr>)
        else (True, p))"

definition free_messages :: "mac_run_env \<Rightarrow> mac_process \<Rightarrow> mac_process" where
  "free_messages env p =
     (let p = (if use_objc (mr_build env)
               then p\<lparr>mp_blocks := mp_blocks p - 1, mp_input := (mp_input p)\<lparr>event_message := Freed\<rparr>\<rparr> else p)
      in p\<lparr>mp_blocks := mp_blocks p - 1, mp_input := (mp_input p)\<lparr>keycode_message := Freed\<rparr>\<rparr>)"

text \<open>
  Off the main run loop the dispatch library is looked up, and when it is missing the main run
  loop is prepared: the status is \<^verbatim>\<open>UIOHOOK_SUCCESS\<close> when the hook can go on.
\<close>

definition prepare_conversion :: "mac_run_env \<Rightarrow> mac_process \<Rightarrow> (mac_process \<times> c_int) result" where
  "prepare_conversion env p =
     (if mr_is_main env then Inr (p, UIOHOOK_SUCCESS)
      else
        let p = p\<lparr>mp_input := (mp_input p)\<lparr>dispatch_sync := mr_dispatch_sync env, dispatch_queue := mr_dispatch_queue env\<rparr>\<rparr> in
        if (\<not> mr_dispatch_sync env \<or> \<not> mr_dispatch_queue env) \<and> main_runloop_build (mr_build env)
        then
          let (p, status) = create_main_runloop_info env p in
          if status \<noteq> UIOHOOK_SUCCESS
          then r_bind (destroy_main_runloop_info p) (\<lambda>p. Inr (p, status))
          else Inr (p, UIOHOOK_SUCCESS)
        else Inr (p, UIOHOOK_SUCCESS))"

definition run_session :: "mac_run_env \<Rightarrow> mac_process \<Rightarrow> mac_process result" where
  "run_session env p =
     (let p = (if use_objc (mr_build env) then p\<lparr>mp_pools := mp_pools p + 1\<rparr> else p) in
      r_bind (run_loop env (mp_input p)) (\<lambda>s.
      let p = p\<lparr>mp_input := s\<rparr>;
          p = (if use_objc (mr_build env) then p\<lparr>mp_pools := mp_pools p - 1\<rparr> else p) in
      r_bind (if main_runloop_build (mr_build env) \<and> \<not> mr_is_main env \<and> (\<not> dispatch_sync s \<or> \<not> dispatch_queue s)
              then destroy_main_runloop_info p else Inr p) (\<lambda>p.
      Inr (destroy_event_runloop_info (free_messages env p)))))"

text \<open>What \<^verbatim>\<open>hook_run\<close> does once the structure of the hook exists.\<close>

definition start_session :: "mac_run_env \<Rightarrow> mac_process \<Rightarrow> (mac_process \<times> c_int) result" where
  "start_session env p =
     (let (ok, p) = allocate_messages env p in
      if \<not> ok then Inr (p, UIOHOOK_ERROR_OUT_OF_MEMORY)
      else
        r_bind (prepare_conversion env p) (\<lambda>(p, status).
        if status \<noteq> UIOHOOK_SUCCESS then Inr (p, status)
        else r_bind (run_session env p) (\<lambda>p. Inr (p, UIOHOOK_SUCCESS))))"

definition mac_hook_run :: "mac_run_env \<Rightarrow> mac_process \<Rightarrow> (mac_process \<times> c_int) result" where
  "mac_hook_run env p =
     (let (enabled, dictionary) = is_accessibility_enabled (mr_ax env);
          p = p\<lparr>mp_objects := mp_objects p + dictionary\<rparr> in
      if \<not> enabled then Inr (p, UIOHOOK_ERROR_AXAPI_DISABLED)
      else
        let p = p\<lparr>mp_event_loop := mr_loop env\<rparr> in
        if \<not> mr_loop env then Inr (p, UIOHOOK_ERROR_GET_RUNLOOP)
        else
          let p = p\<lparr>mp_input := mac_initialize_modifiers (mr_key env) (mr_button env) (mr_flags env) (mp_input p)\<rparr>;
              (p, status) = create_event_runloop_info env p in
          if status \<noteq> UIOHOOK_SUCCESS then Inr (destroy_event_runloop_info p, status)
          else start_session env p)"

section \<open>Stop\<close>

text \<open>\<open>mode\<close> is whether the event loop has a current mode; asking needs a loop.\<close>

definition mac_hook_stop :: "mac_build \<Rightarrow> bool \<Rightarrow> mac_process \<Rightarrow> (mac_process \<times> c_int) result" where
  "mac_hook_stop build mode p =
     (if \<not> mp_event_loop p then Inl NullDereference
      else if mode
      then Inr (p\<lparr>mp_input := (mp_input p)\<lparr>mac_helper := mac_unload_input_helper build (mac_helper (mp_input p))\<rparr>\<rparr>,
                UIOHOOK_SUCCESS)
      else Inr (p, UIOHOOK_FAILURE))"

section \<open>The session\<close>

text \<open>The events that were sent stay sent, those that follow fit their types, and what the run was set up with stays.\<close>

definition grows :: "mac_hook \<Rightarrow> mac_hook \<Rightarrow> bool" where
  "grows s s' \<longleftrightarrow> reports s s' \<and> dispatch_sync s' = dispatch_sync s \<and> dispatch_queue s' = dispatch_queue s \<and> hook_info s' = hook_info s"

lemma grows_refl [simp]: "grows s s"
  by (simp add: grows_def)

lemma grows_trans: "grows s t \<Longrightarrow> grows t u \<Longrightarrow> grows s u"
  by (auto simp: grows_def intro: reports_trans)

lemma grows_fire: "grows s t \<Longrightarrow> fits_type (emitted ty tm msk dat) \<Longrightarrow> grows s (fire ty tm msk dat t)"
  by (simp add: grows_def reports_fire)

lemma fits_type_mac [simp]:
  "ty \<in> {EVENT_KEY_PRESSED, EVENT_KEY_RELEASED} \<Longrightarrow> ch = CHAR_UNDEFINED \<Longrightarrow> fits_type (emitted ty tm msk (mac_key_data c k ch))"
  "c = VC_UNDEFINED \<Longrightarrow> fits_type (emitted EVENT_KEY_TYPED tm msk (mac_key_data c k ch))"
  "ty \<in> {EVENT_MOUSE_PRESSED, EVENT_MOUSE_RELEASED, EVENT_MOUSE_CLICKED} \<Longrightarrow> fits_type (emitted ty tm msk (mac_mouse_data b n p))"
  "ty \<in> {EVENT_MOUSE_MOVED, EVENT_MOUSE_DRAGGED} \<Longrightarrow> b = MOUSE_NOBUTTON \<Longrightarrow> fits_type (emitted ty tm msk (mac_mouse_data b n p))"
  "wh_clicks w = 1 \<Longrightarrow> fits_type (emitted EVENT_MOUSE_WHEEL tm msk (Wheel w))"
  by (auto simp: fits_type_def emitted_def mac_key_data_def mac_mouse_data_def)

text \<open>A key that is pressed or typed comes before what follows it.\<close>

lemma grows_of_key:
  "ch = CHAR_UNDEFINED \<Longrightarrow> grows (fire EVENT_KEY_PRESSED tm msk (mac_key_data c k ch) s) t \<Longrightarrow> grows s t"
  "c = VC_UNDEFINED \<Longrightarrow> grows (fire EVENT_KEY_TYPED tm msk (mac_key_data c k ch) s) t \<Longrightarrow> grows s t"
  by (rule grows_trans [OF grows_fire [OF grows_refl]]; simp)+

lemma grows_updates [simp]:
  "grows s (t\<lparr>mac_helper := h\<rparr>) = grows s t"
  "grows (t\<lparr>mac_helper := h\<rparr>) s = grows t s"
  "grows s (t\<lparr>keycode_message := km\<rparr>) = grows s t"
  "grows (t\<lparr>keycode_message := km\<rparr>) s = grows t s"
  "grows s (t\<lparr>event_message := em\<rparr>) = grows s t"
  "grows (t\<lparr>event_message := em\<rparr>) s = grows t s"
  "grows s (t\<lparr>mac_click_count := c\<rparr>) = grows s t"
  "grows s (t\<lparr>mac_click_time := ct\<rparr>) = grows s t"
  "grows s (t\<lparr>mac_click_button := b\<rparr>) = grows s t"
  "grows s (t\<lparr>mouse_dragged := d\<rparr>) = grows s t"
  "grows s (t\<lparr>tap_enabled := e\<rparr>) = grows s t"
  "grows (t\<lparr>system_time := st\<rparr>) s = grows t s"
  "grows s (mac_set_modifier_mask m t) = grows s t"
  "grows (mac_set_modifier_mask m t) s = grows t s"
  "grows s (mac_unset_modifier_mask m t) = grows s t"
  by (simp_all add: grows_def reports_def mac_set_modifier_mask_def mac_unset_modifier_mask_def)

lemma mac_type_units_grows: "mac_type_units ts k cs s = Inr s' \<Longrightarrow> grows s s'"
proof (induction cs arbitrary: s)
  case (Cons c cs)
  then obtain ch where "mac_type_units ts k cs (fire EVENT_KEY_TYPED ts (mac_get_modifiers s) (mac_key_data VC_UNDEFINED k ch) s) = Inr s'"
    by (auto split: option.splits)
  from Cons.IH [OF this] show ?case by (rule grows_of_key(2) [OF refl])
qed simp

lemma mac_process_key_pressed_grows: "mac_process_key_pressed env ts event s = Inr s' \<Longrightarrow> grows s s'"
  by (auto simp: mac_process_key_pressed_def Let_def split: if_splits prod.splits elim!: r_bind_InrE
      intro!: grows_fire dest!: mac_type_units_grows grows_of_key(1) [OF refl])

lemma mac_process_grows [intro]:
  "grows s t \<Longrightarrow> grows s (mac_process_key_released ts event t)"
  "grows s t \<Longrightarrow> grows s (mac_process_button_pressed env ts event b t)"
  "grows s t \<Longrightarrow> grows s (mac_process_button_released env ts event b t)"
  "grows s t \<Longrightarrow> grows s (mac_process_mouse_moved env ts event t)"
  "grows s t \<Longrightarrow> grows s (mac_process_mouse_wheel ts event t)"
  by (auto simp: mac_process_key_released_def mac_process_button_pressed_def mac_count_press_def
      mac_process_button_released_def mac_process_mouse_moved_def mac_process_mouse_wheel_def Let_def
      intro!: grows_fire split: prod.split)

lemma process_modifier_changed_grows: "process_modifier_changed env ts event s = Inr s' \<Longrightarrow> grows s s'"
  by (auto simp: process_modifier_changed_def split: option.splits prod.splits if_splits
      dest!: mac_process_key_pressed_grows)

lemma system_event_data_grows: "system_event_data env s = Inr (s', answer) \<Longrightarrow> grows s s'"
  by (auto simp: system_event_data_def Let_def elim!: r_bind_InrE split: if_splits)

lemma process_system_key_grows:
  assumes "process_system_key env ts event s = Inr s'"
  shows "grows s s'"
proof (cases "cg_type event = NX_SYSDEFINED")
  case True
  with assms obtain t answer where t: "system_event_data env s = Inr (t, answer)"
    by (auto simp: process_system_key_def elim!: r_bind_InrE)
  with assms True have "grows t s'"
    by (auto simp: process_system_key_def Let_def split: if_splits option.splits prod.splits
        dest!: mac_process_key_pressed_grows)
  with system_event_data_grows [OF t] show ?thesis by (blast intro: grows_trans)
qed (use assms in \<open>simp add: process_system_key_def\<close>)

lemma mac_event_grows:
  assumes "mac_event env type event s = Inr s'"
  shows "grows s s'"
proof (cases type)
  case kCGEventTapDisabledByTimeout
  with assms show ?thesis by (auto simp: mac_event_def reenable_tap_def split: option.splits)
qed (use assms in \<open>auto simp: mac_event_def process_other_down_def process_other_up_def split: option.splits
      dest!: mac_process_key_pressed_grows process_modifier_changed_grows process_system_key_grows\<close>)

lemma tap_run_grows: "tap_run ts s = Inr s' \<Longrightarrow> grows s s'"
  by (induction ts arbitrary: s)
    (fastforce simp: mac_hook_event_proc_def elim!: r_bind_InrE dest!: mac_event_grows split: prod.splits
      intro: grows_trans)+

definition tap_step :: "tapped \<Rightarrow> mac_hook \<Rightarrow> mac_hook result" where
  "tap_step t s = (case t of (env, type, event) \<Rightarrow> r_bind (mac_hook_event_proc env type event s) (\<lambda>(s, passed). Inr s))"

lemma tap_run_step: "tap_run (t # ts) s = r_bind (tap_step t s) (tap_run ts)"
  by (cases t; cases "mac_hook_event_proc (fst t) (fst (snd t)) (snd (snd t)) s") (auto simp: tap_step_def)

interpretation dsource: event_source tap_step tap_run
proof
  show "tap_step t s = Inr s' \<Longrightarrow> reports s s'" for t s s'
    using tap_run_grows [of "[t]" s s'] by (simp add: grows_def tap_run_step del: tap_run.simps(2))
qed (simp_all add: tap_run_step del: tap_run.simps(2))

section \<open>A run that succeeds\<close>

text \<open>Whether the main run loop has to convert the keys, and that every step of a start succeeds.\<close>

definition falls_back :: "mac_run_env \<Rightarrow> bool" where
  "falls_back env \<longleftrightarrow> \<not> mr_is_main env \<and> (\<not> mr_dispatch_sync env \<or> \<not> mr_dispatch_queue env)
     \<and> main_runloop_build (mr_build env)"

definition start_steps :: "mac_run_env \<Rightarrow> (bool \<times> c_int) list" where
  "start_steps env =
     [(fst (is_accessibility_enabled (mr_ax env)), UIOHOOK_ERROR_AXAPI_DISABLED),
      (mr_loop env, UIOHOOK_ERROR_GET_RUNLOOP),
      (mr_calloc_hook env, UIOHOOK_ERROR_OUT_OF_MEMORY),
      (mr_port env, UIOHOOK_ERROR_CREATE_EVENT_PORT),
      (mr_source env, UIOHOOK_ERROR_CREATE_RUN_LOOP_SOURCE),
      (mr_observer env, UIOHOOK_ERROR_CREATE_OBSERVER),
      (mr_calloc_keycode env, UIOHOOK_ERROR_OUT_OF_MEMORY),
      (use_objc (mr_build env) \<longrightarrow> mr_calloc_event env, UIOHOOK_ERROR_OUT_OF_MEMORY),
      (falls_back env \<longrightarrow> mr_malloc_main env, UIOHOOK_ERROR_OUT_OF_MEMORY),
      (falls_back env \<longrightarrow> mr_main_observer env, UIOHOOK_ERROR_CREATE_OBSERVER),
      (falls_back env \<longrightarrow> mr_main_source env, UIOHOOK_ERROR_CREATE_RUN_LOOP_SOURCE)]"

definition first_failure :: "mac_run_env \<Rightarrow> c_int option" where
  "first_failure env = map_option snd (find (\<lambda>(ok, status). \<not> ok) (start_steps env))"

lemma mac_set_modifiers_fold:
  "\<exists>m. fold (\<lambda>(k, msk) s. if held k then mac_set_modifier_mask msk s else s) xs s = s\<lparr>mac_modifiers := m\<rparr>"
proof (induction xs arbitrary: s)
  case Nil
  show ?case by (simp add: exI [of _ "mac_modifiers s"])
next
  case (Cons x xs)
  obtain k msk where x: "x = (k, msk)" by (cases x) auto
  obtain m where "fold (\<lambda>(k, msk) s. if held k then mac_set_modifier_mask msk s else s) xs
      (if held k then mac_set_modifier_mask msk s else s) =
    (if held k then mac_set_modifier_mask msk s else s)\<lparr>mac_modifiers := m\<rparr>"
    using Cons.IH by blast
  then show ?case by (auto simp: x mac_set_modifier_mask_def)
qed

lemma mac_initialize_modifiers_only:
  "\<exists>m. mac_initialize_modifiers key button flags s = s\<lparr>mac_modifiers := m\<rparr>"
proof -
  define keys where "keys = [(kVK_Shift, MASK_SHIFT_L), (kVK_RightShift, MASK_SHIFT_R),
                 (kVK_Control, MASK_CTRL_L), (kVK_RightControl, MASK_CTRL_R),
                 (kVK_Option, MASK_ALT_L), (kVK_RightOption, MASK_ALT_R),
                 (kVK_Command, MASK_META_L), (kVK_RightCommand, MASK_META_R)]"
  define buttons where "buttons = [(0 :: nat, MASK_BUTTON1), (1, MASK_BUTTON2), (2, MASK_BUTTON3),
    (3, MASK_BUTTON4), (4, MASK_BUTTON5)]"
  obtain m where m: "fold (\<lambda>(k, msk) s. if key k then mac_set_modifier_mask msk s else s) keys
      (s\<lparr>mac_modifiers := 0x0000\<rparr>) = s\<lparr>mac_modifiers := m\<rparr>"
    using mac_set_modifiers_fold [of key keys "s\<lparr>mac_modifiers := 0x0000\<rparr>"] by auto
  obtain m' where m': "fold (\<lambda>(k, msk) s. if button k then mac_set_modifier_mask msk s else s) buttons
      (s\<lparr>mac_modifiers := m\<rparr>) = s\<lparr>mac_modifiers := m'\<rparr>"
    using mac_set_modifiers_fold [of button buttons "s\<lparr>mac_modifiers := m\<rparr>"] by auto
  show ?thesis
    unfolding mac_initialize_modifiers_def Let_def keys_def [symmetric] buttons_def [symmetric] m m'
    by (auto simp: mac_set_modifier_mask_def mac_unset_modifier_mask_def)
qed

lemma mac_initialize_modifiers_fields [simp]:
  "hook_info (mac_initialize_modifiers key button flags s) = hook_info s"
  "dispatched (mac_initialize_modifiers key button flags s) = dispatched s"
  "dispatcher (mac_initialize_modifiers key button flags s) = dispatcher s"
  "mac_helper (mac_initialize_modifiers key button flags s) = mac_helper s"
  "keycode_message (mac_initialize_modifiers key button flags s) = keycode_message s"
  "event_message (mac_initialize_modifiers key button flags s) = event_message s"
  using mac_initialize_modifiers_only [of key button flags s] by auto

lemma no_failure_iff:
  "first_failure env = None \<longleftrightarrow>
     fst (is_accessibility_enabled (mr_ax env)) \<and> mr_loop env \<and> mr_calloc_hook env \<and> mr_port env \<and> mr_source env
     \<and> mr_observer env \<and> mr_calloc_keycode env \<and> (use_objc (mr_build env) \<longrightarrow> mr_calloc_event env)
     \<and> (falls_back env \<longrightarrow> mr_malloc_main env \<and> mr_main_observer env \<and> mr_main_source env)"
  by (auto simp: first_failure_def start_steps_def)

definition full_info :: event_runloop_info where
  "full_info = \<lparr>hk_port = True, hk_source = True, hk_observer = True\<rparr>"

lemma create_event_runloop_info_ok:
  assumes "hook_info (mp_input p) = None" "mr_calloc_hook env" "mr_port env" "mr_source env" "mr_observer env"
  shows "create_event_runloop_info env p =
    (p\<lparr>mp_input := (mp_input p)\<lparr>hook_info := Some full_info, tap_enabled := True\<rparr>, mp_blocks := mp_blocks p + 1,
        mp_objects := mp_objects p + 3, mp_source_added := True, mp_observer_added := True\<rparr>, UIOHOOK_SUCCESS)"
  using assms by (simp add: create_event_runloop_info_def set_info_def full_info_def)

lemma allocate_messages_ok:
  assumes "mr_calloc_keycode env" and "use_objc (mr_build env) \<longrightarrow> mr_calloc_event env"
  shows "\<exists>m. allocate_messages env p =
    (True, p\<lparr>mp_blocks := mp_blocks p + 1 + of_bool (use_objc (mr_build env)),
       mp_input := (mp_input p)\<lparr>keycode_message := Block \<lparr>tis_event = None, tis_buffer = [0, 0, 0, 0], tis_length = 0\<rparr>,
         event_message := m\<rparr>\<rparr>) \<and> (use_objc (mr_build env) \<longrightarrow> m = Block (0, 0))"
  using assms by (auto simp: allocate_messages_def intro!: exI [of _ "event_message (mp_input p)"])

lemma prepare_conversion_ok:
  assumes "mp_main p = None" and "falls_back env \<longrightarrow> mr_malloc_main env \<and> mr_main_observer env \<and> mr_main_source env"
  shows "\<exists>p'. prepare_conversion env p = Inr (p', UIOHOOK_SUCCESS)
    \<and> (\<exists>sync queue. mp_input p' = (mp_input p)\<lparr>dispatch_sync := sync, dispatch_queue := queue\<rparr>
         \<and> (\<not> mr_is_main env \<longrightarrow> sync = mr_dispatch_sync env \<and> queue = mr_dispatch_queue env))
    \<and> mp_blocks p' = mp_blocks p + of_bool (falls_back env)
    \<and> mp_objects p' = mp_objects p + 2 * of_bool (falls_back env) \<and> mp_pools p' = mp_pools p
    \<and> mp_main p' = (if falls_back env then Some \<lparr>mi_source = Set, mi_observer = Set\<rparr> else None)"
proof (cases "mr_is_main env")
  case True
  then show ?thesis
    using assms(1)
    by (simp add: prepare_conversion_def falls_back_def)
      (rule exI [of _ "dispatch_sync (mp_input p)"], rule exI [of _ "dispatch_queue (mp_input p)"], simp)
next
  case False
  with assms show ?thesis
    by (auto simp: prepare_conversion_def falls_back_def create_main_runloop_info_def pointer_of_def)
qed

lemma mac_hook_run_prepared:
  assumes "first_failure env = None" and "hook_info (mp_input p) = None" and "mp_main p = None"
  shows "\<exists>p1. mac_hook_run env p = r_bind (run_session env p1) (\<lambda>p. Inr (p, UIOHOOK_SUCCESS))
    \<and> started (mr_build env) (mp_input p1) \<and> dispatched (mp_input p1) = dispatched (mp_input p)
    \<and> dispatcher (mp_input p1) = dispatcher (mp_input p) \<and> mac_helper (mp_input p1) = mac_helper (mp_input p)
    \<and> mp_blocks p1 = mp_blocks p + 2 + of_bool (use_objc (mr_build env)) + of_bool (falls_back env)
    \<and> mp_objects p1 = mp_objects p + snd (is_accessibility_enabled (mr_ax env)) + 3 + 2 * of_bool (falls_back env)
    \<and> mp_pools p1 = mp_pools p \<and> hook_info (mp_input p1) = Some full_info
    \<and> mp_main p1 = (if falls_back env then Some \<lparr>mi_source = Set, mi_observer = Set\<rparr> else None)
    \<and> (\<not> mr_is_main env \<longrightarrow> dispatch_sync (mp_input p1) = mr_dispatch_sync env
         \<and> dispatch_queue (mp_input p1) = mr_dispatch_queue env)"
proof -
  define q where "q = p\<lparr>mp_objects := mp_objects p + snd (is_accessibility_enabled (mr_ax env)), mp_event_loop := mr_loop env,
      mp_input := mac_initialize_modifiers (mr_key env) (mr_button env) (mr_flags env) (mp_input p)\<rparr>"
  have ok: "fst (is_accessibility_enabled (mr_ax env))" "mr_loop env" "mr_calloc_hook env" "mr_port env" "mr_source env"
    "mr_observer env" "mr_calloc_keycode env" "use_objc (mr_build env) \<longrightarrow> mr_calloc_event env"
    "falls_back env \<longrightarrow> mr_malloc_main env \<and> mr_main_observer env \<and> mr_main_source env"
    using assms(1) by (simp_all add: no_failure_iff)
  have q: "hook_info (mp_input q) = None" using assms(2) by (simp add: q_def)
  define a where "a = q\<lparr>mp_input := (mp_input q)\<lparr>hook_info := Some full_info, tap_enabled := True\<rparr>,
      mp_blocks := mp_blocks q + 1, mp_objects := mp_objects q + 3, mp_source_added := True, mp_observer_added := True\<rparr>"
  have c: "create_event_runloop_info env q = (a, UIOHOOK_SUCCESS)"
    unfolding a_def by (rule create_event_runloop_info_ok [OF q ok(3-6)])
  obtain m where m: "allocate_messages env a =
     (True, a\<lparr>mp_blocks := mp_blocks a + 1 + of_bool (use_objc (mr_build env)),
       mp_input := (mp_input a)\<lparr>keycode_message := Block \<lparr>tis_event = None, tis_buffer = [0, 0, 0, 0], tis_length = 0\<rparr>,
         event_message := m\<rparr>\<rparr>)" "use_objc (mr_build env) \<longrightarrow> m = Block (0, 0)"
    using allocate_messages_ok [OF ok(7,8), of a] by blast
  define r where "r = snd (allocate_messages env a)"
  have r: "mp_main r = None" "mp_blocks r = mp_blocks p + 2 + of_bool (use_objc (mr_build env))"
    "mp_objects r = mp_objects p + snd (is_accessibility_enabled (mr_ax env)) + 3" "mp_pools r = mp_pools p"
    "hook_info (mp_input r) = Some full_info" "started (mr_build env) (mp_input r)"
    "dispatched (mp_input r) = dispatched (mp_input p)" "dispatcher (mp_input r) = dispatcher (mp_input p)"
    "mac_helper (mp_input r) = mac_helper (mp_input p)"
    using m(2) assms(3) unfolding r_def m(1) by (simp_all add: a_def q_def started_def message_ready_def)
  obtain p1 sync queue where p1: "prepare_conversion env r = Inr (p1, UIOHOOK_SUCCESS)"
    "mp_input p1 = (mp_input r)\<lparr>dispatch_sync := sync, dispatch_queue := queue\<rparr>"
    "\<not> mr_is_main env \<longrightarrow> sync = mr_dispatch_sync env \<and> queue = mr_dispatch_queue env"
    "mp_blocks p1 = mp_blocks r + of_bool (falls_back env)"
    "mp_objects p1 = mp_objects r + 2 * of_bool (falls_back env)" "mp_pools p1 = mp_pools r"
    "mp_main p1 = (if falls_back env then Some \<lparr>mi_source = Set, mi_observer = Set\<rparr> else None)"
    using prepare_conversion_ok [OF r(1) ok(9)] by blast
  have "mac_hook_run env p = r_bind (run_session env p1) (\<lambda>p. Inr (p, UIOHOOK_SUCCESS))"
    using ok(1,2) p1(1) c m(1)
    unfolding mac_hook_run_def start_session_def Let_def case_prod_unfold fst_conv snd_conv q_def [symmetric] r_def
    by (simp add: q_def)
  moreover have "started (mr_build env) (mp_input p1)"
    using r(6) by (simp add: p1(2) started_def message_ready_def)
  ultimately show ?thesis using r p1 by (intro exI [of _ p1]) simp
qed

lemma hook_status_proc_fields [simp]:
  "hook_info (hook_status_proc build a tm s) = hook_info s"
  "dispatcher (hook_status_proc build a tm s) = dispatcher s"
  "dispatch_sync (hook_status_proc build a tm s) = dispatch_sync s"
  "dispatch_queue (hook_status_proc build a tm s) = dispatch_queue s"
  "started build' (hook_status_proc build a tm s) = started build' s"
  by (simp_all add: hook_status_proc_def Let_def split: run_loop_activity.split)

lemma run_loop_run:
  assumes "started (mr_build env) s" and "\<forall>(e, type, event) \<in> set (mr_events env). sound_env (mr_build env) e"
    and "dispatcher s = Some d" and "layout_refs (mac_helper s)"
  shows "\<exists>s' es dat dat'. run_loop env s = Inr s' \<and> list_all fits_type es
    \<and> dispatched s' = dispatched s @ emitted EVENT_HOOK_ENABLED (mr_entry_time env) 0 dat # es
        @ [emitted EVENT_HOOK_DISABLED (mr_exit_time env) 0 dat']
    \<and> dispatch_sync s' = dispatch_sync s \<and> dispatch_queue s' = dispatch_queue s \<and> hook_info s' = hook_info s
    \<and> (use_carbon_legacy (mr_build env) \<or> use_application_services (mr_build env) \<longrightarrow> layouts_held (mac_helper s') = 0)"
proof -
  let ?s = "hook_status_proc (mr_build env) kCFRunLoopEntry (mr_entry_time env) s"
  obtain t where t: "tap_run (mr_events env) ?s = Inr t"
    using tap_run_started [of "mr_build env" ?s] assms(1,2) by auto
  have "layout_refs (mac_helper ?s)"
    using assms(4) by (simp add: hook_status_proc_def mac_load_input_helper_def)
  with tap_run_refs [OF t] have refs: "layout_refs (mac_helper t)" by blast
  have "grows ?s t" by (rule tap_run_grows [OF t])
  then obtain es where es: "dispatched t = dispatched ?s @ es" "list_all fits_type es"
    and same: "dispatcher t = Some d" "dispatch_sync t = dispatch_sync s" "dispatch_queue t = dispatch_queue s"
      "hook_info t = hook_info s"
    using assms(3) by (auto simp: grows_def reports_def)
  let ?s' = "hook_status_proc (mr_build env) kCFRunLoopExit (mr_exit_time env) t"
  have "dispatched ?s = dispatched s @ [emitted EVENT_HOOK_ENABLED (mr_entry_time env) 0 (ev_data (static_event s))]"
    using assms(3) by (simp add: hook_status_proc_def dispatched_fire)
  moreover have "dispatched ?s' = dispatched t @ [emitted EVENT_HOOK_DISABLED (mr_exit_time env) 0 (ev_data (static_event t))]"
    using same(1) by (simp add: hook_status_proc_def dispatched_fire Let_def)
  moreover have "run_loop env s = Inr ?s'" by (simp add: run_loop_def t)
  moreover have "layouts_held (mac_helper ?s') = 0"
    if "use_carbon_legacy (mr_build env) \<or> use_application_services (mr_build env)"
    using refs that by (auto simp: hook_status_proc_def mac_unload_input_helper_def layout_refs_def Let_def)
  ultimately show ?thesis using es same
    by (intro exI [of _ ?s'] exI [of _ es] exI [of _ "ev_data (static_event s)"] exI [of _ "ev_data (static_event t)"])
      auto
qed

lemma run_session_run:
  assumes "run_loop env (mp_input p) = Inr s" and "hook_info s = Some full_info"
    and "mp_main p = (if falls_back env then Some \<lparr>mi_source = Set, mi_observer = Set\<rparr> else None)"
    and "\<not> mr_is_main env \<longrightarrow> dispatch_sync s = mr_dispatch_sync env \<and> dispatch_queue s = mr_dispatch_queue env"
  shows "\<exists>p'. run_session env p = Inr p' \<and> dispatched (mp_input p') = dispatched s \<and> mac_helper (mp_input p') = mac_helper s
    \<and> mp_blocks p' = mp_blocks p - 2 - of_bool (use_objc (mr_build env)) - of_bool (falls_back env)
    \<and> mp_objects p' = mp_objects p - 3 - 2 * of_bool (falls_back env) \<and> mp_pools p' = mp_pools p
    \<and> hook_info (mp_input p') = None \<and> mp_main p' = None \<and> \<not> mp_source_added p' \<and> \<not> mp_observer_added p'"
proof -
  define q where "q = p\<lparr>mp_input := s\<rparr>"
  have fall: "main_runloop_build (mr_build env) \<and> \<not> mr_is_main env \<and> (\<not> dispatch_sync s \<or> \<not> dispatch_queue s) \<longleftrightarrow> falls_back env"
    using assms(4) by (auto simp: falls_back_def)
  have "run_session env p = r_bind (if falls_back env then destroy_main_runloop_info q else Inr q) (\<lambda>p.
      Inr (destroy_event_runloop_info (free_messages env p)))"
    using assms(1) fall by (cases "use_objc (mr_build env)") (simp_all add: run_session_def q_def)
  then show ?thesis
    using assms(2,3)
    by (cases "falls_back env"; cases "use_objc (mr_build env)")
      (simp_all add: q_def destroy_main_runloop_info_def destroy_event_runloop_info_def free_messages_def set_info_def
        full_info_def)
qed

text \<open>The steps that create the hook's structure.\<close>

definition creates_hook :: "mac_run_env \<Rightarrow> bool" where
  "creates_hook env \<longleftrightarrow> list_all fst (take 6 (start_steps env))"

lemma creates_hook_iff:
  "creates_hook env \<longleftrightarrow> fst (is_accessibility_enabled (mr_ax env)) \<and> mr_loop env \<and> mr_calloc_hook env \<and> mr_port env
     \<and> mr_source env \<and> mr_observer env"
  by (simp add: creates_hook_def start_steps_def)

section \<open>Two runs\<close>

text \<open>A thread other than the main one without the dispatch library, on which every step succeeds but those named.\<close>

definition plain_run :: "bool \<Rightarrow> bool \<Rightarrow> tapped list \<Rightarrow> mac_run_env" where
  "plain_run keycode_ok observer_ok ts = \<lparr>mr_build = mac_desktop,
     mr_ax = \<lparr>ax_trusted = Some True, ax_prompt_error = False, ax_prompt = True, ax_enabled = None, ax_enabled_error = False\<rparr>,
     mr_loop = True, mr_is_main = False, mr_key = (\<lambda>_. False), mr_button = (\<lambda>_. False), mr_flags = 0,
     mr_calloc_hook = True, mr_port = True, mr_source = True, mr_observer = True, mr_calloc_keycode = keycode_ok,
     mr_calloc_event = True, mr_dispatch_sync = False, mr_dispatch_queue = False, mr_malloc_main = True,
     mr_main_observer = observer_ok, mr_main_source = True, mr_entry_time = 1, mr_exit_time = 9, mr_events = ts\<rparr>"

definition mac_fresh :: mac_process where
  "mac_fresh = \<lparr>mp_input = mac_idle\<lparr>hook_info := None, keycode_message := NullBlock\<rparr>, mp_main = None, mp_event_loop = False,
     mp_blocks = 0, mp_objects = 0, mp_pools = 0, mp_source_added = False, mp_observer_added = False,
     mp_main_source_added = False, mp_main_observer_added = False\<rparr>"

lemma plain_run_fields:
  "mr_build (plain_run a b ts) = mac_desktop" "mr_events (plain_run a b ts) = ts" "falls_back (plain_run a b ts)"
  "mr_main_observer (plain_run a b ts) = b" "creates_hook (plain_run a b ts)" "mr_malloc_main (plain_run a b ts)"
  "mr_calloc_keycode (plain_run a b ts) = a" "mr_calloc_event (plain_run a b ts)" "mr_loop (plain_run a b ts)"
  "is_accessibility_enabled (mr_ax (plain_run a b ts)) = (True, 1)"
  by (simp_all add: plain_run_def falls_back_def main_runloop_build_def mac_desktop_def creates_hook_def start_steps_def
      is_accessibility_enabled_def)

lemma plain_run_failure:
  "first_failure (plain_run True True ts) = None"
  "first_failure (plain_run False True ts) = Some UIOHOOK_ERROR_OUT_OF_MEMORY"
  by (simp_all add: first_failure_def start_steps_def plain_run_def falls_back_def main_runloop_build_def mac_desktop_def
      is_accessibility_enabled_def)

lemma mac_fresh_fields:
  "hook_info (mp_input mac_fresh) = None" "mp_main mac_fresh = None" "dispatcher (mp_input mac_fresh) = Some (\<lambda>_ e. e)"
  "layout_refs (mac_helper (mp_input mac_fresh))" "mp_blocks mac_fresh = 0" "dispatched (mp_input mac_fresh) = []"
  by (simp_all add: mac_fresh_def mac_idle_def layout_refs_def)

lemma mac_hook_run_succeeds:
  assumes "first_failure env = None" and "hook_info (mp_input p) = None" and "mp_main p = None"
    and "dispatcher (mp_input p) = Some d" and "layout_refs (mac_helper (mp_input p))"
    and "\<forall>(e, type, event) \<in> set (mr_events env). sound_env (mr_build env) e"
  shows "\<exists>p' es dat dat'. mac_hook_run env p = Inr (p', UIOHOOK_SUCCESS) \<and> list_all fits_type es
    \<and> dispatched (mp_input p') = dispatched (mp_input p) @ emitted EVENT_HOOK_ENABLED (mr_entry_time env) 0 dat # es
        @ [emitted EVENT_HOOK_DISABLED (mr_exit_time env) 0 dat']
    \<and> mp_blocks p' = mp_blocks p \<and> mp_pools p' = mp_pools p
    \<and> mp_objects p' = mp_objects p + snd (is_accessibility_enabled (mr_ax env))
    \<and> hook_info (mp_input p') = None \<and> mp_main p' = None \<and> \<not> mp_source_added p' \<and> \<not> mp_observer_added p'
    \<and> (use_carbon_legacy (mr_build env) \<or> use_application_services (mr_build env) \<longrightarrow>
         layouts_held (mac_helper (mp_input p')) = 0)"
proof -
  obtain p1 where run: "mac_hook_run env p = r_bind (run_session env p1) (\<lambda>p. Inr (p, UIOHOOK_SUCCESS))"
    and p1: "started (mr_build env) (mp_input p1)" "dispatched (mp_input p1) = dispatched (mp_input p)"
      "dispatcher (mp_input p1) = dispatcher (mp_input p)" "mac_helper (mp_input p1) = mac_helper (mp_input p)"
      "mp_blocks p1 = mp_blocks p + 2 + of_bool (use_objc (mr_build env)) + of_bool (falls_back env)"
      "mp_objects p1 = mp_objects p + snd (is_accessibility_enabled (mr_ax env)) + 3 + 2 * of_bool (falls_back env)"
      "mp_pools p1 = mp_pools p" "hook_info (mp_input p1) = Some full_info"
      "mp_main p1 = (if falls_back env then Some \<lparr>mi_source = Set, mi_observer = Set\<rparr> else None)"
      "\<not> mr_is_main env \<longrightarrow> dispatch_sync (mp_input p1) = mr_dispatch_sync env
         \<and> dispatch_queue (mp_input p1) = mr_dispatch_queue env"
    using mac_hook_run_prepared [OF assms(1-3)] by blast
  have "dispatcher (mp_input p1) = Some d" and "layout_refs (mac_helper (mp_input p1))"
    using assms(4,5) p1(3,4) by simp_all
  then obtain s es dat dat' where es: "list_all fits_type es" and s: "run_loop env (mp_input p1) = Inr s"
    "dispatched s = dispatched (mp_input p1) @ emitted EVENT_HOOK_ENABLED (mr_entry_time env) 0 dat # es
        @ [emitted EVENT_HOOK_DISABLED (mr_exit_time env) 0 dat']"
    "dispatch_sync s = dispatch_sync (mp_input p1)" "dispatch_queue s = dispatch_queue (mp_input p1)"
    "hook_info s = hook_info (mp_input p1)"
    "use_carbon_legacy (mr_build env) \<or> use_application_services (mr_build env) \<longrightarrow> layouts_held (mac_helper s) = 0"
    using run_loop_run [OF p1(1) assms(6)] by blast
  have "hook_info s = Some full_info"
    and "\<not> mr_is_main env \<longrightarrow> dispatch_sync s = mr_dispatch_sync env \<and> dispatch_queue s = mr_dispatch_queue env"
    using s(3-5) p1(8,10) by simp_all
  from run_session_run [OF s(1) this(1) p1(9) this(2)] obtain p' where p': "run_session env p1 = Inr p'"
    "dispatched (mp_input p') = dispatched s" "mac_helper (mp_input p') = mac_helper s"
    "mp_blocks p' = mp_blocks p1 - 2 - of_bool (use_objc (mr_build env)) - of_bool (falls_back env)"
    "mp_objects p' = mp_objects p1 - 3 - 2 * of_bool (falls_back env)" "mp_pools p' = mp_pools p1"
    "hook_info (mp_input p') = None" "mp_main p' = None" "\<not> mp_source_added p'" "\<not> mp_observer_added p'" by blast
  show ?thesis
    using run p1(2,5-7) s(2,6) es p'
    by (intro exI [of _ p'] exI [of _ es] exI [of _ dat] exI [of _ dat']) simp
qed

text \<open>
  C8. When every step of the start succeeds, \<^verbatim>\<open>hook_run\<close> on Darwin returns \<^verbatim>\<open>UIOHOOK_SUCCESS\<close>: the callback saw
  the enabled event first, events that fit their types, and the disabled event last, and all memory, pools, layouts, sources and
  observers are released. Of the objects only the dictionary of the accessibility check is left.
\<close>

theorem mac_hook_run_session:
  assumes "first_failure env = None" and "hook_info (mp_input p) = None" and "mp_main p = None"
    and "dispatcher (mp_input p) = Some d" and "layout_refs (mac_helper (mp_input p))"
    and "\<forall>(e, type, event) \<in> set (mr_events env). sound_env (mr_build env) e"
  shows "\<exists>p' es dat dat'. mac_hook_run env p = Inr (p', UIOHOOK_SUCCESS) \<and> list_all fits_type es
    \<and> dispatched (mp_input p') = dispatched (mp_input p) @ emitted EVENT_HOOK_ENABLED (mr_entry_time env) 0 dat # es
        @ [emitted EVENT_HOOK_DISABLED (mr_exit_time env) 0 dat']
    \<and> mp_blocks p' = mp_blocks p \<and> mp_pools p' = mp_pools p
    \<and> mp_objects p' = mp_objects p + snd (is_accessibility_enabled (mr_ax env))
    \<and> hook_info (mp_input p') = None \<and> mp_main p' = None \<and> \<not> mp_source_added p' \<and> \<not> mp_observer_added p'
    \<and> (use_carbon_legacy (mr_build env) \<or> use_application_services (mr_build env) \<longrightarrow>
         layouts_held (mac_helper (mp_input p')) = 0)"
  using assms by (rule mac_hook_run_succeeds)

theorem mac_hook_run_session_witness:
  "\<exists>p'. mac_hook_run (plain_run True True [(mac_desktop_env, kCGEventKeyDown, event_of 1 0 9)]) mac_fresh = Inr (p', UIOHOOK_SUCCESS)
     \<and> ev_type (hd (dispatched (mp_input p'))) = EVENT_HOOK_ENABLED
     \<and> ev_type (last (dispatched (mp_input p'))) = EVENT_HOOK_DISABLED \<and> mp_blocks p' = 0"
proof -
  let ?env = "plain_run True True [(mac_desktop_env, kCGEventKeyDown, event_of 1 0 9)]"
  have "\<forall>(e, type, event) \<in> set (mr_events ?env). sound_env (mr_build ?env) e"
    by (simp add: plain_run_fields mac_desktop_env_sound)
  from mac_hook_run_session [OF plain_run_failure(1) mac_fresh_fields(1-4) this]
  obtain p' es dat dat' where "mac_hook_run ?env mac_fresh = Inr (p', UIOHOOK_SUCCESS)" "mp_blocks p' = mp_blocks mac_fresh"
    "dispatched (mp_input p') = dispatched (mp_input mac_fresh) @ emitted EVENT_HOOK_ENABLED (mr_entry_time ?env) 0 dat # es
        @ [emitted EVENT_HOOK_DISABLED (mr_exit_time ?env) 0 dat']" by blast
  then show ?thesis by (intro exI [of _ p'] conjI) (simp_all add: mac_fresh_fields emitted_def)
qed

section \<open>Runs that fail\<close>

lemma mac_hook_run_not_created:
  assumes "first_failure env = Some status" and "\<not> creates_hook env" and "hook_info (mp_input p) = None"
  shows "\<exists>p'. mac_hook_run env p = Inr (p', status) \<and> hook_info (mp_input p') = None \<and> mp_blocks p' = mp_blocks p
    \<and> mp_objects p' = mp_objects p + snd (is_accessibility_enabled (mr_ax env))"
  using assms
  by (auto simp: creates_hook_iff first_failure_def start_steps_def mac_hook_run_def create_event_runloop_info_def
      destroy_event_runloop_info_def set_info_def Let_def split: prod.splits if_splits)

lemma mac_hook_run_created:
  assumes "creates_hook env" and "hook_info (mp_input p) = None"
  shows "\<exists>q. mac_hook_run env p = start_session env q
    \<and> hook_info (mp_input q) = Some full_info \<and> mp_blocks q = mp_blocks p + 1 \<and> mp_main q = mp_main p"
proof -
  define q where "q = p\<lparr>mp_objects := mp_objects p + snd (is_accessibility_enabled (mr_ax env)), mp_event_loop := mr_loop env,
      mp_input := mac_initialize_modifiers (mr_key env) (mr_button env) (mr_flags env) (mp_input p)\<rparr>"
  have q: "hook_info (mp_input q) = None" using assms(2) by (simp add: q_def)
  have ok: "fst (is_accessibility_enabled (mr_ax env))" "mr_loop env" "mr_calloc_hook env" "mr_port env" "mr_source env"
    "mr_observer env" using assms(1) by (simp_all add: creates_hook_iff)
  have run: "mac_hook_run env p = start_session env (fst (create_event_runloop_info env q))"
    using ok(1,2) create_event_runloop_info_ok [OF q ok(3-6)]
    unfolding mac_hook_run_def Let_def case_prod_unfold fst_conv snd_conv q_def [symmetric]
    by (simp add: q_def)
  show ?thesis
    by (rule exI [of _ "fst (create_event_runloop_info env q)"], intro conjI, rule run)
      (simp_all add: create_event_runloop_info_ok [OF q ok(3-6)], simp_all add: q_def)
qed

lemma mac_hook_run_kept:
  assumes "first_failure env = Some status" and "creates_hook env" and "hook_info (mp_input p) = None"
    and "mp_main p = None" and "falls_back env \<longrightarrow> mr_main_observer env"
  shows "\<exists>p'. mac_hook_run env p = Inr (p', status) \<and> hook_info (mp_input p') = Some full_info \<and> mp_blocks p' > mp_blocks p"
proof -
  obtain q where run: "mac_hook_run env p = start_session env q"
    and q: "hook_info (mp_input q) = Some full_info" "mp_blocks q = mp_blocks p + 1" "mp_main q = None"
    using mac_hook_run_created [OF assms(2,3)] assms(4) by auto
  show ?thesis
  proof (cases "mr_calloc_keycode env \<and> (use_objc (mr_build env) \<longrightarrow> mr_calloc_event env)")
    case False
    then have "status = UIOHOOK_ERROR_OUT_OF_MEMORY"
      using assms(1,2) by (auto simp: creates_hook_iff first_failure_def start_steps_def split: if_splits)
    with False q show ?thesis unfolding run start_session_def allocate_messages_def Let_def by auto
  next
    case True
    then obtain m where m: "allocate_messages env q =
      (True, q\<lparr>mp_blocks := mp_blocks q + 1 + of_bool (use_objc (mr_build env)),
         mp_input := (mp_input q)\<lparr>keycode_message := Block \<lparr>tis_event = None, tis_buffer = [0, 0, 0, 0], tis_length = 0\<rparr>,
           event_message := m\<rparr>\<rparr>)"
      using allocate_messages_ok [of env q] by blast
    have falls: "falls_back env" and status: "status = (if mr_malloc_main env then UIOHOOK_ERROR_CREATE_RUN_LOOP_SOURCE
        else UIOHOOK_ERROR_OUT_OF_MEMORY)" and "\<not> mr_malloc_main env \<or> \<not> mr_main_source env"
      using True assms(1,2,5) by (auto simp: creates_hook_iff first_failure_def start_steps_def split: if_splits)
    with m q assms(5) show ?thesis
      unfolding run start_session_def m Let_def prod.case falls_back_def
      by (auto simp: prepare_conversion_def create_main_runloop_info_def destroy_main_runloop_info_def pointer_of_def)
  qed
qed



text \<open>
  \<^verbatim>\<open>hook_run\<close> while a hook exists, because one is running or an earlier start left it behind, returns
  \<^verbatim>\<open>UIOHOOK_FAILURE\<close> and takes the existing hook down.
\<close>

theorem mac_rerun_destroys_hook:
  assumes "hook_info (mp_input p) = Some full_info" and "fst (is_accessibility_enabled (mr_ax env))" and "mr_loop env"
  shows "\<exists>p'. mac_hook_run env p = Inr (p', UIOHOOK_FAILURE) \<and> hook_info (mp_input p') = None
    \<and> \<not> tap_enabled (mp_input p') \<and> \<not> mp_source_added p' \<and> \<not> mp_observer_added p'"
  using assms
  by (auto simp: mac_hook_run_def create_event_runloop_info_def destroy_event_runloop_info_def set_info_def
      full_info_def Let_def split: prod.splits)

theorem mac_rerun_destroys_hook_witness:
  "\<exists>p'. mac_hook_run (plain_run True True []) (mac_fresh\<lparr>mp_input := mac_idle\<rparr>) = Inr (p', UIOHOOK_FAILURE)
     \<and> hook_info (mp_input p') = None"
  using mac_rerun_destroys_hook [of "mac_fresh\<lparr>mp_input := mac_idle\<rparr>" "plain_run True True []"]
  by (simp add: plain_run_fields mac_idle_def full_info_def) blast

text \<open>
  When the observer of the main run loop cannot be created, the clean-up on Darwin reads the source of
  a structure that was allocated and not cleared.
\<close>

theorem mac_main_observer_failure:
  assumes "creates_hook env" and "mr_calloc_keycode env" and "use_objc (mr_build env) \<longrightarrow> mr_calloc_event env"
    and "falls_back env" and "mr_malloc_main env" and "\<not> mr_main_observer env"
    and "hook_info (mp_input p) = None" and "mp_main p = None"
  shows "mac_hook_run env p = Inl UninitialisedRead"
proof -
  obtain q where run: "mac_hook_run env p = start_session env q"
    and q: "mp_main q = None"
    using mac_hook_run_created [OF assms(1,7)] assms(8) by auto
  obtain m where m: "allocate_messages env q =
      (True, q\<lparr>mp_blocks := mp_blocks q + 1 + of_bool (use_objc (mr_build env)),
         mp_input := (mp_input q)\<lparr>keycode_message := Block \<lparr>tis_event = None, tis_buffer = [0, 0, 0, 0], tis_length = 0\<rparr>,
           event_message := m\<rparr>\<rparr>)"
    using allocate_messages_ok [OF assms(2,3)] by blast
  from assms(4-6) q show ?thesis unfolding run start_session_def m Let_def prod.case falls_back_def
    by (auto simp: prepare_conversion_def create_main_runloop_info_def destroy_main_runloop_info_def pointer_of_def)
qed

theorem mac_main_observer_failure_witness:
  "mac_hook_run (plain_run True False []) mac_fresh = Inl UninitialisedRead"
  by (rule mac_main_observer_failure) (simp_all add: plain_run_fields mac_fresh_fields)

end
