(* ===== verification/Uiohook_Transitions.thy ===== *)
theory Uiohook_Transitions
  imports Main
begin

text \<open>
  What the interleavings of the development share: the states that a step relation reaches, runs as
  lists of states, and three contracts as locales. A predicate that every step keeps holds of all the
  states reached; when, besides, every step lowers a rank, a run is no longer than its rank; when every
  step is seen as a step of a specification or as none, what is reached is reached in the specification.
\<close>

inductive reaches :: "('s \<Rightarrow> 's \<Rightarrow> bool) \<Rightarrow> 's \<Rightarrow> 's \<Rightarrow> bool" for step :: "'s \<Rightarrow> 's \<Rightarrow> bool" and s :: 's where
  refl: "reaches step s s"
| step: "reaches step s t \<Longrightarrow> step t u \<Longrightarrow> reaches step s u"

primrec path :: "('s \<Rightarrow> 's \<Rightarrow> bool) \<Rightarrow> 's \<Rightarrow> 's list \<Rightarrow> bool" where
  "path step s [] \<longleftrightarrow> True"
| "path step s (t # ts) \<longleftrightarrow> step s t \<and> path step t ts"

lemma reaches_trans: "reaches step t u \<Longrightarrow> reaches step s t \<Longrightarrow> reaches step s u"
  by (induction rule: reaches.induct) (auto intro: reaches.step)

lemma path_reaches: "path step s ts \<Longrightarrow> reaches step s (last (s # ts))"
proof (induction ts arbitrary: s)
  case (Cons t ts)
  then have "reaches step s t" by (auto intro: reaches.intros)
  moreover have "reaches step t (last (t # ts))" using Cons by simp
  ultimately have "reaches step s (last (t # ts))" by (rule reaches_trans [rotated])
  then show ?case by simp
qed (simp add: reaches.refl)

lemma path_append: "path step s (ts @ us) \<longleftrightarrow> path step s ts \<and> path step (last (s # ts)) us"
  by (induction ts arbitrary: s) auto

locale step_invariant =
  fixes step :: "'s \<Rightarrow> 's \<Rightarrow> bool"
    and inv :: "'s \<Rightarrow> bool"
  assumes inv_step: "step s s' \<Longrightarrow> inv s \<Longrightarrow> inv s'"
begin

lemma inv_reaches: "reaches step s t \<Longrightarrow> inv s \<Longrightarrow> inv t"
  by (induction rule: reaches.induct) (auto intro: inv_step)

end

locale step_rank = step_invariant +
  fixes rank :: "'a \<Rightarrow> nat"
  assumes rank_step: "step s s' \<Longrightarrow> inv s \<Longrightarrow> rank s' < rank s"
begin

lemma path_bound: "path step s ts \<Longrightarrow> inv s \<Longrightarrow> length ts \<le> rank s"
proof (induction ts arbitrary: s)
  case (Cons t ts)
  then have "length ts \<le> rank t" "rank t < rank s" using inv_step rank_step by auto
  then show ?case by simp
qed simp

end

locale step_simulation = step_invariant +
  fixes spec :: "'v \<Rightarrow> 'v \<Rightarrow> bool"
    and view :: "'a \<Rightarrow> 'v"
  assumes simulates: "step s s' \<Longrightarrow> inv s \<Longrightarrow> view s' = view s \<or> spec (view s) (view s')"
begin

lemma reaches_view: "reaches step s t \<Longrightarrow> inv s \<Longrightarrow> reaches spec (view s) (view t)"
proof (induction rule: reaches.induct)
  case (step t u)
  then have "inv t" using inv_reaches by blast
  from simulates [OF step.hyps(2) this] show ?case using step.IH [OF step.prems] by (metis reaches.step)
qed (rule reaches.refl)

text \<open>What every step of the specification keeps holds of all that is seen.\<close>

lemma spec_invariant_view:
  assumes "step_invariant spec P" and "reaches step s t" and "inv s" and "P (view s)"
  shows "P (view t)"
  using step_invariant.inv_reaches [OF assms(1) reaches_view [OF assms(2,3)] assms(4)] .

end

end
