(* ===== verification/Darwin_Main_Runloop.thy ===== *)
theory Darwin_Main_Runloop
  imports Uiohook_Prelude Uiohook_Transitions
begin

text \<open>
  How a key is handed to the main run loop in \<^verbatim>\<open>src/darwin/input_hook.c\<close> when the dispatch library is
  missing: the hook thread (\<^verbatim>\<open>process_key_pressed\<close>) signals a source of the main run loop and waits on a
  condition; the main thread converts the key in \<^verbatim>\<open>main_runloop_keycode_proc\<close> and broadcasts, and
  broadcasts again in \<^verbatim>\<open>main_runloop_status_proc\<close> when its run loop exits. The two threads are
  interleaved step by step, and implement a call of the conversion, one key after the other.
\<close>

section \<open>State\<close>

datatype runloop_thread = HookThread | MainThread

datatype hook_pc = HIdle | HLocking | HChecking | HWaiting | HWoken | HUnlocking | HTyping

datatype main_pc =
    MLoop | MLocking | MConverting | MBroadcasting | MUnlocking
  | MExitLocking | MExitBroadcasting | MExitUnlocking | MExited | MDone

text \<open>
  \<open>owner\<close> holds the mutex, \<open>running\<close> is whether the main run loop has a mode, \<open>signalled\<close> whether its
  source is signalled. Keys are numbered; \<open>converted\<close> is the key whose characters are in the shared
  message, and \<open>typed\<close> what was typed for each key.
\<close>

record sync_state =
  hpc :: hook_pc
  mpc :: main_pc
  owner :: "runloop_thread option"
  running :: bool
  signalled :: bool
  keys :: nat
  converted :: "nat option"
  typed :: "(nat \<times> nat option) list"

definition sync_init :: sync_state where
  "sync_init = \<lparr>hpc = HIdle, mpc = MLoop, owner = None, running = True, signalled = False, keys = 0,
     converted = None, typed = []\<rparr>"

section \<open>Steps\<close>

text \<open>
  \<open>spurious\<close> allows a thread to return from \<^verbatim>\<open>pthread_cond_wait\<close> without a broadcast, as POSIX does;
  \<open>late\<close> is whether the main run loop keeps its mode until its exit observers have run.
\<close>

definition pthread_cond_broadcast :: "sync_state \<Rightarrow> sync_state" where
  "pthread_cond_broadcast s = (if hpc s = HWaiting then s\<lparr>hpc := HWoken\<rparr> else s)"

inductive hook_thread_step :: "bool \<Rightarrow> sync_state \<Rightarrow> sync_state \<Rightarrow> bool" for spurious :: bool where
  key: "hpc s = HIdle \<Longrightarrow>
    hook_thread_step spurious s (s\<lparr>hpc := HLocking, keys := Suc (keys s), converted := None\<rparr>)"
| lock: "hpc s = HLocking \<Longrightarrow> owner s = None \<Longrightarrow>
    hook_thread_step spurious s (s\<lparr>hpc := HChecking, owner := Some HookThread\<rparr>)"
| signal: "hpc s = HChecking \<Longrightarrow> running s \<Longrightarrow>
    hook_thread_step spurious s (s\<lparr>hpc := HWaiting, owner := None, signalled := True\<rparr>)"
| not_running: "hpc s = HChecking \<Longrightarrow> \<not> running s \<Longrightarrow>
    hook_thread_step spurious s (s\<lparr>hpc := HUnlocking\<rparr>)"
| wake: "spurious \<Longrightarrow> hpc s = HWaiting \<Longrightarrow>
    hook_thread_step spurious s (s\<lparr>hpc := HWoken\<rparr>)"
| relock: "hpc s = HWoken \<Longrightarrow> owner s = None \<Longrightarrow>
    hook_thread_step spurious s (s\<lparr>hpc := HUnlocking, owner := Some HookThread\<rparr>)"
| unlock: "hpc s = HUnlocking \<Longrightarrow>
    hook_thread_step spurious s (s\<lparr>hpc := HTyping, owner := None\<rparr>)"
| type_keys: "hpc s = HTyping \<Longrightarrow>
    hook_thread_step spurious s (s\<lparr>hpc := HIdle, typed := typed s @ [(keys s, converted s)]\<rparr>)"

inductive main_runloop_keycode_proc :: "sync_state \<Rightarrow> sync_state \<Rightarrow> bool" where
  perform: "mpc s = MLoop \<Longrightarrow> running s \<Longrightarrow> signalled s \<Longrightarrow>
    main_runloop_keycode_proc s (s\<lparr>mpc := MLocking, signalled := False\<rparr>)"
| lock: "mpc s = MLocking \<Longrightarrow> owner s = None \<Longrightarrow>
    main_runloop_keycode_proc s (s\<lparr>mpc := MConverting, owner := Some MainThread\<rparr>)"
| convert: "mpc s = MConverting \<Longrightarrow>
    main_runloop_keycode_proc s (s\<lparr>mpc := MBroadcasting, converted := Some (keys s)\<rparr>)"
| broadcast: "mpc s = MBroadcasting \<Longrightarrow>
    main_runloop_keycode_proc s (pthread_cond_broadcast (s\<lparr>mpc := MUnlocking\<rparr>))"
| unlock: "mpc s = MUnlocking \<Longrightarrow>
    main_runloop_keycode_proc s (s\<lparr>mpc := MLoop, owner := None\<rparr>)"

inductive main_runloop_status_proc :: "bool \<Rightarrow> sync_state \<Rightarrow> sync_state \<Rightarrow> bool" for late :: bool where
  exit: "mpc s = MLoop \<Longrightarrow> running s \<Longrightarrow>
    main_runloop_status_proc late s (s\<lparr>mpc := MExitLocking, running := late\<rparr>)"
| lock: "mpc s = MExitLocking \<Longrightarrow> owner s = None \<Longrightarrow>
    main_runloop_status_proc late s (s\<lparr>mpc := MExitBroadcasting, owner := Some MainThread\<rparr>)"
| broadcast: "mpc s = MExitBroadcasting \<Longrightarrow>
    main_runloop_status_proc late s (pthread_cond_broadcast (s\<lparr>mpc := MExitUnlocking\<rparr>))"
| unlock: "mpc s = MExitUnlocking \<Longrightarrow>
    main_runloop_status_proc late s (s\<lparr>mpc := MExited, owner := None\<rparr>)"
| finish: "mpc s = MExited \<Longrightarrow>
    main_runloop_status_proc late s (s\<lparr>mpc := MDone, running := False\<rparr>)"

definition sync_step :: "bool \<Rightarrow> bool \<Rightarrow> sync_state \<Rightarrow> sync_state \<Rightarrow> bool" where
  "sync_step spurious late s s' \<longleftrightarrow> hook_thread_step spurious s s' \<or> main_runloop_keycode_proc s s'
     \<or> main_runloop_status_proc late s s'"

abbreviation sync_reachable :: "bool \<Rightarrow> bool \<Rightarrow> sync_state \<Rightarrow> bool" where
  "sync_reachable spurious late \<equiv> reaches (sync_step spurious late) sync_init"

abbreviation sync_path :: "bool \<Rightarrow> bool \<Rightarrow> sync_state \<Rightarrow> sync_state list \<Rightarrow> bool" where
  "sync_path spurious late \<equiv> path (sync_step spurious late)"

section \<open>Invariants\<close>

definition exiting :: "main_pc \<Rightarrow> bool" where
  "exiting m \<longleftrightarrow> m \<in> {MExitLocking, MExitBroadcasting, MExitUnlocking, MExited, MDone}"

definition released :: "main_pc \<Rightarrow> bool" where
  "released m \<longleftrightarrow> m \<in> {MExitUnlocking, MExited, MDone}"

text \<open>The mutex is held exactly in the critical sections.\<close>

definition mutex_inv :: "sync_state \<Rightarrow> bool" where
  "mutex_inv s \<longleftrightarrow>
     (owner s = Some HookThread \<longleftrightarrow> hpc s \<in> {HChecking, HUnlocking})
     \<and> (owner s = Some MainThread \<longleftrightarrow>
          mpc s \<in> {MConverting, MBroadcasting, MUnlocking, MExitBroadcasting, MExitUnlocking})"

text \<open>A request is open exactly while the hook thread waits, until the main run loop has said good-bye.\<close>

definition handoff_inv :: "bool \<Rightarrow> sync_state \<Rightarrow> bool" where
  "handoff_inv late s \<longleftrightarrow>
     (mpc s \<in> {MLocking, MConverting, MBroadcasting} \<longrightarrow> hpc s = HWaiting \<and> \<not> signalled s)
     \<and> (signalled s \<longrightarrow> hpc s = HWaiting \<or> released (mpc s))
     \<and> (hpc s = HWaiting \<longrightarrow> signalled s \<or> mpc s \<in> {MLocking, MConverting, MBroadcasting})
     \<and> (\<not> running s \<longrightarrow> exiting (mpc s))
     \<and> (\<not> late \<longrightarrow> running s = (\<not> exiting (mpc s)) \<and> (hpc s = HWaiting \<longrightarrow> \<not> released (mpc s)))"

text \<open>What the message holds at each point of the hook thread.\<close>

definition message_inv :: "sync_state \<Rightarrow> bool" where
  "message_inv s \<longleftrightarrow>
     (hpc s \<in> {HLocking, HChecking} \<longrightarrow> converted s = None)
     \<and> (hpc s = HWaiting \<longrightarrow> converted s = (if mpc s = MBroadcasting then Some (keys s) else None))
     \<and> (hpc s \<in> {HWoken, HUnlocking, HTyping} \<longrightarrow>
          converted s = Some (keys s) \<or> converted s = None \<and> exiting (mpc s))
     \<and> (\<forall>x \<in> set (typed s). snd x = Some (fst x) \<or> snd x = None \<and> exiting (mpc s))"

text \<open>One case for every step of either thread.\<close>

lemmas sync_elims = disjE hook_thread_step.cases main_runloop_keycode_proc.cases main_runloop_status_proc.cases

lemma mutex_inv_step:
  assumes "sync_step spurious late s s'" and "mutex_inv s"
  shows "mutex_inv s'"
  using assms(1) unfolding sync_step_def
  by (elim sync_elims) (use assms(2) in \<open>auto simp: mutex_inv_def pthread_cond_broadcast_def\<close>)

lemma handoff_inv_step:
  assumes "sync_step False late s s'" and "mutex_inv s" and "handoff_inv late s"
  shows "handoff_inv late s'"
  using assms(1) unfolding sync_step_def
  by (elim sync_elims)
    (use assms(2,3) in \<open>auto simp: mutex_inv_def handoff_inv_def exiting_def released_def pthread_cond_broadcast_def\<close>)

lemma message_inv_step:
  assumes "sync_step False late s s'" and "handoff_inv late s" and "message_inv s"
  shows "message_inv s'"
  using assms(1) unfolding sync_step_def
  by (elim sync_elims)
    (use assms(2,3) in \<open>auto simp: message_inv_def handoff_inv_def exiting_def pthread_cond_broadcast_def\<close>)

interpretation sync_mutex: step_invariant "sync_step spurious late" mutex_inv for spurious late
  by unfold_locales (rule mutex_inv_step)

interpretation sync_handoff: step_invariant "sync_step False late" "\<lambda>s. mutex_inv s \<and> handoff_inv late s \<and> message_inv s" for late
  by unfold_locales (use mutex_inv_step handoff_inv_step message_inv_step in blast)

lemma mutex_inv_reachable: "sync_reachable spurious late s \<Longrightarrow> mutex_inv s"
  by (erule sync_mutex.inv_reaches) (simp add: mutex_inv_def sync_init_def)

lemma handoff_reachable:
  assumes "sync_reachable False late s"
  shows "handoff_inv late s \<and> message_inv s"
  using sync_handoff.inv_reaches [OF assms]
  by (simp add: mutex_inv_def handoff_inv_def message_inv_def sync_init_def exiting_def)

section \<open>The call that the threads implement\<close>

datatype call_phase = CallReady | CallAsked | CallAnswered "nat option"

text \<open>
  The phase of the call, the number of the key, what was typed, and whether the run loop is gone: the
  caller asks for a key, gets its characters, or nothing when the run loop is gone, and types them.
\<close>

type_synonym call_view = "call_phase \<times> nat \<times> (nat \<times> nat option) list \<times> bool"

inductive call_spec :: "call_view \<Rightarrow> call_view \<Rightarrow> bool" where
  ask: "call_spec (CallReady, k, t, g) (CallAsked, Suc k, t, g)"
| convert: "call_spec (CallAsked, k, t, g) (CallAnswered (Some k), k, t, g)"
| give_up: "call_spec (CallAsked, k, t, True) (CallAnswered None, k, t, True)"
| type_answer: "call_spec (CallAnswered c, k, t, g) (CallReady, k, t @ [(k, c)], g)"
| leave: "call_spec (p, k, t, False) (p, k, t, True)"

definition call_view :: "sync_state \<Rightarrow> call_view" where
  "call_view s =
     (if hpc s = HIdle then CallReady
      else if hpc s \<in> {HLocking, HChecking, HWaiting} then CallAsked else CallAnswered (converted s),
      keys s, typed s, exiting (mpc s))"

text \<open>Every key is typed once and in order, with its own characters or, once the run loop is gone, with none.\<close>

definition typed_in_order :: "call_view \<Rightarrow> bool" where
  "typed_in_order v =
     (case v of (p, k, t, g) \<Rightarrow>
        map fst t = [1..<(if p = CallReady then Suc k else k)] \<and> (p \<noteq> CallReady \<longrightarrow> 0 < k)
        \<and> (\<forall>x \<in> set t. snd x = Some (fst x) \<or> snd x = None \<and> g)
        \<and> (\<forall>c. p = CallAnswered c \<longrightarrow> c = Some k \<or> c = None \<and> g))"

interpretation calls: step_invariant call_spec typed_in_order
  by unfold_locales (auto elim!: call_spec.cases simp: typed_in_order_def)

lemma sync_simulates:
  assumes "sync_step False late s s'" and "handoff_inv late s" and "message_inv s"
  shows "call_view s' = call_view s \<or> call_spec (call_view s) (call_view s')"
proof -
  have facts: "mpc s = MConverting \<longrightarrow> hpc s = HWaiting" "\<not> running s \<longrightarrow> exiting (mpc s)"
    "hpc s = HChecking \<longrightarrow> converted s = None"
    "hpc s = HWaiting \<longrightarrow> converted s = (if mpc s = MBroadcasting then Some (keys s) else None)"
    using assms(2,3) unfolding handoff_inv_def message_inv_def by blast+
  from assms(1) show ?thesis unfolding sync_step_def
    by (elim sync_elims)
      (use facts in \<open>auto simp: call_view_def exiting_def pthread_cond_broadcast_def intro: call_spec.intros\<close>)
qed

interpretation sync_call: step_simulation "sync_step False late" "\<lambda>s. mutex_inv s \<and> handoff_inv late s \<and> message_inv s"
  call_spec call_view for late
  by unfold_locales (use sync_simulates in blast)

lemma sync_inv_init: "mutex_inv sync_init \<and> handoff_inv late sync_init \<and> message_inv sync_init"
  by (simp add: mutex_inv_def handoff_inv_def message_inv_def sync_init_def exiting_def)

lemma call_view_init: "call_view sync_init = (CallReady, 0, [], False)"
  by (simp add: call_view_def sync_init_def exiting_def)

lemma sync_typed_in_order:
  assumes "sync_reachable False late s"
  shows "typed_in_order (call_view s)"
  by (rule sync_call.spec_invariant_view [OF calls.step_invariant_axioms assms sync_inv_init])
    (simp add: call_view_init typed_in_order_def)

section \<open>Runs of the two threads\<close>

inductive_simps hook_thread_step_iff: "hook_thread_step spurious s s'"
inductive_simps main_runloop_keycode_proc_iff: "main_runloop_keycode_proc s s'"
inductive_simps main_runloop_status_proc_iff: "main_runloop_status_proc late s s'"

lemmas sync_step_iff = sync_step_def hook_thread_step_iff main_runloop_keycode_proc_iff main_runloop_status_proc_iff

definition sync :: "hook_pc \<Rightarrow> main_pc \<Rightarrow> runloop_thread option \<Rightarrow> bool \<Rightarrow> bool \<Rightarrow> nat \<Rightarrow> nat option \<Rightarrow> (nat \<times> nat option) list \<Rightarrow> sync_state" where
  "sync h m w r sg k c t = \<lparr>hpc = h, mpc = m, owner = w, running = r, signalled = sg, keys = k, converted = c, typed = t\<rparr>"

definition one_key :: "sync_state list" where
  "one_key =
     [sync HLocking MLoop None True False 1 None [],
      sync HChecking MLoop (Some HookThread) True False 1 None [],
      sync HWaiting MLoop None True True 1 None [],
      sync HWaiting MLocking None True False 1 None [],
      sync HWaiting MConverting (Some MainThread) True False 1 None [],
      sync HWaiting MBroadcasting (Some MainThread) True False 1 (Some 1) [],
      sync HWoken MUnlocking (Some MainThread) True False 1 (Some 1) [],
      sync HWoken MLoop None True False 1 (Some 1) [],
      sync HUnlocking MLoop (Some HookThread) True False 1 (Some 1) [],
      sync HTyping MLoop None True False 1 (Some 1) [],
      sync HIdle MLoop None True False 1 (Some 1) [(1, Some 1)]]"

definition woken_early :: "sync_state list" where
  "woken_early =
     [sync HLocking MLoop None True False 1 None [],
      sync HChecking MLoop (Some HookThread) True False 1 None [],
      sync HWaiting MLoop None True True 1 None [],
      sync HWoken MLoop None True True 1 None [],
      sync HUnlocking MLoop (Some HookThread) True True 1 None [],
      sync HTyping MLoop None True True 1 None [],
      sync HTyping MLocking None True False 1 None [],
      sync HTyping MConverting (Some MainThread) True False 1 None []]"

definition key_at_exit :: "sync_state list" where
  "key_at_exit =
     [sync HIdle MExitLocking None True False 0 None [],
      sync HIdle MExitBroadcasting (Some MainThread) True False 0 None [],
      sync HIdle MExitUnlocking (Some MainThread) True False 0 None [],
      sync HIdle MExited None True False 0 None [],
      sync HLocking MExited None True False 1 None [],
      sync HChecking MExited (Some HookThread) True False 1 None [],
      sync HWaiting MExited None True True 1 None [],
      sync HWaiting MDone None False True 1 None []]"

lemma one_key_path: "sync_path False late sync_init one_key"
  by (simp add: one_key_def sync_init_def sync_def sync_step_iff pthread_cond_broadcast_def)

lemma woken_early_path: "sync_path True late sync_init woken_early"
  by (simp add: woken_early_def sync_init_def sync_def sync_step_iff)

lemma key_at_exit_path: "sync_path False True sync_init key_at_exit"
  by (simp add: key_at_exit_def sync_init_def sync_def sync_step_iff pthread_cond_broadcast_def)

section \<open>Properties\<close>

text \<open>
  C4. As long as a wait on the condition only ends by a broadcast, the main thread converts a key only while
  the hook thread waits, at most one thread is in a critical section, and the two threads implement a
  call of the conversion: the keys are typed once each and in the order in which they came, with
  the characters that were converted for them; nothing is typed for a key only when the main run
  loop exits.
\<close>

theorem mac_runloop_handoff:
  assumes "sync_reachable False late s"
  shows "(mpc s = MConverting \<longrightarrow> hpc s = HWaiting)
    \<and> \<not> (hpc s \<in> {HChecking, HUnlocking}
          \<and> mpc s \<in> {MConverting, MBroadcasting, MUnlocking, MExitBroadcasting, MExitUnlocking})
    \<and> reaches call_spec (CallReady, 0, [], False) (call_view s)
    \<and> map fst (typed s) = [1..<(if hpc s = HIdle then Suc (keys s) else keys s)]
    \<and> (\<forall>x \<in> set (typed s). snd x = Some (fst x) \<or> snd x = None \<and> exiting (mpc s))"
proof (intro conjI)
  have handoff: "handoff_inv late s" using handoff_reachable [OF assms] by simp
  show "mpc s = MConverting \<longrightarrow> hpc s = HWaiting" using handoff by (simp add: handoff_inv_def)
  show "\<not> (hpc s \<in> {HChecking, HUnlocking}
      \<and> mpc s \<in> {MConverting, MBroadcasting, MUnlocking, MExitBroadcasting, MExitUnlocking})"
    using mutex_inv_reachable [OF assms] unfolding mutex_inv_def by (metis option.inject runloop_thread.distinct(1))
  show "reaches call_spec (CallReady, 0, [], False) (call_view s)"
    using sync_call.reaches_view [OF assms sync_inv_init] by (simp add: call_view_init)
  show "map fst (typed s) = [1..<(if hpc s = HIdle then Suc (keys s) else keys s)]"
    and "\<forall>x \<in> set (typed s). snd x = Some (fst x) \<or> snd x = None \<and> exiting (mpc s)"
    using sync_typed_in_order [OF assms] by (simp_all add: typed_in_order_def call_view_def split: if_splits)
qed

theorem mac_runloop_handoff_witness:
  "sync_reachable False False (last (sync_init # take 5 one_key)) \<and> mpc (last (sync_init # take 5 one_key)) = MConverting
     \<and> hpc (last (sync_init # take 5 one_key)) = HWaiting"
proof -
  have "sync_path False False sync_init (take 5 one_key)"
    by (simp add: one_key_def sync_init_def sync_def sync_step_iff)
  then have reach: "sync_reachable False False (last (sync_init # take 5 one_key))"
    by (rule path_reaches [OF _])
  moreover have "mpc (last (sync_init # take 5 one_key)) = MConverting" by (simp add: one_key_def sync_def)
  ultimately show ?thesis using mac_runloop_handoff [OF reach] by blast
qed

text \<open>
  The wait is not in a loop that tests a condition: when it ends without a broadcast, the hook thread
  reads the message while the main thread writes to it.
\<close>

theorem mac_runloop_spurious_race:
  "\<exists>s. sync_reachable True late s \<and> hpc s = HTyping \<and> mpc s = MConverting"
proof -
  have "sync_reachable True late (last (sync_init # woken_early))"
    by (rule path_reaches [OF woken_early_path])
  then show ?thesis by (intro exI [of _ "last (sync_init # woken_early)"]) (simp add: woken_early_def sync_def)
qed

text \<open>
  When the main run loop still has its mode after its exit observers ran, the hook thread can wait for
  a broadcast that never comes.
\<close>

theorem mac_runloop_exit_hang:
  "\<exists>s. sync_reachable False True s \<and> hpc s = HWaiting \<and> (\<forall>s'. \<not> sync_step False True s s')"
proof -
  have "sync_reachable False True (last (sync_init # key_at_exit))"
    by (rule path_reaches [OF key_at_exit_path])
  then show ?thesis
    by (intro exI [of _ "last (sync_init # key_at_exit)"]) (simp add: key_at_exit_def sync_def sync_step_iff)
qed

section \<open>Progress\<close>

text \<open>Some step brings the hook thread closer to its next event.\<close>

primrec hook_rank :: "hook_pc \<Rightarrow> nat" where
  "hook_rank HIdle = 0" | "hook_rank HTyping = 1" | "hook_rank HUnlocking = 2" | "hook_rank HWoken = 3"
| "hook_rank HWaiting = 4" | "hook_rank HChecking = 5" | "hook_rank HLocking = 6"

primrec main_rank :: "main_pc \<Rightarrow> nat" where
  "main_rank MUnlocking = 9" | "main_rank MLoop = 8" | "main_rank MLocking = 7" | "main_rank MConverting = 6"
| "main_rank MBroadcasting = 5" | "main_rank MExitLocking = 4" | "main_rank MExitBroadcasting = 3"
| "main_rank MExitUnlocking = 2" | "main_rank MExited = 1" | "main_rank MDone = 0"

definition sync_rank :: "sync_state \<Rightarrow> nat" where
  "sync_rank s = 10 * hook_rank (hpc s) + main_rank (mpc s)"

definition progress :: "sync_state \<Rightarrow> bool" where
  "progress s \<longleftrightarrow> (\<exists>s'. sync_step False False s s' \<and> sync_rank s' < sync_rank s)"

lemma progressI: "sync_step False False s s' \<Longrightarrow> sync_rank s' < sync_rank s \<Longrightarrow> progress s"
  by (auto simp: progress_def)

lemma hook_progress:
  "hpc s = HLocking \<Longrightarrow> owner s = None \<Longrightarrow> progress s"
  "hpc s = HChecking \<Longrightarrow> running s \<Longrightarrow> progress s"
  "hpc s = HChecking \<Longrightarrow> \<not> running s \<Longrightarrow> progress s"
  "hpc s = HWoken \<Longrightarrow> owner s = None \<Longrightarrow> progress s"
  "hpc s = HUnlocking \<Longrightarrow> progress s"
  "hpc s = HTyping \<Longrightarrow> progress s"
  by (rule progressI, unfold sync_step_def, rule disjI1, erule hook_thread_step.intros; simp add: sync_rank_def)+

lemma keycode_progress:
  "mpc s = MLoop \<Longrightarrow> running s \<Longrightarrow> signalled s \<Longrightarrow> progress s"
  "mpc s = MLocking \<Longrightarrow> owner s = None \<Longrightarrow> progress s"
  "mpc s = MConverting \<Longrightarrow> progress s"
  "mpc s = MBroadcasting \<Longrightarrow> hpc s = HWaiting \<Longrightarrow> progress s"
  "mpc s = MUnlocking \<Longrightarrow> progress s"
  by (rule progressI, unfold sync_step_def, rule disjI2, rule disjI1, erule main_runloop_keycode_proc.intros;
      simp add: sync_rank_def pthread_cond_broadcast_def)+

lemma status_progress:
  "mpc s = MExitLocking \<Longrightarrow> owner s = None \<Longrightarrow> progress s"
  "mpc s = MExitBroadcasting \<Longrightarrow> progress s"
  "mpc s = MExitUnlocking \<Longrightarrow> progress s"
  by (rule progressI, unfold sync_step_def, rule disjI2, rule disjI2, erule main_runloop_status_proc.intros;
      simp add: sync_rank_def pthread_cond_broadcast_def)+

lemma owner_progress:
  assumes "owner s = Some MainThread" and "mutex_inv s" and "handoff_inv False s"
  shows "progress s"
proof -
  have "mpc s \<in> {MConverting, MBroadcasting, MUnlocking, MExitBroadcasting, MExitUnlocking}"
    using assms(1,2) by (simp add: mutex_inv_def)
  moreover have "mpc s = MBroadcasting \<longrightarrow> hpc s = HWaiting" using assms(3) by (simp add: handoff_inv_def)
  ultimately show ?thesis using keycode_progress status_progress by blast
qed

lemma waiting_progress:
  assumes "hpc s = HWaiting" and "owner s = None" and "handoff_inv False s"
  shows "progress s"
proof (cases "mpc s")
  case MLoop
  with assms have "running s" "signalled s" by (simp_all add: handoff_inv_def exiting_def)
  with MLoop show ?thesis by (intro keycode_progress(1))
qed (use assms in \<open>simp_all add: handoff_inv_def released_def keycode_progress status_progress\<close>)

lemma sync_progress:
  assumes "mutex_inv s" and "handoff_inv False s" and "hpc s \<noteq> HIdle"
  shows "progress s"
proof (cases "owner s")
  case None
  then show ?thesis
  proof (cases "hpc s")
    case HWaiting
    then show ?thesis using None assms(2) by (rule waiting_progress)
  qed (use None assms(3) hook_progress in blast)+
next
  case (Some t)
  then show ?thesis
  proof (cases t)
    case MainThread
    with Some assms show ?thesis by (intro owner_progress) simp_all
  next
    case HookThread
    with Some assms(1) have "hpc s = HChecking \<or> hpc s = HUnlocking" by (simp add: mutex_inv_def)
    then show ?thesis using hook_progress by blast
  qed
qed



end
