(* ===== verification/Darwin_Post_Event.thy ===== *)
theory Darwin_Post_Event
  imports Darwin_Hook_Properties
begin

text \<open>
  \<^verbatim>\<open>src/darwin/post_event.c\<close>: an event becomes a \<^verbatim>\<open>CGEvent\<close>. The file keeps the modifier flags of the keys
  it posted and what a motion of the mouse has to be posted as.
\<close>

section \<open>State\<close>

text \<open>What is posted: a key with its flags, a mouse event with its location and button, or a scroll in lines.\<close>

datatype mac_posted =
    PostedKey uint16_t bool uint64_t
  | PostedMouse cg_event_type "int \<times> int" uint32_t
  | PostedScroll int

record mac_post =
  current_modifier_mask :: uint64_t
  current_motion_event :: cg_event_type
  current_motion_button :: uint32_t
  mac_posted :: "mac_posted list"

definition mac_post_init :: mac_post where
  "mac_post_init = \<lparr>current_modifier_mask = 0x00, current_motion_event = kCGEventMouseMoved,
     current_motion_button = 0, mac_posted = []\<rparr>"

definition cg_event_post :: "mac_posted \<Rightarrow> mac_post \<Rightarrow> mac_post" where
  "cg_event_post e s = s\<lparr>mac_posted := mac_posted s @ [e]\<rparr>"

section \<open>Keys\<close>

definition posted_flag :: "uint16_t \<Rightarrow> uint64_t" where
  "posted_flag keycode =
     (if keycode = VC_SHIFT_L \<or> keycode = VC_SHIFT_R then kCGEventFlagMaskShift
      else if keycode = VC_CONTROL_L \<or> keycode = VC_CONTROL_R then kCGEventFlagMaskControl
      else if keycode = VC_META_L \<or> keycode = VC_META_R then kCGEventFlagMaskCommand
      else if keycode = VC_ALT_L \<or> keycode = VC_ALT_R then kCGEventFlagMaskAlternate
      else 0)"

definition keypad_codes :: "uint16_t list" where
  "keypad_codes =
     [VC_KP_0, VC_KP_1, VC_KP_2, VC_KP_3, VC_KP_4, VC_KP_5, VC_KP_6, VC_KP_7, VC_KP_8, VC_KP_9,
      VC_NUM_LOCK, VC_KP_ENTER, VC_KP_MULTIPLY, VC_KP_ADD, VC_KP_SEPARATOR, VC_KP_SUBTRACT, VC_KP_DIVIDE, VC_KP_COMMA]"

text \<open>\<open>create\<close> is whether an event can be created. The flags follow the key even when it cannot be posted.\<close>

definition mac_post_key_event :: "bool \<Rightarrow> uiohook_event \<Rightarrow> mac_post \<Rightarrow> (mac_post \<times> c_int) result" where
  "mac_post_key_event create event s =
     (if ev_type event \<noteq> EVENT_KEY_PRESSED \<and> ev_type event \<noteq> EVENT_KEY_RELEASED then Inr (s, UIOHOOK_FAILURE)
      else case ev_data event of
        Keyboard k \<Rightarrow>
          let is_pressed = (ev_type event = EVENT_KEY_PRESSED);
              s = s\<lparr>current_modifier_mask :=
                if is_pressed then current_modifier_mask s OR posted_flag (kb_keycode k)
                else current_modifier_mask s AND NOT (posted_flag (kb_keycode k))\<rparr>;
              event_mask = (if kb_keycode k \<in> set keypad_codes
                then current_modifier_mask s OR kCGEventFlagMaskNumericPad else current_modifier_mask s) in
          r_bind (mac_scancode_to_keycode (kb_keycode k)) (\<lambda>code.
          let keycode = ucast code in
          if keycode = kVK_Undefined then Inr (s, UIOHOOK_FAILURE)
          else if \<not> create then Inr (s, UIOHOOK_ERROR_OUT_OF_MEMORY)
          else Inr (cg_event_post (PostedKey keycode is_pressed event_mask) s, UIOHOOK_SUCCESS))
      | _ \<Rightarrow> Inl UninitialisedRead)"

section \<open>Mouse\<close>

text \<open>Down, up and dragged events and the number of a button.\<close>

definition mouse_kind :: "uint16_t \<Rightarrow> cg_event_type \<times> cg_event_type \<times> cg_event_type \<times> uint32_t" where
  "mouse_kind button =
     (if button = MOUSE_BUTTON1 then (kCGEventLeftMouseDown, kCGEventLeftMouseUp, kCGEventLeftMouseDragged, 0)
      else if button = MOUSE_BUTTON2 then (kCGEventRightMouseDown, kCGEventRightMouseUp, kCGEventRightMouseDragged, 1)
      else (kCGEventOtherMouseDown, kCGEventOtherMouseUp, kCGEventOtherMouseDragged, ucast button - 1))"

text \<open>The type and button of the event, and the state after it: \<open>None\<close> for an event that is refused.\<close>

definition mouse_type :: "uiohook_event \<Rightarrow> mac_post \<Rightarrow> ((cg_event_type \<times> uint32_t) \<times> mac_post) option result" where
  "mouse_type event s =
     (if ev_type event = EVENT_MOUSE_PRESSED \<or> ev_type event = EVENT_MOUSE_RELEASED then
        case ev_data event of
          Mouse m \<Rightarrow>
            if ms_button m = MOUSE_NOBUTTON then Inr None
            else
              let (down, up, dragged, button) = mouse_kind (ms_button m) in
              if ev_type event = EVENT_MOUSE_PRESSED
              then Inr (Some ((down, button), s\<lparr>current_motion_event := dragged, current_motion_button := button\<rparr>))
              else Inr (Some ((up, button),
                     (if current_motion_event s = dragged then s\<lparr>current_motion_event := kCGEventMouseMoved\<rparr> else s)
                       \<lparr>current_motion_button := button\<rparr>))
        | _ \<Rightarrow> Inl UninitialisedRead
      else if ev_type event = EVENT_MOUSE_MOVED \<or> ev_type event = EVENT_MOUSE_DRAGGED
      then Inr (Some ((current_motion_event s, current_motion_button s), s))
      else Inr None)"

definition mac_post_mouse_event :: "bool \<Rightarrow> uiohook_event \<Rightarrow> mac_post \<Rightarrow> (mac_post \<times> c_int) result" where
  "mac_post_mouse_event create event s =
     r_bind (mouse_type event s) (\<lambda>answer.
     case answer of
       None \<Rightarrow> Inr (s, UIOHOOK_FAILURE)
     | Some ((type, button), s) \<Rightarrow>
         (case ev_data event of
            Mouse m \<Rightarrow>
              if \<not> create then Inr (s, UIOHOOK_ERROR_OUT_OF_MEMORY)
              else Inr (cg_event_post (PostedMouse type (sint (ms_x m), sint (ms_y m)) button) s, UIOHOOK_SUCCESS)
          | _ \<Rightarrow> Inl UninitialisedRead))"

text \<open>The unit that belongs to the type of the scroll is chosen and not used: a scroll is posted in lines.\<close>

definition mac_post_mouse_wheel_event :: "bool \<Rightarrow> uiohook_event \<Rightarrow> mac_post \<Rightarrow> (mac_post \<times> c_int) result" where
  "mac_post_mouse_wheel_event create event s =
     (case ev_data event of
        Wheel w \<Rightarrow>
          if \<not> create then Inr (s, UIOHOOK_ERROR_OUT_OF_MEMORY)
          else Inr (cg_event_post (PostedScroll (uint (wh_amount w) * sint (wh_rotation w))) s, UIOHOOK_SUCCESS)
      | _ \<Rightarrow> Inl UninitialisedRead)"

section \<open>Events\<close>

text \<open>\<open>src\<close> is whether the event source could be created. The status is dropped.\<close>

definition mac_hook_post_event :: "bool \<Rightarrow> bool \<Rightarrow> uiohook_event \<Rightarrow> mac_post \<Rightarrow> mac_post result" where
  "mac_hook_post_event src create event s =
     (if \<not> src then Inr s
      else if ev_type event = EVENT_KEY_PRESSED \<or> ev_type event = EVENT_KEY_RELEASED
      then map_sum id fst (mac_post_key_event create event s)
      else if ev_type event = EVENT_MOUSE_PRESSED \<or> ev_type event = EVENT_MOUSE_RELEASED
        \<or> ev_type event = EVENT_MOUSE_MOVED \<or> ev_type event = EVENT_MOUSE_DRAGGED
      then map_sum id fst (mac_post_mouse_event create event s)
      else if ev_type event = EVENT_MOUSE_WHEEL
      then map_sum id fst (mac_post_mouse_wheel_event create event s)
      else Inr s)"

section \<open>Key codes there and back\<close>

definition mac_roundtrip_at :: "nat \<Rightarrow> bool" where
  "mac_roundtrip_at i \<longleftrightarrow>
     (let s = mac_keycode_to_scancode (of_nat i)
      in s = VC_UNDEFINED \<or> i = 0xE2 \<or> mac_scancode_to_keycode s = Inr (of_nat i))"

lemma mac_roundtrip_low: "list_all mac_roundtrip_at [0..<128]"
  by code_simp

lemma mac_roundtrip_high: "list_all mac_roundtrip_at [128..<256]"
  by code_simp

lemmas mac_roundtrip = list_all_halves [OF mac_roundtrip_low mac_roundtrip_high]

lemma mac_table_length: "length mac_keycode_scancode_table = 256"
  by (simp add: mac_keycode_scancode_table_def mac_keycode_scancode_table_low_def mac_keycode_scancode_table_high_def)

lemma mac_undefined_code: "mac_keycode_to_scancode 0xFF = VC_UNDEFINED"
  by code_simp

lemma mac_defined_code: "mac_keycode_to_scancode k \<noteq> VC_UNDEFINED \<Longrightarrow> unat k < 256"
  by (auto simp: mac_keycode_to_scancode_def mac_table_length split: if_splits)

lemma mac_code_roundtrip:
  assumes "mac_keycode_to_scancode k \<noteq> VC_UNDEFINED" and "k \<noteq> 0xE2"
  shows "mac_scancode_to_keycode (mac_keycode_to_scancode k) = Inr k"
proof -
  have "word_of_nat (unat k) = k" by simp
  moreover have "unat k \<noteq> 0xE2" using assms(2) by (metis calculation of_nat_numeral)
  ultimately show ?thesis
    using mac_roundtrip mac_defined_code [OF assms(1)] assms(1)
    unfolding list_all_upt mac_roundtrip_at_def Let_def by auto
qed

text \<open>
  Every key code that Darwin reports as a key is posted again as itself, the key between the left
  Shift key and Z of some keyboards (0xE2) apart, which has no way back.
\<close>

theorem mac_keycode_roundtrip:
  assumes "mac_keycode_to_scancode k \<noteq> VC_UNDEFINED"
  shows "mac_scancode_to_keycode (mac_keycode_to_scancode k) = Inr (if k = 0xE2 then ucast kVK_Undefined else k)"
proof (cases "k = 0xE2")
  case True
  have "mac_scancode_to_keycode (mac_keycode_to_scancode 0xE2) = Inr (ucast kVK_Undefined)" by code_simp
  with True show ?thesis by simp
qed (use mac_code_roundtrip [OF assms] in simp)

theorem mac_keycode_roundtrip_witness: "mac_scancode_to_keycode (mac_keycode_to_scancode 0x24) = Inr 0x24"
proof -
  have "mac_keycode_to_scancode 0x24 \<noteq> VC_UNDEFINED" by code_simp
  from mac_keycode_roundtrip [OF this] show ?thesis by simp
qed

section \<open>Posting what was reported\<close>

lemma mac_defined_code_narrow:
  assumes "mac_keycode_to_scancode k \<noteq> VC_UNDEFINED"
  shows "(ucast k :: uint16_t) \<noteq> kVK_Undefined"
proof
  assume "(ucast k :: uint16_t) = kVK_Undefined"
  moreover have "unat (ucast k :: uint16_t) = unat k"
    using mac_defined_code [OF assms] by (simp add: unsigned_ucast_eq take_bit_nat_eq_self)
  ultimately have "unat k = 0xFF" by simp
  then have "k = 0xFF" by (metis of_nat_numeral of_nat_unat ucast_id)
  with assms mac_undefined_code show False by simp
qed

text \<open>The flags that a key is posted with, over the flags kept so far.\<close>

definition flags_after :: "bool \<Rightarrow> uint16_t \<Rightarrow> uint64_t \<Rightarrow> uint64_t" where
  "flags_after pressed code m =
     (let m = (if pressed then m OR posted_flag code else m AND NOT (posted_flag code))
      in if code \<in> set keypad_codes then m OR kCGEventFlagMaskNumericPad else m)"



section \<open>Motion\<close>

text \<open>
  The button events of a history, the latest first, with whether they press: a motion is a drag
  with the button pressed last, unless a button of its kind was released since.
\<close>

definition kind_of :: "uint16_t \<Rightarrow> cg_event_type" where
  "kind_of button = fst (snd (snd (mouse_kind button)))"

definition motion_of :: "(bool \<times> uint16_t) list \<Rightarrow> cg_event_type" where
  "motion_of h =
     (case dropWhile (\<lambda>x. \<not> fst x) h of
        [] \<Rightarrow> kCGEventMouseMoved
      | (_, b) # _ \<Rightarrow>
          if \<exists>x \<in> set (takeWhile (\<lambda>x. \<not> fst x) h). kind_of (snd x) = kind_of b
          then kCGEventMouseMoved else kind_of b)"

definition button_event :: "bool \<times> uint16_t \<Rightarrow> uiohook_event" where
  "button_event x = emitted (if fst x then EVENT_MOUSE_PRESSED else EVENT_MOUSE_RELEASED) 0 0
     (Mouse \<lparr>ms_button = snd x, ms_clicks = 0, ms_x = 0, ms_y = 0\<rparr>)"

primrec post_all :: "uiohook_event list \<Rightarrow> mac_post \<Rightarrow> mac_post result" where
  "post_all [] s = Inr s"
| "post_all (e # es) s = r_bind (mac_hook_post_event True True e s) (post_all es)"

lemma post_all_append: "post_all (xs @ ys) s = r_bind (post_all xs s) (post_all ys)"
  by (induction xs arbitrary: s) (auto simp: r_bind_def split: sum.split)

lemma kind_of_not_moved [simp]: "kind_of b \<noteq> kCGEventMouseMoved" "kCGEventMouseMoved \<noteq> kind_of b"
  by (simp_all add: kind_of_def mouse_kind_def)

lemma motion_of_press: "motion_of ((True, b) # h) = kind_of b"
  by (simp add: motion_of_def)

lemma motion_of_release:
  "motion_of ((False, b) # h) = (if motion_of h = kind_of b then kCGEventMouseMoved else motion_of h)"
proof -
  have drop: "dropWhile (\<lambda>x. \<not> fst x) ((False, b) # h) = dropWhile (\<lambda>x. \<not> fst x) h"
    and take: "takeWhile (\<lambda>x. \<not> fst x) ((False, b) # h) = (False, b) # takeWhile (\<lambda>x. \<not> fst x) h" by simp_all
  show ?thesis
  proof (cases "dropWhile (\<lambda>x. \<not> fst x) h")
    case Nil
    show ?thesis unfolding motion_of_def drop Nil by simp
  next
    case (Cons y ys)
    show ?thesis unfolding motion_of_def drop take Cons by (cases y) simp
  qed
qed

lemma post_button_event:
  assumes "b \<noteq> MOUSE_NOBUTTON"
  shows "\<exists>s'. mac_hook_post_event True True (button_event (pressed, b)) s = Inr s' \<and> current_motion_event s' =
    (if pressed then kind_of b else if current_motion_event s = kind_of b then kCGEventMouseMoved else current_motion_event s)
    \<and> current_motion_button s' = snd (snd (snd (mouse_kind b)))"
  using assms
  by (auto simp: mac_hook_post_event_def mac_post_mouse_event_def mouse_type_def button_event_def emitted_def
      cg_event_post_def kind_of_def split: prod.split)

lemma post_all_motion:
  assumes "\<forall>x \<in> set h. snd x \<noteq> MOUSE_NOBUTTON"
  shows "\<exists>s'. post_all (map button_event (rev h)) mac_post_init = Inr s' \<and> current_motion_event s' = motion_of h"
  using assms
proof (induction h)
  case (Cons x h)
  then obtain s where s: "post_all (map button_event (rev h)) mac_post_init = Inr s" "current_motion_event s = motion_of h"
    by auto
  obtain pressed b where x: "x = (pressed, b)" by (cases x) auto
  with Cons.prems s post_button_event [of b pressed s] show ?case
    by (cases pressed) (auto simp: post_all_append motion_of_press motion_of_release)
qed (simp add: mac_post_init_def motion_of_def)

text \<open>
  After any sequence of button events posted on Darwin, a motion is posted as a drag with the button
  that was pressed last, unless a button of the same kind was released since; otherwise as a move.
\<close>

theorem mac_post_motion:
  assumes "\<forall>x \<in> set h. snd x \<noteq> MOUSE_NOBUTTON"
    and "ev_type event = EVENT_MOUSE_MOVED \<or> ev_type event = EVENT_MOUSE_DRAGGED" and "ev_data event = Mouse m"
  shows "\<exists>s' button. post_all (map button_event (rev h) @ [event]) mac_post_init = Inr s'
    \<and> last (mac_posted s') = PostedMouse (motion_of h) (sint (ms_x m), sint (ms_y m)) button"
proof -
  obtain s where "post_all (map button_event (rev h)) mac_post_init = Inr s" "current_motion_event s = motion_of h"
    using post_all_motion [OF assms(1)] by blast
  with assms(2,3) show ?thesis
    by (auto simp: post_all_append mac_hook_post_event_def mac_post_mouse_event_def mouse_type_def cg_event_post_def)
qed

theorem mac_post_motion_witness:
  "\<exists>s' button. post_all [button_event (True, 1), button_event (True, 2), button_event (False, 1),
       emitted EVENT_MOUSE_MOVED 0 0 (Mouse \<lparr>ms_button = 0, ms_clicks = 0, ms_x = 3, ms_y = 4\<rparr>)] mac_post_init = Inr s'
     \<and> last (mac_posted s') = PostedMouse kCGEventRightMouseDragged (3, 4) button"
proof -
  have "motion_of [(False, 1), (True, 2), (True, 1)] = kCGEventRightMouseDragged"
    by (simp add: motion_of_def kind_of_def mouse_kind_def)
  then show ?thesis
    using mac_post_motion [of "[(False, 1), (True, 2), (True, 1)]" "emitted EVENT_MOUSE_MOVED 0 0
        (Mouse \<lparr>ms_button = 0, ms_clicks = 0, ms_x = 3, ms_y = 4\<rparr>)"]
    by (simp add: emitted_def)
qed

section \<open>Scrolling\<close>

lemma ucast_of_int:
  assumes "LENGTH('b::len) \<le> LENGTH('a::len)"
  shows "ucast (word_of_int x :: 'a word) = (word_of_int x :: 'b word)"
  using assms by (intro bit_word_eqI) (simp add: bit_ucast_iff bit_word_of_int_iff)

lemma sint_small:
  assumes "- (2 ^ 15) \<le> x" and "x < 2 ^ 15"
  shows "sint (word_of_int x :: int16_t) = x"
  using assms by (simp add: sint_sbintrunc' signed_take_bit_int_eq_self)

lemma sint_narrow_minus:
  fixes w :: "64 word"
  assumes "\<bar>sint w\<bar> < 2 ^ 15"
  shows "sint (ucast (- w) :: int16_t) = - sint w"
proof -
  have "- w = word_of_int (- sint w)" by simp
  then have "ucast (- w) = (ucast (word_of_int (- sint w) :: 64 word) :: int16_t)" by (rule arg_cong)
  also have "\<dots> = word_of_int (- sint w)" by (rule ucast_of_int) simp
  finally have "ucast (- w) = (word_of_int (- sint w) :: int16_t)" .
  then have "sint (ucast (- w) :: int16_t) = sint (word_of_int (- sint w) :: int16_t)" by (rule arg_cong)
  also have "\<dots> = - sint w" by (rule sint_small) (use assms in linarith)+
  finally show ?thesis .
qed
text \<open>
  Posting the wheel event that the Darwin handler reports scrolls the other way: the rotation was
  negated when the event was reported and is not negated when it is posted.
\<close>

theorem mac_post_wheel_reversed:
  assumes "sint (cg_delta1 event) = n" and "0 < n" and "n < 2 ^ 15" and "sint (cg_point_delta1 event) = n * lines"
    and "0 < lines" and "lines < 2 ^ 15" and "dispatcher s = Some d"
  shows "\<exists>p'. mac_hook_post_event True True (last (dispatched (mac_process_mouse_wheel ts event s))) p = Inr p'
    \<and> mac_posted p' = mac_posted p @ [PostedScroll (- (n * lines))]"
proof -
  have "cg_delta1 event \<noteq> 0" using assms(1,2) by auto
  moreover have "sint (ucast (cg_delta1 event * - 1) :: int16_t) = - n"
    using sint_narrow_minus [of "cg_delta1 event"] assms(1-3) by simp
  moreover have "uint (word_of_int (c_div (n * lines) n) :: uint16_t) = lines"
    using assms(2,5,6) by (simp add: c_div_def uint_word_of_int)
  ultimately show ?thesis
    using assms
    by (simp add: mac_process_mouse_wheel_def dispatched_fire mac_hook_post_event_def mac_post_mouse_wheel_event_def
        emitted_def cg_event_post_def Let_def)
qed

theorem mac_post_wheel_reversed_witness:
  "\<exists>p'. mac_hook_post_event True True
      (last (dispatched (mac_process_mouse_wheel 5 ((event_of 0 0 5)\<lparr>cg_delta1 := 2, cg_point_delta1 := 20\<rparr>) mac_idle))) mac_post_init = Inr p'
    \<and> mac_posted p' = [PostedScroll (- 20)]"
  using mac_post_wheel_reversed [of "(event_of 0 0 5)\<lparr>cg_delta1 := 2, cg_point_delta1 := 20\<rparr>" 2 10 mac_idle "\<lambda>_ e. e" 5 mac_post_init]
  by (simp add: mac_idle_def mac_post_init_def)

end
