(* ===== verification/Darwin_System_Properties.thy ===== *)
theory Darwin_System_Properties
  imports Darwin_Input_Helper
begin

text \<open>
  \<^verbatim>\<open>src/darwin/system_properties.c\<close>: the displays, the keyboard and pointer settings and the connection
  to the HID system. Numbers of the settings are computed as the code does, with rounding.
\<close>

section \<open>Displays\<close>

text \<open>
  Answers: whether the memory for the identifiers is there, the status of \<^verbatim>\<open>CGGetActiveDisplayList\<close> and
  the number it wrote, if it wrote one, the bounds of each display (origin, size), whether the memory
  for the screens is there, the size of the main display and whether there is memory for its screen.
\<close>

record mac_screen_env =
  ms_malloc_ids :: bool
  ms_status :: bool
  ms_written :: "uint32_t option"
  ms_bounds :: "nat \<Rightarrow> (rat \<times> rat) \<times> (rat \<times> rat)"
  ms_malloc :: bool
  ms_main :: "uint64_t \<times> uint64_t"
  ms_malloc_main :: bool

text \<open>
  \<open>mem\<close> is the memory that the argument \<^verbatim>\<open>count\<close> points into, from its address to the end of the object.
  The count is written through the pointer as a 32-bit number, the lowest byte first.
\<close>

definition write32 :: "uint32_t \<Rightarrow> uint8_t list \<Rightarrow> uint8_t list result" where
  "write32 n mem =
     (if length mem < 4 then Inl OutOfBounds
      else Inr (map (\<lambda>i. ucast (drop_bit (8 * i) n)) [0..<4] @ drop 4 mem))"

definition write8 :: "uint8_t \<Rightarrow> uint8_t list \<Rightarrow> uint8_t list result" where
  "write8 n mem = (case mem of [] \<Rightarrow> Inl OutOfBounds | _ # rest \<Rightarrow> Inr (n # rest))"

definition display_screen :: "mac_screen_env \<Rightarrow> nat \<Rightarrow> screen_data option" where
  "display_screen env i =
     (case ms_bounds env i of
        ((x, y), (width, height)) \<Rightarrow>
          if width > 0 \<and> height > 0
          then Some \<lparr>scr_number = word_of_nat i + 1, scr_x = word_of_int (c_trunc x), scr_y = word_of_int (c_trunc y),
                     scr_width = word_of_int (c_trunc width), scr_height = word_of_int (c_trunc height)\<rparr>
          else None)"

definition main_screen :: "mac_screen_env \<Rightarrow> uint8_t list \<Rightarrow> (uint8_t list \<times> screen_data option list option) result" where
  "main_screen env mem =
     (let (width, height) = ms_main env in
      if width > 0 \<and> height > 0 then
        if ms_malloc_main env
        then r_bind (write8 1 mem) (\<lambda>mem.
          Inr (mem, Some [Some \<lparr>scr_number = 1, scr_x = 0, scr_y = 0, scr_width = ucast width, scr_height = ucast height\<rparr>]))
        else Inr (mem, None)
      else Inr (mem, None))"

text \<open>A screen that is \<open>None\<close> in the result is memory that was not written.\<close>

definition mac_hook_create_screen_info ::
  "mac_screen_env \<Rightarrow> uint8_t list \<Rightarrow> (uint8_t list \<times> screen_data option list option) result" where
  "mac_hook_create_screen_info env mem =
     r_bind (write8 0 mem) (\<lambda>mem.
     if ms_malloc_ids env then
       r_bind (case ms_written env of None \<Rightarrow> Inr mem | Some n \<Rightarrow> write32 n mem) (\<lambda>mem.
       if ms_status env \<and> hd mem > 0
       then Inr (mem, if ms_malloc env then Some (map (display_screen env) [0..<unat (hd mem)]) else None)
       else main_screen env mem)
     else Inr (mem, None))"

section \<open>Settings\<close>

text \<open>
  A preference or HID parameter is a number, or \<open>None\<close> when it is missing or has another type. The
  three sources are tried in order; each sets the value, and whether a later one is still asked.
\<close>

type_synonym setting = "bool \<times> c_long"

definition try_source :: "bool \<Rightarrow> 'a option \<Rightarrow> bool \<Rightarrow> ('a \<Rightarrow> c_long) \<Rightarrow> setting \<Rightarrow> setting" where
  "try_source built answer ends f st =
     (if built \<and> \<not> fst st
      then (case answer of Some a \<Rightarrow> (ends, f a) | None \<Rightarrow> st) else st)"

definition repeat_millis :: "c_long \<Rightarrow> c_long" where
  "repeat_millis rate =
     word_of_int (c_trunc (double (double (double (double (double (of_int (sint (900 * rate))) / 1000) / 1000) / 1000) + 1 / 2)))"

definition mac_hook_get_auto_repeat_rate :: "mac_build \<Rightarrow> c_long option \<Rightarrow> c_long option \<Rightarrow> int16_t \<Rightarrow> c_long" where
  "mac_hook_get_auto_repeat_rate build pref hid ticks =
     (let st = (False, -1);
          st = try_source (use_application_services build) pref True (\<lambda>rate. rate * 15) st;
          st = try_source (use_iokit build) hid True repeat_millis st;
          st = try_source (use_carbon_legacy build) (if sint ticks > -1 then Some ticks else None) True
                 (\<lambda>rate. scast rate * 15) st
      in snd st)"

definition mac_hook_get_auto_repeat_delay :: "mac_build \<Rightarrow> c_long option \<Rightarrow> c_long option \<Rightarrow> int16_t \<Rightarrow> c_long" where
  "mac_hook_get_auto_repeat_delay build pref hid ticks =
     (let st = (False, -1);
          st = try_source (use_application_services build) pref True (\<lambda>delay. delay * 15) st;
          st = try_source (use_iokit build) hid True repeat_millis st;
          st = try_source (use_carbon_legacy build) (if sint ticks > -1 then Some ticks else None) True
                 (\<lambda>delay. scast delay * 15) st
      in snd st)"

abbreviation (input) MOUSE_ACCELERATION_MULTIPLIER :: rat where "MOUSE_ACCELERATION_MULTIPLIER \<equiv> 65536"

text \<open>The first source does not record that it succeeded, here and for the multi-click time.\<close>

definition mac_hook_get_pointer_sensitivity :: "mac_build \<Rightarrow> rat option \<Rightarrow> rat option \<Rightarrow> c_long" where
  "mac_hook_get_pointer_sensitivity build pref hid =
     (let st = (False, -1);
          st = try_source (use_application_services build) pref False
                 (\<lambda>x. word_of_int (c_trunc (single (x * MOUSE_ACCELERATION_MULTIPLIER)))) st;
          st = try_source (use_iokit build) hid True (\<lambda>x. word_of_int (c_trunc x)) st
      in snd st)"

definition mac_hook_get_pointer_acceleration_multiplier :: "mac_build \<Rightarrow> rat option \<Rightarrow> rat option \<Rightarrow> c_long" where
  "mac_hook_get_pointer_acceleration_multiplier build pref hid =
     (if sint (mac_hook_get_pointer_sensitivity build pref hid) < 0 then 0 else 65536)"

definition mac_hook_get_pointer_acceleration_threshold :: "mac_build \<Rightarrow> rat option \<Rightarrow> rat option \<Rightarrow> c_long" where
  "mac_hook_get_pointer_acceleration_threshold build pref hid =
     (if sint (mac_hook_get_pointer_sensitivity build pref hid) < 0 then 0 else 1)"

definition mac_hook_get_multi_click_time :: "mac_build \<Rightarrow> rat option \<Rightarrow> rat option \<Rightarrow> uint32_t \<Rightarrow> c_long" where
  "mac_hook_get_multi_click_time build pref hid ticks =
     (let st = (False, -1);
          st = try_source (use_application_services build) pref False
                 (\<lambda>time. word_of_int (c_trunc (double (time * 1000)))) st;
          st = try_source (use_iokit build) hid True
                 (\<lambda>time. word_of_int (c_trunc (double (double (time / 1000) / 1000)))) st;
          st = try_source (use_carbon_legacy build) (if (of_int (uint ticks) :: rat) > -1 then Some ticks else None) True
                 (\<lambda>time. word_of_int (c_trunc (of_int (uint time))) * 15) st
      in snd st)"

section \<open>Loading\<close>

text \<open>The static \<^verbatim>\<open>connection\<close>, and the connections and service objects held.\<close>

record mac_library =
  connection :: uint32_t
  connections_open :: int
  services_held :: int

definition mac_on_library_load :: "mac_build \<Rightarrow> bool \<Rightarrow> uint32_t option \<Rightarrow> mac_library \<Rightarrow> mac_library" where
  "mac_on_library_load build service opened s =
     (if use_iokit build \<and> service then
        let s = s\<lparr>services_held := services_held s + 1\<rparr> in
        case opened of
          Some c \<Rightarrow> s\<lparr>connection := c, connections_open := connections_open s + 1\<rparr>
        | None \<Rightarrow> s
      else s)"

definition mac_on_library_unload :: "mac_build \<Rightarrow> bool \<Rightarrow> mac_library \<Rightarrow> mac_library" where
  "mac_on_library_unload build ok s =
     (if use_iokit build \<and> connection s \<noteq> 0 \<and> ok
      then s\<lparr>connections_open := connections_open s - 1\<rparr> else s)"

section \<open>The count of the displays\<close>

lemma count_bytes:
  fixes n :: uint32_t
  assumes "n \<le> 255"
  shows "map (\<lambda>i. ucast (drop_bit (8 * i) n) :: uint8_t) [0..<4] = [ucast n, 0, 0, 0]"
proof -
  have n: "unat n < 2 ^ 8" using assms by (simp add: word_le_nat_alt)
  have high: "drop_bit (8 * i) n = 0" if "1 \<le> i" for i
  proof -
    have "(2 :: nat) ^ 8 \<le> 2 ^ (8 * i)" using that by (intro power_increasing) simp_all
    with n have "unat n < 2 ^ (8 * i)" by linarith
    then have "unat (drop_bit (8 * i) n) = 0"
      unfolding unat_drop_bit_eq by (simp add: drop_bit_eq_div)
    then show ?thesis by (rule unat_eq_zero [THEN iffD1])
  qed
  show ?thesis using high [of 1] high [of 2] high [of 3] by (simp add: upt_rec)
qed

text \<open>
  The list of displays on Darwin: the count is written over four bytes where the caller gives one, so
  that a call with an \<^verbatim>\<open>unsigned char\<close> of its own writes outside it; with four bytes the first one is the
  number of displays, the three after it are cleared, and every display with an area has its entry.
\<close>

theorem mac_screens_listed:
  assumes "ms_malloc_ids env" and "ms_status env" and "ms_written env = Some n" and "0 < n" and "n \<le> 255"
    and "ms_malloc env" and "mem \<noteq> []"
  shows "mac_hook_create_screen_info env mem =
    (if length mem < 4 then Inl OutOfBounds
     else Inr ([ucast n, 0, 0, 0] @ drop 4 mem, Some (map (display_screen env) [0..<unat n])))"
proof -
  have unat: "unat (ucast n :: uint8_t) = unat n"
    using assms(5) by (simp add: unsigned_ucast_eq take_bit_nat_eq_self word_le_nat_alt)
  moreover have "(ucast n :: uint8_t) > 0"
    using assms(4) unat by (metis unat_gt_0 word_greater_zero_iff)
  ultimately show ?thesis
    using assms by (cases mem) (auto simp: mac_hook_create_screen_info_def write8_def write32_def count_bytes drop_Cons split: nat.split)
qed

definition two_displays :: mac_screen_env where
  "two_displays = \<lparr>ms_malloc_ids = True, ms_status = True, ms_written = Some 2,
     ms_bounds = (\<lambda>i. ((if i = 0 then 0 else 1920, 0), (1920, 1080))), ms_malloc = True, ms_main = (1920, 1080), ms_malloc_main = True\<rparr>"

theorem mac_screens_listed_witness:
  "mac_hook_create_screen_info two_displays [7] = Inl OutOfBounds
    \<and> mac_hook_create_screen_info two_displays [7, 7, 7, 7, 7] =
      Inr ([2, 0, 0, 0, 7], Some [display_screen two_displays 0, display_screen two_displays 1])"
  using mac_screens_listed [of two_displays 2 "[7]"] mac_screens_listed [of two_displays 2 "[7, 7, 7, 7, 7]"]
  by (simp add: two_displays_def upt_rec)

section \<open>Rounding of the repeat rate\<close>

text \<open>The value before it is truncated, for the product that is divided.\<close>

definition repeat_value :: "int \<Rightarrow> rat" where
  "repeat_value y = double (double (double (double (double (of_int y) / 1000) / 1000) / 1000) + 1 / 2)"

lemma repeat_value_within:
  assumes "0 \<le> y" and "y \<le> 2 ^ 41"
  shows "\<bar>repeat_value y - (of_int y / 10 ^ 9 + 1 / 2)\<bar> \<le> 1 / 10 ^ 9"
proof -
  define Y :: rat where "Y = of_int y"
  have Y: "\<bar>Y\<bar> \<le> 2 ^ 41" using assms by (simp add: Y_def)
  let ?e1 = "(2 ^ 41 :: rat) / 2 ^ 53"
  have 1: "\<bar>double Y - Y\<bar> \<le> 1 / 2 ^ 12" using float_round_within [of Y Y 0 "2 ^ 41" 53] Y by simp
  have 2: "\<bar>double (double Y / 1000) - Y / 1000\<bar> \<le> 1 / 2 ^ 20"
    using float_round_within [OF divide_within [OF 1, of 1000], of "2 ^ 41 / 1000" 53] Y by simp
  have 3: "\<bar>double (double (double Y / 1000) / 1000) - Y / 1000 / 1000\<bar> \<le> 1 / 2 ^ 28"
    using float_round_within [OF divide_within [OF 2, of 1000], of "2 ^ 41 / 1000 / 1000" 53] Y by simp
  have 4: "\<bar>double (double (double (double Y / 1000) / 1000) / 1000) - Y / 10 ^ 9\<bar> \<le> 1 / 2 ^ 34"
    using float_round_within [OF divide_within [OF 3, of 1000], of "2 ^ 41 / 10 ^ 9" 53] Y by simp
  then have 5: "\<bar>(double (double (double (double Y / 1000) / 1000) / 1000) + 1 / 2) - (Y / 10 ^ 9 + 1 / 2)\<bar> \<le> 1 / 2 ^ 34" by simp
  have 6: "\<bar>Y / 10 ^ 9 + 1 / 2\<bar> \<le> 2 ^ 41 / 10 ^ 9 + 1 / 2"
    using assms divide_right_mono [of Y "2 ^ 41" "10 ^ 9"] Y by (simp add: Y_def)
  have "1 / 2 ^ 34 + (2 ^ 41 / 10 ^ 9 + 1 / 2 + 1 / 2 ^ 34) / 2 ^ 53 \<le> (1 / 10 ^ 9 :: rat)" by simp
  with float_round_within [OF 5 6, of 53] show ?thesis unfolding repeat_value_def Y_def [symmetric] by linarith
qed

lemma sint_small_long:
  assumes "- (2 ^ 63) \<le> x" and "x < 2 ^ 63"
  shows "sint (word_of_int x :: c_long) = x"
  using assms by (simp add: sint_sbintrunc' signed_take_bit_int_eq_self)

lemma sint_scaled:
  fixes rate :: c_long
  assumes "0 \<le> sint rate" and "sint rate < 2 ^ 31"
  shows "sint (900 * rate) = 900 * sint rate"
proof -
  have "900 * rate = word_of_int (900 * sint rate)" by simp
  then have "sint (900 * rate) = sint (word_of_int (900 * sint rate) :: c_long)" by (rule arg_cong)
  also have "\<dots> = 900 * sint rate" by (rule sint_small_long) (use assms in simp_all)
  finally show ?thesis .
qed

text \<open>
  C40. The repeat rate and delay that Darwin computes from the HID system, in floating point, are the exact
  number of milliseconds rounded to the nearest integer, up to a billionth, for every value that fits
  31 bits, and not negative.
\<close>

theorem mac_repeat_millis_rounds:
  assumes "0 \<le> sint rate" and "sint rate < 2 ^ 31"
  shows "\<bar>of_int (sint (repeat_millis rate)) - 900 * of_int (sint rate) / 10 ^ 9\<bar> \<le> (1 / 2 + 1 / 10 ^ 9 :: rat)"
proof -
  define r where "r = sint rate"
  let ?v = "repeat_value (900 * r)"
  have r: "0 \<le> r" "r < 2 ^ 31" using assms by (simp_all add: r_def)
  have near: "\<bar>?v - (of_int (900 * r) / 10 ^ 9 + 1 / 2)\<bar> \<le> 1 / 10 ^ 9"
    using r by (intro repeat_value_within) simp_all
  moreover have range: "0 \<le> of_int (900 * r) / (10 ^ 9 :: rat)" "of_int (900 * r) / (10 ^ 9 :: rat) < 2000"
    using r by (simp_all add: field_simps)
  moreover have "(1 / 10 ^ 9 :: rat) \<le> 1 / 2" by simp
  ultimately have v: "0 \<le> ?v" "?v < 2001" by linarith+
  then have trunc: "c_trunc ?v = \<lfloor>?v\<rfloor>" by (simp add: c_trunc_def)
  from v have "0 \<le> \<lfloor>?v\<rfloor>" "\<lfloor>?v\<rfloor> < 2001" by (simp_all add: floor_less_iff)
  then have "sint (word_of_int \<lfloor>?v\<rfloor> :: c_long) = \<lfloor>?v\<rfloor>" by (intro sint_small_long) simp_all
  then have "sint (repeat_millis rate) = \<lfloor>?v\<rfloor>"
    unfolding repeat_millis_def repeat_value_def [symmetric] sint_scaled [OF assms] r_def [symmetric] trunc .
  moreover have "of_int \<lfloor>?v\<rfloor> \<le> ?v" "?v < of_int \<lfloor>?v\<rfloor> + 1" by linarith+
  moreover have "of_int (900 * r) / (10 ^ 9 :: rat) = 900 * of_int r / 10 ^ 9" by simp
  ultimately have "\<bar>of_int \<lfloor>?v\<rfloor> - 900 * of_int r / 10 ^ 9\<bar> \<le> (1 / 2 + 1 / 10 ^ 9 :: rat)" using near by linarith
  then show ?thesis unfolding \<open>sint (repeat_millis rate) = \<lfloor>?v\<rfloor>\<close> r_def .
qed

theorem mac_repeat_millis_rounds_witness:
  "\<bar>of_int (sint (repeat_millis 33333333)) - 900 * of_int 33333333 / 10 ^ 9\<bar> \<le> (1 / 2 + 1 / 10 ^ 9 :: rat)"
  using mac_repeat_millis_rounds [of 33333333] by simp

end
