(* ===== verification/Windows_Layout_Loader.thy ===== *)
theory Windows_Layout_Loader
  imports Windows_Input_Helper Uiohook_Text
begin

text \<open>
  How \<^verbatim>\<open>windows/input_helper.c\<close> finds and loads the library of a keyboard layout: its file name in the
  registry, the path below the system directory, the descriptor function, and the three tables the
  descriptor points to, whose places depend on the width of a pointer and on Wow64. The loader
  counts what it acquires and implements the answer \<open>hkl_load\<close> that the cache of layouts asks for.
\<close>

section \<open>The environment\<close>

text \<open>
  A layout library has pointer slots of \<open>dl_slot\<close> bytes: the modifiers, the character tables and the dead
  keys are the first three of its descriptor.
\<close>

record layout_dll =
  dl_slot :: nat
  dl_layout :: keyboard_layout

text \<open>
  \<open>lo_win64\<close> is the build; \<open>lo_wow64_proc\<close> whether \<^verbatim>\<open>IsWow64Process\<close> exists and \<open>lo_wow64\<close> its answer (\<open>None\<close> when
  the call fails). \<open>lo_name\<close> is the name of a layout once it is activated, \<open>lo_open\<close> and \<open>lo_value\<close> a registry
  key and the bytes of its value, \<open>lo_library\<close> the library of a path: \<open>None\<close> when it cannot be loaded,
  \<open>Some None\<close> when it has no descriptor.
\<close>

record loader_env =
  lo_win64 :: bool
  lo_wow64_proc :: bool
  lo_wow64 :: "bool option"
  lo_name :: "HKL \<Rightarrow> string option"
  lo_malloc_path :: bool
  lo_open :: "string \<Rightarrow> bool"
  lo_value :: "string \<Rightarrow> string option"
  lo_system :: "string option"
  lo_malloc_item :: bool
  lo_library :: "string \<Rightarrow> layout_dll option option"

text \<open>Registry keys, libraries and blocks of memory that are open.\<close>

record loader =
  ld_keys :: int
  ld_libraries :: int
  ld_blocks :: int

section \<open>Pointers under Wow64\<close>

definition is_wow64 :: "loader_env \<Rightarrow> bool" where
  "is_wow64 env = (if lo_wow64_proc env then (case lo_wow64 env of None \<Rightarrow> False | Some status \<Rightarrow> status) else False)"

definition sizeof_pointer :: "loader_env \<Rightarrow> nat" where
  "sizeof_pointer env = (if lo_win64 env then 8 else 4)"

text \<open>What \<^verbatim>\<open>load_input_helper\<close> sets.\<close>

definition ptr_padding :: "loader_env \<Rightarrow> nat" where
  "ptr_padding env = (if \<not> lo_win64 env \<and> is_wow64 env then sizeof_pointer env else 0)"

text \<open>The slot a pointer is read from; a place that is not the start of a slot is not a pointer of the library.\<close>

definition slot_at :: "layout_dll \<Rightarrow> nat \<Rightarrow> nat result" where
  "slot_at dll off = (if off mod dl_slot dll = 0 then Inr (off div dl_slot dll) else Inl OutOfBounds)"

definition read_tables :: "loader_env \<Rightarrow> layout_dll \<Rightarrow> keyboard_layout result" where
  "read_tables env dll =
     r_bind (slot_at dll 0) (\<lambda>modifiers.
     r_bind (slot_at dll (sizeof_pointer env + ptr_padding env)) (\<lambda>wchars.
     r_bind (slot_at dll (2 * sizeof_pointer env + ptr_padding env * 2)) (\<lambda>dead.
     if modifiers = 0 \<and> wchars = 1 \<and> dead = 2 then Inr (dl_layout dll) else Inl OutOfBounds)))"

section \<open>The registry\<close>

definition regPrefix :: string where
  "regPrefix = ''SYSTEM'' @ [CHR 0x5C] @ ''CurrentControlSet'' @ [CHR 0x5C] @ ''Control'' @ [CHR 0x5C]
     @ ''Keyboard Layouts'' @ [CHR 0x5C]"

text \<open>The key is closed only after the value was read.\<close>

definition get_keyboard_layout_file :: "loader_env \<Rightarrow> nat \<Rightarrow> HKL \<Rightarrow> loader \<Rightarrow> string option \<times> loader" where
  "get_keyboard_layout_file env bufferSize k l =
     (case lo_name env k of
        None \<Rightarrow> (None, l)
      | Some kbdName \<Rightarrow>
          if \<not> lo_malloc_path env then (None, l)
          else
            let regPath = regPrefix @ kbdName in
            if lo_open env regPath then
              let l = l\<lparr>ld_keys := ld_keys l + 1\<rparr> in
              case lo_value env regPath of
                Some v \<Rightarrow> if length v \<le> bufferSize then (Some v, l\<lparr>ld_keys := ld_keys l - 1\<rparr>) else (None, l)
              | None \<Rightarrow> (None, l)
            else (None, l))"

section \<open>The library\<close>

definition MAX_PATH :: nat where
  "MAX_PATH = 260"

text \<open>\<^verbatim>\<open>snprintf(kbdLayoutFilePath, MAX_PATH, "%s\\%s", ...)\<close>; a value without a NUL runs into unwritten memory.\<close>

definition layout_path :: "string \<Rightarrow> string \<Rightarrow> string result" where
  "layout_path systemDirectory layoutFile =
     (if NUL \<in> set layoutFile
      then Inr (take (MAX_PATH - 1) (systemDirectory @ [CHR 0x5C] @ takeWhile (\<lambda>c. c \<noteq> NUL) layoutFile))
      else Inl UninitialisedRead)"

definition load_library :: "loader_env \<Rightarrow> string \<Rightarrow> loader \<Rightarrow> (keyboard_layout option \<times> loader) result" where
  "load_library env path l =
     (if \<not> lo_malloc_item env then Inl NullDereference
      else
        case lo_library env path of
          None \<Rightarrow> Inr (None, l)
        | Some None \<Rightarrow> Inr (None, l)
        | Some (Some dll) \<Rightarrow> r_bind (read_tables env dll) (\<lambda>layout.
            Inr (Some layout, l\<lparr>ld_libraries := ld_libraries l + 1, ld_blocks := ld_blocks l + 1\<rparr>)))"

definition load_layout :: "loader_env \<Rightarrow> HKL \<Rightarrow> loader \<Rightarrow> (keyboard_layout option \<times> loader) result" where
  "load_layout env k l =
     (let (layoutFile, l) = get_keyboard_layout_file env MAX_PATH k l in
      case layoutFile of
        None \<Rightarrow> Inr (None, l)
      | Some file \<Rightarrow>
          (case lo_system env of
             None \<Rightarrow> Inr (None, l)
           | Some dir \<Rightarrow> r_bind (layout_path dir file) (\<lambda>path. load_library env path l)))"

text \<open>The loop of \<^verbatim>\<open>refresh_locale_list\<close> that appends the layouts which are not yet cached.\<close>

primrec add_loaded ::
  "loader_env \<Rightarrow> HKL \<Rightarrow> HKL list \<Rightarrow> keyboard_locale list \<Rightarrow> HKL option \<Rightarrow> loader \<Rightarrow>
   (keyboard_locale list \<times> HKL option \<times> loader) result" where
  "add_loaded env focus [] prev current l = Inr (prev, current, l)"
| "add_loaded env focus (k # ks) prev current l =
     (if k = 0 then add_loaded env focus ks prev current l
      else r_bind (load_layout env k l) (\<lambda>(layout, l).
        case layout of
          None \<Rightarrow> add_loaded env focus ks prev current l
        | Some layout \<Rightarrow>
            add_loaded env focus ks (\<lparr>loc_id = k, loc_layout = layout\<rparr> # prev)
              (if k = focus then Some k else current) l))"

section \<open>Lemmas\<close>

text \<open>The answer that the cache of layouts asks for, and the registry keys that stay open.\<close>

definition loads :: "loader_env \<Rightarrow> HKL \<Rightarrow> keyboard_layout option" where
  "loads env k =
     (case load_layout env k \<lparr>ld_keys = 0, ld_libraries = 0, ld_blocks = 0\<rparr> of Inr (layout, l) \<Rightarrow> layout | Inl e \<Rightarrow> None)"

definition leaks_key :: "loader_env \<Rightarrow> HKL \<Rightarrow> bool" where
  "leaks_key env k \<longleftrightarrow>
     (case lo_name env k of
        None \<Rightarrow> False
      | Some name \<Rightarrow> lo_malloc_path env \<and> lo_open env (regPrefix @ name)
          \<and> (case lo_value env (regPrefix @ name) of None \<Rightarrow> True | Some v \<Rightarrow> MAX_PATH < length v))"

lemma layout_file_ledger:
  "get_keyboard_layout_file env MAX_PATH k l =
     (fst (get_keyboard_layout_file env MAX_PATH k l'), l\<lparr>ld_keys := ld_keys l + of_bool (leaks_key env k)\<rparr>)"
  by (auto simp: get_keyboard_layout_file_def leaks_key_def Let_def split: option.split)

lemma load_layout_ledger:
  "load_layout env k l =
     map_sum id (\<lambda>(layout, _). (layout, l\<lparr>ld_keys := ld_keys l + of_bool (leaks_key env k),
        ld_libraries := ld_libraries l + of_bool (layout \<noteq> None), ld_blocks := ld_blocks l + of_bool (layout \<noteq> None)\<rparr>))
       (load_layout env k l')"
proof -
  obtain f where f: "get_keyboard_layout_file env MAX_PATH k m = (f, m\<lparr>ld_keys := ld_keys m + of_bool (leaks_key env k)\<rparr>)" for m
    using layout_file_ledger [of env k _ l] by metis
  have lib: "load_library env path m = map_sum id (\<lambda>(layout, _). (layout,
      m\<lparr>ld_libraries := ld_libraries m + of_bool (layout \<noteq> None), ld_blocks := ld_blocks m + of_bool (layout \<noteq> None)\<rparr>))
    (load_library env path m')" for path m m'
    by (auto simp: load_library_def r_bind_def split: option.split sum.split)
  show ?thesis
  proof (cases f)
    case None
    then show ?thesis by (simp add: load_layout_def f)
  next
    case (Some found)
    show ?thesis
    proof (cases "\<exists>dir path. lo_system env = Some dir \<and> layout_path dir found = Inr path")
      case True
      then obtain dir path where "lo_system env = Some dir" "layout_path dir found = Inr path" by blast
      with Some lib [of path "l\<lparr>ld_keys := ld_keys l + of_bool (leaks_key env k)\<rparr>"
          "l'\<lparr>ld_keys := ld_keys l' + of_bool (leaks_key env k)\<rparr>"]
      show ?thesis by (cases "load_library env path (l'\<lparr>ld_keys := ld_keys l' + of_bool (leaks_key env k)\<rparr>)")
        (auto simp: load_layout_def f)
    next
      case False
      then show ?thesis using Some
        by (cases "lo_system env"; cases "layout_path (the (lo_system env)) found") (auto simp: load_layout_def f)
    qed
  qed
qed

lemma load_layout_loads:
  assumes "load_layout env k l = Inr (layout, l')"
  shows "layout = loads env k
    \<and> l' = l\<lparr>ld_keys := ld_keys l + of_bool (leaks_key env k),
             ld_libraries := ld_libraries l + of_bool (layout \<noteq> None), ld_blocks := ld_blocks l + of_bool (layout \<noteq> None)\<rparr>"
proof -
  let ?z = "\<lparr>ld_keys = 0, ld_libraries = 0, ld_blocks = 0\<rparr>"
  show ?thesis
    using assms load_layout_ledger [of env k l ?z] unfolding loads_def
    by (cases "load_layout env k ?z") auto
qed

text \<open>The cache's environment with the loader as its answer.\<close>

definition loading :: "loader_env \<Rightarrow> HKL list \<Rightarrow> HKL \<Rightarrow> layout_env" where
  "loading env hkls focus = \<lparr>hkl_size = int (length hkls), hkl_list = hkls, hkl_focus = focus, hkl_load = loads env\<rparr>"

definition leaked_keys :: "loader_env \<Rightarrow> HKL list \<Rightarrow> int" where
  "leaked_keys env hkls = int (length (filter (\<lambda>k. k \<noteq> 0 \<and> leaks_key env k) hkls))"

lemma add_loaded_refines:
  assumes "add_loaded env focus ks prev current l = Inr (all, current', l')"
    and "hkl_load le = loads env" and "hkl_focus le = focus"
  shows "add_new le ks prev current (ld_libraries l) = (all, current', ld_libraries l')
    \<and> ld_keys l' = ld_keys l + leaked_keys env ks \<and> ld_blocks l' - ld_libraries l' = ld_blocks l - ld_libraries l"
  using assms(1)
proof (induction ks arbitrary: prev current l)
  case Nil
  then show ?case by (simp add: leaked_keys_def)
next
  case (Cons k ks)
  show ?case
  proof (cases "k = 0")
    case True
    with Cons show ?thesis by (simp add: leaked_keys_def)
  next
    case False
    with Cons.prems obtain layout m where m: "load_layout env k l = Inr (layout, m)"
      by (auto elim!: r_bind_InrE)
    note eff = load_layout_loads [OF m]
    have prems: "(case layout of None \<Rightarrow> add_loaded env focus ks prev current m
        | Some x \<Rightarrow> add_loaded env focus ks (\<lparr>loc_id = k, loc_layout = x\<rparr> # prev) (if k = focus then Some k else current) m)
        = Inr (all, current', l')"
      using Cons.prems False m by simp
    show ?thesis
    proof (cases layout)
      case None
      with prems have "add_loaded env focus ks prev current m = Inr (all, current', l')" by simp
      from Cons.IH [OF this] None eff False assms(2,3) show ?thesis by (simp add: leaked_keys_def)
    next
      case (Some x)
      with prems have "add_loaded env focus ks (\<lparr>loc_id = k, loc_layout = x\<rparr> # prev) (if k = focus then Some k else current) m
        = Inr (all, current', l')" by simp
      from Cons.IH [OF this] Some eff False assms(2,3) show ?thesis
        by (auto simp: leaked_keys_def add.commute)
    qed
  qed
qed

section \<open>Properties\<close>

text \<open>
  C31. Loading the layouts that are not cached yet implements the abstract cache: the entries, the current
  layout and the libraries that stay open are those of \<open>add_new\<close> with the loader's answers. Every
  registry key is closed again but those whose value could not be read, which stay open.
\<close>

theorem layout_loading_refines:
  assumes "add_loaded env focus ks prev current l = Inr (all, current', l')"
  shows "add_new (loading env ks focus) ks prev current (ld_libraries l) = (all, current', ld_libraries l')
    \<and> ld_keys l' = ld_keys l + leaked_keys env ks
    \<and> ld_blocks l' - ld_libraries l' = ld_blocks l - ld_libraries l"
  by (rule add_loaded_refines [OF assms]) (simp_all add: loading_def)

text \<open>One layout in the registry, and one whose value is missing.\<close>

definition us_layout :: keyboard_layout where
  "us_layout = \<lparr>lay_vk_to_bit = [0], lay_wchar_tables = [\<lparr>pVkToWchars = None, cbSize = 0\<rparr>], lay_dead_keys = [\<lparr>dwBoth = 0, wchComposed = 0\<rparr>]\<rparr>"

definition registry_env :: loader_env where
  "registry_env =
     \<lparr>lo_win64 = False, lo_wow64_proc = True, lo_wow64 = Some True,
      lo_name = (\<lambda>k. if k = 1033 then Some ''00000409'' else if k = 1031 then Some ''00000407'' else None),
      lo_malloc_path = True, lo_open = (\<lambda>path. True),
      lo_value = (\<lambda>path. if path = regPrefix @ ''00000409'' then Some (''KBDUS.DLL'' @ [NUL]) else None),
      lo_system = Some ''C:'', lo_malloc_item = True,
      lo_library = (\<lambda>path. if path = ''C:'' @ [CHR 0x5C] @ ''KBDUS.DLL'' then Some (Some \<lparr>dl_slot = 8, dl_layout = us_layout\<rparr>) else None)\<rparr>"

lemma registry_env_loads:
  "load_layout registry_env 1033 l = Inr (Some us_layout, l\<lparr>ld_libraries := ld_libraries l + 1, ld_blocks := ld_blocks l + 1\<rparr>)"
  "load_layout registry_env 1031 l = Inr (None, l\<lparr>ld_keys := ld_keys l + 1\<rparr>)"
  by (simp_all add: load_layout_def get_keyboard_layout_file_def registry_env_def MAX_PATH_def layout_path_def load_library_def
      read_tables_def slot_at_def sizeof_pointer_def ptr_padding_def is_wow64_def NUL_def)

theorem layout_loading_refines_witness:
  "\<exists>all current' l'. add_loaded registry_env 1033 [1033, 1031] [] None \<lparr>ld_keys = 0, ld_libraries = 0, ld_blocks = 0\<rparr>
      = Inr (all, current', l')
     \<and> add_new (loading registry_env [1033, 1031] 1033) [1033, 1031] [] None 0 = (all, current', 1)
     \<and> current' = Some 1033 \<and> ld_keys l' = 1"
proof -
  have run: "add_loaded registry_env 1033 [1033, 1031] [] None \<lparr>ld_keys = 0, ld_libraries = 0, ld_blocks = 0\<rparr> =
    Inr ([\<lparr>loc_id = 1033, loc_layout = us_layout\<rparr>], Some 1033, \<lparr>ld_keys = 1, ld_libraries = 1, ld_blocks = 1\<rparr>)"
    by (simp add: registry_env_loads)
  from layout_loading_refines [OF run] run show ?thesis by auto
qed

text \<open>
  The three tables of a layout library are read from the right slots of its descriptor on 32-bit
  and 64-bit Windows and by a 32-bit program under Wow64, where a slot is twice as wide as a pointer of
  the program; without the padding the second pointer would be read from the middle of a slot.
\<close>

theorem wow64_tables:
  assumes "dl_slot dll = (if lo_win64 env \<or> is_wow64 env then 8 else 4)"
  shows "read_tables env dll = Inr (dl_layout dll)
    \<and> (\<not> lo_win64 env \<and> is_wow64 env \<longrightarrow> slot_at dll (sizeof_pointer env) = Inl OutOfBounds)"
  using assms by (auto simp: read_tables_def slot_at_def sizeof_pointer_def ptr_padding_def)

text \<open>
  When \<^verbatim>\<open>IsWow64Process\<close> fails, a 32-bit program under Wow64 follows a pointer that is none.
\<close>

theorem wow64_unknown_faults:
  assumes "\<not> lo_win64 env" and "lo_wow64 env = None" and "dl_slot dll = 8"
  shows "read_tables env dll = Inl OutOfBounds"
  using assms by (simp add: read_tables_def slot_at_def sizeof_pointer_def ptr_padding_def is_wow64_def)

end
