(* ===== verification/X11_Settings_Thread.thy ===== *)
theory X11_Settings_Thread
  imports X11_System_Properties Uiohook_Transitions
begin

text \<open>
  The thread of \<^verbatim>\<open>src/x11/system_properties.c\<close> that keeps the XRandR screen resources of the library up to
  date, interleaved with callers of \<^verbatim>\<open>hook_create_screen_info\<close>. Both use the resources under one mutex. A
  resource is a number, given out in order; \<open>x_freed\<close> lists the ones that were freed.
\<close>

section \<open>State\<close>

datatype settings_pc =
    SOpen | SQuery | SNext | SLock | SFree | SGet | SUnlock | SCleanup | SCleanFree | SCleanClose | SCleanUnlock | SEnd

datatype reader_pc = RIdle | RReading | RUnlocking

datatype settings_owner = SettingsThread | ReaderThread

record settings_state =
  s_pc :: settings_pc
  r_pc :: reader_pc
  x_mutex :: "settings_owner option"
  x_resources :: "nat option"
  x_next :: nat
  x_freed :: "nat list"
  x_display :: bool
  x_reads :: "nat option list"

definition settings_init :: settings_state where
  "settings_init = \<lparr>s_pc = SOpen, r_pc = RIdle, x_mutex = None, x_resources = None, x_next = 0, x_freed = [],
     x_display = False, x_reads = []\<rparr>"

text \<open>\<^verbatim>\<open>XRRFreeScreenResources\<close>, on a pointer that may be null.\<close>

definition free_resources :: "settings_state \<Rightarrow> settings_state" where
  "free_resources s = (case x_resources s of None \<Rightarrow> s | Some r \<Rightarrow> s\<lparr>x_freed := x_freed s @ [r]\<rparr>)"

section \<open>Steps\<close>

text \<open>The mask of \<^verbatim>\<open>RRScreenChangeNotify\<close>, which the code adds to the event base in the place of the event's number, 0.\<close>

definition RRScreenChangeNotifyMask :: int where
  "RRScreenChangeNotifyMask = 1"

definition RRScreenChangeNotify :: int where
  "RRScreenChangeNotify = 0"

text \<open>
  The loop of the thread. \<open>types\<close> are the types of the events the server sends to this display; the
  display, the extension and the resources may be missing. The condition of the loop never fails.
\<close>

inductive settings_thread_proc :: "int \<Rightarrow> int set \<Rightarrow> settings_state \<Rightarrow> settings_state \<Rightarrow> bool"
  for event_base :: int and types :: "int set" where
  open_display: "s_pc s = SOpen \<Longrightarrow> settings_thread_proc event_base types s (s\<lparr>s_pc := SQuery, x_display := True\<rparr>)"
| no_display: "s_pc s = SOpen \<Longrightarrow> settings_thread_proc event_base types s (s\<lparr>s_pc := SEnd\<rparr>)"
| extension: "s_pc s = SQuery \<Longrightarrow> settings_thread_proc event_base types s (s\<lparr>s_pc := SNext\<rparr>)"
| no_extension: "s_pc s = SQuery \<Longrightarrow> settings_thread_proc event_base types s (s\<lparr>s_pc := SCleanup\<rparr>)"
| screen_change: "s_pc s = SNext \<Longrightarrow> ty \<in> types \<Longrightarrow> ty = event_base + RRScreenChangeNotifyMask \<Longrightarrow>
    settings_thread_proc event_base types s (s\<lparr>s_pc := SLock\<rparr>)"
| other_event: "s_pc s = SNext \<Longrightarrow> ty \<in> types \<Longrightarrow> ty \<noteq> event_base + RRScreenChangeNotifyMask \<Longrightarrow>
    settings_thread_proc event_base types s s"
| lock: "s_pc s = SLock \<Longrightarrow> x_mutex s = None \<Longrightarrow>
    settings_thread_proc event_base types s (s\<lparr>s_pc := SFree, x_mutex := Some SettingsThread\<rparr>)"
| free: "s_pc s = SFree \<Longrightarrow> settings_thread_proc event_base types s ((free_resources s)\<lparr>s_pc := SGet\<rparr>)"
| get: "s_pc s = SGet \<Longrightarrow>
    settings_thread_proc event_base types s (s\<lparr>s_pc := SUnlock, x_resources := Some (x_next s), x_next := Suc (x_next s)\<rparr>)"
| get_fails: "s_pc s = SGet \<Longrightarrow> settings_thread_proc event_base types s (s\<lparr>s_pc := SUnlock, x_resources := None\<rparr>)"
| unlock: "s_pc s = SUnlock \<Longrightarrow> settings_thread_proc event_base types s (s\<lparr>s_pc := SNext, x_mutex := None\<rparr>)"

text \<open>The clean-up handler frees and closes only when it gets the lock at once.\<close>

inductive settings_cleanup_proc :: "settings_state \<Rightarrow> settings_state \<Rightarrow> bool" where
  trylock: "s_pc s = SCleanup \<Longrightarrow> x_mutex s = None \<Longrightarrow>
    settings_cleanup_proc s (s\<lparr>s_pc := SCleanFree, x_mutex := Some SettingsThread\<rparr>)"
| busy: "s_pc s = SCleanup \<Longrightarrow> x_mutex s \<noteq> None \<Longrightarrow> settings_cleanup_proc s (s\<lparr>s_pc := SEnd\<rparr>)"
| free: "s_pc s = SCleanFree \<Longrightarrow>
    settings_cleanup_proc s ((free_resources s)\<lparr>s_pc := SCleanClose, x_resources := None\<rparr>)"
| close: "s_pc s = SCleanClose \<Longrightarrow> settings_cleanup_proc s (s\<lparr>s_pc := SCleanUnlock, x_display := False\<rparr>)"
| unlock: "s_pc s = SCleanUnlock \<Longrightarrow> settings_cleanup_proc s (s\<lparr>s_pc := SEnd, x_mutex := None\<rparr>)"

text \<open>The part of \<^verbatim>\<open>hook_create_screen_info\<close> that uses the resources.\<close>

inductive screen_reader :: "settings_state \<Rightarrow> settings_state \<Rightarrow> bool" where
  lock: "r_pc s = RIdle \<Longrightarrow> x_mutex s = None \<Longrightarrow>
    screen_reader s (s\<lparr>r_pc := RReading, x_mutex := Some ReaderThread\<rparr>)"
| read: "r_pc s = RReading \<Longrightarrow> screen_reader s (s\<lparr>r_pc := RUnlocking, x_reads := x_reads s @ [x_resources s]\<rparr>)"
| unlock: "r_pc s = RUnlocking \<Longrightarrow> screen_reader s (s\<lparr>r_pc := RIdle, x_mutex := None\<rparr>)"

definition settings_step :: "int \<Rightarrow> int set \<Rightarrow> settings_state \<Rightarrow> settings_state \<Rightarrow> bool" where
  "settings_step event_base types s s' \<longleftrightarrow>
     settings_thread_proc event_base types s s' \<or> settings_cleanup_proc s s' \<or> screen_reader s s'"

abbreviation settings_reachable :: "int \<Rightarrow> int set \<Rightarrow> settings_state \<Rightarrow> bool" where
  "settings_reachable event_base types \<equiv> reaches (settings_step event_base types) settings_init"

section \<open>Invariants\<close>

definition lock_inv :: "settings_state \<Rightarrow> bool" where
  "lock_inv s \<longleftrightarrow>
     (x_mutex s = Some SettingsThread \<longleftrightarrow> s_pc s \<in> {SFree, SGet, SUnlock, SCleanFree, SCleanClose, SCleanUnlock})
     \<and> (x_mutex s = Some ReaderThread \<longleftrightarrow> r_pc s \<in> {RReading, RUnlocking})"

text \<open>
  Every resource that was obtained is current or freed, and none is freed twice; only between freeing
  and getting does the pointer dangle.
\<close>

definition resource_inv :: "settings_state \<Rightarrow> bool" where
  "resource_inv s \<longleftrightarrow> distinct (x_freed s)
     \<and> (\<forall>r. r < x_next s \<longleftrightarrow> r \<in> set (x_freed s) \<or> x_resources s = Some r)
     \<and> (s_pc s \<noteq> SGet \<longrightarrow> set_option (x_resources s) \<inter> set (x_freed s) = {})
     \<and> (s_pc s = SGet \<longrightarrow> set_option (x_resources s) \<subseteq> set (x_freed s))"

lemma lock_inv_step:
  assumes "settings_step event_base types s s'" and "lock_inv s"
  shows "lock_inv s'"
  using assms(1) unfolding settings_step_def
proof (elim disjE)
  assume "settings_thread_proc event_base types s s'"
  then show ?thesis
    by (cases rule: settings_thread_proc.cases)
      (use assms(2) in \<open>auto simp: lock_inv_def free_resources_def split: option.splits\<close>)
next
  assume "settings_cleanup_proc s s'"
  then show ?thesis
    by (cases rule: settings_cleanup_proc.cases)
      (use assms(2) in \<open>auto simp: lock_inv_def free_resources_def split: option.splits\<close>)
next
  assume "screen_reader s s'"
  then show ?thesis by (cases rule: screen_reader.cases) (use assms(2) in \<open>auto simp: lock_inv_def\<close>)
qed

lemma resource_inv_step:
  assumes "settings_step event_base types s s'" and "resource_inv s"
  shows "resource_inv s'"
  using assms(1) unfolding settings_step_def
proof (elim disjE)
  assume "settings_thread_proc event_base types s s'"
  then show ?thesis
    by (cases rule: settings_thread_proc.cases)
      (use assms(2) in \<open>auto simp: resource_inv_def free_resources_def less_Suc_eq split: option.splits\<close>)
next
  assume "settings_cleanup_proc s s'"
  then show ?thesis
    by (cases rule: settings_cleanup_proc.cases)
      (use assms(2) in \<open>auto simp: resource_inv_def free_resources_def less_Suc_eq split: option.splits\<close>)
next
  assume "screen_reader s s'"
  then show ?thesis by (cases rule: screen_reader.cases) (use assms(2) in \<open>auto simp: resource_inv_def\<close>)
qed

interpretation settings: step_invariant "settings_step event_base types" "\<lambda>s. lock_inv s \<and> resource_inv s"
  for event_base types
  by unfold_locales (use lock_inv_step resource_inv_step in blast)

lemma settings_invs:
  assumes "settings_reachable event_base types s"
  shows "lock_inv s \<and> resource_inv s"
  by (rule settings.inv_reaches [OF assms]) (simp add: lock_inv_def resource_inv_def settings_init_def)

section \<open>Example runs\<close>

inductive_simps settings_thread_proc_iff: "settings_thread_proc event_base types s s'"
inductive_simps settings_cleanup_proc_iff: "settings_cleanup_proc s s'"
inductive_simps screen_reader_iff: "screen_reader s s'"

lemmas settings_step_iff = settings_step_def settings_thread_proc_iff settings_cleanup_proc_iff screen_reader_iff

definition settings_at :: "settings_pc \<Rightarrow> reader_pc \<Rightarrow> settings_owner option \<Rightarrow> nat option \<Rightarrow> nat \<Rightarrow> nat list \<Rightarrow> nat option list \<Rightarrow> settings_state" where
  "settings_at p q w r n f rs = \<lparr>s_pc = p, r_pc = q, x_mutex = w, x_resources = r, x_next = n, x_freed = f, x_display = True, x_reads = rs\<rparr>"

text \<open>Two changes of the screens with a reader in between, and a server without the extension.\<close>

definition two_changes :: "settings_state list" where
  "two_changes =
     [settings_at SQuery RIdle None None 0 [] [], settings_at SNext RIdle None None 0 [] [], settings_at SLock RIdle None None 0 [] [],
      settings_at SFree RIdle (Some SettingsThread) None 0 [] [], settings_at SGet RIdle (Some SettingsThread) None 0 [] [],
      settings_at SUnlock RIdle (Some SettingsThread) (Some 0) 1 [] [], settings_at SNext RIdle None (Some 0) 1 [] [],
      settings_at SNext RReading (Some ReaderThread) (Some 0) 1 [] [], settings_at SLock RReading (Some ReaderThread) (Some 0) 1 [] [],
      settings_at SLock RUnlocking (Some ReaderThread) (Some 0) 1 [] [Some 0], settings_at SLock RIdle None (Some 0) 1 [] [Some 0],
      settings_at SFree RIdle (Some SettingsThread) (Some 0) 1 [] [Some 0], settings_at SGet RIdle (Some SettingsThread) (Some 0) 1 [0] [Some 0],
      settings_at SUnlock RIdle (Some SettingsThread) (Some 1) 2 [0] [Some 0], settings_at SNext RIdle None (Some 1) 2 [0] [Some 0],
      settings_at SNext RReading (Some ReaderThread) (Some 1) 2 [0] [Some 0]]"

definition busy_cleanup :: "settings_state list" where
  "busy_cleanup =
     [settings_at SQuery RIdle None None 0 [] [], settings_at SCleanup RIdle None None 0 [] [],
      settings_at SCleanup RReading (Some ReaderThread) None 0 [] [], settings_at SEnd RReading (Some ReaderThread) None 0 [] []]"

lemmas settings_run_defs = settings_at_def settings_init_def settings_step_iff free_resources_def RRScreenChangeNotifyMask_def

lemma two_changes_path: "path (settings_step 89 {90}) settings_init two_changes"
  by (simp add: two_changes_def settings_run_defs)

lemma busy_cleanup_path: "path (settings_step 89 {}) settings_init busy_cleanup"
  by (simp add: busy_cleanup_def settings_run_defs)

section \<open>Properties\<close>

text \<open>
  C16. In every interleaving of the settings thread with callers of \<^verbatim>\<open>hook_create_screen_info\<close>, a caller reads
  only resources that are not freed, no resource is freed twice, and every one that was obtained is
  freed or still current: none is lost.
\<close>

theorem xrandr_resources_safe:
  assumes "settings_reachable event_base types s"
  shows "(r_pc s = RReading \<longrightarrow> (\<forall>r \<in> set_option (x_resources s). r \<notin> set (x_freed s)))
    \<and> distinct (x_freed s) \<and> {r. r < x_next s} = set (x_freed s) \<union> set_option (x_resources s)"
proof -
  have lock: "lock_inv s" and res: "resource_inv s" using settings_invs [OF assms] by simp_all
  have "s_pc s \<noteq> SGet" if "r_pc s = RReading" using lock that by (auto simp: lock_inv_def)
  with res show ?thesis by (auto simp: resource_inv_def)
qed

theorem xrandr_resources_safe_witness:
  "settings_reachable 89 {90} (last (settings_init # two_changes)) \<and> r_pc (last (settings_init # two_changes)) = RReading
     \<and> x_resources (last (settings_init # two_changes)) = Some 1 \<and> 1 \<notin> set (x_freed (last (settings_init # two_changes)))"
proof -
  have reach: "settings_reachable 89 {90} (last (settings_init # two_changes))"
    by (rule path_reaches [OF two_changes_path])
  moreover have "r_pc (last (settings_init # two_changes)) = RReading" "x_resources (last (settings_init # two_changes)) = Some 1"
    by (simp_all add: two_changes_def settings_at_def)
  ultimately show ?thesis using xrandr_resources_safe [OF reach] by simp
qed

lemma no_resources_step:
  assumes "settings_step event_base types s s'" and "event_base + RRScreenChangeNotifyMask \<notin> types"
    and "x_resources s = None \<and> s_pc s \<notin> {SLock, SFree, SGet, SUnlock}"
  shows "x_resources s' = None \<and> s_pc s' \<notin> {SLock, SFree, SGet, SUnlock}"
  using assms(1) unfolding settings_step_def
proof (elim disjE)
  assume "settings_thread_proc event_base types s s'"
  then show ?thesis by (cases rule: settings_thread_proc.cases) (use assms(2,3) in \<open>auto simp: free_resources_def\<close>)
next
  assume "settings_cleanup_proc s s'"
  then show ?thesis by (cases rule: settings_cleanup_proc.cases) (use assms(3) in \<open>auto simp: free_resources_def\<close>)
next
  assume "screen_reader s s'"
  then show ?thesis by (cases rule: screen_reader.cases) (use assms(3) in auto)
qed

text \<open>
  The thread selects screen-change events only, and those have the type of the event base plus
  \<^verbatim>\<open>RRScreenChangeNotify\<close>; the code waits for the base plus the mask. With the events it selects it never
  gets any resources, and \<^verbatim>\<open>hook_create_screen_info\<close> of the XRandR build lists no screen at any time.
\<close>

theorem xrandr_lists_no_screen:
  assumes "settings_reachable event_base {event_base + RRScreenChangeNotify} s"
    and "use_screens build = SCREENS_XRANDR"
    and "xrandr_crtcs env = map_option crtcs_of (x_resources s)"
  shows "hook_create_screen_info build env h = (0, None)"
proof -
  have "x_resources s = None \<and> s_pc s \<notin> {SLock, SFree, SGet, SUnlock}"
    using assms(1)
  proof (induction rule: reaches.induct)
    case (step s s')
    show ?case
      by (rule no_resources_step [OF step(2) _ step(3)]) (simp add: RRScreenChangeNotify_def RRScreenChangeNotifyMask_def)
  qed (simp add: settings_init_def)
  with assms(2,3) show ?thesis by (simp add: hook_create_screen_info_def xrandr_screens_def)
qed

theorem xrandr_lists_no_screen_witness:
  "hook_create_screen_info (desktop_build\<lparr>use_screens := SCREENS_XRANDR\<rparr>) desktop_env desktop_helper = (0, None)"
proof -
  have "settings_reachable 89 {89 + RRScreenChangeNotify} settings_init" by (rule reaches.refl)
  then show ?thesis
    by (rule xrandr_lists_no_screen) (simp_all add: desktop_defs settings_init_def)
qed

text \<open>When a caller holds the mutex, the clean-up handler leaves the display of the thread open.\<close>

theorem settings_display_leaks:
  "\<exists>s. settings_reachable 89 {} s \<and> s_pc s = SEnd \<and> x_display s"
  using path_reaches [OF busy_cleanup_path]
  by (intro exI [of _ "last (settings_init # busy_cleanup)"]) (simp add: busy_cleanup_def settings_at_def)

end
