(* ===== verification/Demo_Hook.thy ===== *)
theory Demo_Hook
  imports Uiohook_Events Uiohook_Logger Uiohook_Text
begin

text \<open>
  \<^verbatim>\<open>demo/demo_hook.c\<close>: the program that prints every event it receives on one line, stops the hook on
  the Escape key and reports the status of the run. The four demo programs have the same logger.
  A line is put together in a buffer of 256 bytes by two calls of \<^verbatim>\<open>snprintf\<close>; it always fits.
\<close>

section \<open>Output\<close>

record stdio =
  st_stdout :: string
  st_stderr :: string

text \<open>
  What a demo program asks the system: whether \<^verbatim>\<open>vfprintf\<close> writes a text, the bytes of a wide
  character in the current locale (\<open>None\<close> when it has none), what \<^verbatim>\<open>snprintf\<close> leaves in the buffer in
  that case, and the status that \<^verbatim>\<open>hook_stop\<close> returns.
\<close>

record demo_env =
  de_write :: "string \<Rightarrow> bool"
  de_wide :: "uint16_t \<Rightarrow> string option"
  de_partial :: string
  de_stop :: c_int

definition vfprintf_stdout :: "demo_env \<Rightarrow> string \<Rightarrow> 'a stdio_scheme \<Rightarrow> bool \<times> 'a stdio_scheme" where
  "vfprintf_stdout env text s =
     (de_write env text, if de_write env text then s\<lparr>st_stdout := st_stdout s @ text\<rparr> else s)"

definition vfprintf_stderr :: "demo_env \<Rightarrow> string \<Rightarrow> 'a stdio_scheme \<Rightarrow> bool \<times> 'a stdio_scheme" where
  "vfprintf_stderr env text s =
     (de_write env text, if de_write env text then s\<lparr>st_stderr := st_stderr s @ text\<rparr> else s)"

definition logger_proc :: "demo_env \<Rightarrow> log_level \<Rightarrow> string \<Rightarrow> 'a stdio_scheme \<Rightarrow> bool \<times> 'a stdio_scheme" where
  "logger_proc env level message s =
     (case level of
        LOG_LEVEL_INFO \<Rightarrow> vfprintf_stdout env message s
      | LOG_LEVEL_WARN \<Rightarrow> vfprintf_stderr env message s
      | LOG_LEVEL_ERROR \<Rightarrow> vfprintf_stderr env message s
      | LOG_LEVEL_DEBUG \<Rightarrow> (False, s))"

section \<open>The line of an event\<close>

primrec event_number :: "event_type \<Rightarrow> nat" where
  "event_number EVENT_HOOK_ENABLED = 1"
| "event_number EVENT_HOOK_DISABLED = 2"
| "event_number EVENT_KEY_TYPED = 3"
| "event_number EVENT_KEY_PRESSED = 4"
| "event_number EVENT_KEY_RELEASED = 5"
| "event_number EVENT_MOUSE_CLICKED = 6"
| "event_number EVENT_MOUSE_PRESSED = 7"
| "event_number EVENT_MOUSE_RELEASED = 8"
| "event_number EVENT_MOUSE_MOVED = 9"
| "event_number EVENT_MOUSE_DRAGGED = 10"
| "event_number EVENT_MOUSE_WHEEL = 11"

definition header_text :: "uiohook_event \<Rightarrow> string" where
  "header_text e =
     ''id='' @ show_u (event_number (ev_type e)) @ '',when='' @ show_u (unat (ev_time e))
     @ '',mask=0x'' @ show_X (unat (ev_mask e))"

definition key_text :: "keyboard_event_data \<Rightarrow> string" where
  "key_text k = '',keycode='' @ show_u (unat (kb_keycode k)) @ '',rawcode=0x'' @ show_X (unat (kb_rawcode k))"

definition typed_text :: "demo_env \<Rightarrow> keyboard_event_data \<Rightarrow> string" where
  "typed_text env k =
     (case de_wide env (kb_keychar k) of
        Some w \<Rightarrow> '',keychar='' @ w @ '',rawcode='' @ show_u (unat (kb_rawcode k))
      | None \<Rightarrow> de_partial env)"

definition mouse_text :: "mouse_event_data \<Rightarrow> string" where
  "mouse_text m =
     '',x='' @ show_i (sint (ms_x m)) @ '',y='' @ show_i (sint (ms_y m))
     @ '',button='' @ show_i (uint (ms_button m)) @ '',clicks='' @ show_i (uint (ms_clicks m))"

definition wheel_text :: "mouse_wheel_event_data \<Rightarrow> string" where
  "wheel_text w =
     '',type='' @ show_i (uint (wh_type w)) @ '',amount='' @ show_i (uint (wh_amount w))
     @ '',rotation='' @ show_i (sint (wh_rotation w))"

text \<open>The second part of the line, by the type of the event; \<open>None\<close> when nothing is appended.\<close>

definition detail_text :: "demo_env \<Rightarrow> uiohook_event \<Rightarrow> string option result" where
  "detail_text env e =
     (case ev_type e of
        EVENT_KEY_PRESSED \<Rightarrow> r_bind (keyboard_member e) (\<lambda>k. Inr (Some (key_text k)))
      | EVENT_KEY_RELEASED \<Rightarrow> r_bind (keyboard_member e) (\<lambda>k. Inr (Some (key_text k)))
      | EVENT_KEY_TYPED \<Rightarrow> r_bind (keyboard_member e) (\<lambda>k. Inr (Some (typed_text env k)))
      | EVENT_MOUSE_PRESSED \<Rightarrow> r_bind (mouse_member e) (\<lambda>m. Inr (Some (mouse_text m)))
      | EVENT_MOUSE_RELEASED \<Rightarrow> r_bind (mouse_member e) (\<lambda>m. Inr (Some (mouse_text m)))
      | EVENT_MOUSE_CLICKED \<Rightarrow> r_bind (mouse_member e) (\<lambda>m. Inr (Some (mouse_text m)))
      | EVENT_MOUSE_MOVED \<Rightarrow> r_bind (mouse_member e) (\<lambda>m. Inr (Some (mouse_text m)))
      | EVENT_MOUSE_DRAGGED \<Rightarrow> r_bind (mouse_member e) (\<lambda>m. Inr (Some (mouse_text m)))
      | EVENT_MOUSE_WHEEL \<Rightarrow> r_bind (wheel_member e) (\<lambda>w. Inr (Some (wheel_text w)))
      | EVENT_HOOK_ENABLED \<Rightarrow> Inr None
      | EVENT_HOOK_DISABLED \<Rightarrow> Inr None)"

text \<open>\<^verbatim>\<open>char buffer[256] = { 0 }\<close>, the header, the detail behind it, and the string it holds.\<close>

definition event_line :: "demo_env \<Rightarrow> uiohook_event \<Rightarrow> string result" where
  "event_line env e =
     r_bind (snprintf_at 0 (header_text e) (replicate 256 NUL)) (\<lambda>buffer.
     r_bind (detail_text env e) (\<lambda>detail.
     r_bind (case detail of None \<Rightarrow> Inr buffer | Some t \<Rightarrow> snprintf_at (length (header_text e)) t buffer)
       c_string))"

section \<open>The callback\<close>

record demo = stdio +
  stop_calls :: nat

definition stop_message :: "c_int \<Rightarrow> string option" where
  "stop_message status =
     (if status = UIOHOOK_SUCCESS then None
      else if status = UIOHOOK_ERROR_OUT_OF_MEMORY
      then Some (''Failed to allocate memory. ('' @ show_alt_X (unat status) @ '')'')
      else if status = UIOHOOK_ERROR_X_RECORD_GET_CONTEXT
      then Some (''Failed to get XRecord context. ('' @ show_alt_X (unat status) @ '')'')
      else Some (''An unknown hook error occurred. ('' @ show_alt_X (unat status) @ '')''))"

definition log_error :: "demo_env \<Rightarrow> string option \<Rightarrow> 'a stdio_scheme \<Rightarrow> 'a stdio_scheme" where
  "log_error env message s =
     (case message of None \<Rightarrow> s | Some t \<Rightarrow> snd (logger_proc env LOG_LEVEL_ERROR t s))"

definition stop_on_escape :: "demo_env \<Rightarrow> uiohook_event \<Rightarrow> 'a demo_scheme \<Rightarrow> 'a demo_scheme result" where
  "stop_on_escape env e s =
     (if ev_type e = EVENT_KEY_PRESSED then
        r_bind (keyboard_member e) (\<lambda>k.
          if kb_keycode k = VC_ESCAPE
          then Inr (log_error env (stop_message (de_stop env)) (s\<lparr>stop_calls := stop_calls s + 1\<rparr>))
          else Inr s)
      else Inr s)"

definition dispatch_proc :: "demo_env \<Rightarrow> uiohook_event \<Rightarrow> 'a demo_scheme \<Rightarrow> 'a demo_scheme result" where
  "dispatch_proc env e s =
     r_bind (stop_on_escape env e s) (\<lambda>s.
     r_bind (event_line env e) (\<lambda>line.
     Inr (snd (vfprintf_stdout env (line @ [CHR 0x0A]) s))))"

primrec dispatch_all :: "demo_env \<Rightarrow> uiohook_event list \<Rightarrow> 'a demo_scheme \<Rightarrow> 'a demo_scheme result" where
  "dispatch_all env [] s = Inr s"
| "dispatch_all env (e # es) s = r_bind (dispatch_proc env e s) (dispatch_all env es)"

section \<open>The program\<close>

text \<open>The message for the status that \<^verbatim>\<open>hook_run\<close> returned, with \<open>eol\<close> at its end.\<close>

definition run_text :: "c_int \<Rightarrow> string" where
  "run_text status =
     (if status = UIOHOOK_ERROR_OUT_OF_MEMORY then ''Failed to allocate memory.''
      else if status = UIOHOOK_ERROR_X_OPEN_DISPLAY then ''Failed to open X11 display.''
      else if status = UIOHOOK_ERROR_X_RECORD_NOT_FOUND then ''Unable to locate XRecord extension.''
      else if status = UIOHOOK_ERROR_X_RECORD_ALLOC_RANGE then ''Unable to allocate XRecord range.''
      else if status = UIOHOOK_ERROR_X_RECORD_CREATE_CONTEXT then ''Unable to allocate XRecord context.''
      else if status = UIOHOOK_ERROR_X_RECORD_ENABLE_CONTEXT then ''Failed to enable XRecord context.''
      else if status = UIOHOOK_ERROR_SET_WINDOWS_HOOK_EX then ''Failed to register low level windows hook.''
      else if status = UIOHOOK_ERROR_AXAPI_DISABLED then ''Failed to enable access for assistive devices.''
      else if status = UIOHOOK_ERROR_CREATE_EVENT_PORT then ''Failed to create apple event port.''
      else if status = UIOHOOK_ERROR_CREATE_RUN_LOOP_SOURCE then ''Failed to create apple run loop source.''
      else if status = UIOHOOK_ERROR_GET_RUNLOOP then ''Failed to acquire apple run loop.''
      else if status = UIOHOOK_ERROR_CREATE_OBSERVER then ''Failed to create apple run loop observer.''
      else ''An unknown hook error occurred.'')"

definition run_message :: "string \<Rightarrow> c_int \<Rightarrow> string option" where
  "run_message eol status =
     (if status = UIOHOOK_SUCCESS then None
      else Some (run_text status @ '' ('' @ show_alt_X (unat status) @ '')'' @ eol))"

text \<open>
  The run hands the events \<open>es\<close> to the callback and returns \<open>status\<close>; the back ends determine both.
  The exit status of the program is that of the run.
\<close>

definition demo_main :: "demo_env \<Rightarrow> uiohook_event list \<Rightarrow> c_int \<Rightarrow> 'a demo_scheme \<Rightarrow> ('a demo_scheme \<times> c_int) result" where
  "demo_main env es status s =
     r_bind (dispatch_all env es s) (\<lambda>s. Inr (log_error env (run_message [] status) s, status))"

section \<open>The buffer\<close>

lemma unat_bounds:
  "unat (a :: 8 word) < 256" "unat (b :: 16 word) < 65536" "unat (c :: 64 word) < 18446744073709551616"
  using unsigned_less [of a, where ?'a = nat] unsigned_less [of b, where ?'a = nat]
    unsigned_less [of c, where ?'a = nat] by simp_all

lemma sint16_bound: "\<bar>sint (a :: 16 word)\<bar> < 10 ^ Suc 4"
  using sint_lt [of a] sint_ge [of a] by simp

lemma uint_bounds: "\<bar>uint (a :: 8 word)\<bar> < 10 ^ Suc 2" "\<bar>uint (b :: 16 word)\<bar> < 10 ^ Suc 4"
  using uint_bounded [of a] uint_bounded [of b] by simp_all

lemma event_number_bound: "event_number ty < 10 ^ Suc 1"
  by (cases ty) simp_all

lemma header_text_length: "length (header_text e) \<le> 43"
proof -
  have "length (show_u (event_number (ev_type e))) \<le> Suc 1"
    by (rule length_show_u [OF event_number_bound])
  moreover have "length (show_u (unat (ev_time e))) \<le> Suc 19"
    by (rule length_show_u) (use unat_bounds(3) [of "ev_time e"] in simp)
  moreover have "length (show_X (unat (ev_mask e))) \<le> Suc 3"
    by (rule length_show_X) (use unat_bounds(2) [of "ev_mask e"] in simp)
  ultimately show ?thesis by (simp add: header_text_def)
qed

lemma show_16_lengths:
  "length (show_u (unat (a :: 16 word))) \<le> 5" "length (show_X (unat a)) \<le> 4"
  "length (show_i (sint a)) \<le> 6" "length (show_i (uint a)) \<le> 6"
  using length_show_u [of "unat a" 4] length_show_X [of "unat a" 3] unat_bounds(2) [of a]
    length_show_i [OF sint16_bound, of a] length_show_i [OF uint_bounds(2), of a] by simp_all

lemma show_8_length: "length (show_i (uint (a :: 8 word))) \<le> 4"
  using length_show_i [OF uint_bounds(1), of a] by simp

lemma detail_lengths:
  "length (key_text k) \<le> 50" "length (mouse_text m) \<le> 50" "length (wheel_text w) \<le> 50"
  using show_16_lengths [of "kb_keycode k"] show_16_lengths [of "kb_rawcode k"]
    show_16_lengths [of "ms_x m"] show_16_lengths [of "ms_y m"] show_16_lengths [of "ms_button m"]
    show_16_lengths [of "ms_clicks m"] show_8_length [of "wh_type w"] show_16_lengths [of "wh_amount w"]
    show_16_lengths [of "wh_rotation w"]
  by (simp_all add: key_text_def mouse_text_def wheel_text_def)

text \<open>A locale gives a character at most \<^verbatim>\<open>MB_LEN_MAX\<close> bytes, 16 in the C libraries in use.\<close>

definition wide_sound :: "demo_env \<Rightarrow> bool" where
  "wide_sound env \<longleftrightarrow>
     (\<forall>c. (case de_wide env c of None \<Rightarrow> True | Some w \<Rightarrow> length w \<le> 16)) \<and> length (de_partial env) \<le> 16"

lemma typed_text_length:
  assumes "wide_sound env"
  shows "length (typed_text env k) \<le> 50"
proof -
  have "case de_wide env (kb_keychar k) of None \<Rightarrow> True | Some w \<Rightarrow> length w \<le> 16" and "length (de_partial env) \<le> 16"
    using assms unfolding wide_sound_def by auto
  then show ?thesis
    using show_16_lengths(1) [of "kb_rawcode k"] by (auto simp: typed_text_def split: option.splits)
qed

lemma detail_text_length:
  assumes "wide_sound env" and "detail_text env e = Inr (Some t)"
  shows "length t \<le> 50"
  using assms(2) detail_lengths typed_text_length [OF assms(1)]
  by (auto simp: detail_text_def elim!: r_bind_InrE split: event_type.splits)

lemma header_text_no_NUL [simp]: "NUL \<notin> set (header_text e)"
  by (simp add: header_text_def) (simp add: NUL_def)

definition detail_of :: "demo_env \<Rightarrow> uiohook_event \<Rightarrow> string" where
  "detail_of env e = (case detail_text env e of Inr (Some t) \<Rightarrow> takeWhile (\<lambda>c. c \<noteq> NUL) t | _ \<Rightarrow> [])"

text \<open>The line is the header and the detail, up to a NUL that a typed character may be.\<close>

lemma event_line_eq:
  assumes "wide_sound env" and "detail_text env e = Inr d"
  shows "event_line env e = Inr (header_text e @ detail_of env e)"
proof -
  let ?h = "header_text e" and ?buf = "replicate 256 NUL"
  let ?b = "?h @ NUL # replicate (256 - (length ?h + 1)) NUL"
  have h: "length ?h \<le> 43" by (rule header_text_length)
  have b: "snprintf_at 0 ?h ?buf = Inr ?b"
    using h by (subst snprintf_at_fits) simp_all
  show ?thesis
  proof (cases d)
    case None
    then show ?thesis using assms(2) b c_string_prefix [of ?h] by (simp add: event_line_def detail_of_def)
  next
    case (Some t)
    have t: "length t \<le> 50" using detail_text_length [OF assms(1)] assms(2) Some by simp
    have "snprintf_at (length ?h) t ?b = Inr (?h @ t @ NUL # drop (length ?h + length t + 1) ?b)"
      using h t by (subst snprintf_at_fits) simp_all
    moreover have "c_string (?h @ t @ NUL # r) = Inr (?h @ takeWhile (\<lambda>c. c \<noteq> NUL) t)" for r
      by (auto simp: c_string_def takeWhile_append intro!: takeWhile_eq_all_conv [THEN iffD2, symmetric])
    ultimately show ?thesis using Some assms(2) b by (simp add: event_line_def detail_of_def)
  qed
qed

section \<open>What the program prints\<close>

text \<open>The number of events on which the program stops the hook.\<close>

definition is_escape :: "uiohook_event \<Rightarrow> bool" where
  "is_escape e \<longleftrightarrow>
     ev_type e = EVENT_KEY_PRESSED \<and> (case ev_data e of Keyboard k \<Rightarrow> kb_keycode k = VC_ESCAPE | _ \<Rightarrow> False)"

definition line_of :: "demo_env \<Rightarrow> uiohook_event \<Rightarrow> string" where
  "line_of env e = header_text e @ detail_of env e @ [CHR 0x0A]"

definition fits_union :: "demo_env \<Rightarrow> uiohook_event \<Rightarrow> bool" where
  "fits_union env e \<longleftrightarrow> \<not> isl (detail_text env e)"

lemma fits_union_data:
  "fits_union env e \<longleftrightarrow>
     (ev_type e \<in> {EVENT_KEY_PRESSED, EVENT_KEY_RELEASED, EVENT_KEY_TYPED} \<longrightarrow> (\<exists>k. ev_data e = Keyboard k))
     \<and> (ev_type e \<in> {EVENT_MOUSE_PRESSED, EVENT_MOUSE_RELEASED, EVENT_MOUSE_CLICKED, EVENT_MOUSE_MOVED,
          EVENT_MOUSE_DRAGGED} \<longrightarrow> (\<exists>m. ev_data e = Mouse m))
     \<and> (ev_type e = EVENT_MOUSE_WHEEL \<longrightarrow> (\<exists>w. ev_data e = Wheel w))"
  by (cases "ev_type e"; cases "ev_data e")
    (simp_all add: fits_union_def detail_text_def keyboard_member_def mouse_member_def wheel_member_def)

lemma stop_on_escape_eq:
  assumes "fits_union env e"
  shows "stop_on_escape env e s =
    Inr (if is_escape e then log_error env (stop_message (de_stop env)) (s\<lparr>stop_calls := stop_calls s + 1\<rparr>) else s)"
  using assms
  by (cases "ev_data e") (auto simp: fits_union_data stop_on_escape_def is_escape_def keyboard_member_def)

lemma dispatch_proc_eq:
  assumes "wide_sound env" and "fits_union env e"
  shows "dispatch_proc env e s = Inr (snd (vfprintf_stdout env (line_of env e)
    (if is_escape e then log_error env (stop_message (de_stop env)) (s\<lparr>stop_calls := stop_calls s + 1\<rparr>) else s)))"
proof -
  obtain d where d: "detail_text env e = Inr d" using assms(2) by (cases "detail_text env e") (auto simp: fits_union_def)
  show ?thesis
    using event_line_eq [OF assms(1) d]
    by (simp add: dispatch_proc_def line_of_def stop_on_escape_eq [OF assms(2)])
qed

lemma logger_effects:
  "st_stdout (log_error env m s) = st_stdout s" "stop_calls (log_error env m d) = stop_calls d"
  "st_stderr (log_error env m s) = st_stderr s @
     (case m of None \<Rightarrow> [] | Some t \<Rightarrow> if de_write env t then t else [])"
  "st_stderr (snd (vfprintf_stdout env t s)) = st_stderr s" "stop_calls (snd (vfprintf_stdout env t d)) = stop_calls d"
  "st_stdout (snd (vfprintf_stdout env t s)) = st_stdout s @ (if de_write env t then t else [])"
  by (auto simp: log_error_def logger_proc_def vfprintf_stdout_def vfprintf_stderr_def split: option.split)

definition stop_text :: "demo_env \<Rightarrow> string" where
  "stop_text env = (case stop_message (de_stop env) of None \<Rightarrow> [] | Some t \<Rightarrow> t)"

lemma dispatch_all_prints:
  assumes "wide_sound env" and "\<And>t. de_write env t" and "list_all (fits_union env) es"
  shows "\<exists>s'. dispatch_all env es s = Inr s'
    \<and> st_stdout s' = st_stdout s @ concat (map (line_of env) es)
    \<and> stop_calls s' = stop_calls s + length (filter is_escape es)
    \<and> st_stderr s' = st_stderr s @ concat (replicate (length (filter is_escape es)) (stop_text env))"
  using assms(3)
proof (induction es arbitrary: s)
  case (Cons e es)
  let ?t = "snd (vfprintf_stdout env (line_of env e)
    (if is_escape e then log_error env (stop_message (de_stop env)) (s\<lparr>stop_calls := stop_calls s + 1\<rparr>) else s))"
  have "dispatch_all env (e # es) s = dispatch_all env es ?t"
    using Cons.prems by (simp add: dispatch_proc_eq [OF assms(1)])
  with Cons.IH [of ?t] Cons.prems show ?case
    by (auto simp: logger_effects assms(2) stop_text_def split: option.split)
qed simp


text \<open>An ASCII locale and a press of Escape, for the examples.\<close>

definition ascii_env :: demo_env where
  "ascii_env = \<lparr>de_write = (\<lambda>t. True), de_wide = (\<lambda>c. if c < 128 then Some [char_of (unat c)] else None),
     de_partial = '',keychar='', de_stop = UIOHOOK_SUCCESS\<rparr>"

definition escape_press :: uiohook_event where
  "escape_press = \<lparr>ev_type = EVENT_KEY_PRESSED, ev_time = 1234, ev_mask = 0x2001, ev_reserved = 0,
     ev_data = Keyboard \<lparr>kb_keycode = VC_ESCAPE, kb_rawcode = 0xFF1B, kb_keychar = CHAR_UNDEFINED\<rparr>\<rparr>"

definition silent :: demo where
  "silent = \<lparr>st_stdout = [], st_stderr = [], stop_calls = 0\<rparr>"

lemma ascii_sound: "wide_sound ascii_env" "de_write ascii_env t"
  by (simp_all add: wide_sound_def ascii_env_def)

lemma escape_press_line:
  "header_text escape_press @ detail_of ascii_env escape_press = ''id=4,when=1234,mask=0x2001,keycode=1,rawcode=0xFF1B''"
  by (simp add: header_text_def detail_of_def detail_text_def keyboard_member_def key_text_def escape_press_def
      show_defs digits.simps digit_char_def NUL_def)


section \<open>Reading a line back\<close>

text \<open>A reader of the lines: a label and the digits behind it, three times.\<close>

definition read_field :: "string \<Rightarrow> nat \<Rightarrow> string \<Rightarrow> (nat \<times> string) option" where
  "read_field label base s =
     (let body = drop (length label) s; ds = digits_of base body
      in if take (length label) s = label \<and> ds \<noteq> [] then Some (number_of base ds, drop (length ds) body) else None)"

definition read_header :: "string \<Rightarrow> (nat \<times> nat \<times> nat) option" where
  "read_header s =
     Option.bind (read_field ''id='' 10 s) (\<lambda>(n, s).
     Option.bind (read_field '',when='' 10 s) (\<lambda>(t, s).
     map_option (\<lambda>(m, s). (n, t, m)) (read_field '',mask=0x'' 16 s)))"

lemma read_field_shown:
  assumes "rest = [] \<or> digit_value (hd rest) = None"
  shows "read_field label 10 (label @ show_u n @ rest) = Some (n, rest)"
    and "read_field label 16 (label @ show_X n @ rest) = Some (n, rest)"
proof -
  have "digits_of b (map digit_char (digits b n) @ rest) = digits b n" if "2 \<le> b" "b \<le> 16" for b
    using that assms by (intro digits_of_append) (auto intro: digits_less)
  from this [of 10] this [of 16] show
    "read_field label 10 (label @ show_u n @ rest) = Some (n, rest)"
    "read_field label 16 (label @ show_X n @ rest) = Some (n, rest)"
    by (simp_all add: read_field_def show_u_def show_X_def number_of_digits Let_def)
qed

lemma read_header_text:
  assumes "rest = [] \<or> digit_value (hd rest) = None"
  shows "read_header (header_text e @ rest) = Some (event_number (ev_type e), unat (ev_time e), unat (ev_mask e))"
proof -
  have comma: "digit_value CHR '','' = None" by code_simp
  let ?m = "'',mask=0x'' @ show_X (unat (ev_mask e)) @ rest"
  let ?w = "'',when='' @ show_u (unat (ev_time e)) @ ?m"
  have "read_field ''id='' 10 (''id='' @ show_u (event_number (ev_type e)) @ ?w) = Some (event_number (ev_type e), ?w)"
    by (rule read_field_shown) (simp add: comma)
  moreover have "read_field '',when='' 10 ?w = Some (unat (ev_time e), ?m)"
    by (rule read_field_shown) (simp add: comma)
  moreover have "read_field '',mask=0x'' 16 ?m = Some (unat (ev_mask e), rest)"
    by (rule read_field_shown) (rule assms)
  moreover have "header_text e @ rest = ''id='' @ show_u (event_number (ev_type e)) @ ?w"
    by (simp add: header_text_def)
  ultimately show ?thesis unfolding read_header_def by (simp only: bind.simps prod.case option.map)
qed

lemma detail_starts_with_comma:
  assumes "ev_type e = EVENT_KEY_TYPED \<longrightarrow> de_partial env = [] \<or> hd (de_partial env) = CHR '',''"
  shows "detail_of env e = [] \<or> hd (detail_of env e) = CHR '',''"
proof -
  have "CHR '','' \<noteq> NUL" by (simp add: NUL_def)
  then show ?thesis
    using assms
    by (cases "de_partial env"; cases "ev_type e"; cases "ev_data e")
      (auto simp: detail_of_def detail_text_def keyboard_member_def mouse_member_def wheel_member_def
        key_text_def typed_text_def mouse_text_def wheel_text_def split: option.split)
qed

lemma event_number_inj: "event_number a = event_number b \<longleftrightarrow> a = b"
  by (cases a; cases b) simp_all

text \<open>
  From the line printed for an event its type, its time and its mask can be read back: a line never
  stands for two events that differ in them.
\<close>

theorem event_line_roundtrip:
  assumes "wide_sound env" and "de_partial env = [] \<or> hd (de_partial env) = CHR '',''"
    and "event_line env e = Inr t"
  shows "read_header t = Some (event_number (ev_type e), unat (ev_time e), unat (ev_mask e))
    \<and> (event_line env e' = Inr t \<longrightarrow> ev_type e' = ev_type e \<and> ev_time e' = ev_time e \<and> ev_mask e' = ev_mask e)"
proof -
  have read: "read_header u = Some (event_number (ev_type f), unat (ev_time f), unat (ev_mask f))"
    if line: "event_line env f = Inr u" for f u
  proof -
    obtain d where "detail_text env f = Inr d" using line unfolding event_line_def r_bind_eq_Inr by blast
    with event_line_eq [OF assms(1)] line have "u = header_text f @ detail_of env f" by force
    moreover have "detail_of env f = [] \<or> digit_value (hd (detail_of env f)) = None"
      using detail_starts_with_comma [of f env] assms(2) by (auto simp: digit_value_def)
    ultimately show ?thesis by (simp add: read_header_text)
  qed
  from read [OF assms(3)] read [of e' t] show ?thesis by (auto simp: event_number_inj word_eq_iff_unsigned [where 'a = nat])
qed

theorem event_line_roundtrip_witness:
  "event_line ascii_env escape_press = Inr ''id=4,when=1234,mask=0x2001,keycode=1,rawcode=0xFF1B''
     \<and> read_header ''id=4,when=1234,mask=0x2001,keycode=1,rawcode=0xFF1B'' = Some (4, 1234, 0x2001)"
proof -
  obtain d where "detail_text ascii_env escape_press = Inr d"
    by (simp add: detail_text_def escape_press_def keyboard_member_def)
  with event_line_eq [OF ascii_sound(1)] escape_press_line
  have line: "event_line ascii_env escape_press = Inr ''id=4,when=1234,mask=0x2001,keycode=1,rawcode=0xFF1B''" by simp
  have "de_partial ascii_env = [] \<or> hd (de_partial ascii_env) = CHR '',''" by (simp add: ascii_env_def)
  from event_line_roundtrip [OF ascii_sound(1) this line] line show ?thesis by (simp add: escape_press_def)
qed

text \<open>
  A typed event whose character is NUL ends its line before the raw code: \<^verbatim>\<open>%lc\<close> writes the NUL into the
  buffer.
\<close>

theorem typed_NUL_cuts_line:
  assumes "wide_sound env" and "de_wide env 0 = Some [NUL]"
    and "ev_type e = EVENT_KEY_TYPED" and "ev_data e = Keyboard k" and "kb_keychar k = 0"
  shows "event_line env e = Inr (header_text e @ '',keychar='')"
proof -
  have d: "detail_text env e = Inr (Some (typed_text env k))"
    using assms(3,4) by (simp add: detail_text_def keyboard_member_def)
  have "detail_of env e = '',keychar=''"
    unfolding detail_of_def d using assms(2,5) by (simp add: typed_text_def) (simp add: NUL_def)
  with event_line_eq [OF assms(1) d] show ?thesis by simp
qed

end
