(* ===== verification/Demo_Start_Protocol.thy ===== *)
theory Demo_Start_Protocol
  imports Uiohook_Events Uiohook_Transitions
begin

text \<open>
  What the builds of \<^verbatim>\<open>demo/demo_hook_async.c\<close> have in common: the program points of \<^verbatim>\<open>hook_enable\<close>, of
  \<^verbatim>\<open>hook_thread_proc\<close> and of the callback, the block in which the status is handed over, and a specification
  of the start of a hook, in which a caller asks for it and is answered once.
\<close>

section \<open>Program points\<close>

datatype demo_thread = MainTask | HookTask

text \<open>The block that \<open>hook_thread_status\<close> points to.\<close>

datatype status_cell = CellNull | CellUnwritten | CellHolds c_int | CellFreed

text \<open>How \<^verbatim>\<open>hook_run\<close> ends: with an error before the hook is enabled, or after an enabled and a disabled event.\<close>

datatype run_outcome = RunFails c_int | RunSession

text \<open>\<^verbatim>\<open>hook_enable\<close>, and from \<open>EReturned\<close> on the rest of \<^verbatim>\<open>main\<close>.\<close>

datatype enable_pc =
    ELock | ECreate | EWait | EWaiting | EWoken | ETry | EJoin | EFree | EUnlock
  | EReturned | ERunLoop | EJoinThread | EDestroy | EDone | EFault

datatype thread_pc =
    TNone | TRun | TLockRunning | TSignalEnabled | TUnlockControl | TEvents | TLockControl | TStopLoop
  | TUnlockRunning | TStore | TSignal | TUnlock | TDone | TFault

definition UIOHOOK_ERROR_THREAD_CREATE :: c_int where
  "UIOHOOK_ERROR_THREAD_CREATE = 0x10"

definition free_cell :: "status_cell \<Rightarrow> status_cell" where
  "free_cell c = (if c = CellNull then CellNull else CellFreed)"

text \<open>The points of the hook thread in the order in which a thread passes them.\<close>

primrec thread_position :: "thread_pc \<Rightarrow> nat" where
  "thread_position TNone = 0" | "thread_position TRun = 1" | "thread_position TLockRunning = 2"
| "thread_position TSignalEnabled = 3" | "thread_position TUnlockControl = 4" | "thread_position TEvents = 5"
| "thread_position TLockControl = 6" | "thread_position TStopLoop = 7" | "thread_position TUnlockRunning = 8"
| "thread_position TStore = 9" | "thread_position TSignal = 10" | "thread_position TUnlock = 11"
| "thread_position TDone = 12" | "thread_position TFault = 13"

lemma thread_position_inject: "thread_position p = thread_position q \<Longrightarrow> p = q"
  by (cases p; cases q) simp_all

instantiation thread_pc :: linorder
begin

definition less_eq_thread_pc :: "thread_pc \<Rightarrow> thread_pc \<Rightarrow> bool" where
  "p \<le> q \<longleftrightarrow> thread_position p \<le> thread_position q"

definition less_thread_pc :: "thread_pc \<Rightarrow> thread_pc \<Rightarrow> bool" where
  "p < q \<longleftrightarrow> thread_position p < thread_position q"

instance
  by standard (auto simp: less_eq_thread_pc_def less_thread_pc_def dest: thread_position_inject)

end

lemmas thread_order = less_eq_thread_pc_def less_thread_pc_def

text \<open>The steps \<^verbatim>\<open>main\<close> has at most left.\<close>

primrec enable_rank :: "enable_pc \<Rightarrow> nat" where
  "enable_rank ELock = 13" | "enable_rank ECreate = 12" | "enable_rank EWait = 11" | "enable_rank EWaiting = 10"
| "enable_rank EWoken = 9" | "enable_rank ETry = 8" | "enable_rank EJoin = 7" | "enable_rank EFree = 6"
| "enable_rank EUnlock = 5" | "enable_rank EReturned = 4" | "enable_rank ERunLoop = 3" | "enable_rank EJoinThread = 2"
| "enable_rank EDestroy = 1" | "enable_rank EDone = 0" | "enable_rank EFault = 0"

section \<open>The specification of a start\<close>

datatype hook_phase = NotStarted | Starting | Failed c_int | Enabled | Stopped

text \<open>
  The phase of the hook and what the caller was told, if anything. A caller that was answered is not
  answered again; \<open>answers\<close> are the statuses that may be given in a phase.
\<close>

inductive start_spec :: "(hook_phase \<Rightarrow> c_int set) \<Rightarrow> hook_phase \<times> c_int option \<Rightarrow> hook_phase \<times> c_int option \<Rightarrow> bool"
  for answers :: "hook_phase \<Rightarrow> c_int set" where
  launch: "start_spec answers (NotStarted, None) (Starting, None)"
| refuse: "start_spec answers (Starting, a) (Failed v, a)"
| enable: "start_spec answers (Starting, a) (Enabled, a)"
| stop: "start_spec answers (Enabled, a) (Stopped, a)"
| answer: "v \<in> answers p \<Longrightarrow> start_spec answers (p, None) (p, Some v)"

definition phase_of :: "run_outcome \<Rightarrow> thread_pc \<Rightarrow> hook_phase" where
  "phase_of outcome h =
     (if h = TNone then NotStarted
      else case outcome of
             RunFails v \<Rightarrow> if h \<in> {TSignal, TUnlock, TDone} then Failed v else Starting
           | RunSession \<Rightarrow> if h < TUnlockControl then Starting else if h < TSignal then Enabled else Stopped)"

text \<open>The phases a hook can go through, as an order: a later phase has no way back.\<close>

definition phase_before :: "hook_phase \<Rightarrow> hook_phase \<Rightarrow> bool" where
  "phase_before p q \<longleftrightarrow> p = q \<or> p = NotStarted \<or> p = Starting \<and> q \<noteq> NotStarted \<or> p = Enabled \<and> q = Stopped"

text \<open>An answer was one of those allowed in the present phase or in one before it.\<close>

definition answered_rightly :: "(hook_phase \<Rightarrow> c_int set) \<Rightarrow> hook_phase \<times> c_int option \<Rightarrow> bool" where
  "answered_rightly answers v \<longleftrightarrow>
     (case snd v of None \<Rightarrow> True | Some a \<Rightarrow> \<exists>p. phase_before p (fst v) \<and> a \<in> answers p)"

lemma phase_before_trans: "phase_before p q \<Longrightarrow> phase_before q r \<Longrightarrow> phase_before p r"
  by (auto simp: phase_before_def)

lemma start_spec_forward: "start_spec answers v w \<Longrightarrow> phase_before (fst v) (fst w)"
  by (auto simp: phase_before_def elim: start_spec.cases)

interpretation start: step_invariant "start_spec answers" "answered_rightly answers" for answers
proof
  fix v w
  assume step: "start_spec answers v w" and right: "answered_rightly answers v"
  from step show "answered_rightly answers w"
  proof (cases rule: start_spec.cases)
    case (answer a p)
    then show ?thesis by (auto simp: answered_rightly_def phase_before_def)
  qed (use right start_spec_forward [OF step] in
      \<open>auto simp: answered_rightly_def split: option.splits intro: phase_before_trans\<close>)
qed

lemma start_spec_answer:
  assumes "reaches (start_spec answers) (NotStarted, None) (p, Some a)"
  shows "\<exists>q. phase_before q p \<and> a \<in> answers q"
  using start.inv_reaches [OF assms] by (simp add: answered_rightly_def)

end
