(* ===== verification/Demo_Hook_Async.thy ===== *)
theory Demo_Hook_Async
  imports Demo_Hook Demo_Start_Protocol
begin

text \<open>
  \<^verbatim>\<open>demo/demo_hook_async.c\<close> with POSIX threads: \<^verbatim>\<open>hook_enable\<close> starts a thread that runs the hook and waits on
  a condition until the hook is enabled or the thread has failed; a second mutex, held by the hook
  thread while the hook is enabled, tells the two apart. On Darwin \<^verbatim>\<open>main\<close> then runs its run loop until
  the callback stops it. The two threads are interleaved step by step: the start as its specification
  has it, what \<^verbatim>\<open>hook_enable\<close> returns, that every run ends, and the schedules on which the protocol fails.
\<close>

section \<open>State\<close>

text \<open>
  What the threads are told by their environment. The last three fields are about the main run loop of
  Darwin: whether the program is built for it, whether a stop that comes before the loop runs is kept
  for it, and whether the loop has no source to wait for, in which case it returns at once.
\<close>

record async_env =
  ae_spurious :: bool
  ae_malloc :: bool
  ae_create :: bool
  ae_outcome :: run_outcome
  ae_darwin :: bool
  ae_stop_kept :: bool
  ae_no_source :: bool

text \<open>
  \<open>a_control\<close> and \<open>a_running\<close> are the owners of the two mutexes, \<open>a_status\<close> the variable \<^verbatim>\<open>status\<close> of
  \<^verbatim>\<open>hook_enable\<close>. \<open>a_foreign\<close> is whether a thread has unlocked a mutex it did not own, which frees a
  mutex of the default kind, and \<open>a_destroyed_locked\<close> whether a locked mutex was destroyed. \<open>a_stop\<close> is a stop kept for the main run loop.
\<close>

record async_state =
  a_main :: enable_pc
  a_hook :: thread_pc
  a_control :: "demo_thread option"
  a_running :: "demo_thread option"
  a_cell :: status_cell
  a_status :: "c_int result"
  a_foreign :: bool
  a_destroyed_locked :: bool
  a_stop :: bool

definition async_init :: async_state where
  "async_init = \<lparr>a_main = ELock, a_hook = TNone, a_control = None, a_running = None, a_cell = CellNull,
     a_status = Inr UIOHOOK_FAILURE, a_foreign = False, a_destroyed_locked = False, a_stop = False\<rparr>"

section \<open>Mutexes, the condition and the status\<close>

definition unlock_control :: "demo_thread \<Rightarrow> async_state \<Rightarrow> async_state" where
  "unlock_control t s = s\<lparr>a_control := None, a_foreign := (a_foreign s \<or> a_control s \<noteq> Some t)\<rparr>"

definition unlock_running :: "demo_thread \<Rightarrow> async_state \<Rightarrow> async_state" where
  "unlock_running t s = s\<lparr>a_running := None, a_foreign := (a_foreign s \<or> a_running s \<noteq> Some t)\<rparr>"

definition signal_control :: "async_state \<Rightarrow> async_state" where
  "signal_control s = (if a_main s = EWaiting then s\<lparr>a_main := EWoken\<rparr> else s)"

definition read_cell :: "status_cell \<Rightarrow> c_int result" where
  "read_cell c =
     (case c of CellNull \<Rightarrow> Inl NullDereference | CellUnwritten \<Rightarrow> Inl UninitialisedRead
      | CellFreed \<Rightarrow> Inl UseAfterFree | CellHolds v \<Rightarrow> Inr v)"

text \<open>\<^verbatim>\<open>CFRunLoopStop\<close> of the main run loop.\<close>

definition stop_main_loop :: "async_env \<Rightarrow> async_state \<Rightarrow> async_state" where
  "stop_main_loop env s =
     (if a_main s = ERunLoop then s\<lparr>a_main := EJoinThread\<rparr> else s\<lparr>a_stop := ae_stop_kept env\<rparr>)"

section \<open>Steps\<close>

text \<open>\<^verbatim>\<open>hook_enable\<close>, and \<^verbatim>\<open>main\<close> from \<open>EReturned\<close> on. Reading a status that is not there ends in \<open>EFault\<close>.\<close>

inductive hook_enable_step :: "async_env \<Rightarrow> async_state \<Rightarrow> async_state \<Rightarrow> bool" for env :: async_env where
  lock: "a_main s = ELock \<Longrightarrow> a_control s = None \<Longrightarrow>
    hook_enable_step env s (s\<lparr>a_main := ECreate, a_control := Some MainTask,
      a_cell := (if ae_malloc env then CellUnwritten else CellNull)\<rparr>)"
| create: "a_main s = ECreate \<Longrightarrow> ae_create env \<Longrightarrow>
    hook_enable_step env s (s\<lparr>a_main := EWait, a_hook := TRun\<rparr>)"
| create_fails: "a_main s = ECreate \<Longrightarrow> \<not> ae_create env \<Longrightarrow>
    hook_enable_step env s (s\<lparr>a_main := EUnlock, a_status := Inr UIOHOOK_ERROR_THREAD_CREATE\<rparr>)"
| wait: "a_main s = EWait \<Longrightarrow>
    hook_enable_step env s ((unlock_control MainTask s)\<lparr>a_main := EWaiting\<rparr>)"
| wake: "ae_spurious env \<Longrightarrow> a_main s = EWaiting \<Longrightarrow>
    hook_enable_step env s (s\<lparr>a_main := EWoken\<rparr>)"
| relock: "a_main s = EWoken \<Longrightarrow> a_control s = None \<Longrightarrow>
    hook_enable_step env s (s\<lparr>a_main := ETry, a_control := Some MainTask\<rparr>)"
| trylock: "a_main s = ETry \<Longrightarrow> a_running s = None \<Longrightarrow>
    hook_enable_step env s (s\<lparr>a_main := EJoin, a_running := Some MainTask\<rparr>)"
| busy: "a_main s = ETry \<Longrightarrow> a_running s \<noteq> None \<Longrightarrow>
    hook_enable_step env s (s\<lparr>a_main := EFree, a_status := Inr UIOHOOK_SUCCESS\<rparr>)"
| join: "a_main s = EJoin \<Longrightarrow> a_hook s = TDone \<Longrightarrow>
    hook_enable_step env s (s\<lparr>a_status := read_cell (a_cell s),
      a_main := (if isl (read_cell (a_cell s)) then EFault else EFree)\<rparr>)"
| free: "a_main s = EFree \<Longrightarrow>
    hook_enable_step env s (s\<lparr>a_main := EUnlock, a_cell := free_cell (a_cell s)\<rparr>)"
| unlock: "a_main s = EUnlock \<Longrightarrow>
    hook_enable_step env s ((unlock_control MainTask s)\<lparr>a_main := EReturned\<rparr>)"
| run_loop: "a_main s = EReturned \<Longrightarrow> a_status s = Inr UIOHOOK_SUCCESS \<Longrightarrow>
    hook_enable_step env s (s\<lparr>a_main := (if ae_darwin env \<and> \<not> a_stop s then ERunLoop else EJoinThread)\<rparr>)"
| loop_empty: "ae_no_source env \<Longrightarrow> a_main s = ERunLoop \<Longrightarrow>
    hook_enable_step env s (s\<lparr>a_main := EJoinThread\<rparr>)"
| join_thread: "a_main s = EJoinThread \<Longrightarrow> a_hook s = TDone \<Longrightarrow>
    hook_enable_step env s (s\<lparr>a_main := EDestroy\<rparr>)"
| report: "a_main s = EReturned \<Longrightarrow> a_status s \<noteq> Inr UIOHOOK_SUCCESS \<Longrightarrow>
    hook_enable_step env s (s\<lparr>a_main := EDestroy\<rparr>)"
| destroy: "a_main s = EDestroy \<Longrightarrow>
    hook_enable_step env s (s\<lparr>a_main := EDone, a_destroyed_locked := (a_control s \<noteq> None \<or> a_running s \<noteq> None)\<rparr>)"

text \<open>What \<^verbatim>\<open>dispatch_proc\<close> does for the enabled and for the disabled event; the other events take no lock.\<close>

inductive dispatch_sync_step :: "async_env \<Rightarrow> async_state \<Rightarrow> async_state \<Rightarrow> bool" for env :: async_env where
  lock_running: "a_hook s = TLockRunning \<Longrightarrow> a_running s = None \<Longrightarrow>
    dispatch_sync_step env s (s\<lparr>a_hook := TSignalEnabled, a_running := Some HookTask\<rparr>)"
| signal_enabled: "a_hook s = TSignalEnabled \<Longrightarrow>
    dispatch_sync_step env s (signal_control (s\<lparr>a_hook := TUnlockControl\<rparr>))"
| unlock_enabled: "a_hook s = TUnlockControl \<Longrightarrow>
    dispatch_sync_step env s ((unlock_control HookTask s)\<lparr>a_hook := TEvents\<rparr>)"
| lock_control: "a_hook s = TLockControl \<Longrightarrow> a_control s = None \<Longrightarrow>
    dispatch_sync_step env s (s\<lparr>a_hook := (if ae_darwin env then TStopLoop else TUnlockRunning),
      a_control := Some HookTask\<rparr>)"
| stop_loop: "a_hook s = TStopLoop \<Longrightarrow>
    dispatch_sync_step env s (stop_main_loop env (s\<lparr>a_hook := TUnlockRunning\<rparr>))"
| unlock_disabled: "a_hook s = TUnlockRunning \<Longrightarrow>
    dispatch_sync_step env s ((unlock_running HookTask s)\<lparr>a_hook := TSignal\<rparr>)"

text \<open>
  \<^verbatim>\<open>hook_thread_proc\<close> around it: \<^verbatim>\<open>hook_run\<close> fails, or it sends the enabled event, is stopped at some time and
  sends the disabled event. A status other than success is stored before the thread signals.
\<close>

inductive hook_thread_proc_step :: "async_env \<Rightarrow> async_state \<Rightarrow> async_state \<Rightarrow> bool" for env :: async_env where
  fails: "a_hook s = TRun \<Longrightarrow> ae_outcome env = RunFails v \<Longrightarrow>
    hook_thread_proc_step env s (s\<lparr>a_hook := TStore\<rparr>)"
| store: "a_hook s = TStore \<Longrightarrow> ae_outcome env = RunFails v \<Longrightarrow> a_cell s \<notin> {CellNull, CellFreed} \<Longrightarrow>
    hook_thread_proc_step env s (s\<lparr>a_hook := TSignal, a_cell := CellHolds v\<rparr>)"
| store_fault: "a_hook s = TStore \<Longrightarrow> a_cell s \<in> {CellNull, CellFreed} \<Longrightarrow>
    hook_thread_proc_step env s (s\<lparr>a_hook := TFault\<rparr>)"
| enabled: "a_hook s = TRun \<Longrightarrow> ae_outcome env = RunSession \<Longrightarrow>
    hook_thread_proc_step env s (s\<lparr>a_hook := TLockRunning\<rparr>)"
| stopped: "a_hook s = TEvents \<Longrightarrow>
    hook_thread_proc_step env s (s\<lparr>a_hook := TLockControl\<rparr>)"
| signal: "a_hook s = TSignal \<Longrightarrow>
    hook_thread_proc_step env s (signal_control (s\<lparr>a_hook := TUnlock\<rparr>))"
| unlock: "a_hook s = TUnlock \<Longrightarrow>
    hook_thread_proc_step env s ((unlock_control HookTask s)\<lparr>a_hook := TDone\<rparr>)"

definition thread_step :: "async_env \<Rightarrow> async_state \<Rightarrow> async_state \<Rightarrow> bool" where
  "thread_step env s s' \<longleftrightarrow> hook_thread_proc_step env s s' \<or> dispatch_sync_step env s s'"

definition async_step :: "async_env \<Rightarrow> async_state \<Rightarrow> async_state \<Rightarrow> bool" where
  "async_step env s s' \<longleftrightarrow> hook_enable_step env s s' \<or> thread_step env s s'"

text \<open>The steps of the hook thread with the rules of both relations.\<close>

lemmas async_elims = disjE hook_enable_step.cases hook_thread_proc_step.cases dispatch_sync_step.cases

lemma thread_step_cases [consumes 1, case_names thread callback]:
  assumes "thread_step env s s'"
  obtains (thread) "hook_thread_proc_step env s s'" | (callback) "dispatch_sync_step env s s'"
  using assms by (auto simp: thread_step_def)

abbreviation async_reaches :: "async_env \<Rightarrow> async_state \<Rightarrow> async_state \<Rightarrow> bool" where
  "async_reaches env \<equiv> reaches (async_step env)"

abbreviation async_path :: "async_env \<Rightarrow> async_state \<Rightarrow> async_state list \<Rightarrow> bool" where
  "async_path env \<equiv> path (async_step env)"

definition async_stuck :: "async_env \<Rightarrow> async_state \<Rightarrow> bool" where
  "async_stuck env s \<longleftrightarrow> (\<forall>s'. \<not> async_step env s s')"

section \<open>Every run ends\<close>

primrec thread_rank :: "thread_pc \<Rightarrow> nat" where
  "thread_rank TNone = 10" | "thread_rank TRun = 10" | "thread_rank TLockRunning = 9"
| "thread_rank TSignalEnabled = 8" | "thread_rank TUnlockControl = 7" | "thread_rank TEvents = 6"
| "thread_rank TLockControl = 5" | "thread_rank TStopLoop = 4" | "thread_rank TUnlockRunning = 3"
| "thread_rank TStore = 3" | "thread_rank TSignal = 2" | "thread_rank TUnlock = 1" | "thread_rank TDone = 0"
| "thread_rank TFault = 0"

definition async_rank :: "async_state \<Rightarrow> nat" where
  "async_rank s = enable_rank (a_main s) + thread_rank (a_hook s)"

lemmas async_effects = unlock_control_def unlock_running_def signal_control_def stop_main_loop_def

lemma enable_rank_decreases:
  assumes "hook_enable_step env s s'" and "a_main s = ECreate \<longrightarrow> a_hook s = TNone"
  shows "async_rank s' < async_rank s"
  using assms by (cases rule: hook_enable_step.cases) (auto simp: async_rank_def async_effects)

lemma thread_rank_decreases:
  assumes "thread_step env s s'"
  shows "async_rank s' < async_rank s"
  using assms by (cases rule: thread_step_cases; elim hook_thread_proc_step.cases dispatch_sync_step.cases)
      (auto simp: async_rank_def async_effects)

section \<open>Invariants\<close>

text \<open>The thread has woken, or would have woken, the waiting \<^verbatim>\<open>hook_enable\<close>.\<close>

definition announced :: "run_outcome \<Rightarrow> thread_pc \<Rightarrow> bool" where
  "announced outcome h \<longleftrightarrow>
     (case outcome of
        RunFails v \<Rightarrow> h \<in> {TUnlock, TDone}
      | RunSession \<Rightarrow> h \<in> {TUnlockControl, TEvents, TLockControl, TStopLoop, TUnlockRunning, TSignal, TUnlock, TDone})"

definition enabled_pcs :: "thread_pc set" where
  "enabled_pcs = {TSignalEnabled, TUnlockControl, TEvents, TLockControl, TStopLoop, TUnlockRunning}"

text \<open>\<^verbatim>\<open>hook_enable\<close> has its status.\<close>

definition answered_pcs :: "enable_pc set" where
  "answered_pcs = {EFree, EUnlock, EReturned, ERunLoop, EJoinThread, EDestroy, EDone}"

text \<open>The mutexes belong to a thread only where it has locked them; the running mutex is locked while the hook is enabled.\<close>

definition owner_inv :: "async_state \<Rightarrow> bool" where
  "owner_inv s \<longleftrightarrow>
     (a_control s = Some HookTask \<longrightarrow> a_hook s \<in> {TStopLoop, TUnlockRunning, TSignal, TUnlock})
     \<and> (a_control s = Some MainTask \<longrightarrow> a_main s \<in> {ECreate, EWait, ETry, EJoin, EFree, EUnlock, EFault})
     \<and> (a_running s = Some HookTask \<longleftrightarrow> a_hook s \<in> enabled_pcs)
     \<and> (a_running s = Some MainTask \<longrightarrow> a_main s \<in> {EJoin, EFault} \<union> answered_pcs)"

text \<open>Where the threads can be at the same time.\<close>

definition phase_inv :: "async_env \<Rightarrow> async_state \<Rightarrow> bool" where
  "phase_inv env s \<longleftrightarrow>
     (a_main s \<in> {ELock, ECreate} \<longrightarrow> a_hook s = TNone)
     \<and> (a_main s \<in> {EWait, EWaiting} \<longrightarrow> a_hook s \<noteq> TNone)
     \<and> (\<not> ae_create env \<longrightarrow> a_hook s = TNone)
     \<and> (a_main s \<in> {EWoken, ETry, EJoin, EFault} \<longrightarrow> announced (ae_outcome env) (a_hook s))
     \<and> (a_main s \<in> {EJoin, EFault} \<longrightarrow> a_hook s \<notin> enabled_pcs)
     \<and> (case ae_outcome env of
          RunFails v \<Rightarrow> a_hook s \<notin> {TLockRunning, TFault} \<union> enabled_pcs \<and> a_main s \<noteq> EFault
        | RunSession \<Rightarrow> a_hook s \<notin> {TStore, TFault})"

text \<open>What the block and the variable hold.\<close>

definition status_inv :: "async_env \<Rightarrow> async_state \<Rightarrow> bool" where
  "status_inv env s \<longleftrightarrow>
     (a_main s \<in> {ECreate, EWait, EWaiting, EWoken, ETry, EJoin, EFault} \<longrightarrow>
        a_cell s = (case ae_outcome env of
          RunFails v \<Rightarrow> if a_hook s \<in> {TSignal, TUnlock, TDone} then CellHolds v else CellUnwritten
        | RunSession \<Rightarrow> CellUnwritten))
     \<and> (a_main s \<in> answered_pcs \<longrightarrow> \<not> ae_create env \<longrightarrow> a_status s = Inr UIOHOOK_ERROR_THREAD_CREATE)
     \<and> (a_main s \<in> answered_pcs \<longrightarrow> ae_create env \<longrightarrow>
          (case ae_outcome env of
             RunFails v \<Rightarrow> a_status s = Inr v \<and> a_hook s = TDone
           | RunSession \<Rightarrow> a_status s = Inr UIOHOOK_SUCCESS \<and> announced RunSession (a_hook s)))
     \<and> (a_main s \<in> {ERunLoop, EJoinThread} \<longrightarrow> ae_create env)
     \<and> (a_main s \<in> {EDestroy, EDone} \<longrightarrow> a_hook s \<in> {TNone, TDone})
     \<and> (a_main s = EFault \<longrightarrow> a_status s = Inl UninitialisedRead \<and> a_hook s = TDone)"

lemma owner_inv_step:
  assumes "async_step env s s'" and "owner_inv s" and "a_main s = ECreate \<longrightarrow> a_hook s = TNone"
  shows "owner_inv s'"
  using assms(1) unfolding async_step_def thread_step_def
  by (elim async_elims; cases "ae_outcome env")
    (use assms(2,3) in \<open>auto simp: owner_inv_def async_effects enabled_pcs_def answered_pcs_def split: if_splits\<close>)

definition async_inv :: "async_env \<Rightarrow> async_state \<Rightarrow> bool" where
  "async_inv env s \<longleftrightarrow> owner_inv s \<and> phase_inv env s \<and> status_inv env s"

definition prompt :: "async_env \<Rightarrow> bool" where
  "prompt env \<longleftrightarrow> \<not> ae_spurious env \<and> ae_malloc env"

lemma owned_iff: "(\<exists>t. w = Some t) \<longleftrightarrow> w = Some MainTask \<or> w = Some HookTask"
  by (cases w) (auto intro: demo_thread.exhaust)

lemmas async_inv_defs = async_inv_def owner_inv_def phase_inv_def status_inv_def announced_def enabled_pcs_def
  answered_pcs_def

text \<open>What the proofs below use of the invariant; the owner of the control mutex is not among it.\<close>

lemma async_inv_facts:
  assumes "async_inv env s"
  shows "a_running s = Some HookTask \<longleftrightarrow> a_hook s \<in> enabled_pcs"
    and "a_running s = Some MainTask \<longrightarrow> a_main s \<in> {EJoin, EFault} \<union> answered_pcs"
    and "phase_inv env s" and "status_inv env s"
  using assms by (simp_all add: async_inv_def owner_inv_def)

lemmas inv_step_simps = phase_inv_def status_inv_def announced_def enabled_pcs_def answered_pcs_def read_cell_def
  async_effects owned_iff UIOHOOK_ERROR_THREAD_CREATE_def

lemma enable_phase_step:
  assumes "hook_enable_step env s s'" and "async_inv env s" and "prompt env"
  shows "phase_inv env s'"
proof (cases "ae_outcome env")
  case outcome: (RunFails v)
  note inv = async_inv_facts [OF assms(2), unfolded async_inv_defs outcome run_outcome.case] assms(3) [unfolded prompt_def]
  show ?thesis using assms(1)
    by (cases rule: hook_enable_step.cases; use inv in \<open>auto simp: inv_step_simps outcome split: if_splits\<close>)
next
  case outcome: RunSession
  note inv = async_inv_facts [OF assms(2), unfolded async_inv_defs outcome run_outcome.case] assms(3) [unfolded prompt_def]
  show ?thesis using assms(1)
    by (cases rule: hook_enable_step.cases; use inv in \<open>auto simp: inv_step_simps outcome split: if_splits\<close>)
qed

lemma enable_status_step:
  assumes "hook_enable_step env s s'" and "async_inv env s" and "prompt env"
  shows "status_inv env s'"
proof (cases "ae_outcome env")
  case outcome: (RunFails v)
  note inv = async_inv_facts [OF assms(2), unfolded async_inv_defs outcome run_outcome.case] assms(3) [unfolded prompt_def]
  show ?thesis using assms(1)
    by (cases rule: hook_enable_step.cases; use inv in \<open>auto simp: inv_step_simps outcome split: if_splits\<close>)
next
  case outcome: RunSession
  note inv = async_inv_facts [OF assms(2), unfolded async_inv_defs outcome run_outcome.case] assms(3) [unfolded prompt_def]
  show ?thesis using assms(1)
    by (cases rule: hook_enable_step.cases; use inv in \<open>auto simp: inv_step_simps outcome split: if_splits\<close>)
qed

lemma thread_phase_step:
  assumes "thread_step env s s'" and "async_inv env s" and "prompt env"
  shows "phase_inv env s'"
proof (cases "ae_outcome env")
  case outcome: (RunFails v)
  note inv = async_inv_facts [OF assms(2), unfolded async_inv_defs outcome run_outcome.case] assms(3) [unfolded prompt_def]
  show ?thesis using assms(1)
    by (cases rule: thread_step_cases; elim hook_thread_proc_step.cases dispatch_sync_step.cases; use inv in \<open>auto simp: inv_step_simps outcome split: if_splits\<close>; cases "a_main s"; simp)
next
  case outcome: RunSession
  note inv = async_inv_facts [OF assms(2), unfolded async_inv_defs outcome run_outcome.case] assms(3) [unfolded prompt_def]
  show ?thesis using assms(1)
    by (cases rule: thread_step_cases; elim hook_thread_proc_step.cases dispatch_sync_step.cases; use inv in \<open>auto simp: inv_step_simps outcome split: if_splits\<close>)
qed

lemma thread_status_step:
  assumes "thread_step env s s'" and "async_inv env s" and "prompt env"
  shows "status_inv env s'"
proof (cases "ae_outcome env")
  case outcome: (RunFails v)
  note inv = async_inv_facts [OF assms(2), unfolded async_inv_defs outcome run_outcome.case] assms(3) [unfolded prompt_def]
  show ?thesis using assms(1)
    by (cases rule: thread_step_cases; elim hook_thread_proc_step.cases dispatch_sync_step.cases; use inv in \<open>auto simp: inv_step_simps outcome split: if_splits\<close>)
next
  case outcome: RunSession
  note inv = async_inv_facts [OF assms(2), unfolded async_inv_defs outcome run_outcome.case] assms(3) [unfolded prompt_def]
  show ?thesis using assms(1)
    by (cases rule: thread_step_cases; elim hook_thread_proc_step.cases dispatch_sync_step.cases; use inv in \<open>auto simp: inv_step_simps outcome split: if_splits\<close>)
qed

lemma async_inv_init: "async_inv env async_init"
  by (simp add: async_inv_def owner_inv_def phase_inv_def status_inv_def async_init_def enabled_pcs_def answered_pcs_def
      split: run_outcome.split)

lemma async_inv_step:
  assumes "async_step env s s'" and "async_inv env s" and "prompt env"
  shows "async_inv env s'"
proof -
  have "owner_inv s'" using assms by (intro owner_inv_step [of env s s']) (auto simp: async_inv_def phase_inv_def)
  moreover have "phase_inv env s'" using assms enable_phase_step thread_phase_step unfolding async_step_def by blast
  moreover have "status_inv env s'" using assms enable_status_step thread_status_step unfolding async_step_def by blast
  ultimately show ?thesis by (simp add: async_inv_def)
qed

interpretation async: step_invariant "async_step env" "\<lambda>s. prompt env \<longrightarrow> async_inv env s" for env
  by unfold_locales (use async_inv_step in blast)

lemma async_inv_reachable:
  assumes "async_reaches env async_init s" and "prompt env"
  shows "async_inv env s"
  using async.inv_reaches [OF assms(1)] async_inv_init assms(2) by blast

lemma async_answered:
  assumes "async_inv env s" and "a_main s \<in> answered_pcs"
  shows "if \<not> ae_create env then a_status s = Inr UIOHOOK_ERROR_THREAD_CREATE \<and> a_hook s = TNone
    else case ae_outcome env of
           RunFails v \<Rightarrow> a_status s = Inr v \<and> a_hook s = TDone
         | RunSession \<Rightarrow> a_status s = Inr UIOHOOK_SUCCESS \<and> announced RunSession (a_hook s)"
proof (cases "ae_create env")
  case True
  then show ?thesis using assms(2) async_inv_facts(4) [OF assms(1)] unfolding status_inv_def by simp
next
  case False
  then show ?thesis using assms(2) async_inv_facts(3,4) [OF assms(1)] unfolding status_inv_def phase_inv_def by simp
qed

lemma async_thread_points:
  assumes "async_inv env s"
  shows "case ae_outcome env of RunFails v \<Rightarrow> a_hook s \<notin> {TLockRunning, TFault} \<union> enabled_pcs | RunSession \<Rightarrow> a_hook s \<notin> {TStore, TFault}"
  using async_inv_facts(3) [OF assms] unfolding phase_inv_def by (cases "ae_outcome env") simp_all

section \<open>Where a run ends\<close>

text \<open>A thread that is not waiting for the other one has a step.\<close>

definition main_blocked :: "async_env \<Rightarrow> async_state \<Rightarrow> bool" where
  "main_blocked env s \<longleftrightarrow> a_main s \<in> {EWaiting, EDone, EFault} \<or> a_main s \<in> {ELock, EWoken} \<and> a_control s \<noteq> None
     \<or> a_main s \<in> {EJoin, EJoinThread} \<and> a_hook s \<noteq> TDone
     \<or> a_main s = ERunLoop \<and> \<not> ae_no_source env"

definition thread_blocked :: "async_state \<Rightarrow> bool" where
  "thread_blocked s \<longleftrightarrow> a_hook s \<in> {TNone, TDone, TFault} \<or> a_hook s = TLockRunning \<and> a_running s \<noteq> None
     \<or> a_hook s = TLockControl \<and> a_control s \<noteq> None"

lemma enable_can_step: "\<not> main_blocked env s \<Longrightarrow> \<exists>s'. hook_enable_step env s s'"
  by (cases "a_main s"; cases "ae_create env"; cases "ae_no_source env"; cases "a_running s"; cases "a_status s = Inr UIOHOOK_SUCCESS")
    (auto simp: main_blocked_def intro: hook_enable_step.intros hook_enable_step.busy [OF _ option.discI])

lemma thread_can_step:
  "\<not> thread_blocked s \<Longrightarrow> (a_hook s = TStore \<longrightarrow> ae_outcome env \<noteq> RunSession) \<Longrightarrow> \<exists>s'. thread_step env s s'"
  by (cases "a_hook s"; cases "ae_outcome env"; cases "a_cell s \<in> {CellNull, CellFreed}")
    (auto simp: thread_blocked_def simp: thread_step_def intro: hook_thread_proc_step.intros dispatch_sync_step.intros)

text \<open>Who keeps a thread from going on.\<close>

lemma control_owner:
  assumes "async_inv env s"
  shows "a_control s = Some HookTask \<longrightarrow> a_hook s \<in> {TStopLoop, TUnlockRunning, TSignal, TUnlock}"
    and "a_control s = Some MainTask \<longrightarrow> a_main s \<in> {ECreate, EWait, ETry, EJoin, EFree, EUnlock, EFault}"
  using assms unfolding async_inv_def owner_inv_def by blast+

lemma thread_blocked_by:
  assumes "async_inv env s" and "thread_blocked s"
  shows "a_hook s \<in> {TNone, TDone} \<or> a_hook s = TLockRunning \<and> a_main s \<in> {EJoin, EFault} \<union> answered_pcs
    \<or> a_hook s = TLockControl \<and> a_main s \<in> {ECreate, EWait, ETry, EJoin, EFree, EUnlock, EFault}"
proof -
  have "a_hook s \<noteq> TFault" using async_thread_points [OF assms(1)] by (force split: run_outcome.splits)
  with assms(2) consider "a_hook s \<in> {TNone, TDone}" | "a_hook s = TLockRunning" "a_running s \<noteq> None"
    | "a_hook s = TLockControl" "a_control s \<noteq> None" unfolding thread_blocked_def by blast
  then show ?thesis
  proof cases
    case 2
    then have "a_running s \<noteq> Some HookTask" using async_inv_facts(1) [OF assms(1)] by (simp add: enabled_pcs_def)
    then have "a_running s = Some MainTask" using 2(2) by (simp add: owned_iff)
    with 2 show ?thesis using async_inv_facts(2) [OF assms(1)] by simp
  next
    case 3
    then have "a_control s \<noteq> Some HookTask" using control_owner(1) [OF assms(1)] by auto
    then have "a_control s = Some MainTask" using 3(2) by (simp add: owned_iff)
    with 3 show ?thesis using control_owner(2) [OF assms(1)] by simp
  qed simp
qed

lemma announced_thread:
  assumes "async_inv env s" and "a_main s \<in> {EWoken, ETry, EJoin, ERunLoop, EJoinThread}"
  shows "announced (ae_outcome env) (a_hook s)"
proof (cases "a_main s \<in> {ERunLoop, EJoinThread}")
  case True
  then have "ae_create env" using async_inv_facts(4) [OF assms(1)] unfolding status_inv_def by blast
  with True async_answered [OF assms(1)] show ?thesis
    by (cases "ae_outcome env") (auto simp: answered_pcs_def announced_def)
next
  case False
  with assms(2) async_inv_facts(3) [OF assms(1)] show ?thesis unfolding phase_inv_def by blast
qed

lemma blocked_cases:
  assumes "async_inv env s" and "main_blocked env s" and "thread_blocked s"
  shows "a_main s = EDone \<or> a_main s = EFault \<or> a_main s \<in> {EWaiting, ERunLoop} \<and> a_hook s = TDone"
proof -
  have ph: "a_main s = EWaiting \<longrightarrow> a_hook s \<noteq> TNone" "a_main s = EJoin \<longrightarrow> a_hook s \<notin> enabled_pcs"
    using async_inv_facts(3) [OF assms(1)] unfolding phase_inv_def by blast+
  have control: "a_hook s \<in> {TStopLoop, TUnlockRunning, TSignal, TUnlock}"
    if "a_main s \<in> {ELock, EWoken}" "a_control s \<noteq> None"
  proof -
    have "a_control s \<noteq> Some MainTask" using that(1) control_owner(2) [OF assms(1)] by auto
    then show ?thesis using that(2) control_owner(1) [OF assms(1)] by (auto simp: owned_iff)
  qed
  from assms(2) consider "a_main s \<in> {EDone, EFault}" | "a_main s = EWaiting" | "a_main s \<in> {ELock, EWoken}" "a_control s \<noteq> None"
    | "a_main s \<in> {EJoin, EJoinThread}" "a_hook s \<noteq> TDone" | "a_main s = ERunLoop" unfolding main_blocked_def by blast
  then show ?thesis
  proof cases
    case 2
    with ph(1) thread_blocked_by [OF assms(1,3)] show ?thesis by (auto simp: answered_pcs_def)
  next
    case 3
    with control thread_blocked_by [OF assms(1,3)] show ?thesis by auto
  next
    case 4
    with ph(2) announced_thread [OF assms(1)] thread_blocked_by [OF assms(1,3)] show ?thesis
      by (cases "ae_outcome env") (auto simp: announced_def enabled_pcs_def)
  next
    case 5
    with announced_thread [OF assms(1)] thread_blocked_by [OF assms(1,3)] show ?thesis
      by (cases "ae_outcome env") (auto simp: announced_def)
  qed auto
qed

lemma stuck_cases:
  assumes "async_inv env s" and "async_stuck env s"
  shows "a_main s = EDone \<or> a_main s = EFault \<or> a_main s \<in> {EWaiting, ERunLoop} \<and> a_hook s = TDone"
proof -
  have store: "a_hook s = TStore \<longrightarrow> ae_outcome env \<noteq> RunSession"
    using async_thread_points [OF assms(1)] by (auto split: run_outcome.splits)
  have "main_blocked env s" using enable_can_step assms(2) by (auto simp: async_stuck_def async_step_def)
  moreover have "thread_blocked s"
    using thread_can_step [OF _ store] assms(2) by (auto simp: async_stuck_def async_step_def)
  ultimately show ?thesis by (rule blocked_cases [OF assms(1)])
qed

section \<open>Runs\<close>

definition created_once :: "async_state \<Rightarrow> bool" where
  "created_once s \<longleftrightarrow> (a_main s \<in> {ELock, ECreate} \<longrightarrow> a_hook s = TNone)"

lemma created_once_step:
  assumes "async_step env s s'" and "created_once s"
  shows "created_once s'"
  using assms(1) unfolding async_step_def thread_step_def
  by (elim async_elims) (use assms(2) in \<open>auto simp: created_once_def async_effects split: if_splits\<close>)

lemma async_rank_decreases: "async_step env s s' \<Longrightarrow> created_once s \<Longrightarrow> async_rank s' < async_rank s"
  using enable_rank_decreases thread_rank_decreases by (auto simp: async_step_def created_once_def)

interpretation async_ranked: step_rank "async_step env" created_once async_rank for env
  by unfold_locales (use created_once_step async_rank_decreases in blast)+

text \<open>\<^verbatim>\<open>hook_enable\<close> waits, and the thread has not signalled before.\<close>

definition in_time :: "async_env \<Rightarrow> async_state \<Rightarrow> bool" where
  "in_time env s \<longleftrightarrow> a_main s \<notin> {ELock, ECreate, EWait}
     \<and> (a_main s = EWaiting \<longrightarrow> \<not> announced (ae_outcome env) (a_hook s))"

lemma in_time_step:
  assumes "async_step env s s'" and "in_time env s"
  shows "in_time env s'"
  using assms(1) unfolding async_step_def thread_step_def
  by (elim async_elims; cases "ae_outcome env")
    (use assms(2) in \<open>auto simp: in_time_def announced_def async_effects split: if_splits\<close>)

interpretation async_time: step_invariant "async_step env" "in_time env" for env
  by unfold_locales (use in_time_step in blast)

text \<open>A stop that is kept reaches a main run loop that runs later.\<close>

definition loop_inv :: "async_env \<Rightarrow> async_state \<Rightarrow> bool" where
  "loop_inv env s \<longleftrightarrow>
     (ae_outcome env = RunSession \<and> ae_darwin env \<and> ae_stop_kept env \<and> a_hook s \<in> {TUnlockRunning, TSignal, TUnlock, TDone}
        \<longrightarrow> a_stop s \<or> a_main s \<in> {EJoinThread, EDestroy, EDone})
     \<and> (a_main s = ERunLoop \<longrightarrow> ae_darwin env \<and> \<not> a_stop s \<and> a_status s = Inr UIOHOOK_SUCCESS)
     \<and> (a_main s \<in> {ELock, ECreate} \<longrightarrow> a_hook s = TNone)
     \<and> (ae_outcome env = RunSession \<longrightarrow> a_hook s \<noteq> TStore)"

lemma loop_inv_step:
  assumes "async_step env s s'" and "loop_inv env s"
  shows "loop_inv env s'"
  using assms(1) unfolding async_step_def thread_step_def
  by (elim async_elims; cases "ae_outcome env")
    (use assms(2) in \<open>auto simp: loop_inv_def async_effects split: if_splits\<close>)

interpretation async_loop: step_invariant "async_step env" "loop_inv env" for env
  by unfold_locales (use loop_inv_step in blast)

lemma loop_not_stopped:
  assumes "async_reaches env async_init s" and "async_inv env s" and "a_main s = ERunLoop" and "a_hook s = TDone"
    and "ae_outcome env \<noteq> RunFails UIOHOOK_SUCCESS"
  shows "ae_darwin env \<and> \<not> ae_stop_kept env"
proof -
  have "loop_inv env async_init" by (simp add: loop_inv_def async_init_def)
  from async_loop.inv_reaches [OF assms(1) this] have loop: "loop_inv env s" .
  have "status_inv env s" using assms(2) by (simp add: async_inv_def)
  with assms(3,4,5) loop have "ae_outcome env = RunSession"
    by (cases "ae_outcome env") (auto simp: status_inv_def loop_inv_def answered_pcs_def)
  with loop assms(3,4) show ?thesis by (auto simp: loop_inv_def)
qed

lemma stuck_in_loop: "async_stuck env s \<Longrightarrow> a_main s = ERunLoop \<Longrightarrow> \<not> ae_no_source env"
  using hook_enable_step.loop_empty by (fastforce simp: async_stuck_def async_step_def)

section \<open>Example runs\<close>

inductive_simps hook_enable_step_iff: "hook_enable_step env s s'"
inductive_simps dispatch_sync_step_iff: "dispatch_sync_step env s s'"
inductive_simps hook_thread_proc_step_iff: "hook_thread_proc_step env s s'"

lemmas async_step_iff = async_step_def thread_step_def hook_enable_step_iff dispatch_sync_step_iff hook_thread_proc_step_iff

definition task :: "enable_pc \<Rightarrow> thread_pc \<Rightarrow> demo_thread option \<Rightarrow> demo_thread option \<Rightarrow> status_cell \<Rightarrow> c_int result
    \<Rightarrow> bool \<Rightarrow> bool \<Rightarrow> async_state" where
  "task m h c r cell st f d = \<lparr>a_main = m, a_hook = h, a_control = c, a_running = r, a_cell = cell, a_status = st,
     a_foreign = f, a_destroyed_locked = d, a_stop = False\<rparr>"

definition async_good :: "run_outcome \<Rightarrow> async_env" where
  "async_good outcome = \<lparr>ae_spurious = False, ae_malloc = True, ae_create = True, ae_outcome = outcome,
     ae_darwin = False, ae_stop_kept = False, ae_no_source = False\<rparr>"

text \<open>A start that fails, reported; a hook that signals before it is waited for; one that is stopped at once.\<close>

definition failed_start :: "async_state list" where
  "failed_start =
     [task ECreate TNone (Some MainTask) None CellUnwritten (Inr 1) False False,
      task EWait TRun (Some MainTask) None CellUnwritten (Inr 1) False False,
      task EWaiting TRun None None CellUnwritten (Inr 1) False False,
      task EWaiting TStore None None CellUnwritten (Inr 1) False False,
      task EWaiting TSignal None None (CellHolds 0x20) (Inr 1) False False,
      task EWoken TUnlock None None (CellHolds 0x20) (Inr 1) False False,
      task EWoken TDone None None (CellHolds 0x20) (Inr 1) True False,
      task ETry TDone (Some MainTask) None (CellHolds 0x20) (Inr 1) True False,
      task EJoin TDone (Some MainTask) (Some MainTask) (CellHolds 0x20) (Inr 1) True False,
      task EFree TDone (Some MainTask) (Some MainTask) (CellHolds 0x20) (Inr 0x20) True False,
      task EUnlock TDone (Some MainTask) (Some MainTask) CellFreed (Inr 0x20) True False,
      task EReturned TDone None (Some MainTask) CellFreed (Inr 0x20) True False,
      task EDestroy TDone None (Some MainTask) CellFreed (Inr 0x20) True False,
      task EDone TDone None (Some MainTask) CellFreed (Inr 0x20) True True]"

definition early_signal :: "async_state list" where
  "early_signal =
     [task ECreate TNone (Some MainTask) None CellUnwritten (Inr 1) False False,
      task EWait TRun (Some MainTask) None CellUnwritten (Inr 1) False False,
      task EWait TStore (Some MainTask) None CellUnwritten (Inr 1) False False,
      task EWait TSignal (Some MainTask) None (CellHolds 0x20) (Inr 1) False False,
      task EWait TUnlock (Some MainTask) None (CellHolds 0x20) (Inr 1) False False,
      task EWait TDone None None (CellHolds 0x20) (Inr 1) True False,
      task EWaiting TDone None None (CellHolds 0x20) (Inr 1) True False]"

definition short_session :: "async_state list" where
  "short_session =
     [task ECreate TNone (Some MainTask) None CellUnwritten (Inr 1) False False,
      task EWait TRun (Some MainTask) None CellUnwritten (Inr 1) False False,
      task EWaiting TRun None None CellUnwritten (Inr 1) False False,
      task EWaiting TLockRunning None None CellUnwritten (Inr 1) False False,
      task EWaiting TSignalEnabled None (Some HookTask) CellUnwritten (Inr 1) False False,
      task EWoken TUnlockControl None (Some HookTask) CellUnwritten (Inr 1) False False,
      task EWoken TEvents None (Some HookTask) CellUnwritten (Inr 1) True False,
      task EWoken TLockControl None (Some HookTask) CellUnwritten (Inr 1) True False,
      task EWoken TUnlockRunning (Some HookTask) (Some HookTask) CellUnwritten (Inr 1) True False,
      task EWoken TSignal (Some HookTask) None CellUnwritten (Inr 1) True False,
      task EWoken TUnlock (Some HookTask) None CellUnwritten (Inr 1) True False,
      task EWoken TDone None None CellUnwritten (Inr 1) True False,
      task ETry TDone (Some MainTask) None CellUnwritten (Inr 1) True False,
      task EJoin TDone (Some MainTask) (Some MainTask) CellUnwritten (Inr 1) True False,
      task EFault TDone (Some MainTask) (Some MainTask) CellUnwritten (Inl UninitialisedRead) True False]"

definition woken_too_early :: "async_state list" where
  "woken_too_early =
     [task ECreate TNone (Some MainTask) None CellUnwritten (Inr 1) False False,
      task EWait TRun (Some MainTask) None CellUnwritten (Inr 1) False False,
      task EWaiting TRun None None CellUnwritten (Inr 1) False False,
      task EWoken TRun None None CellUnwritten (Inr 1) False False,
      task ETry TRun (Some MainTask) None CellUnwritten (Inr 1) False False,
      task EJoin TRun (Some MainTask) (Some MainTask) CellUnwritten (Inr 1) False False,
      task EJoin TLockRunning (Some MainTask) (Some MainTask) CellUnwritten (Inr 1) False False]"

text \<open>On Darwin, a hook that is stopped before \<^verbatim>\<open>main\<close> runs its loop.\<close>

definition lost_stop :: "async_state list" where
  "lost_stop =
     [task ECreate TNone (Some MainTask) None CellUnwritten (Inr 1) False False,
      task EWait TRun (Some MainTask) None CellUnwritten (Inr 1) False False,
      task EWaiting TRun None None CellUnwritten (Inr 1) False False,
      task EWaiting TLockRunning None None CellUnwritten (Inr 1) False False,
      task EWaiting TSignalEnabled None (Some HookTask) CellUnwritten (Inr 1) False False,
      task EWoken TUnlockControl None (Some HookTask) CellUnwritten (Inr 1) False False,
      task EWoken TEvents None (Some HookTask) CellUnwritten (Inr 1) True False,
      task ETry TEvents (Some MainTask) (Some HookTask) CellUnwritten (Inr 1) True False,
      task EFree TEvents (Some MainTask) (Some HookTask) CellUnwritten (Inr 0) True False,
      task EUnlock TEvents (Some MainTask) (Some HookTask) CellFreed (Inr 0) True False,
      task EReturned TEvents None (Some HookTask) CellFreed (Inr 0) True False,
      task EReturned TLockControl None (Some HookTask) CellFreed (Inr 0) True False,
      task EReturned TStopLoop (Some HookTask) (Some HookTask) CellFreed (Inr 0) True False,
      task EReturned TUnlockRunning (Some HookTask) (Some HookTask) CellFreed (Inr 0) True False,
      task EReturned TSignal (Some HookTask) None CellFreed (Inr 0) True False,
      task EReturned TUnlock (Some HookTask) None CellFreed (Inr 0) True False,
      task EReturned TDone None None CellFreed (Inr 0) True False,
      task ERunLoop TDone None None CellFreed (Inr 0) True False]"

lemmas run_defs = task_def async_init_def async_good_def async_step_iff async_effects read_cell_def free_cell_def

lemma failed_start_path: "async_path (async_good (RunFails 0x20)) async_init failed_start"
  by (simp add: failed_start_def run_defs)

lemma early_signal_path: "async_path (async_good (RunFails 0x20)) async_init early_signal"
  by (simp add: early_signal_def run_defs)

lemma short_session_path: "async_path (async_good RunSession) async_init short_session"
  by (simp add: short_session_def run_defs)

lemma woken_too_early_path: "async_path ((async_good RunSession)\<lparr>ae_spurious := True\<rparr>) async_init woken_too_early"
  by (simp add: woken_too_early_def run_defs)

lemma lost_stop_path: "async_path ((async_good RunSession)\<lparr>ae_darwin := True\<rparr>) async_init lost_stop"
  by (simp add: lost_stop_def run_defs)

section \<open>The start as its specification has it\<close>

text \<open>What a caller may be told: the error of the start, success once the hook was enabled, or that there is no thread.\<close>

definition status_answers :: "hook_phase \<Rightarrow> c_int set" where
  "status_answers p =
     (case p of NotStarted \<Rightarrow> {UIOHOOK_ERROR_THREAD_CREATE} | Starting \<Rightarrow> {} | Failed v \<Rightarrow> {v}
      | Enabled \<Rightarrow> {UIOHOOK_SUCCESS} | Stopped \<Rightarrow> {UIOHOOK_SUCCESS})"

definition async_view :: "async_env \<Rightarrow> async_state \<Rightarrow> hook_phase \<times> c_int option" where
  "async_view env s = (phase_of (ae_outcome env) (a_hook s),
     if a_main s \<in> answered_pcs then (case a_status s of Inl f \<Rightarrow> None | Inr v \<Rightarrow> Some v) else None)"

lemma async_view_init: "async_view env async_init = (NotStarted, None)"
  by (simp add: async_view_def async_init_def phase_of_def answered_pcs_def)

lemma async_answer_allowed:
  assumes "async_inv env s" and "a_main s \<in> answered_pcs"
  shows "\<exists>v. a_status s = Inr v \<and> v \<in> status_answers (phase_of (ae_outcome env) (a_hook s))"
  using async_answered [OF assms]
  by (cases "ae_outcome env") (auto simp: status_answers_def phase_of_def announced_def thread_order split: if_splits)

lemma enable_simulates:
  assumes "hook_enable_step env s s'" and "async_inv env s" and "async_inv env s'"
  shows "async_view env s' = async_view env s \<or> start_spec status_answers (async_view env s) (async_view env s')"
proof (cases "a_main s' \<in> answered_pcs \<and> a_main s \<notin> answered_pcs")
  case True
  then obtain v where "a_status s' = Inr v" "v \<in> status_answers (phase_of (ae_outcome env) (a_hook s'))"
    using async_answer_allowed [OF assms(3)] by blast
  moreover have "a_hook s' = a_hook s"
    using assms(1) True by (cases rule: hook_enable_step.cases) (auto simp: answered_pcs_def async_effects)
  ultimately show ?thesis using True by (simp add: async_view_def start_spec.answer)
next
  case False
  have "a_main s = ECreate \<longrightarrow> a_hook s = TNone" using assms(2) by (simp add: async_inv_def phase_inv_def)
  with assms(1) False show ?thesis
    by (cases rule: hook_enable_step.cases)
      (auto simp: async_view_def answered_pcs_def async_effects phase_of_def thread_order
        split: run_outcome.splits intro: start_spec.launch)
qed

lemma thread_simulates:
  assumes "thread_step env s s'" and "async_inv env s"
  shows "async_view env s' = async_view env s \<or> start_spec status_answers (async_view env s) (async_view env s')"
  using assms(1)
  by (cases rule: thread_step_cases; elim hook_thread_proc_step.cases dispatch_sync_step.cases; cases "ae_outcome env")
    (use async_thread_points [OF assms(2)] in \<open>auto simp: async_view_def answered_pcs_def async_effects phase_of_def
      enabled_pcs_def thread_order intro: start_spec.intros\<close>)

interpretation async_start: step_simulation "async_step env" "\<lambda>s. prompt env \<and> async_inv env s"
  "start_spec status_answers" "async_view env" for env
proof
  fix s s'
  assume step: "async_step env s s'" and inv: "prompt env \<and> async_inv env s"
  then show "prompt env \<and> async_inv env s'" using async_inv_step by blast
  then show "async_view env s' = async_view env s \<or> start_spec status_answers (async_view env s) (async_view env s')"
    using step inv enable_simulates [of env s s'] thread_simulates [of env s s'] unfolding async_step_def by blast
qed

section \<open>Properties\<close>





text \<open>
  The protocol has no predicate that \<^verbatim>\<open>hook_enable\<close> tests before and after it waits: it waits for ever when
  the hook thread signals first; it deadlocks with the thread, which needs the running mutex, when the
  wait ends without a signal; and it reads an unwritten status when the session is over before it
  looks. On Darwin a stop that comes before the main run loop runs is lost, and the loop never ends. The
  thread unlocks a control mutex it does not own in every one of these runs but the second.
\<close>

theorem hook_enable_hazards:
  "(\<exists>s. async_reaches (async_good (RunFails 0x20)) async_init s \<and> async_stuck (async_good (RunFails 0x20)) s
      \<and> a_main s = EWaiting \<and> a_foreign s)
   \<and> (\<exists>s. async_reaches ((async_good RunSession)\<lparr>ae_spurious := True\<rparr>) async_init s
      \<and> async_stuck ((async_good RunSession)\<lparr>ae_spurious := True\<rparr>) s \<and> a_main s = EJoin \<and> a_hook s = TLockRunning)
   \<and> (\<exists>s. async_reaches (async_good RunSession) async_init s \<and> a_main s = EFault
      \<and> a_status s = Inl UninitialisedRead \<and> a_foreign s)
   \<and> (\<exists>s. async_reaches ((async_good RunSession)\<lparr>ae_darwin := True\<rparr>) async_init s
      \<and> async_stuck ((async_good RunSession)\<lparr>ae_darwin := True\<rparr>) s \<and> a_main s = ERunLoop \<and> a_foreign s)"
proof (intro conjI)
  show "\<exists>s. async_reaches (async_good (RunFails 0x20)) async_init s \<and> async_stuck (async_good (RunFails 0x20)) s
      \<and> a_main s = EWaiting \<and> a_foreign s"
    using path_reaches [OF early_signal_path]
    by (intro exI [of _ "last (async_init # early_signal)"]) (simp add: early_signal_def async_stuck_def run_defs)
  show "\<exists>s. async_reaches ((async_good RunSession)\<lparr>ae_spurious := True\<rparr>) async_init s
      \<and> async_stuck ((async_good RunSession)\<lparr>ae_spurious := True\<rparr>) s \<and> a_main s = EJoin \<and> a_hook s = TLockRunning"
    using path_reaches [OF woken_too_early_path]
    by (intro exI [of _ "last (async_init # woken_too_early)"]) (simp add: woken_too_early_def async_stuck_def run_defs)
  show "\<exists>s. async_reaches (async_good RunSession) async_init s \<and> a_main s = EFault
      \<and> a_status s = Inl UninitialisedRead \<and> a_foreign s"
    using path_reaches [OF short_session_path]
    by (intro exI [of _ "last (async_init # short_session)"]) (simp add: short_session_def task_def)
  show "\<exists>s. async_reaches ((async_good RunSession)\<lparr>ae_darwin := True\<rparr>) async_init s
      \<and> async_stuck ((async_good RunSession)\<lparr>ae_darwin := True\<rparr>) s \<and> a_main s = ERunLoop \<and> a_foreign s"
    using path_reaches [OF lost_stop_path]
    by (intro exI [of _ "last (async_init # lost_stop)"]) (simp add: lost_stop_def async_stuck_def run_defs)
qed

section \<open>Output\<close>

text \<open>
  The callback prints as that of the synchronous demo does; the enabled and the disabled event have
  the locks of the steps above and no detail. \<^verbatim>\<open>main\<close> ends its messages with a newline.
\<close>

definition async_dispatch_proc :: "demo_env \<Rightarrow> uiohook_event \<Rightarrow> 'a demo_scheme \<Rightarrow> 'a demo_scheme result" where
  "async_dispatch_proc env e s = dispatch_proc env e s"

definition async_main :: "demo_env \<Rightarrow> c_int \<Rightarrow> 'a demo_scheme \<Rightarrow> 'a demo_scheme \<times> c_int" where
  "async_main env status s = (log_error env (run_message [CHR 0x0A] status) s, status)"

text \<open>
  A thread that could not be created is reported as an unknown error: the \<open>switch\<close> has no case for
  the code that \<^verbatim>\<open>hook_enable\<close> returns.
\<close>

theorem thread_create_unnamed:
  "run_message [CHR 0x0A] UIOHOOK_ERROR_THREAD_CREATE = Some (''An unknown hook error occurred. (0X10)'' @ [CHR 0x0A])"
  by (simp add: run_message_def run_text_def UIOHOOK_ERROR_THREAD_CREATE_def show_defs digits.simps digit_char_def)

end
