(* ===== verification/Demo_Hook_Async_Windows.thy ===== *)
theory Demo_Hook_Async_Windows
  imports Demo_Start_Protocol
begin

text \<open>
  \<^verbatim>\<open>demo/demo_hook_async.c\<close> as it is built for Windows: critical sections and a condition variable, a thread
  handle that is compared with the wrong constant, and an exit code that is fetched and not used.
  \<^verbatim>\<open>hook_run\<close> sends the disabled event also when the start fails, so the callback enters the control section
  on every path. What leaving a section of another thread does is an argument of the model.
\<close>

section \<open>Critical sections\<close>

text \<open>Free, owned and entered a number of times, or such that no thread can enter it any more.\<close>

datatype critical_section = CsFree | CsOwned demo_thread nat | CsBroken

definition EnterCriticalSection :: "demo_thread \<Rightarrow> critical_section \<Rightarrow> critical_section option" where
  "EnterCriticalSection t cs =
     (case cs of CsFree \<Rightarrow> Some (CsOwned t 1)
      | CsOwned u n \<Rightarrow> if u = t then Some (CsOwned t (n + 1)) else None
      | CsBroken \<Rightarrow> None)"

text \<open>
  Leaving a section that the thread does not own frees it when \<open>lenient\<close>; otherwise threads that enter it
  later wait for ever, as the documentation warns.
\<close>

definition LeaveCriticalSection :: "bool \<Rightarrow> demo_thread \<Rightarrow> critical_section \<Rightarrow> critical_section" where
  "LeaveCriticalSection lenient t cs =
     (case cs of CsOwned u n \<Rightarrow>
        if u = t then (if n \<le> 1 then CsFree else CsOwned t (n - 1)) else if lenient then CsFree else CsBroken
      | CsFree \<Rightarrow> if lenient then CsFree else CsBroken
      | CsBroken \<Rightarrow> CsBroken)"

section \<open>State\<close>

text \<open>\<^verbatim>\<open>CreateThread\<close> answers a null handle when it fails; \<open>HandleInvalid\<close> is what \<^verbatim>\<open>hook_enable\<close> compares it with.\<close>

datatype thread_handle = HandleNull | HandleInvalid | HandleThread

record win_async_env =
  we_spurious :: bool
  we_malloc :: bool
  we_handle :: thread_handle
  we_outcome :: run_outcome
  we_lenient :: bool

record win_async =
  wa_main :: enable_pc
  wa_hook :: thread_pc
  wa_control :: critical_section
  wa_running :: critical_section
  wa_cell :: status_cell
  wa_status :: c_int

definition win_async_init :: win_async where
  "win_async_init = \<lparr>wa_main = ELock, wa_hook = TNone, wa_control = CsFree, wa_running = CsFree, wa_cell = CellNull,
     wa_status = UIOHOOK_FAILURE\<rparr>"

definition leave_control :: "win_async_env \<Rightarrow> demo_thread \<Rightarrow> win_async \<Rightarrow> win_async" where
  "leave_control env t s = s\<lparr>wa_control := LeaveCriticalSection (we_lenient env) t (wa_control s)\<rparr>"

definition leave_running :: "win_async_env \<Rightarrow> demo_thread \<Rightarrow> win_async \<Rightarrow> win_async" where
  "leave_running env t s = s\<lparr>wa_running := LeaveCriticalSection (we_lenient env) t (wa_running s)\<rparr>"

definition WakeConditionVariable :: "win_async \<Rightarrow> win_async" where
  "WakeConditionVariable s = (if wa_main s = EWaiting then s\<lparr>wa_main := EWoken\<rparr> else s)"

text \<open>
  \<^verbatim>\<open>WaitForSingleObject\<close> and \<^verbatim>\<open>GetExitCodeThread\<close>: with a null handle both fail at once. The exit code is the
  status of \<^verbatim>\<open>hook_run\<close>.
\<close>

definition thread_ended :: "win_async_env \<Rightarrow> win_async \<Rightarrow> bool" where
  "thread_ended env s \<longleftrightarrow> we_handle env \<noteq> HandleThread \<or> wa_hook s = TDone"

definition exit_code :: "run_outcome \<Rightarrow> c_int" where
  "exit_code outcome = (case outcome of RunFails v \<Rightarrow> v | RunSession \<Rightarrow> UIOHOOK_SUCCESS)"

definition GetExitCodeThread :: "win_async_env \<Rightarrow> status_cell \<Rightarrow> status_cell option" where
  "GetExitCodeThread env cell =
     (if we_handle env \<noteq> HandleThread then Some cell
      else if cell \<in> {CellNull, CellFreed} then None else Some (CellHolds (exit_code (we_outcome env))))"

section \<open>Steps\<close>

inductive win_enable_step :: "win_async_env \<Rightarrow> win_async \<Rightarrow> win_async \<Rightarrow> bool" for env :: win_async_env where
  enter: "wa_main s = ELock \<Longrightarrow> EnterCriticalSection MainTask (wa_control s) = Some cs \<Longrightarrow>
    win_enable_step env s (s\<lparr>wa_main := ECreate, wa_control := cs,
      wa_cell := (if we_malloc env then CellUnwritten else CellNull)\<rparr>)"
| create: "wa_main s = ECreate \<Longrightarrow> we_handle env \<noteq> HandleInvalid \<Longrightarrow>
    win_enable_step env s (s\<lparr>wa_main := EWait, wa_hook := (if we_handle env = HandleThread then TRun else wa_hook s)\<rparr>)"
| create_fails: "wa_main s = ECreate \<Longrightarrow> we_handle env = HandleInvalid \<Longrightarrow>
    win_enable_step env s (s\<lparr>wa_main := EUnlock, wa_status := UIOHOOK_ERROR_THREAD_CREATE\<rparr>)"
| sleep: "wa_main s = EWait \<Longrightarrow>
    win_enable_step env s ((leave_control env MainTask s)\<lparr>wa_main := EWaiting\<rparr>)"
| wake: "we_spurious env \<Longrightarrow> wa_main s = EWaiting \<Longrightarrow>
    win_enable_step env s (s\<lparr>wa_main := EWoken\<rparr>)"
| reenter: "wa_main s = EWoken \<Longrightarrow> EnterCriticalSection MainTask (wa_control s) = Some cs \<Longrightarrow>
    win_enable_step env s (s\<lparr>wa_main := ETry, wa_control := cs\<rparr>)"
| try_enter: "wa_main s = ETry \<Longrightarrow> EnterCriticalSection MainTask (wa_running s) = Some cs \<Longrightarrow>
    win_enable_step env s (s\<lparr>wa_main := EJoin, wa_running := cs\<rparr>)"
| busy: "wa_main s = ETry \<Longrightarrow> EnterCriticalSection MainTask (wa_running s) = None \<Longrightarrow>
    win_enable_step env s (s\<lparr>wa_main := EFree, wa_status := UIOHOOK_SUCCESS\<rparr>)"
| join: "wa_main s = EJoin \<Longrightarrow> thread_ended env s \<Longrightarrow> GetExitCodeThread env (wa_cell s) = Some cell \<Longrightarrow>
    win_enable_step env s (s\<lparr>wa_main := EFree, wa_cell := cell\<rparr>)"
| join_fault: "wa_main s = EJoin \<Longrightarrow> thread_ended env s \<Longrightarrow> GetExitCodeThread env (wa_cell s) = None \<Longrightarrow>
    win_enable_step env s (s\<lparr>wa_main := EFault\<rparr>)"
| free: "wa_main s = EFree \<Longrightarrow>
    win_enable_step env s (s\<lparr>wa_main := EUnlock, wa_cell := free_cell (wa_cell s)\<rparr>)"
| leave: "wa_main s = EUnlock \<Longrightarrow>
    win_enable_step env s ((leave_control env MainTask s)\<lparr>wa_main := EReturned\<rparr>)"
| returned: "wa_main s = EReturned \<Longrightarrow>
    win_enable_step env s (s\<lparr>wa_main := (if wa_status s = UIOHOOK_SUCCESS then EJoinThread else EDestroy)\<rparr>)"
| join_thread: "wa_main s = EJoinThread \<Longrightarrow> thread_ended env s \<Longrightarrow>
    win_enable_step env s (s\<lparr>wa_main := EDestroy\<rparr>)"
| destroy: "wa_main s = EDestroy \<Longrightarrow>
    win_enable_step env s (s\<lparr>wa_main := EDone\<rparr>)"

text \<open>The callback, for the enabled and the disabled event.\<close>

inductive win_dispatch_step :: "win_async_env \<Rightarrow> win_async \<Rightarrow> win_async \<Rightarrow> bool" for env :: win_async_env where
  enter_running: "wa_hook s = TLockRunning \<Longrightarrow> EnterCriticalSection HookTask (wa_running s) = Some cs \<Longrightarrow>
    win_dispatch_step env s (s\<lparr>wa_hook := TSignalEnabled, wa_running := cs\<rparr>)"
| wake_enabled: "wa_hook s = TSignalEnabled \<Longrightarrow>
    win_dispatch_step env s (WakeConditionVariable (s\<lparr>wa_hook := TUnlockControl\<rparr>))"
| leave_enabled: "wa_hook s = TUnlockControl \<Longrightarrow>
    win_dispatch_step env s ((leave_control env HookTask s)\<lparr>wa_hook := TEvents\<rparr>)"
| enter_control: "wa_hook s = TLockControl \<Longrightarrow> EnterCriticalSection HookTask (wa_control s) = Some cs \<Longrightarrow>
    win_dispatch_step env s (s\<lparr>wa_hook := TUnlockRunning, wa_control := cs\<rparr>)"
| leave_disabled: "wa_hook s = TUnlockRunning \<Longrightarrow>
    win_dispatch_step env s ((leave_running env HookTask s)
      \<lparr>wa_hook := (if we_outcome env = RunSession then TSignal else TStore)\<rparr>)"

text \<open>
  \<^verbatim>\<open>hook_thread_proc\<close>: when the hooks cannot be set, \<^verbatim>\<open>hook_run\<close> goes to the disabled event at once.
\<close>

inductive win_thread_proc_step :: "win_async_env \<Rightarrow> win_async \<Rightarrow> win_async \<Rightarrow> bool" for env :: win_async_env where
  run: "wa_hook s = TRun \<Longrightarrow>
    win_thread_proc_step env s (s\<lparr>wa_hook := (if we_outcome env = RunSession then TLockRunning else TLockControl)\<rparr>)"
| quit: "wa_hook s = TEvents \<Longrightarrow>
    win_thread_proc_step env s (s\<lparr>wa_hook := TLockControl\<rparr>)"
| store: "wa_hook s = TStore \<Longrightarrow> wa_cell s \<notin> {CellNull, CellFreed} \<Longrightarrow>
    win_thread_proc_step env s (s\<lparr>wa_hook := TSignal, wa_cell := CellHolds (exit_code (we_outcome env))\<rparr>)"
| store_fault: "wa_hook s = TStore \<Longrightarrow> wa_cell s \<in> {CellNull, CellFreed} \<Longrightarrow>
    win_thread_proc_step env s (s\<lparr>wa_hook := TFault\<rparr>)"
| wake: "wa_hook s = TSignal \<Longrightarrow>
    win_thread_proc_step env s (WakeConditionVariable (s\<lparr>wa_hook := TUnlock\<rparr>))"
| leave: "wa_hook s = TUnlock \<Longrightarrow>
    win_thread_proc_step env s ((leave_control env HookTask s)\<lparr>wa_hook := TDone\<rparr>)"

definition win_async_step :: "win_async_env \<Rightarrow> win_async \<Rightarrow> win_async \<Rightarrow> bool" where
  "win_async_step env s s' \<longleftrightarrow> win_enable_step env s s' \<or> win_dispatch_step env s s' \<or> win_thread_proc_step env s s'"

definition win_async_stuck :: "win_async_env \<Rightarrow> win_async \<Rightarrow> bool" where
  "win_async_stuck env s \<longleftrightarrow> (\<forall>s'. \<not> win_async_step env s s')"

lemma win_async_step_cases [consumes 1, case_names main callback thread]:
  assumes "win_async_step env s s'"
  obtains (main) "win_enable_step env s s'" | (callback) "win_dispatch_step env s s'"
    | (thread) "win_thread_proc_step env s s'"
  using assms by (auto simp: win_async_step_def)

lemmas win_async_elims = win_enable_step.cases win_dispatch_step.cases win_thread_proc_step.cases

lemmas win_async_effects = leave_control_def leave_running_def WakeConditionVariable_def


section \<open>Every run ends\<close>

definition win_rank :: "win_async \<Rightarrow> nat" where
  "win_rank s = enable_rank (wa_main s) + (12 - thread_position (wa_hook s))"

definition win_created_once :: "win_async \<Rightarrow> bool" where
  "win_created_once s \<longleftrightarrow> (wa_main s \<in> {ELock, ECreate} \<longrightarrow> wa_hook s = TNone)"

text \<open>The hook thread only goes forward.\<close>

lemma win_thread_forward:
  assumes "win_dispatch_step env s s' \<or> win_thread_proc_step env s s'"
  shows "wa_hook s < wa_hook s'" and "enable_rank (wa_main s') \<le> enable_rank (wa_main s)"
    and "wa_main s' \<in> {ELock, ECreate} \<longleftrightarrow> wa_main s \<in> {ELock, ECreate}"
  using assms by (auto elim!: win_dispatch_step.cases win_thread_proc_step.cases simp: win_async_effects thread_order split: if_splits)

lemma win_main_forward:
  assumes "win_enable_step env s s'" and "win_created_once s"
  shows "win_rank s' < win_rank s" and "win_created_once s'"
  using assms by (auto elim!: win_enable_step.cases simp: win_async_effects win_rank_def win_created_once_def split: if_splits)

lemma win_rank_thread:
  assumes "win_dispatch_step env s s' \<or> win_thread_proc_step env s s'"
  shows "win_rank s' < win_rank s"
proof -
  have "thread_position (wa_hook s) < thread_position (wa_hook s')" "enable_rank (wa_main s') \<le> enable_rank (wa_main s)"
    using win_thread_forward [OF assms] by (simp_all add: thread_order)
  moreover have "thread_position (wa_hook s) < 12" using assms by (auto elim!: win_dispatch_step.cases win_thread_proc_step.cases)
  ultimately show ?thesis by (simp add: win_rank_def)
qed

interpretation win_ranked: step_rank "win_async_step env" win_created_once win_rank for env
proof
  fix s s'
  assume step: "win_async_step env s s'" and once: "win_created_once s"
  show "win_created_once s'"
    using step once
  proof (cases rule: win_async_step_cases)
    case main
    then show ?thesis using once by (rule win_main_forward)
  next
    case callback
    then show ?thesis using once win_thread_forward(1,3) [of env s s'] by (auto simp: win_created_once_def thread_order elim: win_dispatch_step.cases)
  next
    case thread
    then show ?thesis using once win_thread_forward(1,3) [of env s s'] by (auto simp: win_created_once_def thread_order elim: win_thread_proc_step.cases)
  qed
  show "win_rank s' < win_rank s"
    using step win_main_forward(1) [OF _ once] win_rank_thread unfolding win_async_step_def by blast
qed

section \<open>A start that fails\<close>

text \<open>The running section after the callback has left it without having entered it.\<close>

definition left_running :: "win_async_env \<Rightarrow> critical_section" where
  "left_running env = (if we_lenient env then CsFree else CsBroken)"

definition reported_status :: "win_async_env \<Rightarrow> c_int" where
  "reported_status env = (if we_lenient env then UIOHOOK_FAILURE else UIOHOOK_SUCCESS)"

text \<open>Where \<^verbatim>\<open>main\<close> is and what the sections and the block hold, for every point of the hook thread.\<close>

definition waiting_point :: "win_async \<Rightarrow> bool" where
  "waiting_point s \<longleftrightarrow> wa_cell s = CellUnwritten \<and> wa_status s = UIOHOOK_FAILURE
     \<and> (wa_main s = EWait \<and> wa_control s = CsOwned MainTask 1 \<or> wa_main s = EWaiting \<and> wa_control s = CsFree)"

definition ended_point :: "win_async_env \<Rightarrow> win_async \<Rightarrow> bool" where
  "ended_point env s \<longleftrightarrow>
     wa_main s = EWoken \<and> wa_control s = CsFree \<and> wa_running s = left_running env
       \<and> wa_cell s \<notin> {CellNull, CellFreed} \<and> wa_status s = UIOHOOK_FAILURE
     \<or> wa_main s = ETry \<and> wa_control s = CsOwned MainTask 1 \<and> wa_running s = left_running env
       \<and> wa_cell s \<notin> {CellNull, CellFreed} \<and> wa_status s = UIOHOOK_FAILURE
     \<or> wa_main s = EJoin \<and> we_lenient env \<and> wa_cell s \<notin> {CellNull, CellFreed} \<and> wa_status s = UIOHOOK_FAILURE
     \<or> wa_main s \<in> {EFree, EUnlock, EReturned, EJoinThread, EDestroy, EDone} \<and> wa_status s = reported_status env"

definition failed_inv :: "win_async_env \<Rightarrow> win_async \<Rightarrow> bool" where
  "failed_inv env s \<longleftrightarrow>
     (case wa_hook s of
        TNone \<Rightarrow> wa_running s = CsFree \<and> wa_status s = UIOHOOK_FAILURE
          \<and> (wa_main s = ELock \<and> wa_control s = CsFree
             \<or> wa_main s = ECreate \<and> wa_control s = CsOwned MainTask 1 \<and> wa_cell s = CellUnwritten)
      | TRun \<Rightarrow> wa_running s = CsFree \<and> waiting_point s
      | TLockControl \<Rightarrow> wa_running s = CsFree \<and> waiting_point s
      | TUnlockRunning \<Rightarrow> wa_main s = EWaiting \<and> wa_control s = CsOwned HookTask 1 \<and> wa_running s = CsFree
          \<and> wa_cell s = CellUnwritten \<and> wa_status s = UIOHOOK_FAILURE
      | TStore \<Rightarrow> wa_main s = EWaiting \<and> wa_control s = CsOwned HookTask 1 \<and> wa_running s = left_running env
          \<and> wa_cell s = CellUnwritten \<and> wa_status s = UIOHOOK_FAILURE
      | TSignal \<Rightarrow> wa_main s = EWaiting \<and> wa_control s = CsOwned HookTask 1 \<and> wa_running s = left_running env
          \<and> wa_cell s \<notin> {CellNull, CellFreed} \<and> wa_status s = UIOHOOK_FAILURE
      | TUnlock \<Rightarrow> wa_main s = EWoken \<and> wa_control s = CsOwned HookTask 1 \<and> wa_running s = left_running env
          \<and> wa_cell s \<notin> {CellNull, CellFreed} \<and> wa_status s = UIOHOOK_FAILURE
      | TDone \<Rightarrow> ended_point env s
      | _ \<Rightarrow> False)"

text \<open>The environments in which a thread starts, its status block is there and a wait ends by a signal only.\<close>

definition win_prompt :: "win_async_env \<Rightarrow> bool" where
  "win_prompt env \<longleftrightarrow> \<not> we_spurious env \<and> we_malloc env \<and> we_handle env = HandleThread"

lemmas section_simps = EnterCriticalSection_def LeaveCriticalSection_def

lemmas failed_simps = failed_inv_def waiting_point_def ended_point_def left_running_def reported_status_def
  section_simps win_async_effects thread_ended_def GetExitCodeThread_def

lemma failed_inv_step:
  assumes "win_async_step env s s'" and "failed_inv env s" and "win_prompt env" and "we_outcome env \<noteq> RunSession"
  shows "failed_inv env s'"
  using assms(1)
  by (cases rule: win_async_step_cases; elim win_async_elims; cases "wa_hook s")
    (use assms(2-4) in \<open>auto simp: failed_simps win_prompt_def split: if_splits\<close>)

interpretation win_failed: step_invariant "win_async_step env"
  "\<lambda>s. win_prompt env \<and> we_outcome env \<noteq> RunSession \<and> failed_inv env s" for env
  by unfold_locales (use failed_inv_step in blast)

lemma failed_inv_init: "failed_inv env win_async_init"
  by (simp add: failed_inv_def win_async_init_def)

text \<open>\<^verbatim>\<open>main\<close> goes on unless it waits for a section, for the condition or for the thread.\<close>

lemma win_main_can_step:
  assumes "wa_main s \<notin> {EWaiting, ERunLoop, EDone, EFault}"
    and "wa_main s \<in> {ELock, EWoken} \<Longrightarrow> EnterCriticalSection MainTask (wa_control s) \<noteq> None"
    and "wa_main s \<in> {EJoin, EJoinThread} \<Longrightarrow> thread_ended env s"
  shows "\<exists>s'. win_async_step env s s'"
proof -
  have "\<exists>s'. win_enable_step env s s'"
    using assms
    by (cases "wa_main s"; cases "EnterCriticalSection MainTask (wa_control s)"; cases "EnterCriticalSection MainTask (wa_running s)";
        cases "GetExitCodeThread env (wa_cell s)"; cases "we_handle env = HandleInvalid")
      (auto intro: win_enable_step.intros)
  then show ?thesis by (auto simp: win_async_step_def)
qed

text \<open>A start that fails is never stuck before \<^verbatim>\<open>main\<close> has returned.\<close>

lemma failed_can_step:
  assumes "failed_inv env s" and "wa_main s \<noteq> EDone" and "win_prompt env" and "we_outcome env \<noteq> RunSession"
  shows "\<exists>s'. win_async_step env s s'"
proof (cases "wa_hook s \<in> {TNone, TDone} \<or> wa_main s = EWait")
  case True
  then show ?thesis
    using assms by (intro win_main_can_step) (auto simp: failed_simps split: if_splits)
next
  case False
  then show ?thesis
    using assms(1) win_dispatch_step.enter_control [of s "CsOwned HookTask 1" env] win_thread_proc_step.store [of s env]
    by (cases "wa_hook s")
      (auto simp: failed_inv_def waiting_point_def section_simps win_async_step_def
        intro: win_thread_proc_step.intros win_dispatch_step.intros)
qed

section \<open>A session\<close>

definition session_pcs :: "thread_pc set" where
  "session_pcs = {TSignalEnabled, TUnlockControl, TEvents, TLockControl, TUnlockRunning}"

definition given_pcs :: "enable_pc set" where
  "given_pcs = {EFree, EUnlock, EReturned, EJoinThread, EDestroy, EDone}"

text \<open>
  The running section is the hook's while the hook is enabled. Nothing is said of the control section, which
  either thread may leave while the other one has entered it.
\<close>

definition session_inv :: "win_async \<Rightarrow> bool" where
  "session_inv s \<longleftrightarrow>
     (wa_main s \<in> {ELock, ECreate} \<longrightarrow> wa_hook s = TNone)
     \<and> (wa_hook s = TNone \<longrightarrow> wa_main s \<in> {ELock, ECreate})
     \<and> wa_hook s \<notin> {TStopLoop, TStore, TFault} \<and> wa_main s \<notin> {ERunLoop, EFault}
     \<and> (wa_main s \<in> {EWoken, ETry, EJoin} \<longrightarrow> wa_hook s \<notin> {TRun, TLockRunning, TSignalEnabled})
     \<and> (wa_main s = EJoin \<longrightarrow> wa_hook s \<notin> session_pcs)
     \<and> (wa_hook s \<in> session_pcs \<longrightarrow> wa_running s = CsOwned HookTask 1)
     \<and> (wa_hook s \<notin> session_pcs \<longrightarrow> wa_running s = CsFree \<or> wa_running s = CsOwned MainTask 1 \<and> wa_main s \<in> {EJoin} \<union> given_pcs)
     \<and> (wa_main s \<in> {ECreate, EWait, EWaiting, EWoken, ETry, EJoin} \<longrightarrow> wa_cell s = CellUnwritten)
     \<and> (wa_main s \<notin> given_pcs \<longrightarrow> wa_status s = UIOHOOK_FAILURE)
     \<and> (wa_main s \<in> given_pcs \<longrightarrow> wa_hook s \<notin> {TRun, TLockRunning, TSignalEnabled}
          \<and> (wa_status s = UIOHOOK_SUCCESS \<or> wa_status s = UIOHOOK_FAILURE \<and> wa_hook s = TDone))"

lemmas session_simps = session_inv_def session_pcs_def given_pcs_def section_simps win_async_effects thread_ended_def
  GetExitCodeThread_def

lemma session_main_step:
  assumes "win_enable_step env s s'" and "session_inv s" and "win_prompt env" and "we_outcome env = RunSession"
  shows "session_inv s'"
  using assms(1)
  by (cases rule: win_enable_step.cases)
    (use assms(2-4) in \<open>auto simp: session_simps win_prompt_def split: if_splits critical_section.splits\<close>)

lemma session_thread_step:
  assumes "win_dispatch_step env s s' \<or> win_thread_proc_step env s s'" and "session_inv s" and "we_outcome env = RunSession"
  shows "session_inv s'"
  using assms(1)
  by (elim disjE win_dispatch_step.cases win_thread_proc_step.cases)
    (use assms(2-3) in \<open>auto simp: session_simps split: if_splits\<close>)

interpretation win_session: step_invariant "win_async_step env"
  "\<lambda>s. win_prompt env \<and> we_outcome env = RunSession \<and> session_inv s" for env
  by unfold_locales (use session_main_step session_thread_step in \<open>unfold win_async_step_def, blast\<close>)

lemma session_inv_init: "session_inv win_async_init"
  by (simp add: session_inv_def win_async_init_def session_pcs_def given_pcs_def)

section \<open>No thread\<close>

text \<open>Without a thread \<^verbatim>\<open>hook_enable\<close> waits, unless the handle is the one it takes for a failure.\<close>

definition unlaunched_inv :: "win_async_env \<Rightarrow> win_async \<Rightarrow> bool" where
  "unlaunched_inv env s \<longleftrightarrow> wa_hook s = TNone
     \<and> (wa_main s \<in> {ELock, ECreate} \<and> wa_status s = UIOHOOK_FAILURE
        \<or> we_handle env = HandleNull \<and> wa_main s \<in> {EWait, EWaiting} \<and> wa_status s = UIOHOOK_FAILURE
        \<or> we_handle env = HandleInvalid \<and> wa_main s \<in> {EUnlock, EReturned, EDestroy, EDone}
            \<and> wa_status s = UIOHOOK_ERROR_THREAD_CREATE)"

lemma unlaunched_inv_step:
  assumes "win_async_step env s s'" and "unlaunched_inv env s" and "\<not> we_spurious env" and "we_handle env \<noteq> HandleThread"
  shows "unlaunched_inv env s'"
  using assms(1)
  by (cases rule: win_async_step_cases; elim win_async_elims; cases "we_handle env")
    (use assms(2-4) in \<open>auto simp: unlaunched_inv_def win_async_effects UIOHOOK_ERROR_THREAD_CREATE_def\<close>)

interpretation win_unlaunched: step_invariant "win_async_step env"
  "\<lambda>s. \<not> we_spurious env \<and> we_handle env \<noteq> HandleThread \<and> unlaunched_inv env s" for env
  by unfold_locales (use unlaunched_inv_step in blast)

lemma unlaunched_inv_init: "unlaunched_inv env win_async_init"
  by (simp add: unlaunched_inv_def win_async_init_def)

section \<open>A control section that cannot be entered again\<close>

text \<open>The hook thread leaves the control section as soon as the hook is enabled and comes back to enter it.\<close>

definition broken_inv :: "win_async \<Rightarrow> bool" where
  "broken_inv s \<longleftrightarrow>
     (wa_main s \<in> {ELock, ECreate} \<longrightarrow> wa_hook s = TNone)
     \<and> wa_hook s \<notin> {TStopLoop, TUnlockRunning, TStore, TSignal, TUnlock, TDone, TFault}
     \<and> (wa_hook s \<in> {TEvents, TLockControl} \<longrightarrow> wa_control s = CsBroken)
     \<and> (\<forall>n. wa_control s \<noteq> CsOwned HookTask n)
     \<and> wa_main s \<notin> {EDestroy, EDone}
     \<and> (wa_main s \<in> given_pcs \<longrightarrow> wa_status s = UIOHOOK_SUCCESS)"

lemma broken_inv_step:
  assumes "win_async_step env s s'" and "broken_inv s"
    and "\<not> we_lenient env" and "we_handle env = HandleThread" and "we_outcome env = RunSession"
  shows "broken_inv s'"
  using assms(1)
  by (cases rule: win_async_step_cases; elim win_async_elims)
    (use assms(2-5) in \<open>auto simp: broken_inv_def given_pcs_def section_simps win_async_effects thread_ended_def
      split: if_splits critical_section.splits\<close>)

interpretation win_broken: step_invariant "win_async_step env"
  "\<lambda>s. (\<not> we_lenient env \<and> we_handle env = HandleThread \<and> we_outcome env = RunSession) \<and> broken_inv s" for env
  by unfold_locales (use broken_inv_step in blast)

lemma broken_inv_init: "broken_inv win_async_init"
  by (simp add: broken_inv_def win_async_init_def given_pcs_def)

section \<open>The start as its specification has it\<close>

text \<open>
  What a caller may be told on Windows: a failure without its code, success once the hook was enabled, and
  either of them when the session was over before \<^verbatim>\<open>hook_enable\<close> looked.
\<close>

definition win_answers :: "hook_phase \<Rightarrow> c_int set" where
  "win_answers p =
     (case p of NotStarted \<Rightarrow> {UIOHOOK_ERROR_THREAD_CREATE} | Starting \<Rightarrow> {} | Failed v \<Rightarrow> {UIOHOOK_FAILURE}
      | Enabled \<Rightarrow> {UIOHOOK_SUCCESS} | Stopped \<Rightarrow> {UIOHOOK_SUCCESS, UIOHOOK_FAILURE})"

definition win_view :: "win_async_env \<Rightarrow> win_async \<Rightarrow> hook_phase \<times> c_int option" where
  "win_view env s = (phase_of (we_outcome env) (wa_hook s), if wa_main s \<in> given_pcs then Some (wa_status s) else None)"

definition win_inv :: "win_async_env \<Rightarrow> win_async \<Rightarrow> bool" where
  "win_inv env s \<longleftrightarrow>
     (if we_handle env = HandleThread then if we_outcome env = RunSession then session_inv s else failed_inv env s
      else unlaunched_inv env s)"

definition win_sound :: "win_async_env \<Rightarrow> bool" where
  "win_sound env \<longleftrightarrow> \<not> we_spurious env \<and> we_malloc env \<and> we_lenient env"

lemma win_inv_step:
  assumes "win_async_step env s s'" and "win_inv env s" and "win_sound env"
  shows "win_inv env s'"
proof (cases "we_handle env = HandleThread")
  case True
  then have "win_prompt env" using assms(3) by (simp add: win_sound_def win_prompt_def)
  with assms True show ?thesis
    using win_session.inv_step [of env s s'] failed_inv_step by (auto simp: win_inv_def split: if_splits)
next
  case False
  with assms show ?thesis using unlaunched_inv_step by (auto simp: win_inv_def win_sound_def)
qed

lemma session_given:
  assumes "session_inv s" and "wa_main s \<in> given_pcs"
  shows "wa_hook s \<notin> {TNone, TRun, TLockRunning, TSignalEnabled, TStopLoop, TStore, TFault}"
    and "wa_status s = UIOHOOK_SUCCESS \<or> wa_status s = UIOHOOK_FAILURE \<and> wa_hook s = TDone"
proof -
  have "wa_hook s = TNone \<longrightarrow> wa_main s \<in> {ELock, ECreate}" "wa_hook s \<notin> {TStopLoop, TStore, TFault}"
    "wa_hook s \<notin> {TRun, TLockRunning, TSignalEnabled}"
    and "wa_status s = UIOHOOK_SUCCESS \<or> wa_status s = UIOHOOK_FAILURE \<and> wa_hook s = TDone"
    using assms unfolding session_inv_def by blast+
  with assms(2) show "wa_hook s \<notin> {TNone, TRun, TLockRunning, TSignalEnabled, TStopLoop, TStore, TFault}"
    and "wa_status s = UIOHOOK_SUCCESS \<or> wa_status s = UIOHOOK_FAILURE \<and> wa_hook s = TDone"
    by (auto simp: given_pcs_def)
qed

lemma win_answer_allowed:
  assumes "win_inv env s" and "win_sound env" and "wa_main s \<in> given_pcs"
  shows "wa_status s \<in> win_answers (phase_of (we_outcome env) (wa_hook s))"
proof (cases "we_handle env = HandleThread")
  case thread: True
  show ?thesis
  proof (cases "we_outcome env")
    case (RunFails v)
    with thread assms have "failed_inv env s" by (simp add: win_inv_def)
    with RunFails assms(2,3) show ?thesis
      by (cases "wa_hook s") (auto simp: failed_simps win_sound_def win_answers_def phase_of_def given_pcs_def)
  next
    case RunSession
    with thread assms have "session_inv s" by (simp add: win_inv_def)
    from session_given [OF this assms(3)] RunSession show ?thesis
      by (cases "wa_hook s") (auto simp: win_answers_def phase_of_def thread_order)
  qed
next
  case False
  with assms show ?thesis by (auto simp: win_inv_def unlaunched_inv_def win_answers_def phase_of_def given_pcs_def)
qed

lemma win_main_simulates:
  assumes "win_enable_step env s s'" and "win_inv env s'" and "win_sound env" and "win_created_once s"
  shows "win_view env s' = win_view env s \<or> start_spec win_answers (win_view env s) (win_view env s')"
proof (cases "wa_main s' \<in> given_pcs \<and> wa_main s \<notin> given_pcs")
  case True
  then have "wa_status s' \<in> win_answers (phase_of (we_outcome env) (wa_hook s'))"
    using win_answer_allowed assms(2,3) by blast
  moreover have "wa_hook s' = wa_hook s"
    using assms(1) True by (auto elim!: win_enable_step.cases simp: given_pcs_def win_async_effects)
  ultimately show ?thesis using True by (simp add: win_view_def start_spec.answer)
next
  case False
  from assms(1) show ?thesis
    by (cases rule: win_enable_step.cases)
      (use False assms(4) in \<open>auto simp: win_view_def win_created_once_def given_pcs_def win_async_effects
        phase_of_def thread_order split: run_outcome.splits intro: start_spec.launch\<close>)
qed

text \<open>The points that belong to the other way \<^verbatim>\<open>hook_run\<close> can end are not reached.\<close>

lemma win_thread_points:
  assumes "win_inv env s"
  shows "if we_outcome env = RunSession then wa_hook s \<notin> {TStopLoop, TStore, TFault}
    else wa_hook s \<notin> {TLockRunning, TSignalEnabled, TUnlockControl, TEvents, TStopLoop, TFault}"
proof (cases "we_handle env = HandleThread \<and> we_outcome env = RunSession")
  case True
  then have "session_inv s" using assms by (simp add: win_inv_def)
  then have "wa_hook s \<notin> {TStopLoop, TStore, TFault}" unfolding session_inv_def by blast
  with True show ?thesis by simp
next
  case False
  with assms show ?thesis by (auto simp: win_inv_def failed_inv_def unlaunched_inv_def split: if_splits thread_pc.splits)
qed

lemma win_thread_simulates:
  assumes "win_dispatch_step env s s' \<or> win_thread_proc_step env s s'" and "win_inv env s"
  shows "win_view env s' = win_view env s \<or> start_spec win_answers (win_view env s) (win_view env s')"
  using assms(1)
  by (elim disjE win_dispatch_step.cases win_thread_proc_step.cases; cases "we_outcome env")
    (use win_thread_points [OF assms(2)] in \<open>auto simp: win_view_def given_pcs_def win_async_effects phase_of_def thread_order
      intro: start_spec.intros\<close>)

lemma win_inv_created_once:
  assumes "win_inv env s"
  shows "win_created_once s"
proof (cases "we_handle env = HandleThread \<and> we_outcome env = RunSession")
  case True
  then have "session_inv s" using assms by (simp add: win_inv_def)
  then show ?thesis unfolding session_inv_def win_created_once_def by blast
next
  case False
  with assms show ?thesis
    by (cases "wa_hook s") (auto simp: win_inv_def failed_simps unlaunched_inv_def win_created_once_def split: if_splits)
qed

interpretation win_start: step_simulation "win_async_step env" "\<lambda>s. win_sound env \<and> win_inv env s"
  "start_spec win_answers" "win_view env" for env
proof
  fix s s'
  assume step: "win_async_step env s s'" and inv: "win_sound env \<and> win_inv env s"
  then show "win_sound env \<and> win_inv env s'" using win_inv_step by blast
  then show "win_view env s' = win_view env s \<or> start_spec win_answers (win_view env s) (win_view env s')"
    using step inv win_main_simulates [of env s s'] win_thread_simulates [of env s s'] win_inv_created_once [of env s]
    unfolding win_async_step_def by blast
qed

lemma win_inv_init: "win_inv env win_async_init"
  by (simp add: win_inv_def session_inv_init failed_inv_init unlaunched_inv_init)

lemma win_view_init: "win_view env win_async_init = (NotStarted, None)"
  by (simp add: win_view_def win_async_init_def phase_of_def given_pcs_def)

text \<open>Where a failed start ends.\<close>

lemma win_failed_end:
  assumes "reaches (win_async_step env) win_async_init s" and "win_prompt env" and "we_outcome env \<noteq> RunSession"
    and "win_async_stuck env s"
  shows "wa_main s = EDone \<and> wa_status s = reported_status env"
proof -
  have inv: "failed_inv env s" using win_failed.inv_reaches [OF assms(1)] assms(2,3) failed_inv_init by blast
  moreover from failed_can_step [OF inv _ assms(2,3)] have "wa_main s = EDone"
    using assms(4) unfolding win_async_stuck_def by blast
  moreover from inv this have "wa_status s = reported_status env"
    by (cases "wa_hook s") (simp_all add: failed_inv_def waiting_point_def ended_point_def)
  ultimately show ?thesis by simp
qed

section \<open>Example runs\<close>

inductive_simps win_enable_step_iff: "win_enable_step env s s'"
inductive_simps win_dispatch_step_iff: "win_dispatch_step env s s'"
inductive_simps win_thread_proc_step_iff: "win_thread_proc_step env s s'"

definition win_task :: "enable_pc \<Rightarrow> thread_pc \<Rightarrow> critical_section \<Rightarrow> critical_section \<Rightarrow> status_cell \<Rightarrow> c_int \<Rightarrow> win_async" where
  "win_task m h c r cell st = \<lparr>wa_main = m, wa_hook = h, wa_control = c, wa_running = r, wa_cell = cell, wa_status = st\<rparr>"

definition win_good :: "run_outcome \<Rightarrow> bool \<Rightarrow> win_async_env" where
  "win_good outcome lenient = \<lparr>we_spurious = False, we_malloc = True, we_handle = HandleThread, we_outcome = outcome,
     we_lenient = lenient\<rparr>"

abbreviation (input) MainHas :: critical_section where "MainHas \<equiv> CsOwned MainTask 1"
abbreviation (input) HookHas :: critical_section where "HookHas \<equiv> CsOwned HookTask 1"

definition win_failed_start :: "win_async list" where
  "win_failed_start =
     [win_task ECreate TNone MainHas CsFree CellUnwritten 1,
      win_task EWait TRun MainHas CsFree CellUnwritten 1,
      win_task EWaiting TRun CsFree CsFree CellUnwritten 1,
      win_task EWaiting TLockControl CsFree CsFree CellUnwritten 1,
      win_task EWaiting TUnlockRunning HookHas CsFree CellUnwritten 1,
      win_task EWaiting TStore HookHas CsFree CellUnwritten 1,
      win_task EWaiting TSignal HookHas CsFree (CellHolds 0x30) 1,
      win_task EWoken TUnlock HookHas CsFree (CellHolds 0x30) 1,
      win_task EWoken TDone CsFree CsFree (CellHolds 0x30) 1,
      win_task ETry TDone MainHas CsFree (CellHolds 0x30) 1,
      win_task EJoin TDone MainHas MainHas (CellHolds 0x30) 1,
      win_task EFree TDone MainHas MainHas (CellHolds 0x30) 1,
      win_task EUnlock TDone MainHas MainHas CellFreed 1,
      win_task EReturned TDone CsFree MainHas CellFreed 1,
      win_task EDestroy TDone CsFree MainHas CellFreed 1,
      win_task EDone TDone CsFree MainHas CellFreed 1]"

definition win_broken_session :: "win_async list" where
  "win_broken_session =
     [win_task ECreate TNone MainHas CsFree CellUnwritten 1,
      win_task EWait TRun MainHas CsFree CellUnwritten 1,
      win_task EWaiting TRun CsFree CsFree CellUnwritten 1,
      win_task EWaiting TLockRunning CsFree CsFree CellUnwritten 1,
      win_task EWaiting TSignalEnabled CsFree HookHas CellUnwritten 1,
      win_task EWoken TUnlockControl CsFree HookHas CellUnwritten 1,
      win_task ETry TUnlockControl MainHas HookHas CellUnwritten 1,
      win_task EFree TUnlockControl MainHas HookHas CellUnwritten 0,
      win_task EFree TEvents CsBroken HookHas CellUnwritten 0,
      win_task EUnlock TEvents CsBroken HookHas CellFreed 0,
      win_task EReturned TEvents CsBroken HookHas CellFreed 0,
      win_task EJoinThread TEvents CsBroken HookHas CellFreed 0,
      win_task EJoinThread TLockControl CsBroken HookHas CellFreed 0]"

definition win_no_thread :: "win_async list" where
  "win_no_thread =
     [win_task ECreate TNone MainHas CsFree CellUnwritten 1,
      win_task EWait TNone MainHas CsFree CellUnwritten 1,
      win_task EWaiting TNone CsFree CsFree CellUnwritten 1]"

lemmas win_run_defs = win_task_def win_async_init_def win_good_def win_async_step_def win_enable_step_iff
  win_dispatch_step_iff win_thread_proc_step_iff win_async_effects section_simps thread_ended_def GetExitCodeThread_def
  exit_code_def free_cell_def

lemma win_failed_start_path: "path (win_async_step (win_good (RunFails 0x30) True)) win_async_init win_failed_start"
  by (simp add: win_failed_start_def win_run_defs)

lemma win_broken_session_path: "path (win_async_step (win_good RunSession False)) win_async_init win_broken_session"
  by (simp add: win_broken_session_def win_run_defs)

lemma win_no_thread_path:
  "path (win_async_step ((win_good RunSession False)\<lparr>we_handle := HandleNull\<rparr>)) win_async_init win_no_thread"
  by (simp add: win_no_thread_def win_run_defs)

section \<open>Properties\<close>







end
