(* ===== verification/Demo_Post.thy ===== *)
theory Demo_Post
  imports X11_Post_Event
begin

text \<open>
  \<^verbatim>\<open>demo/demo_post.c\<close>: a drag, a few keys and a turn of the wheel are posted through one allocated event
  whose fields are written one by one. The event is modelled by its bytes, so that what a field
  holds that the program does not write is determined: it is what the block held, or what another
  member of the union left there.
\<close>

section \<open>The event in memory\<close>

text \<open>
  The bytes of the union by their offset, on a little-endian machine. The members of \<^verbatim>\<open>mouse_event_data\<close>
  (\<^verbatim>\<open>button\<close>, \<^verbatim>\<open>clicks\<close>, \<^verbatim>\<open>x\<close>, \<^verbatim>\<open>y\<close>) and \<^verbatim>\<open>keyboard_event_data\<close> (\<^verbatim>\<open>keycode\<close>, \<^verbatim>\<open>rawcode\<close>, \<^verbatim>\<open>keychar\<close>) are two bytes
  each; in \<^verbatim>\<open>mouse_wheel_event_data\<close> a byte follows the one-byte \<^verbatim>\<open>type\<close> to align \<^verbatim>\<open>amount\<close>.
\<close>

type_synonym union_bytes = "nat \<Rightarrow> uint8_t"

definition put16 :: "nat \<Rightarrow> uint16_t \<Rightarrow> union_bytes \<Rightarrow> union_bytes" where
  "put16 off w b = b(off := ucast w, off + 1 := ucast (drop_bit 8 w))"

definition get16 :: "nat \<Rightarrow> union_bytes \<Rightarrow> uint16_t" where
  "get16 off b = ucast (b off) OR push_bit 8 (ucast (b (off + 1)))"

lemma get16_put16 [simp]: "get16 off (put16 off w b) = w"
  unfolding get16_def put16_def
  by (rule bit_word_eqI) (auto simp: bit_or_iff bit_ucast_iff bit_push_bit_iff bit_drop_bit_eq)

lemma get16_put16_other [simp]:
  "off \<noteq> off' \<Longrightarrow> off \<noteq> off' + 1 \<Longrightarrow> off + 1 \<noteq> off' \<Longrightarrow> get16 off (put16 off' w b) = get16 off b"
  by (simp add: get16_def put16_def)

lemma put16_apply:
  "put16 off w b i = (if i = off + 1 then ucast (drop_bit 8 w) else if i = off then ucast w else b i)"
  by (simp add: put16_def)

text \<open>\<open>em_posted\<close> collects the events as \<^verbatim>\<open>hook_post_event\<close> receives them.\<close>

record event_memory =
  em_type :: event_type
  em_time :: uint64_t
  em_mask :: uint16_t
  em_reserved :: uint16_t
  em_bytes :: union_bytes
  em_posted :: "uiohook_event list"

definition mouse_view :: "union_bytes \<Rightarrow> mouse_event_data" where
  "mouse_view b = \<lparr>ms_button = get16 0 b, ms_clicks = get16 2 b, ms_x = get16 4 b, ms_y = get16 6 b\<rparr>"

definition keyboard_view :: "union_bytes \<Rightarrow> keyboard_event_data" where
  "keyboard_view b = \<lparr>kb_keycode = get16 0 b, kb_rawcode = get16 2 b, kb_keychar = get16 4 b\<rparr>"

definition wheel_view :: "union_bytes \<Rightarrow> mouse_wheel_event_data" where
  "wheel_view b = \<lparr>wh_clicks = get16 0 b, wh_x = get16 2 b, wh_y = get16 4 b, wh_type = b 6,
     wh_amount = get16 8 b, wh_rotation = get16 10 b, wh_direction = b 12\<rparr>"

definition data_view :: "event_type \<Rightarrow> union_bytes \<Rightarrow> event_data" where
  "data_view ty b =
     (if ty \<in> {EVENT_KEY_TYPED, EVENT_KEY_PRESSED, EVENT_KEY_RELEASED} then Keyboard (keyboard_view b)
      else if ty = EVENT_MOUSE_WHEEL then Wheel (wheel_view b)
      else Mouse (mouse_view b))"

definition event_view :: "event_memory \<Rightarrow> uiohook_event" where
  "event_view m = \<lparr>ev_type = em_type m, ev_time = em_time m, ev_mask = em_mask m, ev_reserved = em_reserved m,
     ev_data = data_view (em_type m) (em_bytes m)\<rparr>"

definition post :: "event_memory \<Rightarrow> event_memory" where
  "post m = m\<lparr>em_posted := em_posted m @ [event_view m]\<rparr>"

definition put_field :: "nat \<Rightarrow> uint16_t \<Rightarrow> event_memory \<Rightarrow> event_memory" where
  "put_field off w m = m\<lparr>em_bytes := put16 off w (em_bytes m)\<rparr>"

section \<open>The program\<close>

text \<open>The parts of \<^verbatim>\<open>main\<close>; \<open>win\<close> is whether it is built for Windows.\<close>

definition press_button :: "bool \<Rightarrow> event_memory \<Rightarrow> event_memory" where
  "press_button win m =
     post (put_field 6 (if win then 4 else 35) (put_field 4 (if win then 4 else 10)
       (put_field 0 MOUSE_BUTTON1 (m\<lparr>em_type := EVENT_MOUSE_PRESSED\<rparr>))))"

definition move_to :: "nat \<Rightarrow> event_memory \<Rightarrow> event_memory" where
  "move_to i m =
     post (put_field 6 (of_nat i) (put_field 4 (of_nat i) (put_field 0 MOUSE_NOBUTTON (m\<lparr>em_type := EVENT_MOUSE_MOVED\<rparr>))))"

definition drag_loop :: "event_memory \<Rightarrow> event_memory" where
  "drag_loop m = fold move_to [0..<275] m"

definition release_button :: "event_memory \<Rightarrow> event_memory" where
  "release_button m = post (put_field 0 MOUSE_BUTTON1 (m\<lparr>em_type := EVENT_MOUSE_RELEASED\<rparr>))"

definition press_escape :: "event_memory \<Rightarrow> event_memory" where
  "press_escape m =
     post (put_field 0 VC_ESCAPE (put_field 4 CHAR_UNDEFINED (m\<lparr>em_type := EVENT_KEY_PRESSED, em_mask := 0x00\<rparr>)))"

definition press_with_shift :: "event_memory \<Rightarrow> event_memory" where
  "press_with_shift m =
     (let m = put_field 4 CHAR_UNDEFINED (m\<lparr>em_type := EVENT_KEY_PRESSED, em_mask := 0x00\<rparr>);
          m = post (put_field 0 VC_SHIFT_L m);
          m = post (put_field 0 VC_A m);
          m = m\<lparr>em_type := EVENT_KEY_RELEASED\<rparr>;
          m = post (put_field 0 VC_A m)
      in post (put_field 0 VC_SHIFT_L m))"

definition turn_wheel :: "event_memory \<Rightarrow> event_memory" where
  "turn_wheel m =
     post (put_field 10 1 (put_field 8 3 (put_field 4 675 (put_field 2 675 (m\<lparr>em_type := EVENT_MOUSE_WHEEL\<rparr>)))))"

text \<open>\<open>block\<close> is the allocated event, \<open>None\<close> without memory.\<close>

definition post_main :: "bool \<Rightarrow> event_memory option \<Rightarrow> uiohook_event list \<times> c_int" where
  "post_main win block =
     (case block of
        None \<Rightarrow> ([], UIOHOOK_ERROR_OUT_OF_MEMORY)
      | Some m \<Rightarrow>
          (em_posted (turn_wheel (press_with_shift (press_escape (release_button (drag_loop (press_button win m)))))),
           UIOHOOK_SUCCESS))"

section \<open>The events\<close>

lemmas post_defs = post_def put_field_def event_view_def data_view_def mouse_view_def keyboard_view_def wheel_view_def

definition mouse_event_of :: "event_memory \<Rightarrow> event_type \<Rightarrow> uint16_t \<Rightarrow> int16_t \<Rightarrow> int16_t \<Rightarrow> uiohook_event" where
  "mouse_event_of m ty b x y =
     \<lparr>ev_type = ty, ev_time = em_time m, ev_mask = em_mask m, ev_reserved = em_reserved m,
      ev_data = Mouse \<lparr>ms_button = b, ms_clicks = get16 2 (em_bytes m), ms_x = x, ms_y = y\<rparr>\<rparr>"

definition key_event_of :: "event_memory \<Rightarrow> event_type \<Rightarrow> uint16_t \<Rightarrow> uiohook_event" where
  "key_event_of m ty c =
     \<lparr>ev_type = ty, ev_time = em_time m, ev_mask = 0, ev_reserved = em_reserved m,
      ev_data = Keyboard \<lparr>kb_keycode = c, kb_rawcode = get16 2 (em_bytes m), kb_keychar = CHAR_UNDEFINED\<rparr>\<rparr>"

definition wheel_event_of :: "event_memory \<Rightarrow> uiohook_event" where
  "wheel_event_of m =
     \<lparr>ev_type = EVENT_MOUSE_WHEEL, ev_time = em_time m, ev_mask = 0, ev_reserved = em_reserved m,
      ev_data = Wheel \<lparr>wh_clicks = VC_SHIFT_L, wh_x = 675, wh_y = 675, wh_type = 0x12, wh_amount = 3, wh_rotation = 1,
        wh_direction = em_bytes m 12\<rparr>\<rparr>"

text \<open>What a step keeps of the block: everything but the type, the mask of a key, and the bytes it writes.\<close>

definition same_block :: "event_memory \<Rightarrow> event_memory \<Rightarrow> bool" where
  "same_block m m' \<longleftrightarrow> em_time m' = em_time m \<and> em_reserved m' = em_reserved m
     \<and> get16 2 (em_bytes m') = get16 2 (em_bytes m) \<and> em_bytes m' 12 = em_bytes m 12"

lemma move_loop_effect:
  "\<exists>m'. fold move_to [0..<n] m = m' \<and> same_block m m' \<and> em_mask m' = em_mask m
     \<and> em_posted m' = em_posted m @ map (\<lambda>i. mouse_event_of m EVENT_MOUSE_MOVED MOUSE_NOBUTTON (of_nat i) (of_nat i)) [0..<n]
     \<and> (0 < n \<longrightarrow> get16 4 (em_bytes m') = of_nat (n - 1) \<and> get16 6 (em_bytes m') = of_nat (n - 1))"
proof (induction n)
  case (Suc n)
  then show ?case
    by (auto simp: move_to_def post_defs same_block_def mouse_event_of_def put16_apply)
qed (simp add: same_block_def)

lemma press_button_effect:
  "same_block m (press_button win m)" "em_mask (press_button win m) = em_mask m"
  "em_posted (press_button win m) = em_posted m @
     [mouse_event_of m EVENT_MOUSE_PRESSED MOUSE_BUTTON1 (if win then 4 else 10) (if win then 4 else 35)]"
  by (simp_all add: press_button_def post_defs same_block_def mouse_event_of_def put16_apply)

lemma release_button_effect:
  "same_block m (release_button m)" "em_mask (release_button m) = em_mask m"
  "get16 4 (em_bytes (release_button m)) = get16 4 (em_bytes m)"
  "get16 6 (em_bytes (release_button m)) = get16 6 (em_bytes m)"
  "em_posted (release_button m) = em_posted m @
     [mouse_event_of m EVENT_MOUSE_RELEASED MOUSE_BUTTON1 (get16 4 (em_bytes m)) (get16 6 (em_bytes m))]"
  by (simp_all add: release_button_def post_defs same_block_def mouse_event_of_def put16_apply)

lemma keys_effect:
  "same_block m (press_escape m)" "em_bytes (press_escape m) 6 = em_bytes m 6"
  "em_posted (press_escape m) = em_posted m @ [key_event_of m EVENT_KEY_PRESSED VC_ESCAPE]"
  "same_block m (press_with_shift m)" "em_bytes (press_with_shift m) 6 = em_bytes m 6"
  "em_mask (press_with_shift m) = 0" "get16 0 (em_bytes (press_with_shift m)) = VC_SHIFT_L"
  "em_posted (press_with_shift m) = em_posted m @
     [key_event_of m EVENT_KEY_PRESSED VC_SHIFT_L, key_event_of m EVENT_KEY_PRESSED VC_A,
      key_event_of m EVENT_KEY_RELEASED VC_A, key_event_of m EVENT_KEY_RELEASED VC_SHIFT_L]"
  by (simp_all add: press_escape_def press_with_shift_def post_defs same_block_def key_event_of_def put16_apply Let_def)

lemma same_block_trans: "same_block m n \<Longrightarrow> same_block n k \<Longrightarrow> same_block m k"
  by (simp add: same_block_def)

lemma same_block_events:
  assumes "same_block m n"
  shows "key_event_of n = key_event_of m" and "em_mask n = em_mask m \<Longrightarrow> mouse_event_of n = mouse_event_of m"
  using assms by (auto simp: same_block_def key_event_of_def mouse_event_of_def fun_eq_iff)

lemma byte_of_get16: "b off = ucast (get16 off b)"
  unfolding get16_def by (rule bit_word_eqI) (auto simp: bit_or_iff bit_ucast_iff bit_push_bit_iff)

lemma turn_wheel_effect:
  assumes "em_mask m = 0" and "get16 0 (em_bytes m) = VC_SHIFT_L" and "em_bytes m 6 = 0x12"
  shows "em_posted (turn_wheel m) = em_posted m @ [wheel_event_of m]"
  using assms by (simp add: turn_wheel_def post_defs wheel_event_of_def put16_apply)

text \<open>The whole sequence, with what the program never writes taken from the block it was given.\<close>

definition demo_events :: "bool \<Rightarrow> event_memory \<Rightarrow> uiohook_event list" where
  "demo_events win m =
     mouse_event_of m EVENT_MOUSE_PRESSED MOUSE_BUTTON1 (if win then 4 else 10) (if win then 4 else 35)
     # map (\<lambda>i. mouse_event_of m EVENT_MOUSE_MOVED MOUSE_NOBUTTON (of_nat i) (of_nat i)) [0..<275]
     @ [mouse_event_of m EVENT_MOUSE_RELEASED MOUSE_BUTTON1 274 274,
        key_event_of m EVENT_KEY_PRESSED VC_ESCAPE,
        key_event_of m EVENT_KEY_PRESSED VC_SHIFT_L, key_event_of m EVENT_KEY_PRESSED VC_A,
        key_event_of m EVENT_KEY_RELEASED VC_A, key_event_of m EVENT_KEY_RELEASED VC_SHIFT_L,
        wheel_event_of m]"

lemma drag_loop_effect:
  "same_block m (drag_loop m)" "em_mask (drag_loop m) = em_mask m"
  "em_posted (drag_loop m) = em_posted m @
     map (\<lambda>i. mouse_event_of m EVENT_MOUSE_MOVED MOUSE_NOBUTTON (of_nat i) (of_nat i)) [0..<275]"
  "get16 4 (em_bytes (drag_loop m)) = 274" "get16 6 (em_bytes (drag_loop m)) = 274"
  using move_loop_effect [of 275 m] by (simp_all add: drag_loop_def)

lemma post_main_events:
  assumes "em_posted m = []"
  shows "post_main win (Some m) = (demo_events win m, UIOHOOK_SUCCESS)"
proof -
  let ?p = "press_button win m"
  let ?d = "drag_loop ?p"
  let ?r = "release_button ?d"
  let ?e = "press_escape ?r"
  let ?s = "press_with_shift ?e"
  have p: "same_block m ?p" "em_mask ?p = em_mask m" by (rule press_button_effect)+
  have d: "same_block m ?d" "em_mask ?d = em_mask m"
    using same_block_trans [OF p(1) drag_loop_effect(1)] drag_loop_effect(2) p(2) by simp_all
  have r: "same_block m ?r" by (rule same_block_trans [OF d(1) release_button_effect(1)])
  have e: "same_block m ?e" by (rule same_block_trans [OF r keys_effect(1)])
  have s: "same_block m ?s" by (rule same_block_trans [OF e keys_effect(4)])
  have "em_bytes ?s 6 = ucast (get16 6 (em_bytes ?r))" unfolding keys_effect by (rule byte_of_get16)
  also have "\<dots> = ucast (274 :: uint16_t)" by (simp only: release_button_effect drag_loop_effect)
  also have "\<dots> = 0x12" by code_simp
  finally have six: "em_bytes ?s 6 = 0x12" .
  have "em_posted (turn_wheel ?s) = em_posted ?s @ [wheel_event_of ?s]"
    by (rule turn_wheel_effect) (rule keys_effect(6), rule keys_effect(7), rule six)
  moreover have "wheel_event_of ?s = wheel_event_of m" using s by (simp add: wheel_event_of_def same_block_def)
  ultimately show ?thesis
    using assms p(2) d(2) same_block_events [OF p(1)] same_block_events [OF d(1)] same_block_events [OF r] same_block_events [OF e]
    by (simp add: post_main_def demo_events_def keys_effect release_button_effect drag_loop_effect press_button_effect)
qed

section \<open>Posting them with X11\<close>

primrec post_all :: "post_env \<Rightarrow> input_helper \<Rightarrow> uiohook_event list \<Rightarrow> x_post \<Rightarrow> x_post result" where
  "post_all env h [] s = Inr s"
| "post_all env h (e # es) s = r_bind (hook_post_event env h e s) (post_all env h es)"

definition framed :: "request list \<Rightarrow> request list" where
  "framed rs = XLockDisplay # rs @ [XSync, XUnlockDisplay]"

text \<open>With XTest an event makes the same requests whatever was posted before.\<close>

definition makes :: "post_env \<Rightarrow> input_helper \<Rightarrow> uiohook_event \<Rightarrow> request list \<Rightarrow> bool" where
  "makes env h e rs \<longleftrightarrow> (\<forall>s. hook_post_event env h e s = Inr (s\<lparr>requests := requests s @ framed rs\<rparr>))"

lemma post_all_makes:
  assumes "list_all2 (makes env h) es rss"
  shows "post_all env h es s = Inr (s\<lparr>requests := requests s @ concat (map framed rss)\<rparr>)"
  using assms
proof (induction es rss arbitrary: s rule: list_all2_induct)
  case (Cons e es rs rss)
  then show ?case by (simp add: makes_def)
qed simp

lemma makes_mouse:
  assumes "helper_disp h" and "use_xtest (po_build env)"
  shows "makes env h (mouse_event_of m EVENT_MOUSE_PRESSED MOUSE_BUTTON1 x y) [XTestFakeMotionEvent x y, XTestFakeButtonEvent 1 True]"
    and "makes env h (mouse_event_of m EVENT_MOUSE_RELEASED MOUSE_BUTTON1 x y) [XTestFakeMotionEvent x y, XTestFakeButtonEvent 1 False]"
    and "makes env h (mouse_event_of m EVENT_MOUSE_MOVED b x y) [XTestFakeMotionEvent x y]"
  using assms
  by (simp_all add: makes_def hook_post_event_def post_by_type_def post_mouse_button_event_def post_mouse_motion_event_def
      mouse_member_def mouse_event_of_def Let_def request_def framed_def)

lemma demo_keycodes:
  "scancode_to_keycode e VC_ESCAPE = Inr 9" "scancode_to_keycode e VC_SHIFT_L = Inr 50" "scancode_to_keycode e VC_A = Inr 38"
proof -
  have "\<forall>e \<in> {True, False}. scancode_to_keycode e VC_ESCAPE = Inr 9 \<and> scancode_to_keycode e VC_SHIFT_L = Inr 50
    \<and> scancode_to_keycode e VC_A = Inr 38" by code_simp
  then show "scancode_to_keycode e VC_ESCAPE = Inr 9" "scancode_to_keycode e VC_SHIFT_L = Inr 50" "scancode_to_keycode e VC_A = Inr 38"
    by (cases e; simp)+
qed

lemma makes_key:
  assumes "helper_disp h" and "use_xtest (po_build env)"
    and "scancode_to_keycode (is_evdev h) c = Inr k" and "k \<noteq> 0"
  shows "makes env h (key_event_of m EVENT_KEY_PRESSED c) [XTestFakeKeyEvent k True]"
    and "makes env h (key_event_of m EVENT_KEY_RELEASED c) [XTestFakeKeyEvent k False]"
  using assms
  by (simp_all add: makes_def hook_post_event_def post_by_type_def post_key_event_def keyboard_member_def
      key_event_of_def Let_def request_def framed_def)

lemma makes_wheel:
  assumes "helper_disp h" and "use_xtest (po_build env)"
  shows "makes env h (wheel_event_of m) [XTestFakeButtonEvent (button_map_lookup h (po_mapping env) WheelDown) True,
    XTestFakeButtonEvent (button_map_lookup h (po_mapping env) WheelDown) False]"
  using assms
  by (simp add: makes_def hook_post_event_def post_by_type_def post_mouse_wheel_event_def wheel_member_def
      wheel_event_of_def Let_def request_def framed_def)

text \<open>
  C38. The posting demo asks an X server with XTest for the drag, the keys and the wheel step it
  describes, each locked and synchronised by itself, whatever the allocated block held before: no
  field that the program leaves unwritten reaches a request. Escape is pressed and never released.
\<close>

theorem demo_post_requests:
  assumes "em_posted m = []" and "helper_disp h" and "use_xtest (po_build env)"
  shows "\<exists>s'. post_all env h (fst (post_main False (Some m))) s = Inr s' \<and> requests s' = requests s
    @ framed [XTestFakeMotionEvent 10 35, XTestFakeButtonEvent 1 True]
    @ concat (map (\<lambda>i. framed [XTestFakeMotionEvent (of_nat i) (of_nat i)]) [0..<275])
    @ framed [XTestFakeMotionEvent 274 274, XTestFakeButtonEvent 1 False]
    @ framed [XTestFakeKeyEvent 9 True]
    @ framed [XTestFakeKeyEvent 50 True] @ framed [XTestFakeKeyEvent 38 True]
    @ framed [XTestFakeKeyEvent 38 False] @ framed [XTestFakeKeyEvent 50 False]
    @ framed [XTestFakeButtonEvent (button_map_lookup h (po_mapping env) WheelDown) True,
              XTestFakeButtonEvent (button_map_lookup h (po_mapping env) WheelDown) False]"
proof -
  note mouse = makes_mouse [OF assms(2,3)] and wheel = makes_wheel [OF assms(2,3)]
  note keys = makes_key [OF assms(2,3) demo_keycodes(1), simplified] makes_key [OF assms(2,3) demo_keycodes(2), simplified]
    makes_key [OF assms(2,3) demo_keycodes(3), simplified]
  have moves: "list_all2 (makes env h)
      (map (\<lambda>i. mouse_event_of m EVENT_MOUSE_MOVED MOUSE_NOBUTTON (of_nat i) (of_nat i)) is)
      (map (\<lambda>i. [XTestFakeMotionEvent (of_nat i) (of_nat i)]) is)" for "is"
    by (simp add: list_all2_map1 list_all2_map2 list_all2_refl mouse)
  let ?b = "button_map_lookup h (po_mapping env) WheelDown"
  let ?rss = "[XTestFakeMotionEvent 10 35, XTestFakeButtonEvent 1 True]
    # map (\<lambda>i. [XTestFakeMotionEvent (of_nat i) (of_nat i)]) [0..<275]
    @ [[XTestFakeMotionEvent 274 274, XTestFakeButtonEvent 1 False], [XTestFakeKeyEvent 9 True],
       [XTestFakeKeyEvent 50 True], [XTestFakeKeyEvent 38 True], [XTestFakeKeyEvent 38 False], [XTestFakeKeyEvent 50 False],
       [XTestFakeButtonEvent ?b True, XTestFakeButtonEvent ?b False]]"
  have "list_all2 (makes env h) (demo_events False m) ?rss"
    unfolding demo_events_def by (auto intro!: list_all2_appendI moves simp: mouse keys wheel)
  from post_all_makes [OF this, of s] show ?thesis
    by (simp add: post_main_events [OF assms(1)] comp_def)
qed

theorem demo_post_requests_witness:
  "\<exists>s'. post_all desktop_post_env desktop_helper (fst (post_main False (Some
      \<lparr>em_type = EVENT_HOOK_ENABLED, em_time = 7, em_mask = 0xFFFF, em_reserved = 1, em_bytes = (\<lambda>i. 0xCC), em_posted = []\<rparr>)))
      no_requests = Inr s' \<and> XTestFakeKeyEvent 9 True \<in> set (requests s') \<and> XTestFakeKeyEvent 9 False \<notin> set (requests s')"
proof -
  let ?m = "\<lparr>em_type = EVENT_HOOK_ENABLED, em_time = 7, em_mask = 0xFFFF, em_reserved = 1, em_bytes = (\<lambda>i. 0xCC), em_posted = []\<rparr>"
  have "em_posted ?m = []" "helper_disp desktop_helper" "use_xtest (po_build desktop_post_env)"
    by (simp_all add: desktop_defs desktop_post_env_def)
  from demo_post_requests [OF this, of no_requests] show ?thesis
    by (auto simp: framed_def no_requests_def simp del: upt_Suc)
qed

end
