(* ===== verification/Demo_Properties.thy ===== *)
theory Demo_Properties
  imports Demo_Hook X11_System_Properties
begin

text \<open>
  \<^verbatim>\<open>demo/demo_properties.c\<close>: the program that prints the screens and the six input settings. What the
  library answers is a record; \<open>x11_answers\<close> fills it with the functions of the X11 back end.
\<close>

section \<open>The answers of the library\<close>

record property_answers =
  pa_screens :: "uint8_t \<times> screen_array"
  pa_repeat_rate :: c_long
  pa_repeat_delay :: c_long
  pa_multiplier :: c_long
  pa_threshold :: c_long
  pa_sensitivity :: c_long
  pa_click_time :: "c_long result"

definition x11_answers :: "x11_build \<Rightarrow> x11_env \<Rightarrow> input_helper \<Rightarrow> property_answers" where
  "x11_answers build env h =
     \<lparr>pa_screens = hook_create_screen_info build env h,
      pa_repeat_rate = hook_get_auto_repeat_rate build env h,
      pa_repeat_delay = hook_get_auto_repeat_delay build env h,
      pa_multiplier = hook_get_pointer_acceleration_multiplier env h,
      pa_threshold = hook_get_pointer_acceleration_threshold env h,
      pa_sensitivity = hook_get_pointer_sensitivity env h,
      pa_click_time = hook_get_multi_click_time build env h\<rparr>"

section \<open>The program\<close>

text \<open>\<^verbatim>\<open>"\t%3u) %4u x %-4u (%5d, %-5d)\n"\<close>.\<close>

definition screen_line :: "screen_data \<Rightarrow> string" where
  "screen_line d =
     [CHR 0x09] @ pad_left 3 (show_u (unat (scr_number d))) @ '') '' @ pad_left 4 (show_u (unat (scr_width d)))
     @ '' x '' @ pad_right 4 (show_u (unat (scr_height d)))
     @ '' ('' @ pad_left 5 (show_i (sint (scr_x d))) @ '', '' @ pad_right 5 (show_i (sint (scr_y d))) @ '')''
     @ [CHR 0x0A]"

definition read_screen :: "screen_array \<Rightarrow> nat \<Rightarrow> screen_data result" where
  "read_screen monitors i =
     (case monitors of
        None \<Rightarrow> Inl NullDereference
      | Some ms \<Rightarrow>
          if i < length ms then (case ms ! i of None \<Rightarrow> Inl UninitialisedRead | Some d \<Rightarrow> Inr d) else Inl OutOfBounds)"

primrec print_screens :: "demo_env \<Rightarrow> screen_array \<Rightarrow> nat list \<Rightarrow> 'a stdio_scheme \<Rightarrow> 'a stdio_scheme result" where
  "print_screens env monitors [] s = Inr s"
| "print_screens env monitors (i # is) s =
     r_bind (read_screen monitors i) (\<lambda>d.
     print_screens env monitors is (snd (logger_proc env LOG_LEVEL_INFO (screen_line d) s)))"

definition print_setting :: "demo_env \<Rightarrow> string \<Rightarrow> string \<Rightarrow> c_long \<Rightarrow> 'a stdio_scheme \<Rightarrow> 'a stdio_scheme" where
  "print_setting env label warning v s =
     (if sint v \<ge> 0
      then snd (logger_proc env LOG_LEVEL_INFO (label @ '':'' @ [CHR 0x09] @ show_i (sint v) @ [CHR 0x0A]) s)
      else snd (logger_proc env LOG_LEVEL_WARN (''Failed to acquire '' @ warning @ ''!'' @ [CHR 0x0A]) s))"

definition properties_main :: "demo_env \<Rightarrow> property_answers \<Rightarrow> 'a stdio_scheme \<Rightarrow> ('a stdio_scheme \<times> c_int) result" where
  "properties_main env a s =
     (let (count, monitors) = pa_screens a;
          s = snd (logger_proc env LOG_LEVEL_INFO (''Monitors Found:'' @ [CHR 0x09] @ show_u (unat count) @ [CHR 0x0A]) s)
      in r_bind (print_screens env monitors [0..<unat count] s) (\<lambda>s.
         let s = snd (logger_proc env LOG_LEVEL_INFO [CHR 0x0A] s);
             s = print_setting env ''Auto Repeat Rate'' ''keyboard auto repeat rate'' (pa_repeat_rate a) s;
             s = print_setting env ''Auto Repeat Delay'' ''keyboard auto repeat delay'' (pa_repeat_delay a) s;
             s = print_setting env ''Mouse Acceleration Multiplier'' ''mouse acceleration multiplier'' (pa_multiplier a) s;
             s = print_setting env ''Mouse Acceleration Threshold'' ''mouse acceleration threshold'' (pa_threshold a) s;
             s = print_setting env ''Mouse Sensitivity'' ''mouse sensitivity value'' (pa_sensitivity a) s
         in r_bind (pa_click_time a) (\<lambda>click_time.
            Inr (print_setting env ''Multi-Click Time'' ''mouse multi-click time'' click_time s, 0))))"

section \<open>Lemmas\<close>

definition shown :: "string \<Rightarrow> c_long \<Rightarrow> string" where
  "shown label v = (if sint v \<ge> 0 then label @ '':'' @ [CHR 0x09] @ show_i (sint v) @ [CHR 0x0A] else [])"

definition warned :: "string \<Rightarrow> c_long \<Rightarrow> string" where
  "warned warning v = (if sint v \<ge> 0 then [] else ''Failed to acquire '' @ warning @ ''!'' @ [CHR 0x0A])"

lemma print_setting_effect:
  assumes "\<And>t. de_write env t"
  shows "st_stdout (print_setting env label warning v s) = st_stdout s @ shown label v"
    and "st_stderr (print_setting env label warning v s) = st_stderr s @ warned warning v"
  by (auto simp: print_setting_def shown_def warned_def logger_proc_def vfprintf_stdout_def vfprintf_stderr_def assms)

lemma print_screens_effect:
  assumes "\<And>t. de_write env t" and "\<forall>i \<in> set is. read_screen monitors i = Inr (f i)"
  shows "print_screens env monitors is s =
    Inr (s\<lparr>st_stdout := st_stdout s @ concat (map (\<lambda>i. screen_line (f i)) is)\<rparr>)"
  using assms(2)
  by (induction "is" arbitrary: s) (simp_all add: logger_proc_def vfprintf_stdout_def assms(1))

lemma print_screens_fault:
  assumes "read_screen monitors i = Inl e"
  shows "print_screens env monitors (i # is) s = Inl e"
  by (simp add: assms)

section \<open>Properties\<close>

text \<open>
  When the library lists as many written screens as it counts, the properties demo reads only
  elements of the array, prints the count, one line per screen and every setting that is not
  negative, warns of each of the others, and succeeds.
\<close>

theorem properties_main_output:
  assumes "\<And>t. de_write env t" and "pa_screens a = (count, monitors)"
    and "\<And>i. i < unat count \<Longrightarrow> read_screen monitors i = Inr (screens ! i)" and "length screens = unat count"
    and "pa_click_time a = Inr click_time"
  shows "\<exists>s'. properties_main env a s = Inr (s', 0)
    \<and> st_stdout s' = st_stdout s @ ''Monitors Found:'' @ [CHR 0x09] @ show_u (length screens) @ [CHR 0x0A]
        @ concat (map screen_line screens) @ [CHR 0x0A]
        @ shown ''Auto Repeat Rate'' (pa_repeat_rate a) @ shown ''Auto Repeat Delay'' (pa_repeat_delay a)
        @ shown ''Mouse Acceleration Multiplier'' (pa_multiplier a)
        @ shown ''Mouse Acceleration Threshold'' (pa_threshold a)
        @ shown ''Mouse Sensitivity'' (pa_sensitivity a) @ shown ''Multi-Click Time'' click_time
    \<and> st_stderr s' = st_stderr s @ warned ''keyboard auto repeat rate'' (pa_repeat_rate a)
        @ warned ''keyboard auto repeat delay'' (pa_repeat_delay a)
        @ warned ''mouse acceleration multiplier'' (pa_multiplier a)
        @ warned ''mouse acceleration threshold'' (pa_threshold a)
        @ warned ''mouse sensitivity value'' (pa_sensitivity a) @ warned ''mouse multi-click time'' click_time"
proof -
  have "\<forall>i \<in> set [0..<unat count]. read_screen monitors i = Inr (screens ! i)" using assms(3) by simp
  note screens = print_screens_effect [OF assms(1) this]
  have lines: "concat (map (\<lambda>i. screen_line (screens ! i)) [0..<unat count]) = concat (map screen_line screens)"
    unfolding assms(4) [symmetric] by (intro arg_cong [where f = concat] nth_equalityI) simp_all
  show ?thesis
    by (simp add: properties_main_def assms(2,4,5) Let_def screens lines logger_proc_def vfprintf_stdout_def
        assms(1) print_setting_effect [OF assms(1)])
qed

theorem properties_main_output_witness:
  "\<exists>s'. properties_main ascii_env (x11_answers desktop_build desktop_env desktop_helper) \<lparr>st_stdout = [], st_stderr = []\<rparr>
      = Inr (s', 0)
     \<and> st_stdout s' = ''Monitors Found:'' @ [CHR 0x09] @ ''2'' @ [CHR 0x0A]
        @ [CHR 0x09] @ ''  0) 1920 x 1080 (    0, 0    )'' @ [CHR 0x0A]
        @ [CHR 0x09] @ ''  1) 1280 x 1024 ( 1920, 0    )'' @ [CHR 0x0A] @ [CHR 0x0A]
        @ ''Auto Repeat Rate:'' @ [CHR 0x09] @ ''40'' @ [CHR 0x0A]
        @ ''Auto Repeat Delay:'' @ [CHR 0x09] @ ''660'' @ [CHR 0x0A]
        @ ''Mouse Acceleration Multiplier:'' @ [CHR 0x09] @ ''1'' @ [CHR 0x0A]
        @ ''Mouse Acceleration Threshold:'' @ [CHR 0x09] @ ''4'' @ [CHR 0x0A]
        @ ''Mouse Sensitivity:'' @ [CHR 0x09] @ ''2'' @ [CHR 0x0A]
        @ ''Multi-Click Time:'' @ [CHR 0x09] @ ''250'' @ [CHR 0x0A]
     \<and> st_stderr s' = []"
proof -
  let ?a = "x11_answers desktop_build desktop_env desktop_helper"
  let ?screens = "[\<lparr>scr_number = 0, scr_x = 0, scr_y = 0, scr_width = 1920, scr_height = 1080\<rparr>,
    \<lparr>scr_number = 1, scr_x = 1920, scr_y = 0, scr_width = 1280, scr_height = 1024\<rparr>]"
  have listed: "pa_screens ?a = (2, Some (map Some ?screens))"
    by (simp add: x11_answers_def hook_create_screen_info_def xinerama_screens_def desktop_defs screen_count_def)
  have click: "pa_click_time ?a = Inr 250"
    by (simp add: x11_answers_def hook_get_multi_click_time_def try_default_def desktop_defs Let_def)
  have read: "read_screen (Some (map Some ?screens)) i = Inr (?screens ! i)" if "i < unat (2 :: uint8_t)" for i
    using that by (simp add: read_screen_def less_2_cases_iff split: option.split) auto
  have settings: "pa_repeat_rate ?a = 40" "pa_repeat_delay ?a = 660" "pa_multiplier ?a = 1" "pa_threshold ?a = 4" "pa_sensitivity ?a = 2"
    by (simp_all add: x11_answers_def hook_get_auto_repeat_rate_def hook_get_auto_repeat_delay_def auto_repeat_def
        hook_get_pointer_acceleration_multiplier_def hook_get_pointer_acceleration_threshold_def
        hook_get_pointer_sensitivity_def desktop_defs)
  have "length ?screens = unat (2 :: uint8_t)" by simp
  from properties_main_output [where s = "\<lparr>st_stdout = [], st_stderr = []\<rparr>", OF ascii_sound(2) listed read this click]
  show ?thesis
    by (simp add: settings shown_def warned_def screen_line_def pad_left_def pad_right_def replicate_numeral show_defs digits.simps digit_char_def)
qed

text \<open>
  The X11 back end counts the screens before it looks at its allocation: without memory the demo
  follows a null pointer.
\<close>

theorem properties_null_screens:
  assumes "helper_disp h" and "use_screens build = SCREENS_XINERAMA" and "xine_active env"
    and "xine_screens env = Some (x # xs)" and "\<not> malloc_screens env"
  shows "properties_main denv (x11_answers build env h) s = Inl NullDereference"
proof -
  let ?count = "screen_count (length (x # xs))"
  have "pa_screens (x11_answers build env h) = (?count, None)"
    using assms by (simp add: x11_answers_def hook_create_screen_info_def xinerama_screens_def)
  moreover have "0 < unat ?count" unfolding screen_count_bound by simp
  then obtain n where "unat ?count = Suc n" by (cases "unat ?count") simp_all
  then have "[0..<unat ?count] = 0 # [1..<unat ?count]" by (simp add: upt_conv_Cons)
  ultimately show ?thesis
    by (simp add: properties_main_def read_screen_def print_screens_fault [where e = NullDereference])
qed

end
