(* ===== verification/Library_Tests.thy ===== *)
theory Library_Tests
  imports Demo_Properties Windows_Helper_Properties Darwin_Post_Event
begin

text \<open>
  The unit tests of the repository (\<^verbatim>\<open>test/\<close>): MinUnit, the two tests of the key tables and the tests of the
  settings, with the library's functions as their arguments, and which of them pass on the back ends.
\<close>

section \<open>MinUnit\<close>

text \<open>A test answers a message or nothing; running stops at the first message and counts the tests.\<close>

definition mu_assert :: "string \<Rightarrow> bool \<Rightarrow> string option" where
  "mu_assert message test = (if \<not> test then Some message else None)"

primrec mu_run_tests :: "string option result list \<Rightarrow> nat \<Rightarrow> (string option \<times> nat) result" where
  "mu_run_tests [] tests_run = Inr (None, tests_run)"
| "mu_run_tests (t # ts) tests_run =
     r_bind t (\<lambda>message.
     case message of None \<Rightarrow> mu_run_tests ts (tests_run + 1) | Some m \<Rightarrow> Inr (Some m, tests_run + 1))"

text \<open>A \<^verbatim>\<open>for\<close> loop whose body may return a message.\<close>

primrec mu_loop :: "(nat \<Rightarrow> string option result) \<Rightarrow> nat list \<Rightarrow> string option result" where
  "mu_loop test [] = Inr None"
| "mu_loop test (i # is) =
     r_bind (test i) (\<lambda>message. case message of None \<Rightarrow> mu_loop test is | Some m \<Rightarrow> Inr (Some m))"

section \<open>The key tables\<close>

definition convert_back :: string where
  "convert_back = ''error, scancode to keycode failed to convert back''"

text \<open>
  The bodies of the two loops. \<open>tested\<close> leaves out the keys that the Windows build skips; \<open>undefined_key\<close> is the
  key code that stands for none.
\<close>

definition keycode_test ::
  "(nat \<Rightarrow> bool) \<Rightarrow> (nat \<Rightarrow> uint16_t) \<Rightarrow> (uint16_t \<Rightarrow> uint16_t result) \<Rightarrow> nat \<Rightarrow> string option result" where
  "keycode_test tested to_scancode to_keycode i =
     (if tested i then
        let scancode = to_scancode i in
        r_bind (to_keycode scancode) (\<lambda>keycode.
        if scancode \<noteq> VC_UNDEFINED then Inr (mu_assert convert_back (of_nat i = keycode)) else Inr None)
      else Inr None)"

definition scancode_test ::
  "uint16_t \<Rightarrow> (uint16_t \<Rightarrow> uint16_t) \<Rightarrow> (uint16_t \<Rightarrow> uint16_t result) \<Rightarrow> nat \<Rightarrow> string option result" where
  "scancode_test undefined_key to_scancode to_keycode i =
     r_bind (to_keycode (of_nat i)) (\<lambda>keycode.
     let scancode = to_scancode keycode;
         scancode = (if scancode > 127 then (scancode AND 0x7F) OR 0x80 else scancode)
     in if keycode \<noteq> undefined_key then Inr (mu_assert convert_back (of_nat i = scancode)) else Inr None)"

definition test_bidirectional_keycode ::
  "(nat \<Rightarrow> bool) \<Rightarrow> (nat \<Rightarrow> uint16_t) \<Rightarrow> (uint16_t \<Rightarrow> uint16_t result) \<Rightarrow> string option result" where
  "test_bidirectional_keycode tested to_scancode to_keycode = mu_loop (keycode_test tested to_scancode to_keycode) [0..<256]"

definition test_bidirectional_scancode ::
  "uint16_t \<Rightarrow> (uint16_t \<Rightarrow> uint16_t) \<Rightarrow> (uint16_t \<Rightarrow> uint16_t result) \<Rightarrow> string option result" where
  "test_bidirectional_scancode undefined_key to_scancode to_keycode =
     mu_loop (scancode_test undefined_key to_scancode to_keycode) [0..<256]"

section \<open>The settings\<close>

definition system_properties_tests :: "property_answers \<Rightarrow> string option result list" where
  "system_properties_tests a =
     [Inr (mu_assert ''error, could not determine auto repeat rate'' (sint (pa_repeat_rate a) \<ge> 0)),
      Inr (mu_assert ''error, could not determine auto repeat delay'' (sint (pa_repeat_delay a) \<ge> 0)),
      Inr (mu_assert ''error, could not determine pointer acceleration multiplier'' (sint (pa_multiplier a) \<ge> 0)),
      Inr (mu_assert ''error, could not determine pointer acceleration threshold'' (sint (pa_threshold a) \<ge> 0)),
      Inr (mu_assert ''error, could not determine pointer sensitivity'' (sint (pa_sensitivity a) \<ge> 0)),
      r_bind (pa_click_time a) (\<lambda>t. Inr (mu_assert ''error, could not determine multi click time'' (sint t \<ge> 0)))]"

text \<open>\<^verbatim>\<open>main\<close>: the exit status is 1 unless a test gave a message.\<close>

definition tests_main :: "string option \<Rightarrow> c_int" where
  "tests_main message = (if message \<noteq> None then 0 else 1)"

section \<open>The functions under test\<close>

text \<open>The library's functions at the types of the tests.\<close>

definition x11_to_keycode :: "bool \<Rightarrow> uint16_t \<Rightarrow> uint16_t result" where
  "x11_to_keycode evdev scancode = map_sum id ucast (scancode_to_keycode evdev scancode)"

definition x11_to_scancode :: "bool \<Rightarrow> uint16_t \<Rightarrow> uint16_t" where
  "x11_to_scancode evdev keycode = keycode_to_scancode evdev (ucast keycode)"

definition win_to_keycode :: "uint16_t \<Rightarrow> uint16_t result" where
  "win_to_keycode scancode = map_sum id ucast (win_scancode_to_keycode scancode)"

definition win_tested :: "nat \<Rightarrow> bool" where
  "win_tested i \<longleftrightarrow> (i > 6 \<and> i < 16) \<or> i > 18"

definition mac_to_keycode :: "uint16_t \<Rightarrow> uint16_t result" where
  "mac_to_keycode scancode = map_sum id ucast (mac_scancode_to_keycode scancode)"

section \<open>The test program\<close>

text \<open>
  The counter of MinUnit, the helper under test, the static display of the program and the connections that
  are open. \<^verbatim>\<open>mu_run_test\<close> counts a test after it ran, and returns its message if there is one.
\<close>

record 'h test_program =
  tests_run :: nat
  tested_helper :: 'h
  disp :: bool
  open_displays :: nat

type_synonym 'h unit_test = "'h test_program \<Rightarrow> (string option \<times> 'h test_program) result"

definition mu_run_test :: "'h unit_test \<Rightarrow> 'h unit_test \<Rightarrow> 'h unit_test" where
  "mu_run_test test rest p =
     r_bind (test p) (\<lambda>(message, p).
     let p = p\<lparr>tests_run := tests_run p + 1\<rparr> in
     case message of None \<Rightarrow> rest p | Some m \<Rightarrow> Inr (Some m, p))"

definition no_message :: "'h unit_test" where
  "no_message p = Inr (None, p)"

definition run_counted :: "string option result list \<Rightarrow> 'h unit_test" where
  "run_counted ts p = r_bind (mu_run_tests ts (tests_run p)) (\<lambda>(message, n). Inr (message, p\<lparr>tests_run := n\<rparr>))"

text \<open>
  \<^verbatim>\<open>init_tests\<close> opens a display in a local variable that hides the static one. Without X11 it loads the helper,
  and \<^verbatim>\<open>cleanup_tests\<close> unloads it.
\<close>

definition x11_init_tests :: "bool \<Rightarrow> load_env \<Rightarrow> input_helper unit_test" where
  "x11_init_tests opened env p =
     (if opened
      then r_bind (load_input_helper env (tested_helper p)) (\<lambda>h.
           Inr (None, p\<lparr>tested_helper := h, open_displays := open_displays p + 1\<rparr>))
      else Inr (Some ''error, could not open X display'', p))"

definition x11_cleanup_tests :: "input_helper unit_test" where
  "x11_cleanup_tests p =
     (if disp p then Inr (None, p\<lparr>open_displays := open_displays p - 1, disp := False\<rparr>) else Inr (None, p))"

definition load_tests :: "('h \<Rightarrow> 'h result) \<Rightarrow> 'h unit_test" where
  "load_tests load p = r_bind (load (tested_helper p)) (\<lambda>h. Inr (None, p\<lparr>tested_helper := h\<rparr>))"

definition unload_tests :: "('h \<Rightarrow> 'h) \<Rightarrow> 'h unit_test" where
  "unload_tests unload p = Inr (None, p\<lparr>tested_helper := unload (tested_helper p)\<rparr>)"

text \<open>\<^verbatim>\<open>input_helper_tests\<close> over the functions of a back end, and \<^verbatim>\<open>all_tests\<close>.\<close>

definition input_helper_tests ::
  "(nat \<Rightarrow> bool) \<Rightarrow> uint16_t \<Rightarrow> (nat \<Rightarrow> uint16_t) \<Rightarrow> (uint16_t \<Rightarrow> uint16_t) \<Rightarrow> (uint16_t \<Rightarrow> uint16_t result) \<Rightarrow> 'h unit_test" where
  "input_helper_tests tested undefined_key code_of to_scancode to_keycode =
     run_counted [test_bidirectional_keycode tested code_of to_keycode,
       test_bidirectional_scancode undefined_key to_scancode to_keycode]"

definition all_tests :: "'h unit_test \<Rightarrow> ('h \<Rightarrow> property_answers) \<Rightarrow> ('h \<Rightarrow> 'h unit_test) \<Rightarrow> 'h unit_test \<Rightarrow> 'h unit_test" where
  "all_tests init answers helper_tests cleanup =
     mu_run_test init
       (mu_run_test (\<lambda>p. run_counted (system_properties_tests (answers (tested_helper p))) p)
         (mu_run_test (\<lambda>p. helper_tests (tested_helper p) p)
           (mu_run_test cleanup no_message)))"

text \<open>The text \<^verbatim>\<open>main\<close> prints at the end, and its status.\<close>

definition tests_text :: "string option \<Rightarrow> nat \<Rightarrow> string" where
  "tests_text message n =
     (case message of None \<Rightarrow> ''ALL TESTS PASSED'' | Some m \<Rightarrow> m) @ [CHR 0x0A] @ ''Tests run: '' @ show_u n @ [CHR 0x0A]"

definition tests_program :: "'h unit_test \<Rightarrow> 'h test_program \<Rightarrow> ('h test_program \<times> string \<times> c_int) result" where
  "tests_program tests p =
     r_bind (tests p) (\<lambda>(message, p). Inr (p, tests_text message (tests_run p), tests_main message))"

text \<open>The three builds.\<close>

definition x11_tests :: "bool \<Rightarrow> load_env \<Rightarrow> x11_build \<Rightarrow> x11_env \<Rightarrow> input_helper unit_test" where
  "x11_tests opened lenv build env =
     all_tests (x11_init_tests opened lenv) (x11_answers build env)
       (\<lambda>h. input_helper_tests (\<lambda>i. True) 0 (\<lambda>i. keycode_to_scancode (is_evdev h) (of_nat i))
          (x11_to_scancode (is_evdev h)) (x11_to_keycode (is_evdev h)))
       x11_cleanup_tests"

definition win_tests :: "layout_env \<Rightarrow> property_answers \<Rightarrow> win_helper unit_test" where
  "win_tests env answers =
     all_tests (load_tests (\<lambda>h. map_sum id fst (win_load_input_helper env h))) (\<lambda>h. answers)
       (\<lambda>h. input_helper_tests win_tested 0 (\<lambda>i. win_keycode_to_scancode (of_nat i) 0)
          (\<lambda>keycode. win_keycode_to_scancode (ucast keycode) 0) win_to_keycode)
       (unload_tests (\<lambda>h. fst (win_unload_input_helper h)))"

definition mac_tests :: "mac_build \<Rightarrow> property_answers \<Rightarrow> mac_helper unit_test" where
  "mac_tests build answers =
     all_tests (load_tests (\<lambda>h. Inr (mac_load_input_helper h))) (\<lambda>h. answers)
       (\<lambda>h. input_helper_tests (\<lambda>i. True) 255 (\<lambda>i. mac_keycode_to_scancode (of_nat i))
          (\<lambda>keycode. mac_keycode_to_scancode (ucast keycode)) mac_to_keycode)
       (unload_tests (mac_unload_input_helper build))"

section \<open>Lemmas\<close>

lemma mu_loop_passes: "(\<And>i. i \<in> set is \<Longrightarrow> test i = Inr None) \<Longrightarrow> mu_loop test is = Inr None"
  by (induction "is") simp_all

lemma mu_loop_append: "mu_loop test is = Inr None \<Longrightarrow> mu_loop test (is @ js) = mu_loop test js"
  by (induction "is") (auto simp: r_bind_eq_Inr split: option.splits elim!: r_bind_InrE)

lemma mu_loop_fails:
  assumes "\<And>i. i < k \<Longrightarrow> test i = Inr None" and "test k = Inr (Some m)" and "k < n"
  shows "mu_loop test [0..<n] = Inr (Some m)"
proof -
  have "[0..<n] = [0..<k] @ [k..<n]" using assms(3) upt_add_eq_append [of 0 k "n - k"] by simp
  moreover have "[k..<n] = k # [Suc k..<n]" using assms(3) by (rule upt_conv_Cons)
  moreover have "mu_loop test [0..<k] = Inr None" using assms(1) by (intro mu_loop_passes) simp
  ultimately show ?thesis using assms(2) by (simp add: mu_loop_append)
qed

text \<open>The test of a key passes when its code leads back to it.\<close>

lemma keycode_test_passes:
  assumes "\<not> isl (to_keycode VC_UNDEFINED)"
    and "tested i \<Longrightarrow> to_scancode i \<noteq> VC_UNDEFINED \<Longrightarrow> to_keycode (to_scancode i) = Inr (of_nat i)"
  shows "keycode_test tested to_scancode to_keycode i = Inr None"
proof (cases "to_scancode i = VC_UNDEFINED")
  case True
  then show ?thesis using assms(1) by (cases "to_keycode VC_UNDEFINED") (simp_all add: keycode_test_def Let_def)
next
  case False
  then show ?thesis using assms(2) by (simp add: keycode_test_def mu_assert_def Let_def)
qed

lemma of_nat_ucast: "i < 256 \<Longrightarrow> ucast (of_nat i :: 8 word) = (of_nat i :: 16 word)"
  "i < 256 \<Longrightarrow> ucast (of_nat i :: 32 word) = (of_nat i :: 16 word)"
  "i < 256 \<Longrightarrow> ucast (of_nat i :: 64 word) = (of_nat i :: 16 word)"
  by (simp_all add: unsigned_of_nat take_bit_nat_eq_self)

abbreviation x11_key_test :: "bool \<Rightarrow> nat \<Rightarrow> string option result" where
  "x11_key_test evdev \<equiv> keycode_test (\<lambda>i. True) (\<lambda>i. keycode_to_scancode evdev (of_nat i)) (x11_to_keycode evdev)"

abbreviation win_key_test :: "nat \<Rightarrow> string option result" where
  "win_key_test \<equiv> keycode_test win_tested (\<lambda>i. win_keycode_to_scancode (of_nat i) 0) win_to_keycode"

abbreviation mac_key_test :: "nat \<Rightarrow> string option result" where
  "mac_key_test \<equiv> keycode_test (\<lambda>i. True) (\<lambda>i. mac_keycode_to_scancode (of_nat i)) mac_to_keycode"

lemma of_nat_eq_numeral: "i < 256 \<Longrightarrow> n < 256 \<Longrightarrow> (of_nat i :: 'a :: len word) = of_nat n \<Longrightarrow> 8 \<le> LENGTH('a) \<Longrightarrow> i = n"
proof -
  assume i: "i < 256" and n: "n < 256" and eq: "(of_nat i :: 'a word) = of_nat n" and "8 \<le> LENGTH('a)"
  then have "(256 :: nat) \<le> 2 ^ LENGTH('a)" using power_increasing [of 8 "LENGTH('a)" "2 :: nat"] by simp
  with i n have "i < 2 ^ LENGTH('a)" "n < 2 ^ LENGTH('a)" by linarith+
  then have "unat (of_nat i :: 'a word) = i" "unat (of_nat n :: 'a word) = n" by (simp_all add: unsigned_of_nat take_bit_nat_eq_self)
  with eq show "i = n" by metis
qed

lemma x11_key_test_passes:
  assumes "i < 256" and "\<not> (evdev \<and> i = 226)"
  shows "x11_key_test evdev i = Inr None"
proof (rule keycode_test_passes)
  show "\<not> isl (x11_to_keycode evdev VC_UNDEFINED)"
    using scancode_to_keycode_inside [of evdev VC_UNDEFINED] by (auto simp: x11_to_keycode_def)
  assume "keycode_to_scancode evdev (of_nat i) \<noteq> VC_UNDEFINED"
  moreover have "\<not> (evdev \<and> (of_nat i :: KeyCode) = 226)"
    using assms of_nat_eq_numeral [of i 226, where 'a = 8] by auto
  ultimately show "x11_to_keycode evdev (keycode_to_scancode evdev (of_nat i)) = Inr (of_nat i)"
    using keycode_scancode_roundtrip_lemma [of evdev "of_nat i"] assms(1) by (simp add: x11_to_keycode_def of_nat_ucast)
qed

lemma win_key_test_passes:
  assumes "i < 226"
  shows "win_key_test i = Inr None"
proof (rule keycode_test_passes)
  show "\<not> isl (win_to_keycode VC_UNDEFINED)" by code_simp
  assume tested: "win_tested i" and code: "win_keycode_to_scancode (of_nat i) 0 \<noteq> VC_UNDEFINED"
  have neq: "(of_nat i :: 32 word) \<noteq> of_nat n" if "n < 256" "i \<noteq> n" for n
    using that assms of_nat_eq_numeral [of i n, where 'a = 32] by auto
  have "(of_nat i :: 32 word) \<notin> {1, 2, 4, 5, 6, 0x10, 0x11, 0x12, 0xE2, 0xFE}"
    using tested assms neq [of 1] neq [of 2] neq [of 4] neq [of 5] neq [of 6] neq [of 16] neq [of 17] neq [of 18]
      neq [of 226] neq [of 254] by (auto simp: win_tested_def)
  then have "win_scancode_to_keycode (win_keycode_to_scancode (of_nat i) 0) = Inr (of_nat i)"
    by (intro win_keycode_back [OF code]) simp_all
  then show "win_to_keycode (win_keycode_to_scancode (of_nat i) 0) = Inr (of_nat i)"
    using assms by (simp add: win_to_keycode_def of_nat_ucast)
qed

lemma mac_key_test_passes:
  assumes "i < 226"
  shows "mac_key_test i = Inr None"
proof (rule keycode_test_passes)
  show "\<not> isl (mac_to_keycode VC_UNDEFINED)" by code_simp
  assume "mac_keycode_to_scancode (of_nat i) \<noteq> VC_UNDEFINED"
  moreover have "(of_nat i :: 64 word) \<noteq> 0xE2" using assms of_nat_eq_numeral [of i 226, where 'a = 64] by auto
  ultimately show "mac_to_keycode (mac_keycode_to_scancode (of_nat i)) = Inr (of_nat i)"
    using mac_code_roundtrip [of "of_nat i"] assms by (simp add: mac_to_keycode_def of_nat_ucast)
qed

lemma key_226_fails:
  "x11_key_test True 226 = Inr (Some convert_back)"
  "win_key_test 226 = Inr (Some convert_back)"
  "mac_key_test 226 = Inr (Some convert_back)"
  by code_simp+

definition scancode_passes :: "bool \<Rightarrow> nat \<Rightarrow> bool" where
  "scancode_passes evdev i \<longleftrightarrow> scancode_test 0 (x11_to_scancode evdev) (x11_to_keycode evdev) i = Inr None"

lemma scancode_passes_evdev_low: "list_all (scancode_passes True) [0..<128]"
  by code_simp

lemma scancode_passes_evdev_high: "list_all (scancode_passes True) [128..<256]"
  by code_simp

lemma scancode_passes_xfree86_low: "list_all (scancode_passes False) [0..<128]"
  by code_simp

lemma scancode_passes_xfree86_high: "list_all (scancode_passes False) [128..<256]"
  by code_simp

lemmas x11_scancode_tests = list_all_halves [OF scancode_passes_evdev_low scancode_passes_evdev_high]
  list_all_halves [OF scancode_passes_xfree86_low scancode_passes_xfree86_high]

section \<open>Which tests pass\<close>

text \<open>
  The test that every key code comes back from its virtual code passes with the table of XFree86 and
  fails with that of evdev and on Windows and Darwin, at key 226; the test in the other direction
  passes on X11. The test program exits with 1 when all tests pass and with 0 when one fails.
\<close>

theorem bidirectional_tests:
  "test_bidirectional_keycode (\<lambda>i. True) (\<lambda>i. keycode_to_scancode False (of_nat i)) (x11_to_keycode False) = Inr None
   \<and> test_bidirectional_keycode (\<lambda>i. True) (\<lambda>i. keycode_to_scancode True (of_nat i)) (x11_to_keycode True) = Inr (Some convert_back)
   \<and> test_bidirectional_keycode win_tested (\<lambda>i. win_keycode_to_scancode (of_nat i) 0) win_to_keycode = Inr (Some convert_back)
   \<and> test_bidirectional_keycode (\<lambda>i. True) (\<lambda>i. mac_keycode_to_scancode (of_nat i)) mac_to_keycode = Inr (Some convert_back)
   \<and> test_bidirectional_scancode 0 (x11_to_scancode evdev) (x11_to_keycode evdev) = Inr None
   \<and> tests_main None = 1 \<and> tests_main (Some convert_back) = 0"
proof (intro conjI)
  show "test_bidirectional_keycode (\<lambda>i. True) (\<lambda>i. keycode_to_scancode False (of_nat i)) (x11_to_keycode False) = Inr None"
    unfolding test_bidirectional_keycode_def by (rule mu_loop_passes) (simp add: x11_key_test_passes)
  show "test_bidirectional_keycode (\<lambda>i. True) (\<lambda>i. keycode_to_scancode True (of_nat i)) (x11_to_keycode True) = Inr (Some convert_back)"
    unfolding test_bidirectional_keycode_def
    by (rule mu_loop_fails [where k = 226]) (simp_all add: x11_key_test_passes key_226_fails)
  show "test_bidirectional_keycode win_tested (\<lambda>i. win_keycode_to_scancode (of_nat i) 0) win_to_keycode = Inr (Some convert_back)"
    unfolding test_bidirectional_keycode_def
    by (rule mu_loop_fails [where k = 226]) (simp_all add: win_key_test_passes key_226_fails)
  show "test_bidirectional_keycode (\<lambda>i. True) (\<lambda>i. mac_keycode_to_scancode (of_nat i)) mac_to_keycode = Inr (Some convert_back)"
    unfolding test_bidirectional_keycode_def
    by (rule mu_loop_fails [where k = 226]) (simp_all add: mac_key_test_passes key_226_fails)
  show "test_bidirectional_scancode 0 (x11_to_scancode evdev) (x11_to_keycode evdev) = Inr None"
    unfolding test_bidirectional_scancode_def
    using x11_scancode_tests by (intro mu_loop_passes) (cases evdev; simp add: list_all_iff scancode_passes_def)
qed (simp_all add: tests_main_def)

text \<open>
  The tests of the settings all pass exactly when no setting is negative, the value that stands for a
  setting the library could not determine.
\<close>

theorem settings_tests:
  assumes "pa_click_time a = Inr click_time"
  shows "mu_run_tests (system_properties_tests a) n = Inr (None, n + 6) \<longleftrightarrow>
    (\<forall>v \<in> {pa_repeat_rate a, pa_repeat_delay a, pa_multiplier a, pa_threshold a, pa_sensitivity a, click_time}. 0 \<le> sint v)"
  using assms by (simp add: system_properties_tests_def mu_assert_def)

lemma x11_keycode_test:
  "test_bidirectional_keycode (\<lambda>i. True) (\<lambda>i. keycode_to_scancode evdev (of_nat i)) (x11_to_keycode evdev)
    = Inr (if evdev then Some convert_back else None)"
  using bidirectional_tests by (cases evdev) simp_all

lemma x11_scancode_test: "test_bidirectional_scancode 0 (x11_to_scancode evdev) (x11_to_keycode evdev) = Inr None"
  using bidirectional_tests by simp

text \<open>
  The tests of the settings count each test that ran; when one fails, it is counted and the others do not run.
\<close>

definition settings_determined :: "property_answers \<Rightarrow> c_long \<Rightarrow> bool" where
  "settings_determined a click_time \<longleftrightarrow>
     (\<forall>v \<in> {pa_repeat_rate a, pa_repeat_delay a, pa_multiplier a, pa_threshold a, pa_sensitivity a, click_time}. 0 \<le> sint v)"

lemma mu_run_tests_outcome:
  assumes "\<forall>t \<in> set ts. \<exists>m. t = Inr m"
  shows "\<exists>message k. mu_run_tests ts n = Inr (message, n + k) \<and> (message = None \<longleftrightarrow> set ts \<subseteq> {Inr None})
    \<and> k \<le> length ts \<and> (message = None \<longrightarrow> k = length ts)"
  using assms
proof (induction ts arbitrary: n)
  case (Cons t ts)
  then obtain m where t: "t = Inr m" by auto
  show ?case
  proof (cases m)
    case None
    have "\<forall>t \<in> set ts. \<exists>m. t = Inr m" using Cons.prems by simp
    from Cons.IH [OF this, of "n + 1"] obtain message k where "mu_run_tests ts (n + 1) = Inr (message, n + 1 + k)"
      "message = None \<longleftrightarrow> set ts \<subseteq> {Inr None}" "k \<le> length ts" "message = None \<longrightarrow> k = length ts" by blast
    then show ?thesis using t None by (intro exI [of _ message] exI [of _ "Suc k"]) auto
  qed (use t in \<open>auto intro!: exI [of _ 1]\<close>)
qed simp

lemma settings_tests_outcome:
  assumes "pa_click_time a = Inr click_time"
  shows "\<exists>message k. mu_run_tests (system_properties_tests a) n = Inr (message, n + k)
    \<and> (message = None \<longleftrightarrow> settings_determined a click_time) \<and> k \<le> 6 \<and> (message = None \<longrightarrow> k = 6)"
proof -
  have "\<forall>t \<in> set (system_properties_tests a). \<exists>m. t = Inr m" and len: "length (system_properties_tests a) = 6"
    using assms by (simp_all add: system_properties_tests_def)
  moreover have "set (system_properties_tests a) \<subseteq> {Inr None} \<longleftrightarrow> settings_determined a click_time"
    using assms by (simp add: system_properties_tests_def mu_assert_def settings_determined_def)
  ultimately show ?thesis using mu_run_tests_outcome [of "system_properties_tests a" n] by simp
qed

text \<open>All the tests, after an initialisation that succeeds and up to a clean-up that does.\<close>

lemma all_tests_outcome [case_names passed failed]:
  fixes p :: "'h test_program"
  assumes init: "init p = Inr (None, q)" "tests_run q = tests_run p"
    and click: "pa_click_time (answers (tested_helper q)) = Inr click_time"
    and keys: "helper_tests (tested_helper q) = run_counted [Inr m, t]" "m = None \<Longrightarrow> t = Inr None"
    and cleanup: "\<And>r. cleanup r = Inr (None, f r)" "\<And>r. tests_run (f r) = tests_run r"
  obtains (passed) n where "settings_determined (answers (tested_helper q)) click_time" and "m = None"
      and "all_tests init answers helper_tests cleanup p
        = Inr (None, (f (q\<lparr>tests_run := n\<rparr>))\<lparr>tests_run := tests_run p + 12\<rparr>)"
    | (failed) message n where "\<not> (settings_determined (answers (tested_helper q)) click_time \<and> m = None)"
      and "all_tests init answers helper_tests cleanup p = Inr (Some message, q\<lparr>tests_run := n\<rparr>)" and "n \<le> tests_run p + 10"
proof -
  let ?q = "q\<lparr>tests_run := tests_run p + 1\<rparr>"
  have start: "all_tests init answers helper_tests cleanup p =
      mu_run_test (\<lambda>p. run_counted (system_properties_tests (answers (tested_helper p))) p)
        (mu_run_test (\<lambda>p. helper_tests (tested_helper p) p) (mu_run_test cleanup no_message)) ?q"
    using init by (simp add: all_tests_def mu_run_test_def [of init])
  obtain message k where settings: "mu_run_tests (system_properties_tests (answers (tested_helper q))) (tests_run p + 1)
      = Inr (message, tests_run p + 1 + k)"
    and message: "message = None \<longleftrightarrow> settings_determined (answers (tested_helper q)) click_time"
    and k: "k \<le> 6" "message = None \<longrightarrow> k = 6"
    using settings_tests_outcome [OF click] by blast
  show thesis
  proof (cases message)
    case None
    then show thesis
    proof (cases m)
      case None
      then have "all_tests init answers helper_tests cleanup p
        = Inr (None, (f (q\<lparr>tests_run := tests_run p + 11\<rparr>))\<lparr>tests_run := tests_run p + 12\<rparr>)"
        using start settings k keys cleanup \<open>message = None\<close>
        by (simp add: mu_run_test_def run_counted_def no_message_def Let_def add.commute)
      with None \<open>message = None\<close> message show thesis by (intro passed) simp_all
    next
      case (Some failure)
      then have run: "all_tests init answers helper_tests cleanup p = Inr (Some failure, q\<lparr>tests_run := tests_run p + 10\<rparr>)"
        using start settings k keys(1) \<open>message = None\<close>
        by (simp add: mu_run_test_def run_counted_def Let_def add.commute)
      show thesis using Some by (intro failed [OF _ run]) simp_all
    qed
  next
    case (Some failure)
    then have run: "all_tests init answers helper_tests cleanup p = Inr (Some failure, q\<lparr>tests_run := tests_run p + 2 + k\<rparr>)"
      using start settings by (simp add: mu_run_test_def run_counted_def Let_def)
    show thesis using Some message k(1) by (intro failed [OF _ run]) simp_all
  qed
qed

text \<open>
  The test program on X11 exits with 1 when the display can be opened, no setting is negative and the keyboard
  is not an evdev one; otherwise it stops at the first test that fails and exits with 0. The display it
  opened stays open on every path: \<^verbatim>\<open>cleanup_tests\<close> closes the static one, which is null.
\<close>

theorem x11_test_program:
  assumes "\<not> disp p" and "load_input_helper lenv (tested_helper p) = Inr h"
    and "pa_click_time (x11_answers build env h) = Inr click_time"
  shows "\<exists>p' text status. tests_program (x11_tests opened lenv build env) p = Inr (p', text, status)
    \<and> open_displays p' = open_displays p + of_bool opened
    \<and> (status = 1 \<longleftrightarrow> opened \<and> settings_determined (x11_answers build env h) click_time \<and> \<not> is_evdev h)
    \<and> (status = 1 \<longrightarrow> tests_run p' = tests_run p + 12 \<and> text = tests_text None (tests_run p + 12))
    \<and> (status \<noteq> 1 \<longrightarrow> status = 0 \<and> tests_run p' \<le> tests_run p + 10)"
proof (cases opened)
  case True
  let ?q = "p\<lparr>tested_helper := h, open_displays := open_displays p + 1\<rparr>"
  have init: "x11_init_tests opened lenv p = Inr (None, ?q)" using True assms(2) by (simp add: x11_init_tests_def)
  have keys: "input_helper_tests (\<lambda>i. True) 0 (\<lambda>i. keycode_to_scancode (is_evdev h) (of_nat i)) (x11_to_scancode (is_evdev h))
      (x11_to_keycode (is_evdev h)) = run_counted [Inr (if is_evdev h then Some convert_back else None), Inr None]"
    by (simp add: input_helper_tests_def x11_keycode_test x11_scancode_test)
  show ?thesis
  proof (rule all_tests_outcome [of "x11_init_tests opened lenv" p ?q "x11_answers build env" click_time
        "\<lambda>h. input_helper_tests (\<lambda>i. True) 0 (\<lambda>i. keycode_to_scancode (is_evdev h) (of_nat i))
           (x11_to_scancode (is_evdev h)) (x11_to_keycode (is_evdev h))"
        "if is_evdev h then Some convert_back else None" "Inr None" x11_cleanup_tests
        "\<lambda>r. if disp r then r\<lparr>open_displays := open_displays r - 1, disp := False\<rparr> else r"])
    show "x11_cleanup_tests r = Inr (None, if disp r then r\<lparr>open_displays := open_displays r - 1, disp := False\<rparr> else r)"
      for r by (simp add: x11_cleanup_tests_def)
  qed (use init assms keys True in \<open>auto simp: tests_program_def x11_tests_def tests_main_def split: if_splits\<close>)
next
  case False
  then show ?thesis
    by (simp add: tests_program_def x11_tests_def all_tests_def mu_run_test_def x11_init_tests_def tests_main_def)
qed

theorem x11_test_program_witness:
  "\<exists>p' text. tests_program (x11_tests True
        \<lparr>malloc_button_map = True, keyboard_names = Some (Some ''evdev_aliases''), xkb_get_map = None\<rparr>
        desktop_build (desktop_env\<lparr>xt_disp := False\<rparr>))
      \<lparr>tests_run = 0, tested_helper = desktop_helper, disp = False, open_displays = 0\<rparr> = Inr (p', text, 0)
    \<and> open_displays p' = 1 \<and> tests_run p' \<le> 10"
proof -
  let ?lenv = "\<lparr>malloc_button_map = True, keyboard_names = Some (Some ''evdev_aliases''), xkb_get_map = None\<rparr>"
  let ?env = "desktop_env\<lparr>xt_disp := False\<rparr>"
  let ?p = "\<lparr>tests_run = 0, tested_helper = desktop_helper, disp = False, open_displays = 0\<rparr>"
  obtain h where h: "load_input_helper ?lenv (tested_helper ?p) = Inr h" "is_evdev h" "helper_disp h"
    by (simp add: load_input_helper_outcome starts_with_def desktop_helper_def)
  have scan: "sscanf_4i ''300'' = ScanInt 300" by code_simp
  have "pa_click_time (x11_answers desktop_build ?env h) = Inr 300"
    using h(3) scan by (simp add: x11_answers_def hook_get_multi_click_time_def try_default_def desktop_defs)
  from x11_test_program [OF _ h(1) this, of True] h(2) show ?thesis by auto
qed

text \<open>
  The test program never passes on Windows and Darwin, where the test of the key codes fails at key 226: it
  exits with 0, and since \<^verbatim>\<open>cleanup_tests\<close> does not run, the helper stays as it was loaded.
\<close>

theorem other_test_programs:
  assumes "pa_click_time answers = Inr click_time" and "win_load_input_helper env (tested_helper p) = Inr (h, n)"
  shows "\<exists>p' q' text text'.
      tests_program (win_tests env answers) p = Inr (p', text, 0) \<and> tested_helper p' = h \<and> tests_run p' \<le> tests_run p + 10
    \<and> tests_program (mac_tests build answers) q = Inr (q', text', 0) \<and> tested_helper q' = tested_helper q
    \<and> tests_run q' \<le> tests_run q + 10"
proof -
  have keys: "test_bidirectional_keycode win_tested (\<lambda>i. win_keycode_to_scancode (of_nat i) 0) win_to_keycode = Inr (Some convert_back)"
    "test_bidirectional_keycode (\<lambda>i. True) (\<lambda>i. mac_keycode_to_scancode (of_nat i)) mac_to_keycode = Inr (Some convert_back)"
    using bidirectional_tests by simp_all
  have outcome: "\<exists>p' text. tests_program (all_tests init (\<lambda>h. answers) helper_tests cleanup) p = Inr (p', text, 0)
      \<and> tested_helper p' = tested_helper q \<and> tests_run p' \<le> tests_run p + 10"
    if "init p = Inr (None, q)" and "tests_run q = tests_run p"
      and "helper_tests (tested_helper q) = run_counted [Inr (Some convert_back), t]"
      and "\<And>r. cleanup r = Inr (None, f r)" and "\<And>r. tests_run (f r) = tests_run r"
    for init helper_tests cleanup f t and p q :: "'x test_program"
    by (rule all_tests_outcome [of init p q "\<lambda>h. answers" click_time helper_tests "Some convert_back" t cleanup f])
      (use that assms(1) in \<open>auto simp: tests_program_def tests_main_def\<close>)
  let ?win = "load_tests (\<lambda>h. map_sum id fst (win_load_input_helper env h))"
  let ?mac = "load_tests (\<lambda>h. Inr (mac_load_input_helper h))"
  have init: "?win p = Inr (None, p\<lparr>tested_helper := h\<rparr>)"
    "?mac q = Inr (None, q)"
    using assms(2) by (simp_all add: load_tests_def mac_load_input_helper_def)
  have "\<exists>p' text. tests_program (win_tests env answers) p = Inr (p', text, 0) \<and> tested_helper p' = h
      \<and> tests_run p' \<le> tests_run p + 10"
    unfolding win_tests_def
    using outcome [of ?win p "p\<lparr>tested_helper := h\<rparr>", OF init(1)] by (simp add: input_helper_tests_def unload_tests_def keys(1))
  moreover have "\<exists>q' text. tests_program (mac_tests build answers) q = Inr (q', text, 0) \<and> tested_helper q' = tested_helper q
      \<and> tests_run q' \<le> tests_run q + 10"
    unfolding mac_tests_def
    using outcome [of ?mac q q, OF init(2)] by (simp add: input_helper_tests_def unload_tests_def keys(2))
  ultimately show ?thesis by blast
qed

theorem other_test_programs_witness:
  "\<exists>p' text. tests_program (win_tests (layout_env.truncate (plain_env (\<lambda>k. False))) (x11_answers desktop_build desktop_env desktop_helper))
      \<lparr>tests_run = 0, tested_helper = helper_start, disp = False, open_displays = 0\<rparr> = Inr (p', text, 0)
    \<and> tested_helper p' = loaded_helper"
proof -
  let ?a = "x11_answers desktop_build desktop_env desktop_helper"
  let ?p = "\<lparr>tests_run = 0, tested_helper = helper_start, disp = False, open_displays = 0\<rparr>"
  have click: "pa_click_time ?a = Inr 250"
    by (simp add: x11_answers_def hook_get_multi_click_time_def try_default_def desktop_defs)
  have load: "win_load_input_helper (layout_env.truncate (plain_env (\<lambda>k. False))) (tested_helper ?p) = Inr (loaded_helper, 1)"
    using load_helper by simp
  show ?thesis using other_test_programs [OF click load] by blast
qed

end
