(* ===== verification/Spec2Isabelle.thy ===== *)
theory Spec2Isabelle
  imports Uiohook_Logger X11_Lifecycle X11_Post_Event
    Windows_Hook_Properties Windows_Post_Event Windows_System_Properties
    Darwin_Lifecycle Darwin_Main_Runloop Darwin_Post_Event Darwin_System_Properties
    Windows_Layout_Loader X11_Settings_Thread Demo_Hook_Async Demo_Hook_Async_Windows Demo_Post Demo_Properties Library_Tests
begin

text \<open>
  A verification of libuiohook, a C library that hooks keyboard and mouse input, reports it to a
  callback as platform-independent events, and posts such events back to the system.

  \<^bold>\<open>The program.\<close> The public interface (\<^verbatim>\<open>include/uiohook.h\<close>) fixes event types, virtual key codes,
  modifier masks and status codes. Each platform implements it with four files: an input helper
  (key tables, conversions), an event handler with its start and stop, event posting, and system
  properties. An application sets a callback and calls \<^verbatim>\<open>hook_run\<close>, which blocks while the
  platform calls the handler on each input; \<^verbatim>\<open>hook_stop\<close> ends it from another thread. The handler
  keeps a modifier mask and a click counter, fills one static event and hands it to the callback,
  which may consume it. Four demo programs show the use of the library, and unit tests exercise its
  tables and settings. This development models the shared interface, the three back ends, X11, Windows
  and Darwin, the demo programs and the tests.

  \<^bold>\<open>The theories.\<close>
  \<^item> \<^verbatim>\<open>Uiohook_Prelude\<close>: C integers as words, faults as values of a result type, single-bit
    flags, and bisection of a table with its correctness and a bound on its rounds.
    \<^verbatim>\<open>Uiohook_Floats\<close>: rounding to single and double precision, with its error, and truncation.
    \<^verbatim>\<open>Uiohook_Text\<close>: digits as the C library reads and writes them, and \<^verbatim>\<open>snprintf\<close> into a buffer.
    \<^verbatim>\<open>Uiohook_Transitions\<close>: the states a step relation reaches, runs as lists, and the contracts
    \<^verbatim>\<open>step_invariant\<close>, \<^verbatim>\<open>step_rank\<close> and \<^verbatim>\<open>step_simulation\<close> (every step of a program is one of its specification, or none,
    under a view of the state) as locales; they are interpreted on the four interleavings of the
    development (\<^verbatim>\<open>Darwin_Main_Runloop\<close>, \<^verbatim>\<open>X11_Settings_Thread\<close>, \<^verbatim>\<open>Demo_Hook_Async\<close>, \<^verbatim>\<open>Demo_Hook_Async_Windows\<close>).
  \<^item> \<^verbatim>\<open>Virtual_Codes\<close>, \<^verbatim>\<open>Uiohook_Events\<close>: the constants and records of \<^verbatim>\<open>uiohook.h\<close>, dispatching, and
    the three contracts every back end has to meet, as locales: \<^verbatim>\<open>mask_tracker\<close> (a flag is up iff the
    last transition of its key was a press), \<^verbatim>\<open>click_counter\<close> (the counter refines a reference
    on the history of presses) and \<^verbatim>\<open>event_source\<close> (every event a run sends has the data of its type).
  \<^item> \<^verbatim>\<open>Uiohook_Logger\<close>: \<^verbatim>\<open>logger.c\<close>.
  \<^item> \<^verbatim>\<open>X11_Keycode_Tables\<close>, \<^verbatim>\<open>X11_Keysym_Table\<close>, \<^verbatim>\<open>X11_Input_Helper\<close>: the tables of
    \<^verbatim>\<open>x11/input_helper.c\<close> entry by entry and its functions: round trips between key codes, scan
    codes, keysyms and UTF-16, bounds of the lookups, loading and unloading.
  \<^item> \<^verbatim>\<open>X11_System_Properties\<close>: \<^verbatim>\<open>x11/system_properties.c\<close>: screens, settings, the multi-click time
    with a model of the \<^verbatim>\<open>sscanf\<close> conversion it uses, library load and unload. \<^verbatim>\<open>X11_Settings_Thread\<close>: the
    thread that keeps the XRandR resources, interleaved with callers that read them under the mutex.
  \<^item> \<^verbatim>\<open>X11_Input_Hook\<close>: the state and the handler \<^verbatim>\<open>hook_event_proc\<close> of \<^verbatim>\<open>x11/input_hook.c\<close>, one
    definition per branch. \<^verbatim>\<open>X11_Hook_Effects\<close>: what each branch changes and keeps, and runs of
    the handler. \<^verbatim>\<open>X11_Hook_Properties\<close>: the modifier mask, absence of faults, order and form of
    the dispatched events, clicks; the locales are interpreted on the handler's own functions.
  \<^item> \<^verbatim>\<open>X11_Lifecycle\<close>: \<^verbatim>\<open>hook_run\<close> down to \<^verbatim>\<open>XRecordEnableContext\<close>, and \<^verbatim>\<open>hook_stop\<close>, with counters for
    what is acquired and released: status, release on every path, the events of a whole session.
  \<^item> \<^verbatim>\<open>X11_Post_Event\<close>: \<^verbatim>\<open>x11/post_event.c\<close> with the requests it makes, in order.
  \<^item> \<^verbatim>\<open>Windows_Keycode_Table\<close>, \<^verbatim>\<open>Windows_Input_Helper\<close>: the table of \<^verbatim>\<open>windows/input_helper.c\<close> and its
    functions: key codes, the wheel accumulators, the cache of keyboard layouts as a list, and the
    conversion of a key by the character tables of a layout. \<^verbatim>\<open>Windows_Helper_Properties\<close>: the way
    back from a code to its key, conservation of wheel rotation, the character a key types, and
    the life of the cached layouts over every order of loading, unloading and converting.
    \<^verbatim>\<open>Windows_Layout_Loader\<close>: the lookup of a layout in the registry, its library and the places of
    its tables under Wow64; it refines the answer that the cache of layouts takes for granted.
  \<^item> \<^verbatim>\<open>Windows_Input_Hook\<close>: the two hook procedures of \<^verbatim>\<open>windows/input_hook.c\<close>, the restart on a
    window event, \<^verbatim>\<open>hook_run\<close> over the messages until it quits, \<^verbatim>\<open>hook_stop\<close>.
    \<^verbatim>\<open>Windows_Hook_Properties\<close>: mask, clicks, dispatched events and installed hooks; the same three
    locales are interpreted on the Windows functions.
  \<^item> \<^verbatim>\<open>Windows_Post_Event\<close>, \<^verbatim>\<open>Windows_System_Properties\<close>: \<^verbatim>\<open>windows/post_event.c\<close> with the inputs it
    sends, and \<^verbatim>\<open>windows/system_properties.c\<close> with the monitors and settings. Functions that have the
    name of an X11 function carry the prefix \<^verbatim>\<open>win\<close>.
  \<^item> \<^verbatim>\<open>Darwin_Keycode_Table\<close>, \<^verbatim>\<open>Darwin_Input_Helper\<close>: the table of \<^verbatim>\<open>darwin/input_helper.c\<close> and its functions:
    the accessibility check, key codes, the conversion of a key with the dead-key state and the
    references to keyboard layouts. \<^verbatim>\<open>Darwin_Input_Hook\<close>: the callback of the event tap and the run
    loop observer of \<^verbatim>\<open>darwin/input_hook.c\<close>. \<^verbatim>\<open>Darwin_Hook_Properties\<close>: mask, clicks, dispatched events,
    absence of faults and layout references over every run; the three locales are interpreted on the
    Darwin functions (\<^verbatim>\<open>event_source\<close> in the next theory). Names shared with another back end carry the prefix \<^verbatim>\<open>mac\<close>.
  \<^item> \<^verbatim>\<open>Darwin_Lifecycle\<close>: \<^verbatim>\<open>hook_run\<close> and \<^verbatim>\<open>hook_stop\<close> with the structures they create: a session from the
    enabled to the disabled event, status and clean-up of every failure, a second run.
  \<^item> \<^verbatim>\<open>Darwin_Main_Runloop\<close>: the hand-over of a key to the main thread, by a mutex and a condition, as two
    step relations that interleave: they implement a specification of a call that is answered; mutual exclusion,
    that what is typed was converted for the same key, progress, and what a spurious wake-up or a late exit does.
  \<^item> \<^verbatim>\<open>Darwin_Post_Event\<close>, \<^verbatim>\<open>Darwin_System_Properties\<close>: \<^verbatim>\<open>darwin/post_event.c\<close> with the events it posts, and
    \<^verbatim>\<open>darwin/system_properties.c\<close> with the memory the display count is written to and the settings.
  \<^item> \<^verbatim>\<open>Demo_Hook\<close>: \<^verbatim>\<open>demo_hook.c\<close>, the callback that prints a line per event from a 256-byte buffer, and the
    messages for the statuses. \<^verbatim>\<open>Demo_Start_Protocol\<close>: the program points that the builds of \<^verbatim>\<open>demo_hook_async.c\<close>
    share, and a specification of the start of a hook: a phase, and an answer given once. \<^verbatim>\<open>Demo_Hook_Async\<close>: the build with
    POSIX threads, \<^verbatim>\<open>hook_enable\<close>, the hook thread and the main run loop of Darwin as step relations over two mutexes and a
    condition: it implements the specification, every run ends, and the schedules on which it fails.
    \<^verbatim>\<open>Demo_Hook_Async_Windows\<close>: the build with critical sections and a condition variable, against the same specification
    with other answers. \<^verbatim>\<open>Demo_Post\<close>: \<^verbatim>\<open>demo_post.c\<close> with the bytes of its event and
    the X11 requests it leads to. \<^verbatim>\<open>Demo_Properties\<close>: \<^verbatim>\<open>demo_properties.c\<close> over the X11 functions.
  \<^item> \<^verbatim>\<open>Library_Tests\<close>: the test program under \<^verbatim>\<open>test\<close> in its three builds: which tests pass on which tables, its
    exit status, and what it leaves open.
  \<^item> This theory: a session of the demo on X11, Windows and Darwin, the statuses of all back ends against its messages,
    and what the asynchronous demo makes of a start that fails.

  \<^bold>\<open>How the code is represented.\<close> Machine integers are words of their width; a signed value is read
  through \<^verbatim>\<open>sint\<close>. Null dereferences, reads of unwritten memory and reads outside a table are
  values of the type \<^verbatim>\<open>fault\<close>. What the X server, the X libraries, Windows and macOS answer is an argument
  of the function that asks (records ending in \<^verbatim>\<open>env\<close>); the preprocessor options are fields of
  \<^verbatim>\<open>x11_build\<close> and \<^verbatim>\<open>mac_build\<close>. A finite floating-point value is a rational number and every operation
  rounds. The state type of xkbcommon is a type parameter. Calls of the logger are left out
  of the other files: they change no state of the library, as \<^verbatim>\<open>Uiohook_Logger\<close> shows. Every loop
  of the source is a structural recursion or, for the bisection, terminates by the width of its
  interval; eleven rounds are enough, because the table has fewer than 1024 rows.

  \<^bold>\<open>What the theorems show.\<close> The mask after any run, the counter against its reference, the events
  of a session from hook-enabled to hook-disabled and their form, release of every display and
  record object on every path, the status of each failure, round trips of key codes and
  characters, and that a posted key is the key that was reported. Some theorems state where the
  code departs from its intention: the flag of the fourth button, references to xkbcommon objects
  that remain, an unwritten context, rows of the keysym table that are not found, buttons that
  come back as others, extra buttons of Windows that move the Meta flag, a cached layout whose
  removal dereferences a null pointer, a release that Darwin reports as a press, a scroll that is
  posted the other way, a hook that stays behind after a failed start, a display count written
  over four bytes, and a race with the main thread. The XRandR build waits for an event that it does not
  select and lists no screen; the asynchronous demo can miss the signal it waits for, on Darwin also the stop of its run
  loop, and on Windows it never names the failure of a start; the test program passes on X11 only, with a keyboard that is not
  an evdev one, and leaves its display open.

  \<^bold>\<open>Not modelled.\<close> The asynchronous XRecord loop, which names an undeclared variable and does not compile;
  the request for detectable auto-repeat, whose answer is only logged; the text of the library's own
  log messages and the lines the tests print per key; the priority of the demo's hook thread, which changes no state of the
  program. In \<^verbatim>\<open>Darwin_Main_Runloop\<close> the main run loop runs once; a hook that is stopped and started again while the
  main thread still holds a request is left out. In \<^verbatim>\<open>Demo_Hook_Async\<close> unlocking a mutex of another thread, which
  POSIX leaves undefined, frees it, as the mutexes of the default kind do; in \<^verbatim>\<open>Demo_Hook_Async_Windows\<close> the effect of leaving
  a critical section of another thread is an argument, because the documentation only says that others may wait for ever.
\<close>

section \<open>The statuses of the back ends\<close>

lemma x11_run_status:
  assumes "X11_Lifecycle.hook_run env p = Inr (p', status)"
  shows "status \<in> {UIOHOOK_SUCCESS, UIOHOOK_ERROR_OUT_OF_MEMORY, UIOHOOK_ERROR_X_OPEN_DISPLAY,
    UIOHOOK_ERROR_X_RECORD_NOT_FOUND, UIOHOOK_ERROR_X_RECORD_ALLOC_RANGE, UIOHOOK_ERROR_X_RECORD_CREATE_CONTEXT,
    UIOHOOK_ERROR_X_RECORD_ENABLE_CONTEXT}"
  using assms by (cases rule: X11_Lifecycle.hook_run_cases) (auto dest!: xrecord_session_effect simp: record_status_def split: if_splits)

lemma win_run_status:
  assumes "win_hook_run env s = Inr (s', status)"
  shows "status \<in> {UIOHOOK_SUCCESS, UIOHOOK_ERROR_SET_WINDOWS_HOOK_EX}"
  using assms
  by (auto simp: win_hook_run_def process_messages_def elim!: r_bind_InrE split: if_splits prod.splits)

lemma mac_run_status:
  assumes "mac_hook_run env p = Inr (p', status)"
  shows "status \<in> {UIOHOOK_SUCCESS, UIOHOOK_FAILURE, UIOHOOK_ERROR_OUT_OF_MEMORY, UIOHOOK_ERROR_AXAPI_DISABLED,
    UIOHOOK_ERROR_GET_RUNLOOP, UIOHOOK_ERROR_CREATE_EVENT_PORT, UIOHOOK_ERROR_CREATE_RUN_LOOP_SOURCE,
    UIOHOOK_ERROR_CREATE_OBSERVER}" (is "status \<in> ?codes")
proof -
  have main: "snd (create_main_runloop_info env q) \<in> ?codes" for q
    by (simp add: create_main_runloop_info_def Let_def)
  have prepare: "status \<in> ?codes" if "prepare_conversion env q = Inr (q', status)" for q q' status
    using that main
    by (auto simp: prepare_conversion_def Let_def split: if_splits prod.splits elim!: r_bind_InrE) (metis insertE snd_conv)+
  have start: "status \<in> ?codes" if "start_session env q = Inr (q', status)" for q q' status
    using that prepare by (fastforce simp: start_session_def split: prod.splits if_splits elim!: r_bind_InrE)
  have create: "snd (create_event_runloop_info env q) \<in> ?codes" for q
    by (simp add: create_event_runloop_info_def Let_def)
  obtain enabled n where ax: "is_accessibility_enabled (mr_ax env) = (enabled, n)" by fastforce
  show ?thesis
    using assms start create unfolding mac_hook_run_def ax Let_def prod.case
    by (auto split: if_splits prod.splits) (metis insertE snd_conv)+
qed

section \<open>The demo program on the back ends\<close>

lemma fits_type_fits: "fits_type e \<Longrightarrow> fits_union env e"
  by (cases "ev_data e") (auto simp: fits_type_def fits_union_data)

lemma hook_event_fits: "ev_type e = EVENT_HOOK_ENABLED \<or> ev_type e = EVENT_HOOK_DISABLED \<Longrightarrow> fits_union env e"
  by (auto simp: fits_union_data)

text \<open>What the demo prints over the events of a run, and how it ends.\<close>

lemma demo_main_prints:
  assumes "wide_sound env" and "\<And>t. de_write env t" and "list_all (fits_union env) es"
  shows "\<exists>s'. demo_main env es status s = Inr (s', status)
    \<and> st_stdout s' = st_stdout s @ concat (map (line_of env) es)
    \<and> stop_calls s' = stop_calls s + length (filter is_escape es)
    \<and> st_stderr s' = st_stderr s @ concat (replicate (length (filter is_escape es)) (stop_text env))
        @ (case run_message [] status of None \<Rightarrow> [] | Some t \<Rightarrow> t)"
  using dispatch_all_prints [OF assms, of s] assms(2)
  by (auto simp: demo_main_def logger_effects split: option.split)

lemma demo_prints_session:
  assumes "wide_sound env" and "\<And>t. de_write env t" and "list_all fits_type evs"
    and "ev_type first = EVENT_HOOK_ENABLED" and "ev_type final = EVENT_HOOK_DISABLED"
  shows "\<exists>s'. demo_main env (first # evs @ [final]) UIOHOOK_SUCCESS s = Inr (s', UIOHOOK_SUCCESS)
    \<and> st_stdout s' = st_stdout s @ line_of env first @ concat (map (line_of env) evs) @ line_of env final
    \<and> stop_calls s' = stop_calls s + length (filter is_escape evs)"
proof -
  have "list_all (fits_union env) (first # evs @ [final])"
    using assms(3-5) by (auto simp: list_all_iff intro: fits_type_fits hook_event_fits)
  from demo_main_prints [OF assms(1,2) this, of UIOHOOK_SUCCESS s] assms(4,5) show ?thesis
    by (auto simp: is_escape_def)
qed

text \<open>
  C18. The demo program on X11: after a successful run over a complete recording it has printed a line for
  every event the handler dispatched, the first of them that of the hook-enabled event and the last
  that of the hook-disabled event, and it exits with success.
\<close>

theorem x11_demo_session:
  assumes "X11_Lifecycle.hook_run env p = Inr (p', UIOHOOK_SUCCESS)"
    and "re_intercepted env = start # body @ [stop]"
    and "ic_category start = XRecordStartOfData" and "ic_category stop = XRecordEndOfData"
    and "\<forall>i \<in> set body. ic_category i \<in> {XRecordFromServer, XRecordFromClient}"
    and "dispatcher (p_input p) = Some (\<lambda>earlier e. e)" and "dispatched (p_input p) = []"
    and "wide_sound denv" and "\<And>t. de_write denv t"
  shows "\<exists>s' first evs last. demo_main denv (dispatched (p_input p')) UIOHOOK_SUCCESS s = Inr (s', UIOHOOK_SUCCESS)
    \<and> st_stdout s' = st_stdout s @ line_of denv first @ concat (map (line_of denv) evs) @ line_of denv last
    \<and> ev_type first = EVENT_HOOK_ENABLED \<and> ev_time first = ic_time start
    \<and> ev_type last = EVENT_HOOK_DISABLED \<and> ev_time last = ic_time stop
    \<and> stop_calls s' = stop_calls s + length (filter is_escape evs)"
proof -
  have "dispatcher (p_input p) \<noteq> None" using assms(6) by simp
  from hook_run_events [OF assms(1-5) this] obtain first evs last where
    events: "dispatched (p_input p') = first # evs @ [last]"
    and first: "ev_type first = EVENT_HOOK_ENABLED" "ev_time first = ic_time start"
    and evs: "list_all well_formed evs" and last: "ev_type last = EVENT_HOOK_DISABLED" "ev_time last = ic_time stop"
    using assms(7) by auto
  have "list_all fits_type evs" using evs by (auto simp: list_all_iff intro: well_formed_fits_type)
  from demo_prints_session [OF assms(8,9) this first(1) last(1), of s] events first last show ?thesis by fastforce
qed

theorem x11_demo_session_witness:
  "\<exists>p' s' first evs last. X11_Lifecycle.hook_run desktop_run_env desktop_process = Inr (p', UIOHOOK_SUCCESS)
     \<and> demo_main ascii_env (dispatched (p_input p')) UIOHOOK_SUCCESS silent = Inr (s', UIOHOOK_SUCCESS)
     \<and> st_stdout s' = line_of ascii_env first @ concat (map (line_of ascii_env) evs) @ line_of ascii_env last
     \<and> ev_type first = EVENT_HOOK_ENABLED \<and> ev_type last = EVENT_HOOK_DISABLED"
proof -
  obtain p' where p': "X11_Lifecycle.hook_run desktop_run_env desktop_process = Inr (p', UIOHOOK_SUCCESS)"
    using desktop_hook_run by blast
  let ?i = "\<lambda>c t. \<lparr>ic_env = desktop_hook_env, ic_category = c, ic_time = t, ic_datum = desktop_datum KeyPress 38\<rparr>"
  have "re_intercepted desktop_run_env = ?i XRecordStartOfData 5 # [?i XRecordFromServer 10] @ [?i XRecordEndOfData 90]"
    by (simp add: desktop_run_env_def)
  moreover have "dispatcher (p_input desktop_process) = Some (\<lambda>earlier e. e)" "dispatched (p_input desktop_process) = []"
    by (simp_all add: desktop_process_def desktop_hook_def)
  ultimately show ?thesis
    using x11_demo_session [OF p', of "?i XRecordStartOfData 5" "[?i XRecordFromServer 10]" "?i XRecordEndOfData 90" ascii_env silent]
      p' ascii_sound
    by (simp add: silent_def) blast
qed

text \<open>
  C19. The demo program on Windows: whenever \<^verbatim>\<open>hook_run\<close> returns, the demo has printed a line for every event,
  and exits with the status of the run. A run that succeeds has the enabled event first and the disabled event last;
  one whose hooks cannot be set prints the disabled event alone and then the name of the failure.
\<close>

theorem win_demo_session:
  assumes "win_hook_run env w = Inr (w', status)"
    and "dispatcher w = Some (\<lambda>earlier e. e)" and "dispatched w = []"
    and "wide_sound denv" and "\<And>t. de_write denv t"
  shows "\<exists>s' last. demo_main denv (dispatched w') status s = Inr (s', status)
    \<and> ev_type last = EVENT_HOOK_DISABLED \<and> ev_time last = wr_stop_time env
    \<and> (if status = UIOHOOK_SUCCESS
       then \<exists>first evs. st_stdout s' = st_stdout s @ line_of denv first @ concat (map (line_of denv) evs) @ line_of denv last
         \<and> ev_type first = EVENT_HOOK_ENABLED \<and> ev_time first = wr_start_time env
         \<and> stop_calls s' = stop_calls s + length (filter is_escape evs)
       else st_stdout s' = st_stdout s @ line_of denv last \<and> stop_calls s' = stop_calls s
         \<and> st_stderr s' = st_stderr s @ ''Failed to register low level windows hook. (0X30)'')"
proof -
  have "dispatcher w \<noteq> None" using assms(2) by simp
  from win_hook_run_events [OF assms(1) this] assms(3) obtain evs dat dat' where
    evs: "list_all fits_type evs" and events: "dispatched w' =
      (if status = UIOHOOK_SUCCESS then emitted EVENT_HOOK_ENABLED (wr_start_time env) 0 dat # evs else [])
      @ [emitted EVENT_HOOK_DISABLED (wr_stop_time env) 0 dat']" by auto
  let ?last = "emitted EVENT_HOOK_DISABLED (wr_stop_time env) 0 dat'"
  have ends: "ev_type ?last = EVENT_HOOK_DISABLED" "ev_time ?last = wr_stop_time env" by (simp_all add: emitted_def)
  show ?thesis
  proof (cases "status = UIOHOOK_SUCCESS")
    case True
    let ?first = "emitted EVENT_HOOK_ENABLED (wr_start_time env) 0 dat"
    have "ev_type ?first = EVENT_HOOK_ENABLED" "ev_time ?first = wr_start_time env" by (simp_all add: emitted_def)
    with demo_prints_session [OF assms(4,5) evs this(1) ends(1), of s] ends events True show ?thesis by fastforce
  next
    case False
    then have failed: "status = UIOHOOK_ERROR_SET_WINDOWS_HOOK_EX" using win_run_status [OF assms(1)] by blast
    have "list_all (fits_union denv) [?last]" by (simp add: hook_event_fits ends)
    from demo_main_prints [OF assms(4,5) this, of status s] ends events False failed show ?thesis
      by (auto simp: is_escape_def run_message_def run_text_def show_defs digits.simps digit_char_def)
  qed
qed

text \<open>A session of Windows in which the mouse hook is refused.\<close>

definition denied_env :: win_run_env where
  "denied_env =
     \<lparr>wr_module = True, wr_keyboard = True, wr_mouse = False, wr_window = False, wr_down = (\<lambda>_. False),
        wr_layouts = \<lparr>hkl_size = 0, hkl_list = [], hkl_focus = 0, hkl_load = (\<lambda>_. None)\<rparr>, wr_start_time = 1, wr_stop_time = 9,
        wr_messages = []\<rparr>"

lemma denied_run: "\<exists>w'. win_hook_run denied_env idle_hook = Inr (w', UIOHOOK_ERROR_SET_WINDOWS_HOOK_EX)"
  by (simp add: denied_env_def win_hook_run_def spot_check_module_def process_messages_def install_hooks_def idle_hook_def
      win_load_input_helper_def refresh_locale_list_def)

theorem win_demo_session_witness:
  "\<exists>w' s' last. win_hook_run denied_env idle_hook = Inr (w', UIOHOOK_ERROR_SET_WINDOWS_HOOK_EX)
     \<and> demo_main ascii_env (dispatched w') UIOHOOK_ERROR_SET_WINDOWS_HOOK_EX silent = Inr (s', UIOHOOK_ERROR_SET_WINDOWS_HOOK_EX)
     \<and> st_stdout s' = line_of ascii_env last \<and> ev_type last = EVENT_HOOK_DISABLED
     \<and> st_stderr s' = ''Failed to register low level windows hook. (0X30)''"
proof -
  obtain w' where run: "win_hook_run denied_env idle_hook = Inr (w', UIOHOOK_ERROR_SET_WINDOWS_HOOK_EX)"
    using denied_run by blast
  have "dispatcher idle_hook = Some (\<lambda>earlier e. e)" "dispatched idle_hook = []" by (simp_all add: idle_hook_def)
  from win_demo_session [OF run this ascii_sound, of silent] run show ?thesis by (auto simp: silent_def)
qed

text \<open>
  C20. The demo program on Darwin: when every step of the start succeeds, it has printed a line for every event of
  the run, that of the enabled event first and that of the disabled event last, has called \<^verbatim>\<open>hook_stop\<close>
  once for every press of Escape, and exits with success.
\<close>

theorem mac_demo_session:
  assumes "first_failure env = None" and "hook_info (mp_input p) = None" and "mp_main p = None"
    and "dispatcher (mp_input p) = Some (\<lambda>earlier e. e)" and "dispatched (mp_input p) = []"
    and "layout_refs (mac_helper (mp_input p))" and "\<forall>(e, type, event) \<in> set (mr_events env). sound_env (mr_build env) e"
    and "wide_sound denv" and "\<And>t. de_write denv t"
  shows "\<exists>p' s' first evs last. mac_hook_run env p = Inr (p', UIOHOOK_SUCCESS)
    \<and> demo_main denv (dispatched (mp_input p')) UIOHOOK_SUCCESS s = Inr (s', UIOHOOK_SUCCESS)
    \<and> st_stdout s' = st_stdout s @ line_of denv first @ concat (map (line_of denv) evs) @ line_of denv last
    \<and> ev_type first = EVENT_HOOK_ENABLED \<and> ev_time first = mr_entry_time env
    \<and> ev_type last = EVENT_HOOK_DISABLED \<and> ev_time last = mr_exit_time env
    \<and> stop_calls s' = stop_calls s + length (filter is_escape evs)"
proof -
  obtain p' evs dat dat' where run: "mac_hook_run env p = Inr (p', UIOHOOK_SUCCESS)" and evs: "list_all fits_type evs"
    and events: "dispatched (mp_input p') = emitted EVENT_HOOK_ENABLED (mr_entry_time env) 0 dat # evs
        @ [emitted EVENT_HOOK_DISABLED (mr_exit_time env) 0 dat']"
    using mac_hook_run_succeeds [OF assms(1-4,6,7)] assms(5) by auto
  let ?first = "emitted EVENT_HOOK_ENABLED (mr_entry_time env) 0 dat"
  let ?last = "emitted EVENT_HOOK_DISABLED (mr_exit_time env) 0 dat'"
  have ends: "ev_type ?first = EVENT_HOOK_ENABLED" "ev_time ?first = mr_entry_time env"
    "ev_type ?last = EVENT_HOOK_DISABLED" "ev_time ?last = mr_exit_time env" by (simp_all add: emitted_def)
  from demo_prints_session [OF assms(8,9) evs ends(1,3), of s] run events ends show ?thesis by fastforce
qed

theorem mac_demo_session_witness:
  "\<exists>p' s' first evs last. mac_hook_run (plain_run True True [(mac_desktop_env, kCGEventKeyDown, event_of 1 0 9)]) mac_fresh
       = Inr (p', UIOHOOK_SUCCESS)
     \<and> demo_main ascii_env (dispatched (mp_input p')) UIOHOOK_SUCCESS silent = Inr (s', UIOHOOK_SUCCESS)
     \<and> st_stdout s' = line_of ascii_env first @ concat (map (line_of ascii_env) evs) @ line_of ascii_env last
     \<and> ev_type first = EVENT_HOOK_ENABLED \<and> ev_type last = EVENT_HOOK_DISABLED"
proof -
  let ?env = "plain_run True True [(mac_desktop_env, kCGEventKeyDown, event_of 1 0 9)]"
  have "\<forall>(e, type, event) \<in> set (mr_events ?env). sound_env (mr_build ?env) e"
    by (simp add: plain_run_fields mac_desktop_env_sound)
  moreover have "dispatcher (mp_input mac_fresh) = Some (\<lambda>earlier e. e)" "dispatched (mp_input mac_fresh) = []"
    using mac_fresh_fields by (simp_all add: mac_fresh_def)
  ultimately show ?thesis
    using mac_demo_session [where denv = ascii_env and s = silent, OF plain_run_failure(1) mac_fresh_fields(1,2) _ _ mac_fresh_fields(4)]
      ascii_sound by (simp add: silent_def) blast
qed

section \<open>The asynchronous demo on the back ends\<close>

lemma posix_failure_text:
  assumes "(\<exists>env p p'. X11_Lifecycle.hook_run env p = Inr (p', status)) \<or> (\<exists>env p p'. mac_hook_run env p = Inr (p', status))"
    and "status \<notin> {UIOHOOK_SUCCESS, UIOHOOK_FAILURE}"
  shows "run_text status \<noteq> ''An unknown hook error occurred.''"
  using assms by (auto dest!: x11_run_status mac_run_status simp: run_text_def)



text \<open>
  On Windows a run of the demo over a start that fails ends as well, but \<^verbatim>\<open>main\<close> is given the general failure and
  reports an unknown error, although \<^verbatim>\<open>hook_run\<close> named the failure.
\<close>

theorem win_async_failure_unnamed:
  assumes "win_hook_run renv w = Inr (w', status)" and "status \<noteq> UIOHOOK_SUCCESS" and "we_outcome env = RunFails status"
    and "\<not> we_spurious env" and "we_malloc env" and "we_handle env = HandleThread" and "we_lenient env"
    and "reaches (win_async_step env) win_async_init u" and "win_async_stuck env u"
    and "\<And>t. de_write denv t"
  shows "wa_main u = EDone \<and> run_text status = ''Failed to register low level windows hook.''
    \<and> st_stderr (fst (async_main denv (wa_status u) s)) = st_stderr s @ ''An unknown hook error occurred. (0X1)'' @ [CHR 0x0A]"
proof -
  have "status = UIOHOOK_ERROR_SET_WINDOWS_HOOK_EX" using win_run_status [OF assms(1)] assms(2) by blast
  moreover have "win_prompt env" and "we_outcome env \<noteq> RunSession" using assms(3-7) by (simp_all add: win_prompt_def)
  from win_failed_end [OF assms(8) this assms(9)] assms(7) have "wa_status u = UIOHOOK_FAILURE" "wa_main u = EDone"
    by (simp_all add: reported_status_def)
  ultimately show ?thesis
    using assms(10)
    by (simp add: async_main_def run_message_def logger_effects run_text_def show_defs digits.simps digit_char_def)
qed

theorem win_async_failure_unnamed_witness:
  "wa_main (last (win_async_init # win_failed_start)) = EDone
   \<and> st_stderr (fst (async_main ascii_env (wa_status (last (win_async_init # win_failed_start))) silent))
      = ''An unknown hook error occurred. (0X1)'' @ [CHR 0x0A]"
proof -
  obtain w' where win: "win_hook_run denied_env idle_hook = Inr (w', UIOHOOK_ERROR_SET_WINDOWS_HOOK_EX)"
    using denied_run by blast
  have stuck: "win_async_stuck (win_good (RunFails 0x30) True) (last (win_async_init # win_failed_start))"
    by (simp add: win_failed_start_def win_async_stuck_def win_run_defs)
  show ?thesis
    using win_async_failure_unnamed [OF win _ _ _ _ _ _ path_reaches [OF win_failed_start_path] stuck, of ascii_env silent]
      ascii_sound
    by (simp add: win_good_def silent_def)
qed

section \<open>Statuses\<close>

text \<open>
  Whatever a back end returns from \<^verbatim>\<open>hook_run\<close>, the demo programs name it: a status other than success
  and the general failure has a message of its own. The same holds of \<^verbatim>\<open>hook_stop\<close>.
\<close>

theorem demo_statuses_named:
  assumes "(\<exists>env p p'. X11_Lifecycle.hook_run env p = Inr (p', status))
    \<or> (\<exists>env s s'. win_hook_run env s = Inr (s', status)) \<or> (\<exists>env p p'. mac_hook_run env p = Inr (p', status))"
    and "(\<exists>env p. X11_Lifecycle.hook_stop env p = Inr stopped) \<or> (\<exists>posted. win_hook_stop posted = stopped)
    \<or> (\<exists>build mode p p'. mac_hook_stop build mode p = Inr (p', stopped))"
  shows "(status \<in> {UIOHOOK_SUCCESS, UIOHOOK_FAILURE} \<or> run_text status \<noteq> ''An unknown hook error occurred.'')
    \<and> (stopped \<in> {UIOHOOK_SUCCESS, UIOHOOK_FAILURE}
        \<or> stop_message stopped = Some (''Failed to allocate memory. (0X2)'')
        \<or> stop_message stopped = Some (''Failed to get XRecord context. (0X25)''))"
proof
  show "status \<in> {UIOHOOK_SUCCESS, UIOHOOK_FAILURE} \<or> run_text status \<noteq> ''An unknown hook error occurred.''"
    using assms(1)
  proof (elim disjE exE)
    fix env :: "'a run_env" and p p'
    assume "X11_Lifecycle.hook_run env p = Inr (p', status)"
    from x11_run_status [OF this] show ?thesis by (auto simp: run_text_def)
  next
    fix env s s'
    assume "win_hook_run env s = Inr (s', status)"
    from win_run_status [OF this] show ?thesis by (auto simp: run_text_def)
  next
    fix env p p'
    assume "mac_hook_run env p = Inr (p', status)"
    from mac_run_status [OF this] show ?thesis by (auto simp: run_text_def)
  qed
  have "stopped \<in> {UIOHOOK_SUCCESS, UIOHOOK_FAILURE, UIOHOOK_ERROR_OUT_OF_MEMORY, UIOHOOK_ERROR_X_RECORD_GET_CONTEXT}"
    using assms(2)
    by (auto simp: X11_Lifecycle.hook_stop_def win_hook_stop_def mac_hook_stop_def split: if_splits option.splits)
  then show "stopped \<in> {UIOHOOK_SUCCESS, UIOHOOK_FAILURE}
      \<or> stop_message stopped = Some (''Failed to allocate memory. (0X2)'')
      \<or> stop_message stopped = Some (''Failed to get XRecord context. (0X25)'')"
    by (auto simp: stop_message_def show_defs digits.simps digit_char_def)
qed

theorem demo_statuses_named_witness:
  "run_text UIOHOOK_ERROR_OUT_OF_MEMORY \<noteq> ''An unknown hook error occurred.''"
proof -
  have "X11_Lifecycle.hook_run (desktop_run_env\<lparr>re_malloc := False\<rparr>) desktop_process
    = Inr (desktop_process\<lparr>p_hook := None\<rparr>, UIOHOOK_ERROR_OUT_OF_MEMORY)"
    by (simp add: X11_Lifecycle.hook_run_def)
  then have run: "(\<exists>env p p'. X11_Lifecycle.hook_run (env :: nat run_env) p = Inr (p', UIOHOOK_ERROR_OUT_OF_MEMORY))
    \<or> (\<exists>env s s'. win_hook_run env s = Inr (s', UIOHOOK_ERROR_OUT_OF_MEMORY))
    \<or> (\<exists>env p p'. mac_hook_run env p = Inr (p', UIOHOOK_ERROR_OUT_OF_MEMORY))" by blast
  have stop: "(\<exists>env p. X11_Lifecycle.hook_stop env (p :: nat x11_process) = Inr UIOHOOK_SUCCESS)
    \<or> (\<exists>posted. win_hook_stop posted = UIOHOOK_SUCCESS)
    \<or> (\<exists>build mode p p'. mac_hook_stop build mode p = Inr (p', UIOHOOK_SUCCESS))"
    using win_hook_stop_def [of True] by auto
  show ?thesis using demo_statuses_named [OF run stop] by simp
qed

end
